(* ===== verification/Prelude.thy ===== *)
theory Prelude
  imports Complex_Main "HOL-Library.Multiset"
begin

text \<open>
  Shared vocabulary of the development.

  The program is asynchronous TypeScript: a handler runs a sequence of awaited calls, any of
  which may throw, and mutates the state it shares with the other handlers.  A handler is
  modelled as an \<^emph>\<open>action\<close>: a function from a state to an outcome (an exception
  on the left, a value on the right) and the state it leaves behind, also when it throws.
  \<open>andThen\<close> is \<^verbatim>\<open>await\<close> followed by the rest of the body, \<open>tryCatch\<close> is
  \<^verbatim>\<open>try/catch\<close>, \<open>forM\<close> is a \<^verbatim>\<open>for ... of\<close> loop with awaits in its body.

  \<open>guar R m\<close> says that every run of \<open>m\<close>, successful or not, relates the state before to the
  state after by \<open>R\<close>; the locale \<open>guarantee\<close> gives the composition rules for any reflexive and
  transitive \<open>R\<close>, and the components interpret it for the relations they promise to keep.
\<close>

named_theorems run_simps \<open>evaluation of actions on a state\<close>

section \<open>Actions with exceptions\<close>

type_synonym ('s, 'e, 'a) act = "'s \<Rightarrow> ('e + 'a) \<times> 's"

definition ret :: "'a \<Rightarrow> ('s, 'e, 'a) act" where
  "ret x = (\<lambda>s. (Inr x, s))"

definition throw :: "'e \<Rightarrow> ('s, 'e, 'a) act" where
  "throw e = (\<lambda>s. (Inl e, s))"

definition andThen :: "('s, 'e, 'a) act \<Rightarrow> ('a \<Rightarrow> ('s, 'e, 'b) act) \<Rightarrow> ('s, 'e, 'b) act" where
  "andThen m f = (\<lambda>s. case m s of (Inl e, t) \<Rightarrow> (Inl e, t) | (Inr x, t) \<Rightarrow> f x t)"

definition tryCatch :: "('s, 'e, 'a) act \<Rightarrow> ('e \<Rightarrow> ('s, 'e, 'a) act) \<Rightarrow> ('s, 'e, 'a) act" where
  "tryCatch m h = (\<lambda>s. case m s of (Inl e, t) \<Rightarrow> h e t | (Inr x, t) \<Rightarrow> (Inr x, t))"

definition gets :: "('s \<Rightarrow> 'a) \<Rightarrow> ('s, 'e, 'a) act" where
  "gets f = (\<lambda>s. (Inr (f s), s))"

definition modify :: "('s \<Rightarrow> 's) \<Rightarrow> ('s, 'e, unit) act" where
  "modify f = (\<lambda>s. (Inr (), f s))"

definition unlessM :: "bool \<Rightarrow> ('s, 'e, unit) act \<Rightarrow> ('s, 'e, unit) act" where
  "unlessM b m = (if b then ret () else m)"

text \<open>\<^verbatim>\<open>if (!ok) throw e\<close>.\<close>

definition assertM :: "'e \<Rightarrow> bool \<Rightarrow> ('s, 'e, unit) act" where
  "assertM e ok = (if ok then ret () else throw e)"

fun forM :: "'a list \<Rightarrow> ('a \<Rightarrow> ('s, 'e, unit) act) \<Rightarrow> ('s, 'e, unit) act" where
  "forM [] f = ret ()"
| "forM (x # xs) f = andThen (f x) (\<lambda>_. forM xs f)"

fun mapM :: "('a \<Rightarrow> ('s, 'e, 'b) act) \<Rightarrow> 'a list \<Rightarrow> ('s, 'e, 'b list) act" where
  "mapM f [] = ret []"
| "mapM f (x # xs) = andThen (f x) (\<lambda>y. andThen (mapM f xs) (\<lambda>ys. ret (y # ys)))"

lemma ret_apply [run_simps, simp]: "ret x s = (Inr x, s)"
  by (simp add: ret_def)

lemma throw_apply [run_simps, simp]: "throw e s = (Inl e, s)"
  by (simp add: throw_def)

lemma gets_apply [run_simps, simp]: "gets f s = (Inr (f s), s)"
  by (simp add: gets_def)

lemma modify_apply [run_simps, simp]: "modify f s = (Inr (), f s)"
  by (simp add: modify_def)

lemma assertM_Inr: "assertM e ok s = (Inr x, t) \<longleftrightarrow> ok \<and> t = s"
  by (auto simp: assertM_def)

lemma assertM_simps [run_simps, simp]: "assertM e True = ret ()" "assertM e False = throw e"
  by (simp_all add: assertM_def)

lemma andThen_apply [run_simps]:
  "andThen m f s = (case m s of (Inl e, t) \<Rightarrow> (Inl e, t) | (Inr x, t) \<Rightarrow> f x t)"
  by (simp add: andThen_def)

lemma tryCatch_apply [run_simps]:
  "tryCatch m h s = (case m s of (Inl e, t) \<Rightarrow> h e t | (Inr x, t) \<Rightarrow> (Inr x, t))"
  by (simp add: tryCatch_def)

lemma andThen_InrE:
  assumes "andThen m f s = (Inr y, u)"
  obtains x t where "m s = (Inr x, t)" and "f x t = (Inr y, u)"
  using assms by (auto simp: andThen_apply split: prod.splits sum.splits)

lemma andThen_Inr: "m s = (Inr x, t) \<Longrightarrow> andThen m f s = f x t"
  by (simp add: andThen_apply)

lemma andThen_Inl: "m s = (Inl e, t) \<Longrightarrow> andThen m f s = (Inl e, t)"
  by (simp add: andThen_apply)

lemma tryCatch_Inr: "m s = (Inr x, t) \<Longrightarrow> tryCatch m h s = (Inr x, t)"
  by (simp add: tryCatch_apply)

lemma tryCatch_Inl: "m s = (Inl e, t) \<Longrightarrow> tryCatch m h s = h e t"
  by (simp add: tryCatch_apply)

section \<open>Guarantees kept by every run\<close>

definition guar :: "('s \<Rightarrow> 's \<Rightarrow> bool) \<Rightarrow> ('s, 'e, 'a) act \<Rightarrow> bool" where
  "guar R m \<longleftrightarrow> (\<forall>s. R s (snd (m s)))"

lemma guarI: "(\<And>s. R s (snd (m s))) \<Longrightarrow> guar R m"
  by (simp add: guar_def)

lemma guarD: "guar R m \<Longrightarrow> m s = (r, t) \<Longrightarrow> R s t"
  by (auto simp: guar_def dest: spec [of _ s])

lemma guar_mono: "(\<And>s t. R s t \<Longrightarrow> S s t) \<Longrightarrow> guar R m \<Longrightarrow> guar S m"
  by (simp add: guar_def)

lemma guar_modify: "(\<And>s. R s (f s)) \<Longrightarrow> guar R (modify f)"
  by (simp add: guar_def)

locale guarantee =
  fixes R :: "'s \<Rightarrow> 's \<Rightarrow> bool"
  assumes R_refl: "R s s"
    and R_trans: "R s t \<Longrightarrow> R t u \<Longrightarrow> R s u"
begin

lemma guar_ret: "guar R (ret x)"
  by (simp add: guar_def R_refl)

lemma guar_throw: "guar R (throw e)"
  by (simp add: guar_def R_refl)

lemma guar_gets: "guar R (gets f)"
  by (simp add: guar_def R_refl)

lemma guar_andThen_result:
  assumes "guar R m" and "\<And>s x t. m s = (Inr x, t) \<Longrightarrow> guar R (f x)"
  shows "guar R (andThen m f)"
proof (rule guarI)
  fix s
  obtain r t where m: "m s = (r, t)" by (cases "m s")
  have st: "R s t" using assms(1) m by (rule guarD)
  show "R s (snd (andThen m f s))"
  proof (cases r)
    case (Inl e)
    with m st show ?thesis by (simp add: andThen_apply)
  next
    case (Inr x)
    with assms(2) m have "R t (snd (f x t))" by (simp add: guar_def)
    with m st Inr show ?thesis by (auto simp: andThen_apply intro: R_trans)
  qed
qed

lemma guar_andThen: "guar R m \<Longrightarrow> (\<And>x. guar R (f x)) \<Longrightarrow> guar R (andThen m f)"
  by (rule guar_andThen_result)

lemma guar_tryCatch:
  assumes "guar R m" and "\<And>e. guar R (h e)"
  shows "guar R (tryCatch m h)"
proof (rule guarI)
  fix s
  obtain r t where m: "m s = (r, t)" by (cases "m s")
  have "R s t" using assms(1) m by (rule guarD)
  moreover have "R t (snd (h e t))" for e
    using assms(2) [of e] by (simp add: guar_def)
  ultimately show "R s (snd (tryCatch m h s))"
    using m by (cases r) (auto simp: tryCatch_apply intro: R_trans)
qed

lemma guar_unlessM: "guar R m \<Longrightarrow> guar R (unlessM b m)"
  by (simp add: unlessM_def guar_ret)

lemma guar_assertM: "guar R (assertM e b)"
  by (simp add: assertM_def guar_ret guar_throw)

lemma guar_forM: "(\<And>x. x \<in> set xs \<Longrightarrow> guar R (f x)) \<Longrightarrow> guar R (forM xs f)"
  by (induction xs) (auto intro: guar_ret guar_andThen)

lemma guar_mapM: "(\<And>x. x \<in> set xs \<Longrightarrow> guar R (f x)) \<Longrightarrow> guar R (mapM f xs)"
  by (induction xs) (auto intro!: guar_ret guar_andThen)

lemma guar_if: "(b \<Longrightarrow> guar R m) \<Longrightarrow> (\<not> b \<Longrightarrow> guar R n) \<Longrightarrow> guar R (if b then m else n)"
  by simp

lemma guar_option:
  "(x = None \<Longrightarrow> guar R m) \<Longrightarrow> (\<And>y. x = Some y \<Longrightarrow> guar R (f y)) \<Longrightarrow>
    guar R (case x of None \<Rightarrow> m | Some y \<Rightarrow> f y)"
  by (cases x) auto

lemma guar_sum:
  "(\<And>e. x = Inl e \<Longrightarrow> guar R (f e)) \<Longrightarrow> (\<And>y. x = Inr y \<Longrightarrow> guar R (g y)) \<Longrightarrow>
    guar R (case x of Inl e \<Rightarrow> f e | Inr y \<Rightarrow> g y)"
  by (cases x) auto

lemma guar_prod: "(\<And>a b. x = (a, b) \<Longrightarrow> guar R (f a b)) \<Longrightarrow> guar R (case x of (a, b) \<Rightarrow> f a b)"
  by (cases x) auto

lemma guar_let: "guar R (f a) \<Longrightarrow> guar R (let x = a in f x)"
  by simp

lemmas guar_rules = guar_ret guar_throw guar_gets guar_andThen guar_tryCatch guar_unlessM guar_assertM
  guar_forM guar_mapM guar_if guar_option guar_sum guar_prod guar_let

end

section \<open>Lists\<close>

lemma sum_list_remove1:
  fixes f :: "'a \<Rightarrow> int"
  shows "x \<in> set xs \<Longrightarrow> sum_list (map f (remove1 x xs)) = sum_list (map f xs) - f x"
  by (induction xs) auto

lemma sum_list_sort_key:
  fixes f :: "'a \<Rightarrow> int"
  shows "sum_list (map f (sort_key k xs)) = sum_list (map f xs)"
proof -
  have "mset (map f (sort_key k xs)) = mset (map f xs)" by simp
  then show ?thesis by (metis sum_mset_sum_list)
qed

text \<open>\<open>removeFirst\<close> is \<^verbatim>\<open>findIndex\<close> followed by \<^verbatim>\<open>splice(index, 1)\<close>: the first element that satisfies
  the test, and the list without it.\<close>

fun removeFirstBy :: "('a \<Rightarrow> bool) \<Rightarrow> 'a list \<Rightarrow> ('a \<times> 'a list) option" where
  "removeFirstBy P [] = None"
| "removeFirstBy P (x # xs) =
    (if P x then Some (x, xs)
     else map_option (\<lambda>(y, ys). (y, x # ys)) (removeFirstBy P xs))"

lemma removeFirstBy_None: "removeFirstBy P xs = None \<longleftrightarrow> (\<forall>x\<in>set xs. \<not> P x)"
  by (induction xs) auto

lemma removeFirstBy_Some:
  assumes "removeFirstBy P xs = Some (y, ys)"
  shows "P y \<and> mset xs = add_mset y (mset ys) \<and> y \<in> set xs"
  using assms
proof (induction xs arbitrary: ys)
  case Nil
  then show ?case by simp
next
  case (Cons x xs)
  then show ?case by (cases "P x") (auto simp: add_mset_commute)
qed

lemma removeFirstBy_sorted_key:
  assumes "removeFirstBy P xs = Some (y, ys)" and "sorted (map k xs)"
  shows "sorted (map k ys)"
  using assms
proof (induction xs arbitrary: ys)
  case Nil
  then show ?case by simp
next
  case (Cons x xs)
  show ?case
  proof (cases "P x")
    case True
    with Cons.prems show ?thesis by simp
  next
    case False
    with Cons.prems(1) obtain zs where zs: "removeFirstBy P xs = Some (y, zs)" "ys = x # zs"
      by auto
    moreover have "set zs \<subseteq> set xs"
      using removeFirstBy_Some [OF zs(1)] by (metis mset_subset_eqD set_mset_mset subsetI
          multi_psub_of_add_self subset_mset.less_imp_le)
    ultimately show ?thesis
      using Cons.IH [OF zs(1)] Cons.prems(2) by auto
  qed
qed

section \<open>Decimal text\<close>

text \<open>\<^verbatim>\<open>bigint.toString()\<close> and \<^verbatim>\<open>BigInt(text)\<close> on decimal texts.\<close>

definition digitChar :: "nat \<Rightarrow> char" where
  "digitChar d = char_of (48 + d)"

fun natToString :: "nat \<Rightarrow> string" where
  "natToString n =
    (if n < 10 then [digitChar n] else natToString (n div 10) @ [digitChar (n mod 10)])"

declare natToString.simps [simp del]

definition intToString :: "int \<Rightarrow> string" where
  "intToString i = (if i < 0 then CHR ''-'' # natToString (nat (- i)) else natToString (nat i))"

definition digitValue :: "char \<Rightarrow> nat option" where
  "digitValue c = (let v = (of_char c :: nat) in if 48 \<le> v \<and> v \<le> 57 then Some (v - 48) else None)"

fun parseDigits :: "nat \<Rightarrow> string \<Rightarrow> nat option" where
  "parseDigits acc [] = Some acc"
| "parseDigits acc (c # cs) =
    (case digitValue c of None \<Rightarrow> None | Some d \<Rightarrow> parseDigits (10 * acc + d) cs)"

definition parseInteger :: "string \<Rightarrow> int option" where
  "parseInteger cs =
    (case cs of [] \<Rightarrow> None
     | c # ds \<Rightarrow>
        (if c = CHR ''-''
         then (if ds = [] then None else map_option (\<lambda>n. - int n) (parseDigits 0 ds))
         else map_option int (parseDigits 0 cs)))"

lemma digitValue_digitChar [simp]: "d < 10 \<Longrightarrow> digitValue (digitChar d) = Some d"
  by (simp add: digitValue_def digitChar_def)

lemma parseDigits_append:
  "parseDigits acc (xs @ ys) =
    (case parseDigits acc xs of None \<Rightarrow> None | Some a \<Rightarrow> parseDigits a ys)"
  by (induction xs arbitrary: acc) (auto split: option.splits)

lemma parseDigits_natToString: "parseDigits 0 (natToString n) = Some n"
proof (induction n rule: natToString.induct)
  case (1 n)
  show ?case
  proof (cases "n < 10")
    case True
    then show ?thesis by (simp add: natToString.simps)
  next
    case False
    with 1 show ?thesis
      by (subst natToString.simps) (simp add: parseDigits_append)
  qed
qed

lemma natToString_not_Nil [simp]: "natToString n \<noteq> []"
  by (subst natToString.simps) simp

lemma hd_natToString_digit: "hd (natToString n) \<noteq> CHR ''-''"
proof (induction n rule: natToString.induct)
  case (1 n)
  show ?case
  proof (cases "n < 10")
    case True
    then have "digitValue (digitChar n) = Some n" by simp
    moreover have "digitValue (CHR ''-'') = None" by (simp add: digitValue_def)
    ultimately have "digitChar n \<noteq> CHR ''-''" by force
    with True show ?thesis by (simp add: natToString.simps)
  next
    case False
    with 1 show ?thesis by (subst natToString.simps) simp
  qed
qed

lemma parseInteger_intToString: "parseInteger (intToString i) = Some i"
proof (cases "i < 0")
  case True
  then show ?thesis by (simp add: intToString_def parseInteger_def parseDigits_natToString)
next
  case False
  then obtain c ds where s: "natToString (nat i) = c # ds" by (cases "natToString (nat i)") auto
  with hd_natToString_digit [of "nat i"] have "c \<noteq> CHR ''-''" by simp
  moreover have "parseDigits 0 (c # ds) = Some (nat i)"
    using parseDigits_natToString [of "nat i"] s by simp
  ultimately show ?thesis
    using False s by (simp add: intToString_def parseInteger_def del: parseDigits.simps)
qed

section \<open>Options and searches\<close>

text \<open>\<^verbatim>\<open>x ?? ""\<close> on a nullable text.\<close>

definition orEmpty :: "string option \<Rightarrow> string" where
  "orEmpty s = (case s of None \<Rightarrow> [] | Some x \<Rightarrow> x)"

lemma find_SomeD: "find P xs = Some x \<Longrightarrow> x \<in> set xs \<and> P x"
  by (auto simp: find_Some_iff)

end
