(* ===== verification/Crypto.thy ===== *)
theory Crypto
  imports Prelude "HOL-Library.Word"
begin

text \<open>
  Encodings and cryptographic envelopes: hexadecimal and base64 text, the canonical JSON text of a list of
  strings, the digest of \<^verbatim>\<open>utils/crypto/sha256.ts\<close>, the stored form of a provider's secret key
  (\<^verbatim>\<open>core/crypto/encrypt-sk.ts\<close>) and the password hashes of custodial accounts
  (\<^verbatim>\<open>http/v1/pay/custodial/crypto.ts\<close>).

  A byte is an 8-bit word.  Strings are UTF-8 bytes, so \<^verbatim>\<open>TextEncoder\<close> and \<^verbatim>\<open>TextDecoder\<close> only change the
  type.  The primitives of \<^verbatim>\<open>crypto.subtle\<close> are the fields of \<open>SubtleCrypto\<close>; what the code relies on is
  \<open>subtleLaws\<close>.  Randomness is an argument.
\<close>

unbundle bit_operations_syntax

type_synonym byte = "8 word"

definition byteOf :: "char \<Rightarrow> byte" where
  "byteOf c = word_of_nat (of_char c)"

definition charOf :: "byte \<Rightarrow> char" where
  "charOf b = char_of (unat b)"

definition textEncode :: "string \<Rightarrow> byte list" where
  "textEncode s = map byteOf s"

definition textDecode :: "byte list \<Rightarrow> string" where
  "textDecode bs = map charOf bs"

lemma unat_byte_less [simp]: "unat (b :: byte) < 256"
  using unsigned_less [of b, where 'a = nat] by simp

lemma charOf_byteOf [simp]: "charOf (byteOf c) = c"
proof -
  have "(of_char c :: nat) < 256" by (rule nat_of_char_less_256)
  then have "unat (word_of_nat (of_char c) :: byte) = of_char c" by (simp add: unat_of_nat)
  then show ?thesis by (simp add: charOf_def byteOf_def)
qed

lemma byteOf_charOf [simp]: "byteOf (charOf b) = b"
  by (simp add: byteOf_def charOf_def of_char_of)

lemma textDecode_textEncode [simp]: "textDecode (textEncode s) = s"
  by (simp add: textDecode_def textEncode_def comp_def)

lemma textEncode_textDecode [simp]: "textEncode (textDecode bs) = bs"
  by (simp add: textDecode_def textEncode_def comp_def)

lemma textEncode_inject [simp]: "textEncode s = textEncode t \<longleftrightarrow> s = t"
  by (metis textDecode_textEncode)

section \<open>Hexadecimal text\<close>

definition hexLower :: "nat \<Rightarrow> char" where
  "hexLower n = char_of (if n < 10 then 48 + n else 87 + n)"

definition hexValue :: "char \<Rightarrow> nat option" where
  "hexValue c =
    (let n = (of_char c :: nat) in
     if 48 \<le> n \<and> n \<le> 57 then Some (n - 48)
     else if 97 \<le> n \<and> n \<le> 102 then Some (n - 87)
     else if 65 \<le> n \<and> n \<le> 70 then Some (n - 55)
     else None)"

text \<open>\<^verbatim>\<open>byte.toString(16)\<close> and \<^verbatim>\<open>padStart(n, "0")\<close>.\<close>

fun toString16 :: "nat \<Rightarrow> string" where
  "toString16 n = (if n < 16 then [hexLower n] else toString16 (n div 16) @ [hexLower (n mod 16)])"

declare toString16.simps [simp del]

definition padStart :: "nat \<Rightarrow> char \<Rightarrow> string \<Rightarrow> string" where
  "padStart n c s = replicate (n - length s) c @ s"

definition bytesToHex :: "byte list \<Rightarrow> string" where
  "bytesToHex bytes = concat (map (\<lambda>b. padStart 2 (CHR ''0'') (toString16 (unat b))) bytes)"

text \<open>\<^verbatim>\<open>parseInt(s, 16)\<close>: leading white space, a sign and a prefix \<^verbatim>\<open>0x\<close> are skipped, then the longest run of
  digits counts; without a digit the result is \<^verbatim>\<open>NaN\<close>, here \<open>None\<close>.\<close>

definition asciiSpace :: "char \<Rightarrow> bool" where
  "asciiSpace c \<longleftrightarrow> (let n = (of_char c :: nat) in n = 32 \<or> 9 \<le> n \<and> n \<le> 13)"

definition hexRun :: "string \<Rightarrow> nat option" where
  "hexRun s =
    (let ds = takeWhile (\<lambda>c. hexValue c \<noteq> None) s in
     if ds = [] then None else Some (foldl (\<lambda>n c. 16 * n + the (hexValue c)) 0 ds))"

definition skipPrefix16 :: "string \<Rightarrow> string" where
  "skipPrefix16 s =
    (case s of a # x # r \<Rightarrow> if a = CHR ''0'' \<and> (x = CHR ''x'' \<or> x = CHR ''X'') then r else s | _ \<Rightarrow> s)"

definition parseInt16 :: "string \<Rightarrow> int option" where
  "parseInt16 s =
    (case dropWhile asciiSpace s of
       [] \<Rightarrow> None
     | c # r \<Rightarrow>
        if c = CHR ''-'' then map_option (\<lambda>n. - int n) (hexRun (skipPrefix16 r))
        else if c = CHR ''+'' then map_option int (hexRun (skipPrefix16 r))
        else map_option int (hexRun (skipPrefix16 (c # r))))"

text \<open>An element of a \<^verbatim>\<open>Uint8Array\<close>: \<^verbatim>\<open>NaN\<close> is stored as 0, other numbers modulo 256.\<close>

definition toUint8 :: "int option \<Rightarrow> byte" where
  "toUint8 v = (case v of None \<Rightarrow> 0 | Some n \<Rightarrow> word_of_int n)"

text \<open>The loop of \<^verbatim>\<open>hexToBytes\<close>: a last single character is read, but its index lies outside the array and the
  write is ignored.\<close>

fun hexToBytes :: "string \<Rightarrow> byte list" where
  "hexToBytes (a # b # r) = toUint8 (parseInt16 [a, b]) # hexToBytes r"
| "hexToBytes s = []"

definition hexPair :: "byte \<Rightarrow> string" where
  "hexPair b = [hexLower (unat b div 16), hexLower (unat b mod 16)]"

lemma padStart_hex: "padStart 2 (CHR ''0'') (toString16 (unat b)) = hexPair (b :: byte)"
proof (cases "unat b < 16")
  case True
  moreover have "hexLower 0 = CHR ''0''" by code_simp
  ultimately show ?thesis by (subst toString16.simps) (simp add: padStart_def hexPair_def)
next
  case False
  have "unat b div 16 < 16" using unat_byte_less [of b] by (simp add: div_less_iff_less_mult)
  then have "toString16 (unat b div 16) = [hexLower (unat b div 16)]" by (subst toString16.simps) simp
  with False show ?thesis by (subst toString16.simps) (simp add: padStart_def hexPair_def)
qed

lemma bytesToHex_pairs: "bytesToHex bs = concat (map hexPair bs)"
  by (simp add: bytesToHex_def padStart_hex)

lemma bytesToHex_simps [simp]: "bytesToHex [] = []" "bytesToHex (b # bs) = hexPair b @ bytesToHex bs"
  by (simp_all add: bytesToHex_pairs)

lemma length_bytesToHex [simp]: "length (bytesToHex bs) = 2 * length bs"
  by (induction bs) (simp_all add: hexPair_def)

lemma of_char_hexLower: "n < 16 \<Longrightarrow> (of_char (hexLower n) :: nat) = (if n < 10 then 48 + n else 87 + n)"
  by (simp add: hexLower_def)

lemma hexValue_hexLower [simp]: "n < 16 \<Longrightarrow> hexValue (hexLower n) = Some n"
  by (simp add: hexValue_def of_char_hexLower)

lemma hexLower_plain:
  assumes "n < 16"
  shows "\<not> asciiSpace (hexLower n)" "hexLower n \<noteq> CHR ''-''" "hexLower n \<noteq> CHR ''+''"
    "hexLower n \<noteq> CHR ''x''" "hexLower n \<noteq> CHR ''X''" "hexLower n \<noteq> CHR '':''"
proof -
  have "hexLower n \<noteq> c" if "hexValue c = None" for c
    using hexValue_hexLower [OF assms] that by auto
  then show "hexLower n \<noteq> CHR ''-''" "hexLower n \<noteq> CHR ''+''" "hexLower n \<noteq> CHR ''x''" "hexLower n \<noteq> CHR ''X''"
    "hexLower n \<noteq> CHR '':''"
    by (simp_all add: hexValue_def)
  show "\<not> asciiSpace (hexLower n)" using assms by (simp add: asciiSpace_def of_char_hexLower)
qed

lemma parseInt16_pair:
  assumes "m < 16" and "n < 16"
  shows "parseInt16 [hexLower m, hexLower n] = Some (int (16 * m + n))"
  using assms by (simp add: parseInt16_def skipPrefix16_def hexRun_def Let_def hexLower_plain)

lemma hexToBytes_hexPair [simp]: "hexToBytes (hexPair b @ s) = b # hexToBytes s"
proof -
  have "unat b div 16 < 16" "unat b mod 16 < 16" using unat_byte_less [of b] by (simp_all add: div_less_iff_less_mult)
  then have "parseInt16 (hexPair b) = Some (int (unat b))"
    by (simp add: hexPair_def parseInt16_pair del: of_nat_add of_nat_mult)
  then show ?thesis by (simp add: hexPair_def toUint8_def)
qed

lemma hexToBytes_bytesToHex [simp]: "hexToBytes (bytesToHex bs) = bs"
  by (induction bs) simp_all

lemma bytesToHex_inject [simp]: "bytesToHex a = bytesToHex b \<longleftrightarrow> a = b"
  by (metis hexToBytes_bytesToHex)

lemma bytesToHex_no_colon: "CHR '':'' \<notin> set (bytesToHex bs)"
proof (induction bs)
  case (Cons b bs)
  have "unat b div 16 < 16" "unat b mod 16 < 16" using unat_byte_less [of b] by (simp_all add: div_less_iff_less_mult)
  then have "CHR '':'' \<notin> set (hexPair b)"
    by (simp add: hexPair_def hexLower_plain(6) [symmetric])
  with Cons show ?case by simp
qed simp


section \<open>Base64\<close>

definition digit64 :: "nat \<Rightarrow> char" where
  "digit64 n = char_of (if n < 26 then 65 + n else if n < 52 then 71 + n else if n < 62 then n - 4
     else if n = 62 then 43 else 47)"

definition value64 :: "char \<Rightarrow> nat option" where
  "value64 c =
    (let n = (of_char c :: nat) in
     if 65 \<le> n \<and> n \<le> 90 then Some (n - 65)
     else if 97 \<le> n \<and> n \<le> 122 then Some (n - 71)
     else if 48 \<le> n \<and> n \<le> 57 then Some (n + 4)
     else if n = 43 then Some 62
     else if n = 47 then Some 63
     else None)"

text \<open>Groups of three bytes as four digits, a last group of one or two bytes as two or three.\<close>

fun encode64 :: "byte list \<Rightarrow> nat list" where
  "encode64 [] = []"
| "encode64 [a] = [unat a div 4, unat a mod 4 * 16]"
| "encode64 [a, b] = [unat a div 4, unat a mod 4 * 16 + unat b div 16, unat b mod 16 * 4]"
| "encode64 (a # b # c # bs) =
    unat a div 4 # (unat a mod 4 * 16 + unat b div 16) # (unat b mod 16 * 4 + unat c div 64) # unat c mod 64 #
    encode64 bs"

fun decode64 :: "nat list \<Rightarrow> byte list" where
  "decode64 (x # y # z # u # r) =
    word_of_nat (x * 4 + y div 16) # word_of_nat (y mod 16 * 16 + z div 4) # word_of_nat (z mod 4 * 64 + u) #
    decode64 r"
| "decode64 [x, y, z] = [word_of_nat (x * 4 + y div 16), word_of_nat (y mod 16 * 16 + z div 4)]"
| "decode64 [x, y] = [word_of_nat (x * 4 + y div 16)]"
| "decode64 _ = []"

definition btoa :: "byte list \<Rightarrow> string" where
  "btoa bytes = (let ds = encode64 bytes in
    map digit64 ds @ replicate ((4 - length ds mod 4) mod 4) (CHR ''=''))"

text \<open>\<^verbatim>\<open>atob\<close>: white space is removed, one or two \<^verbatim>\<open>=\<close> at the end of a text of full groups as well; then
  every character must be a digit and no group may have a single one.  \<open>None\<close> is an exception.\<close>

definition base64Space :: "char \<Rightarrow> bool" where
  "base64Space c \<longleftrightarrow> (let n = (of_char c :: nat) in n = 32 \<or> n = 9 \<or> n = 10 \<or> n = 12 \<or> n = 13)"

definition stripPadding :: "string \<Rightarrow> string" where
  "stripPadding s =
    (if length s mod 4 = 0
     then (case rev s of
             a # b # r \<Rightarrow> if a = CHR ''='' then (if b = CHR ''='' then rev r else rev (b # r)) else s
           | _ \<Rightarrow> s)
     else s)"

definition atob :: "string \<Rightarrow> byte list option" where
  "atob s =
    (let ds = map value64 (stripPadding (filter (\<lambda>c. \<not> base64Space c) s)) in
     if length ds mod 4 = 1 \<or> None \<in> set ds then None else Some (decode64 (map the ds)))"

lemma value64_digit64 [simp]:
  assumes "n < 64"
  shows "value64 (digit64 n) = Some n"
proof -
  consider "n < 26" | "26 \<le> n" "n < 52" | "52 \<le> n" "n < 62" | "n = 62" | "n = 63"
    using assms by linarith
  then show ?thesis by cases (auto simp: digit64_def value64_def Let_def)
qed

lemma digit64_plain:
  assumes "n < 64"
  shows "\<not> base64Space (digit64 n)" "digit64 n \<noteq> CHR ''=''"
proof -
  have "\<not> base64Space c" "c \<noteq> CHR ''=''" if "value64 c = Some n" for c
    using that by (auto simp: value64_def base64Space_def Let_def split: if_splits)
  with value64_digit64 [OF assms] show "\<not> base64Space (digit64 n)" "digit64 n \<noteq> CHR ''=''" by simp_all
qed

lemma byte_parts:
  "unat (a :: byte) div 4 < 64" "unat (a :: byte) div 16 < 16" "unat (a :: byte) div 64 < 4"
  using unat_byte_less [of a] by (simp_all add: div_less_iff_less_mult)

lemma digits_less:
  fixes m n :: nat
  shows "n < 16 \<Longrightarrow> m mod 4 * 16 + n < 64" "n < 4 \<Longrightarrow> m mod 16 * 4 + n < 64" "m mod 4 * 16 < 64" "m mod 16 * 4 < 64"
proof -
  have "m mod 4 < 4" "m mod 16 < 16" by simp_all
  then show "n < 16 \<Longrightarrow> m mod 4 * 16 + n < 64" "n < 4 \<Longrightarrow> m mod 16 * 4 + n < 64" "m mod 4 * 16 < 64" "m mod 16 * 4 < 64"
    by linarith+
qed

lemma encode64_digits: "list_all (\<lambda>n. n < 64) (encode64 bs)"
  by (induction bs rule: encode64.induct) (simp_all add: byte_parts digits_less)

lemma encode64_length: "length (encode64 bs) mod 4 \<noteq> 1"
  by (induction bs rule: encode64.induct) simp_all

lemma byte_eqI: "unat b = n \<Longrightarrow> word_of_nat n = (b :: byte)"
  by auto

lemma decode64_encode64 [simp]: "decode64 (encode64 bs) = bs"
proof (induction bs rule: encode64.induct)
  case (2 a)
  show ?case by (simp add: byte_eqI)
next
  case (3 a b)
  show ?case by (simp add: byte_eqI byte_parts)
next
  case (4 a b c bs)
  then show ?case by (simp add: byte_eqI byte_parts)
qed simp

lemma stripPadding_digits:
  assumes "list_all (\<lambda>n. n < 64) ds" and "length ds mod 4 \<noteq> 1"
  shows "stripPadding (map digit64 ds @ replicate ((4 - length ds mod 4) mod 4) (CHR ''='')) = map digit64 ds"
proof -
  have last: "ds \<noteq> [] \<Longrightarrow> digit64 (last ds) \<noteq> CHR ''=''"
    using assms(1) by (simp add: list_all_iff digit64_plain(2))
  consider "length ds mod 4 = 0" | "length ds mod 4 = 2" | "length ds mod 4 = 3"
    using assms(2) by linarith
  then show ?thesis
  proof cases
    case 1
    show ?thesis
    proof (cases ds rule: rev_cases)
      case (snoc ys y)
      then have "digit64 y \<noteq> CHR ''=''" using last by simp
      with 1 snoc show ?thesis by (cases ys rule: rev_cases) (simp_all add: stripPadding_def)
    qed (simp add: stripPadding_def)
  next
    case 2
    then have "(length ds + 2) mod 4 = 0" by presburger
    with 2 show ?thesis by (simp add: stripPadding_def numeral_2_eq_2)
  next
    case 3
    then obtain ys y where ds: "ds = ys @ [y]" by (cases ds rule: rev_cases) simp_all
    have "Suc (length ds) mod 4 = 0" using 3 by presburger
    with ds last show ?thesis by (simp add: stripPadding_def) (use 3 ds in simp)
  qed
qed

lemma atob_btoa [simp]: "atob (btoa bs) = Some bs"
proof -
  let ?ds = "encode64 bs"
  have d: "list_all (\<lambda>n. n < 64) ?ds" by (rule encode64_digits)
  have "filter (\<lambda>c. \<not> base64Space c) (btoa bs) = btoa bs"
    using d by (simp add: btoa_def Let_def filter_id_conv list_all_iff digit64_plain) (simp add: base64Space_def)
  then have s: "stripPadding (filter (\<lambda>c. \<not> base64Space c) (btoa bs)) = map digit64 ?ds"
    using stripPadding_digits [OF d encode64_length] by (simp add: btoa_def Let_def)
  have "map value64 (map digit64 ?ds) = map Some ?ds" using d by (simp add: list_all_iff)
  then show ?thesis by (simp only: atob_def s Let_def) (use encode64_length [of bs] in \<open>simp add: comp_def\<close>)
qed


section \<open>JSON text of strings\<close>

text \<open>\<^verbatim>\<open>JSON.stringify\<close> of a string and of an array of strings.\<close>

definition escapeChar :: "char \<Rightarrow> string" where
  "escapeChar c =
    (let n = (of_char c :: nat) in
     if n = 34 \<or> n = 92 then [CHR 0x5C, c]
     else if n = 8 then [CHR 0x5C, CHR ''b'']
     else if n = 9 then [CHR 0x5C, CHR ''t'']
     else if n = 10 then [CHR 0x5C, CHR ''n'']
     else if n = 12 then [CHR 0x5C, CHR ''f'']
     else if n = 13 then [CHR 0x5C, CHR ''r'']
     else if n < 32 then [CHR 0x5C, CHR ''u'', CHR ''0'', CHR ''0'', hexLower (n div 16), hexLower (n mod 16)]
     else [c])"

definition quote :: "string \<Rightarrow> string" where
  "quote s = CHR 0x22 # concat (map escapeChar s) @ [CHR 0x22]"

fun joinWith :: "string \<Rightarrow> string list \<Rightarrow> string" where
  "joinWith sep [] = []"
| "joinWith sep [s] = s"
| "joinWith sep (s # t # r) = s @ sep @ joinWith sep (t # r)"

definition stringifyStrings :: "string list \<Rightarrow> string" where
  "stringifyStrings ss = ''['' @ joinWith '','' (map quote ss) @ '']''"

text \<open>A reader for one escaped character, with which the text is shown to determine the strings.\<close>

definition readChar :: "string \<Rightarrow> char \<times> string" where
  "readChar s =
    (if hd s \<noteq> CHR 0x5C then (hd s, tl s)
     else let e = (of_char (s ! 1) :: nat) in
       if e = 34 \<or> e = 92 then (s ! 1, drop 2 s)
       else if e = 98 then (char_of (8 :: nat), drop 2 s)
       else if e = 116 then (char_of (9 :: nat), drop 2 s)
       else if e = 110 then (char_of (10 :: nat), drop 2 s)
       else if e = 102 then (char_of (12 :: nat), drop 2 s)
       else if e = 114 then (char_of (13 :: nat), drop 2 s)
       else (char_of (16 * the (hexValue (s ! 4)) + the (hexValue (s ! 5))), drop 6 s))"

lemma readChar_escapeChar: "readChar (escapeChar c @ r) = (c, r)"
proof -
  define n where "n = (of_char c :: nat)"
  have c: "c = char_of n" by (simp add: n_def)
  have "n \<noteq> 92 \<Longrightarrow> c \<noteq> CHR 0x5C" by (auto simp: n_def)
  moreover have "n < 32 \<Longrightarrow> n div 16 < 16" by simp
  ultimately show ?thesis
    unfolding escapeChar_def n_def [symmetric] Let_def
    by (auto simp: readChar_def c simp flip: n_def)
qed

lemma escapeChar_hd: "\<exists>x xs. escapeChar c = x # xs \<and> x \<noteq> CHR 0x22"
  by (auto simp: escapeChar_def Let_def)

lemma escapeChar_inject: "escapeChar c @ r = escapeChar d @ s \<Longrightarrow> c = d \<and> r = s"
  by (metis readChar_escapeChar prod.inject)

lemma body_inject:
  "concat (map escapeChar s) @ CHR 0x22 # r = concat (map escapeChar t) @ CHR 0x22 # u \<Longrightarrow> s = t \<and> r = u"
proof (induction s arbitrary: t)
  case Nil
  then show ?case using escapeChar_hd [of "hd t"] by (cases t) auto
next
  case (Cons c s)
  show ?case
  proof (cases t)
    case Nil
    with Cons.prems escapeChar_hd [of c] show ?thesis by auto
  next
    case (Cons d t')
    with Cons.prems have "escapeChar c @ concat (map escapeChar s) @ CHR 0x22 # r =
        escapeChar d @ concat (map escapeChar t') @ CHR 0x22 # u" by simp
    from escapeChar_inject [OF this] Cons.IH Cons show ?thesis by blast
  qed
qed

lemma quote_inject: "quote s @ r = quote t @ u \<Longrightarrow> s = t \<and> r = u"
  using body_inject [of s r t u] by (simp add: quote_def)

lemma joinWith_quote_inject:
  "joinWith '','' (map quote ss) @ '']'' = joinWith '','' (map quote ts) @ '']'' \<Longrightarrow> ss = ts"
proof (induction ss arbitrary: ts)
  case Nil
  then show ?case by (cases ts rule: joinWith.cases [of "('','', ts)" for ts]) (auto simp: quote_def)
next
  case (Cons s ss)
  have form: "\<exists>q. joinWith '','' (map quote (x # xs)) @ '']'' = quote x @ q \<and>
      (xs = [] \<longrightarrow> q = '']'') \<and> (xs \<noteq> [] \<longrightarrow> q = CHR '','' # joinWith '','' (map quote xs) @ '']'')" for x xs
    by (cases xs) simp_all
  show ?case
  proof (cases ts)
    case Nil
    with Cons.prems form [of s ss] obtain q where "quote s @ q = '']''" by auto
    then show ?thesis by (simp add: quote_def)
  next
    case ts: (Cons t ts')
    obtain q q' where "joinWith '','' (map quote (s # ss)) @ '']'' = quote s @ q"
        "joinWith '','' (map quote (t # ts')) @ '']'' = quote t @ q'"
      and q: "ss = [] \<longrightarrow> q = '']''" "ss \<noteq> [] \<longrightarrow> q = CHR '','' # joinWith '','' (map quote ss) @ '']''"
        "ts' = [] \<longrightarrow> q' = '']''" "ts' \<noteq> [] \<longrightarrow> q' = CHR '','' # joinWith '','' (map quote ts') @ '']''"
      using form [of s ss] form [of t ts'] by blast
    with Cons.prems ts quote_inject [of s q t q'] have "s = t" "q = q'" by simp_all
    then show ?thesis using q ts Cons.IH [of ts'] by (cases "ss = []"; cases "ts' = []") auto
  qed
qed

lemma stringifyStrings_inject [simp]: "stringifyStrings ss = stringifyStrings ts \<longleftrightarrow> ss = ts"
  using joinWith_quote_inject [of ss ts] by (auto simp: stringifyStrings_def)


section \<open>Primitives of the runtime\<close>

text \<open>\<open>pbkdf2\<close> takes the secret, the salt, the number of iterations and the length in bits; a failed
  authentication of \<open>aesGcmDecrypt\<close> is an exception, here \<open>None\<close>.\<close>

record SubtleCrypto =
  digestSha256 :: "byte list \<Rightarrow> byte list"
  hmacSha256 :: "byte list \<Rightarrow> byte list \<Rightarrow> byte list"
  pbkdf2 :: "byte list \<Rightarrow> byte list \<Rightarrow> int \<Rightarrow> int \<Rightarrow> byte list"
  aesGcmEncrypt :: "byte list \<Rightarrow> byte list \<Rightarrow> byte list \<Rightarrow> byte list"
  aesGcmDecrypt :: "byte list \<Rightarrow> byte list \<Rightarrow> byte list \<Rightarrow> byte list option"

text \<open>Decryption inverts encryption under the same key and nonce, a derived key has the requested length, and
  a tag of HMAC-SHA-256 has 32 bytes.\<close>

definition subtleLaws :: "SubtleCrypto \<Rightarrow> bool" where
  "subtleLaws sc \<longleftrightarrow>
    (\<forall>k iv m. aesGcmDecrypt sc k iv (aesGcmEncrypt sc k iv m) = Some m) \<and>
    (\<forall>s salt n bits. length (pbkdf2 sc s salt n bits) = nat (bits div 8)) \<and>
    (\<forall>k m. length (hmacSha256 sc k m) = 32)"

definition sha256Hex :: "SubtleCrypto \<Rightarrow> byte list \<Rightarrow> string" where
  "sha256Hex sc data = bytesToHex (digestSha256 sc data)"

section \<open>Stored secret keys\<close>

definition SALT_LENGTH :: nat where "SALT_LENGTH = 16"

definition IV_LENGTH :: nat where "IV_LENGTH = 12"

definition deriveKey :: "SubtleCrypto \<Rightarrow> string \<Rightarrow> byte list \<Rightarrow> byte list" where
  "deriveKey sc secret salt = pbkdf2 sc (textEncode secret) salt 100000 256"

definition encryptSk :: "SubtleCrypto \<Rightarrow> byte list \<Rightarrow> byte list \<Rightarrow> string \<Rightarrow> string \<Rightarrow> string" where
  "encryptSk sc salt iv plaintext secret =
    (let key = deriveKey sc secret salt;
         encrypted = aesGcmEncrypt sc key iv (textEncode plaintext)
     in btoa (salt @ iv @ encrypted))"

definition slice :: "nat \<Rightarrow> nat \<Rightarrow> 'a list \<Rightarrow> 'a list" where
  "slice a b xs = take (b - a) (drop a xs)"

text \<open>The exceptions of \<^verbatim>\<open>atob\<close> and of a failed authentication are named as the runtime names them.\<close>

definition openSk :: "SubtleCrypto \<Rightarrow> string \<Rightarrow> string \<Rightarrow> string + string" where
  "openSk sc ciphertext secret =
    (case atob ciphertext of
       None \<Rightarrow> Inl ''InvalidCharacterError''
     | Some combined \<Rightarrow>
        let salt = slice 0 SALT_LENGTH combined;
            iv = slice SALT_LENGTH (SALT_LENGTH + IV_LENGTH) combined;
            encrypted = drop (SALT_LENGTH + IV_LENGTH) combined;
            key = deriveKey sc secret salt
        in (case aesGcmDecrypt sc key iv encrypted of
              None \<Rightarrow> Inl ''OperationError''
            | Some decrypted \<Rightarrow> Inr (textDecode decrypted)))"

lemma openSk_encryptSk:
  assumes "subtleLaws sc" and "length salt = SALT_LENGTH" and "length iv = IV_LENGTH"
  shows "openSk sc (encryptSk sc salt iv plaintext secret) secret = Inr plaintext"
  using assms by (simp add: openSk_def encryptSk_def slice_def subtleLaws_def Let_def)

section \<open>Passwords\<close>

definition derivedBits :: "SubtleCrypto \<Rightarrow> string \<Rightarrow> byte list \<Rightarrow> byte list" where
  "derivedBits sc password salt = pbkdf2 sc (textEncode password) salt 100000 256"

definition hashPassword :: "SubtleCrypto \<Rightarrow> byte list \<Rightarrow> string \<Rightarrow> string" where
  "hashPassword sc salt password =
    bytesToHex salt @ '':'' @ bytesToHex (derivedBits sc password salt)"

text \<open>The comparison of two byte arrays through their HMAC tags: \<^verbatim>\<open>result |= sigA[i] ^ sigB[i]\<close>, where an index
  outside of \<^verbatim>\<open>sigB\<close> reads \<^verbatim>\<open>undefined\<close>, the number 0 for \<^verbatim>\<open>^\<close>.\<close>

definition elementAt :: "byte list \<Rightarrow> nat \<Rightarrow> byte" where
  "elementAt bs i = (if i < length bs then bs ! i else 0)"

definition timingSafeEqual :: "SubtleCrypto \<Rightarrow> byte list \<Rightarrow> byte list \<Rightarrow> bool" where
  "timingSafeEqual sc a b \<longleftrightarrow>
    length a = length b \<and>
    (let key = replicate 32 0; sigA = hmacSha256 sc key a; sigB = hmacSha256 sc key b
     in foldl (\<lambda>result i. result OR (elementAt sigA i XOR elementAt sigB i)) 0 [0..<length sigA] = 0)"

text \<open>\<^verbatim>\<open>s.split(":")\<close>\<close>

fun splitColon :: "string \<Rightarrow> string list" where
  "splitColon [] = [[]]"
| "splitColon (c # cs) =
    (if c = CHR '':'' then [] # splitColon cs
     else (case splitColon cs of [] \<Rightarrow> [[c]] | p # ps \<Rightarrow> (c # p) # ps))"

definition verifyPassword :: "SubtleCrypto \<Rightarrow> string \<Rightarrow> string \<Rightarrow> bool" where
  "verifyPassword sc password hash =
    (case splitColon hash of
       salt # stored # _ \<Rightarrow>
         salt \<noteq> [] \<and> stored \<noteq> [] \<and>
         (let derivedBytes = derivedBits sc password (hexToBytes salt); storedBytes = hexToBytes stored
          in length derivedBytes = length storedBytes \<and> timingSafeEqual sc derivedBytes storedBytes)
     | _ \<Rightarrow> False)"

lemma splitColon_plain: "CHR '':'' \<notin> set s \<Longrightarrow> splitColon s = [s]"
  by (induction s) auto

lemma splitColon_append: "CHR '':'' \<notin> set s \<Longrightarrow> splitColon (s @ CHR '':'' # t) = s # splitColon t"
  by (induction s) auto

lemma splitColon_hash:
  "splitColon (bytesToHex a @ '':'' @ bytesToHex b) = [bytesToHex a, bytesToHex b]"
  using bytesToHex_no_colon [of a] bytesToHex_no_colon [of b] by (simp add: splitColon_append splitColon_plain)

lemma or_zero_iff: "(a OR b :: byte) = 0 \<longleftrightarrow> a = 0 \<and> b = 0"
  by (fact or_eq_0_iff)

lemma fold_or_zero:
  "foldl (\<lambda>r i. r OR (f i :: byte)) acc is = 0 \<longleftrightarrow> acc = 0 \<and> (\<forall>i\<in>set is. f i = 0)"
  by (induction "is" arbitrary: acc) (auto simp: or_zero_iff)

lemma xor_zero_iff: "(a XOR b :: byte) = 0 \<longleftrightarrow> a = b"
  by (auto simp: bit_eq_iff bit_xor_iff)

lemma tags_equal:
  assumes "length xs = length ys"
  shows "foldl (\<lambda>r i. r OR (elementAt xs i XOR elementAt ys i)) 0 [0..<length xs] = 0 \<longleftrightarrow> xs = ys"
proof -
  have "(\<forall>i\<in>set [0..<length xs]. elementAt xs i XOR elementAt ys i = 0) \<longleftrightarrow> (\<forall>i<length xs. xs ! i = ys ! i)"
    using assms by (simp add: xor_zero_iff elementAt_def Ball_def)
  then show ?thesis using assms unfolding fold_or_zero list_eq_iff_nth_eq by simp
qed

definition tagOf :: "SubtleCrypto \<Rightarrow> byte list \<Rightarrow> byte list" where
  "tagOf sc = hmacSha256 sc (replicate 32 0)"

lemma timingSafeEqual_iff:
  assumes "subtleLaws sc"
  shows "timingSafeEqual sc a b \<longleftrightarrow> length a = length b \<and> tagOf sc a = tagOf sc b"
proof -
  have "length (tagOf sc a) = length (tagOf sc b)" using assms by (simp add: subtleLaws_def tagOf_def)
  from tags_equal [OF this] show ?thesis unfolding timingSafeEqual_def Let_def tagOf_def by blast
qed

lemma verifyPassword_hashPassword:
  assumes "subtleLaws sc" and "salt \<noteq> []"
  shows "verifyPassword sc p (hashPassword sc salt q) \<longleftrightarrow>
    tagOf sc (derivedBits sc p salt) = tagOf sc (derivedBits sc q salt)"
proof -
  have len: "length (derivedBits sc x salt) = 32" for x
    using assms(1) by (simp add: subtleLaws_def derivedBits_def)
  have "bytesToHex salt \<noteq> []" "bytesToHex (derivedBits sc q salt) \<noteq> []"
    using assms(2) len [of q] by (metis length_0_conv length_bytesToHex mult_is_0 zero_neq_numeral)+
  then show ?thesis
    unfolding verifyPassword_def hashPassword_def splitColon_hash
    by (simp add: Let_def len timingSafeEqual_iff [OF assms(1)])
qed

end
