(* ===== verification/Bundle.thy ===== *)
theory Bundle
  imports Crypto
begin

text \<open>
  Bundles of privacy-channel operations: the data of \<^verbatim>\<open>bundle.types.ts\<close> and the pure functions of
  \<^verbatim>\<open>bundle.service.ts\<close> (classification, fee, TTL, weight, priority).

  The operation classes come from the Moonlight SDK; a record holds what the code reads of one.
  A UTXO public key is represented by its base64 text, the identifier the code derives from it.
  Instants are integers in milliseconds.  \<^verbatim>\<open>bigint\<close> amounts are unbounded integers; weights are the
  integers the configuration holds; priority scores are exact rationals in place of doubles.
\<close>

section \<open>Operations\<close>

record CreateOperation =
  co_utxo :: string
  co_amount :: int

record SpendOperation =
  so_utxo :: string
  so_signatureExp :: "int option"
  so_signedByUTXO :: bool

record DepositOperation =
  dep_publicKey :: string
  dep_amount :: int

record WithdrawOperation =
  wd_publicKey :: string
  wd_amount :: int

datatype MoonlightOperation =
    Create CreateOperation
  | Spend SpendOperation
  | Deposit DepositOperation
  | Withdraw WithdrawOperation

record ClassifiedOperations =
  cl_create :: "CreateOperation list"
  cl_spend :: "SpendOperation list"
  cl_deposit :: "DepositOperation list"
  cl_withdraw :: "WithdrawOperation list"

record OperationAmounts =
  totalDepositAmount :: int
  totalCreateAmount :: int
  totalWithdrawAmount :: int
  totalSpendAmount :: int

record FeeCalculation =
  fc_fee :: int
  fc_totalInflows :: int
  fc_totalOutflows :: int
  fc_breakdown :: OperationAmounts

record WeightConfig =
  expensiveOpWeight :: int
  cheapOpWeight :: int

record SlotBundle =
  sb_bundleId :: string
  sb_channelContractId :: string
  sb_operationsMLXDR :: "string list"
  sb_operations :: ClassifiedOperations
  sb_fee :: int
  sb_weight :: int
  sb_ttl :: int
  sb_createdAt :: int
  sb_priorityScore :: rat
  sb_retryCount :: int
  sb_lastFailureReason :: "string option"
  sb_ppPublicKey :: string
  sb_entityName :: "string option"
  sb_jurisdictions :: "string list"
  sb_amount :: "string option"

section \<open>Classification\<close>

definition classifyOperations :: "MoonlightOperation list \<Rightarrow> ClassifiedOperations" where
  "classifyOperations ops =
    \<lparr>cl_create = [c. Create c \<leftarrow> ops],
     cl_spend = [s. Spend s \<leftarrow> ops],
     cl_deposit = [d. Deposit d \<leftarrow> ops],
     cl_withdraw = [w. Withdraw w \<leftarrow> ops]\<rparr>"

definition isWithdrawOnlyBundle :: "ClassifiedOperations \<Rightarrow> bool" where
  "isWithdrawOnlyBundle c \<longleftrightarrow> length (cl_deposit c) = 0 \<and> length (cl_withdraw c) > 0"

section \<open>Amounts and fee\<close>

text \<open>The channel client's \<^verbatim>\<open>utxo_balances\<close> read is a parameter: it maps a list of UTXOs to their
  balances, or fails.\<close>

definition fetchUtxoBalances :: "(string list \<Rightarrow> 'e + int list) \<Rightarrow> string list \<Rightarrow> 'e + int list" where
  "fetchUtxoBalances read_balances utxos = (if utxos = [] then Inr [] else read_balances utxos)"

definition fetchUtxoBalance :: "(string list \<Rightarrow> 'e + int list) \<Rightarrow> string \<Rightarrow> 'e + int" where
  "fetchUtxoBalance read_balances utxo =
    (case fetchUtxoBalances read_balances [utxo] of
       Inl e \<Rightarrow> Inl e
     | Inr [] \<Rightarrow> Inr 0
     | Inr (b # _) \<Rightarrow> Inr b)"

definition calculateOperationsTotal :: "'o list \<Rightarrow> ('o \<Rightarrow> int) \<Rightarrow> int" where
  "calculateOperationsTotal operations getAmount = foldl (\<lambda>acc op. acc + getAmount op) 0 operations"

definition calculateOperationAmounts ::
    "(string list \<Rightarrow> 'e + int list) \<Rightarrow> ClassifiedOperations \<Rightarrow> 'e + OperationAmounts" where
  "calculateOperationAmounts read_balances c =
    (case fetchUtxoBalances read_balances (map so_utxo (cl_spend c)) of
       Inl e \<Rightarrow> Inl e
     | Inr spendBalances \<Rightarrow>
         Inr \<lparr>totalDepositAmount = foldl (\<lambda>acc op. acc + dep_amount op) 0 (cl_deposit c),
              totalCreateAmount = foldl (\<lambda>acc op. acc + co_amount op) 0 (cl_create c),
              totalWithdrawAmount = foldl (\<lambda>acc op. acc + wd_amount op) 0 (cl_withdraw c),
              totalSpendAmount = foldl (+) 0 spendBalances\<rparr>)"

definition calculateFee :: "OperationAmounts \<Rightarrow> FeeCalculation" where
  "calculateFee breakdown =
    (let totalInflows = totalDepositAmount breakdown;
         totalOutflows = totalCreateAmount breakdown + totalWithdrawAmount breakdown;
         fee = (if totalInflows \<le> 0 then totalSpendAmount breakdown - totalOutflows
                else totalInflows - totalOutflows)
     in \<lparr>fc_fee = fee, fc_totalInflows = totalInflows, fc_totalOutflows = totalOutflows,
         fc_breakdown = breakdown\<rparr>)"

text \<open>\<^verbatim>\<open>aggregateBundleAmount\<close> stands twice in the sources, in admission and in the mempool.\<close>

definition aggregateBundleAmount :: "ClassifiedOperations \<Rightarrow> string option" where
  "aggregateBundleAmount c =
    (if length (cl_deposit c) > 0
     then Some (intToString (foldl (\<lambda>acc op. acc + dep_amount op) 0 (cl_deposit c)))
     else if length (cl_withdraw c) > 0
     then Some (intToString (foldl (\<lambda>acc op. acc + wd_amount op) 0 (cl_withdraw c)))
     else if length (cl_create c) > 0
     then Some (intToString (foldl (\<lambda>acc op. acc + co_amount op) 0 (cl_create c)))
     else None)"

section \<open>Time to live\<close>

definition DEFAULT_BUNDLE_TTL_MS :: int where
  "DEFAULT_BUNDLE_TTL_MS = 1000 * 60 * 60 * 24"

definition STELLAR_LEDGER_CLOSE_TIME_MS :: int where
  "STELLAR_LEDGER_CLOSE_TIME_MS = 5000"

fun minExpirationLedger :: "int option \<Rightarrow> SpendOperation list \<Rightarrow> int option" where
  "minExpirationLedger m [] = m"
| "minExpirationLedger m (op # ops) =
    (case so_signatureExp op of
       None \<Rightarrow> minExpirationLedger m ops
     | Some el \<Rightarrow>
         minExpirationLedger
           (case m of None \<Rightarrow> Some el | Some cur \<Rightarrow> if el < cur then Some el else Some cur) ops)"

definition calculateBundleTtl ::
    "int \<Rightarrow> ClassifiedOperations option \<Rightarrow> int option \<Rightarrow> int" where
  "calculateBundleTtl now classified latestLedgerSequence =
    (let defaultTtl = now + DEFAULT_BUNDLE_TTL_MS in
     case (classified, latestLedgerSequence) of
       (Some c, Some latest) \<Rightarrow>
         (case minExpirationLedger None (cl_spend c) of
            None \<Rightarrow> defaultTtl
          | Some el \<Rightarrow>
              (let signatureTtl = now + (el - latest) * STELLAR_LEDGER_CLOSE_TIME_MS
               in if signatureTtl < defaultTtl then signatureTtl else defaultTtl))
     | _ \<Rightarrow> defaultTtl)"

section \<open>Weight and priority\<close>

definition calculateBundleWeight :: "ClassifiedOperations \<Rightarrow> WeightConfig \<Rightarrow> int" where
  "calculateBundleWeight c config =
    (let expensiveOpsCount = int (length (cl_spend c) + length (cl_withdraw c));
         cheapOpsCount = int (length (cl_deposit c) + length (cl_create c))
     in expensiveOpsCount * expensiveOpWeight config + cheapOpsCount * cheapOpWeight config)"

definition calculatePriorityScore :: "int \<Rightarrow> int \<Rightarrow> int \<Rightarrow> int \<Rightarrow> rat" where
  "calculatePriorityScore now fee ttlTime createdAtTime =
    (let feeScore = of_int fee / 1000000;
         ageHours = of_int (now - createdAtTime) / (1000 * 60 * 60);
         ageScore = min (ageHours / 24) 1;
         timeRemainingMs = ttlTime - now;
         timeRemainingHours = max 0 (of_int timeRemainingMs / (1000 * 60 * 60));
         ttlScore = (if timeRemainingHours > 0 then 24 / (timeRemainingHours + 1) else 24)
     in feeScore * (6 / 10) + ageScore * (3 / 10) + ttlScore * (1 / 10))"

section \<open>Facts\<close>

lemma foldl_sum: "foldl (\<lambda>acc x. acc + f x) (a :: int) xs = a + sum_list (map f xs)"
  by (induction xs arbitrary: a) simp_all

lemma foldl_plus: "foldl (+) (a :: int) xs = a + sum_list xs"
  by (induction xs arbitrary: a) simp_all

lemma calculateOperationsTotal_sum: "calculateOperationsTotal xs f = sum_list (map f xs)"
  by (simp add: calculateOperationsTotal_def foldl_sum)

lemma classifyOperations_Nil [simp]:
  "classifyOperations [] = \<lparr>cl_create = [], cl_spend = [], cl_deposit = [], cl_withdraw = []\<rparr>"
  by (simp add: classifyOperations_def)

lemma classifyOperations_Cons:
  "classifyOperations (op # ops) =
    (let c = classifyOperations ops in
     case op of
       Create x \<Rightarrow> c\<lparr>cl_create := x # cl_create c\<rparr>
     | Spend x \<Rightarrow> c\<lparr>cl_spend := x # cl_spend c\<rparr>
     | Deposit x \<Rightarrow> c\<lparr>cl_deposit := x # cl_deposit c\<rparr>
     | Withdraw x \<Rightarrow> c\<lparr>cl_withdraw := x # cl_withdraw c\<rparr>)"
  by (simp add: classifyOperations_def Let_def split: MoonlightOperation.split)

definition classifiedToOperations :: "ClassifiedOperations \<Rightarrow> MoonlightOperation list" where
  "classifiedToOperations c =
    map Deposit (cl_deposit c) @ map Create (cl_create c) @ map Spend (cl_spend c) @
    map Withdraw (cl_withdraw c)"

lemma mset_classified:
  "mset (classifiedToOperations (classifyOperations ops)) = mset ops"
proof (induction ops)
  case Nil
  then show ?case by (simp add: classifiedToOperations_def)
next
  case (Cons op ops)
  then show ?case
    by (cases op) (simp_all add: classifyOperations_Cons classifiedToOperations_def Let_def)
qed

lemma minExpirationLedger_eq:
  "minExpirationLedger m ops =
    (let exps = List.map_filter so_signatureExp ops @ (case m of None \<Rightarrow> [] | Some e \<Rightarrow> [e])
     in if exps = [] then None else Some (Min (set exps)))"
proof (induction ops arbitrary: m)
  case Nil
  then show ?case by (cases m) (simp_all add: map_filter_def)
next
  case (Cons op ops)
  show ?case
  proof (cases "so_signatureExp op")
    case None
    with Cons show ?thesis by (simp add: map_filter_def)
  next
    case (Some el)
    define k where "k = (case m of None \<Rightarrow> el | Some cur \<Rightarrow> if el < cur then el else cur)"
    have "minExpirationLedger m (op # ops) = minExpirationLedger (Some k) ops"
      using Some by (cases m) (simp_all add: k_def)
    also have "\<dots> = Some (Min (set (List.map_filter so_signatureExp ops @ [k])))"
      by (simp add: Cons.IH Let_def)
    finally have lhs: "minExpirationLedger m (op # ops) =
      Some (Min (set (List.map_filter so_signatureExp ops @ [k])))" .
    have "Min (insert k (set (List.map_filter so_signatureExp ops))) =
      Min (insert el (set (List.map_filter so_signatureExp ops) \<union>
        set (case m of None \<Rightarrow> [] | Some e \<Rightarrow> [e])))"
      by (cases m; cases "set (List.map_filter so_signatureExp ops) = {}")
        (auto simp: k_def min_def)
    with lhs Some show ?thesis by (simp add: map_filter_def Let_def)
  qed
qed

lemma minExpirationLedger_None_iff:
  "minExpirationLedger None ops = None \<longleftrightarrow> (\<forall>op\<in>set ops. so_signatureExp op = None)"
  by (auto simp: minExpirationLedger_eq Let_def map_filter_def filter_empty_conv)

lemma minExpirationLedger_Some:
  assumes "minExpirationLedger None ops = Some e"
  shows "\<exists>op\<in>set ops. so_signatureExp op = Some e"
    and "op \<in> set ops \<Longrightarrow> so_signatureExp op = Some x \<Longrightarrow> e \<le> x"
proof -
  let ?xs = "List.map_filter so_signatureExp ops"
  from assms have ne: "?xs \<noteq> []" and e: "e = Min (set ?xs)"
    by (auto simp: minExpirationLedger_eq Let_def split: if_splits)
  have set_xs: "set ?xs = {x. \<exists>op\<in>set ops. so_signatureExp op = Some x}"
    by (force simp: map_filter_def)
  have "e \<in> set ?xs" using ne e by simp
  with set_xs show "\<exists>op\<in>set ops. so_signatureExp op = Some e" by blast
  show "e \<le> x" if "op \<in> set ops" and "so_signatureExp op = Some x"
  proof -
    have "x \<in> set ?xs" using that set_xs by blast
    then show ?thesis unfolding e by (rule Min_le [OF finite_set])
  qed
qed

lemma calculateBundleTtl_le_default: "calculateBundleTtl now c l \<le> now + DEFAULT_BUNDLE_TTL_MS"
  by (auto simp: calculateBundleTtl_def Let_def split: option.splits)

section \<open>Properties\<close>

text \<open>Classifying a bundle's operations loses none and invents none: the four lists together hold
  exactly the operations that came in, whatever their order and multiplicity.\<close>

theorem classification_is_a_partition:
  "mset (map Deposit (cl_deposit (classifyOperations ops)) @ map Create (cl_create (classifyOperations ops)) @
     map Spend (cl_spend (classifyOperations ops)) @ map Withdraw (cl_withdraw (classifyOperations ops))) =
   mset ops"
  using mset_classified [of ops] by (simp add: classifiedToOperations_def)

text \<open>The fee of a bundle that passes the \<^verbatim>\<open>fee >= 1\<close> test is covered: with balances that are not
  negative, what the bundle pays out (creates and withdrawals) plus the fee never exceeds what comes in
  (deposits and the balances of the spent UTXOs read from the channel).\<close>

theorem fee_is_covered:
  assumes "calculateOperationAmounts read_balances c = Inr a"
    and "0 \<le> sum_list (map dep_amount (cl_deposit c))" and "0 \<le> totalSpendAmount a"
    and "1 \<le> fc_fee (calculateFee a)"
  shows "sum_list (map co_amount (cl_create c)) + sum_list (map wd_amount (cl_withdraw c)) +
      fc_fee (calculateFee a) \<le> sum_list (map dep_amount (cl_deposit c)) + totalSpendAmount a"
  using assms
  by (auto simp: calculateOperationAmounts_def calculateFee_def Let_def foldl_sum split: sum.splits if_splits)

theorem fee_is_covered_witness:
  "calculateOperationAmounts (\<lambda>us. Inr (map (\<lambda>_. 90) us) :: unit + int list)
      \<lparr>cl_create = [\<lparr>co_utxo = ''u'', co_amount = 50\<rparr>],
       cl_spend = [\<lparr>so_utxo = ''v'', so_signatureExp = None, so_signedByUTXO = True\<rparr>],
       cl_deposit = [], cl_withdraw = [\<lparr>wd_publicKey = ''g'', wd_amount = 30\<rparr>]\<rparr> =
     Inr \<lparr>totalDepositAmount = 0, totalCreateAmount = 50, totalWithdrawAmount = 30, totalSpendAmount = 90\<rparr> \<and>
   50 + 30 + fc_fee (calculateFee \<lparr>totalDepositAmount = 0, totalCreateAmount = 50,
      totalWithdrawAmount = 30, totalSpendAmount = 90\<rparr>) \<le> (0::int) + 90"
  using fee_is_covered [of "\<lambda>us. Inr (map (\<lambda>_. 90) us) :: unit + int list"
      "\<lparr>cl_create = [\<lparr>co_utxo = ''u'', co_amount = 50\<rparr>],
       cl_spend = [\<lparr>so_utxo = ''v'', so_signatureExp = None, so_signedByUTXO = True\<rparr>],
       cl_deposit = [], cl_withdraw = [\<lparr>wd_publicKey = ''g'', wd_amount = 30\<rparr>]\<rparr>"
      "\<lparr>totalDepositAmount = 0, totalCreateAmount = 50, totalWithdrawAmount = 30, totalSpendAmount = 90\<rparr>"]
  by (simp add: calculateOperationAmounts_def fetchUtxoBalances_def calculateFee_def Let_def)

text \<open>The time to live of an admitted bundle is the earlier of 24 hours from now and the instant the
  first of its spend signatures expires (five seconds per ledger): it exceeds neither bound and equals
  one of them, so a bundle is never kept past a signature.\<close>

theorem ttl_is_earliest_bound:
  assumes "ttl = calculateBundleTtl now (Some c) (Some latest)"
  shows "ttl \<le> now + DEFAULT_BUNDLE_TTL_MS \<and>
    (\<forall>op\<in>set (cl_spend c). \<forall>e. so_signatureExp op = Some e \<longrightarrow>
      ttl \<le> now + (e - latest) * STELLAR_LEDGER_CLOSE_TIME_MS) \<and>
    (ttl = now + DEFAULT_BUNDLE_TTL_MS \<or>
      (\<exists>op\<in>set (cl_spend c). \<exists>e. so_signatureExp op = Some e \<and>
        ttl = now + (e - latest) * STELLAR_LEDGER_CLOSE_TIME_MS))"
proof (cases "minExpirationLedger None (cl_spend c)")
  case None
  then have "\<forall>op\<in>set (cl_spend c). so_signatureExp op = None" by (simp add: minExpirationLedger_None_iff)
  with None assms show ?thesis by (simp add: calculateBundleTtl_def Let_def)
next
  case (Some m)
  have bound: "now + (m - latest) * STELLAR_LEDGER_CLOSE_TIME_MS \<le>
      now + (e - latest) * STELLAR_LEDGER_CLOSE_TIME_MS"
    if "op \<in> set (cl_spend c)" and "so_signatureExp op = Some e" for op e
    using minExpirationLedger_Some(2) [OF Some that] by (simp add: STELLAR_LEDGER_CLOSE_TIME_MS_def)
  have ttl: "ttl = min (now + DEFAULT_BUNDLE_TTL_MS) (now + (m - latest) * STELLAR_LEDGER_CLOSE_TIME_MS)"
    using Some assms by (auto simp: calculateBundleTtl_def Let_def min_def)
  obtain op where "op \<in> set (cl_spend c)" "so_signatureExp op = Some m"
    using minExpirationLedger_Some(1) [OF Some] by blast
  with ttl bound show ?thesis by (auto simp: min_def intro: order_trans)
qed

theorem ttl_is_earliest_bound_witness:
  "(6000::int) = calculateBundleTtl 1000 (Some \<lparr>cl_create = [],
      cl_spend = [\<lparr>so_utxo = ''v'', so_signatureExp = Some 11, so_signedByUTXO = True\<rparr>],
      cl_deposit = [], cl_withdraw = []\<rparr>) (Some 10) \<and> (6000::int) \<le> 1000 + DEFAULT_BUNDLE_TTL_MS"
  using ttl_is_earliest_bound [of 6000 1000 "\<lparr>cl_create = [],
      cl_spend = [\<lparr>so_utxo = ''v'', so_signatureExp = Some 11, so_signedByUTXO = True\<rparr>],
      cl_deposit = [], cl_withdraw = []\<rparr>" 10]
  by (simp add: calculateBundleTtl_def Let_def STELLAR_LEDGER_CLOSE_TIME_MS_def DEFAULT_BUNDLE_TTL_MS_def)

text \<open>The priority score grows with the fee and never falls as a bundle ages or as its time to live
  runs down.\<close>

theorem priority_is_monotone:
  assumes "fee \<le> fee'" and "createdAt' \<le> createdAt" and "ttl' \<le> ttl"
  shows "calculatePriorityScore now fee ttl createdAt \<le> calculatePriorityScore now fee' ttl' createdAt'"
proof -
  define h where "h t = max 0 (of_int (t - now) / (1000 * 60 * 60) :: rat)" for t :: int
  define g where "g x = (if x > 0 then 24 / (x + 1) else 24 :: rat)" for x :: rat
  have fee: "(of_int fee :: rat) / 1000000 * (6 / 10) \<le> of_int fee' / 1000000 * (6 / 10)"
    using assms(1) by simp
  have age: "min (of_int (now - createdAt) / (1000 * 60 * 60) / 24) (1 :: rat) * (3 / 10) \<le>
      min (of_int (now - createdAt') / (1000 * 60 * 60) / 24) 1 * (3 / 10)"
    using assms(2) by (intro mult_right_mono min.mono divide_right_mono) simp_all
  have "h ttl' \<le> h ttl" unfolding h_def using assms(3) by (intro max.mono divide_right_mono) simp_all
  moreover have "0 \<le> h ttl'" by (simp add: h_def)
  ultimately have "g (h ttl) \<le> g (h ttl')"
    unfolding g_def by (auto intro!: divide_left_mono simp: field_simps)
  then have "g (h ttl) * (1 / 10) \<le> g (h ttl') * (1 / 10)" by simp
  with fee age show ?thesis
    unfolding calculatePriorityScore_def Let_def g_def h_def by linarith
qed

theorem priority_is_monotone_witness:
  "calculatePriorityScore 0 10 100 50 \<le> calculatePriorityScore 0 20 90 40"
  using priority_is_monotone [of 10 20 40 50 90 100 0] by simp

text \<open>The documented order of the priority factors (fee, then age, then time to live) is not the
  order of the score: of two bundles with the same fee, one a day old with a day to live scores below
  one submitted just now that is about to expire.\<close>

theorem ttl_outweighs_age:
  "calculatePriorityScore 86400000 fee 172800000 0 < calculatePriorityScore 86400000 fee 86400000 86400000"
  by (simp add: calculatePriorityScore_def Let_def)

section \<open>Identifiers\<close>

text \<open>\<^verbatim>\<open>generateBundleId\<close>: the digest of the JSON text of the operations.\<close>

definition generateBundleId :: "SubtleCrypto \<Rightarrow> string list \<Rightarrow> string" where
  "generateBundleId sc operationsMLXDR = sha256Hex sc (textEncode (stringifyStrings operationsMLXDR))"

text \<open>Two bundles have the same identifier exactly when their operations are the same or the digest of their
  texts collides.\<close>

theorem bundle_id_identifies_operations:
  "generateBundleId sc ops = generateBundleId sc ops' \<longleftrightarrow>
    ops = ops' \<or>
    (ops \<noteq> ops' \<and> stringifyStrings ops \<noteq> stringifyStrings ops' \<and>
     digestSha256 sc (textEncode (stringifyStrings ops)) = digestSha256 sc (textEncode (stringifyStrings ops')))"
  by (auto simp: generateBundleId_def sha256Hex_def)

end
