(* ===== verification/Slots.thy ===== *)
theory Slots
  imports Bundle
begin

text \<open>
  The \<^verbatim>\<open>Slot\<close> class of \<^verbatim>\<open>mempool.process.ts\<close> and the helpers of \<^verbatim>\<open>mempool.service.ts\<close>.

  A slot holds the bundles of one future transaction, ordered by priority, with a running weight.
  JavaScript's \<^verbatim>\<open>Array.prototype.sort\<close> is stable, and so is \<^const>\<open>sort_key\<close>.  The source compares
  object references when it removes the lowest bundle; the model compares values, which selects
  the same position, because an equal bundle further left would have been found first.

  The locale \<open>priority_container\<close> states what the mempool relies on: nothing is lost when a bundle
  is offered, and what comes back has the lowest priority.
\<close>

section \<open>Data and helpers\<close>

record Slot =
  sl_bundles :: "SlotBundle list"
  sl_currentWeight :: int
  sl_capacity :: int
  sl_channelContractId :: string

definition calculateSlotWeight :: "SlotBundle list \<Rightarrow> int" where
  "calculateSlotWeight bundles = foldl (\<lambda>total bundle. total + sb_weight bundle) 0 bundles"

definition canBundleFitInSlot :: "SlotBundle \<Rightarrow> Slot \<Rightarrow> bool" where
  "canBundleFitInSlot bundle slot \<longleftrightarrow>
    (let newWeight = sl_currentWeight slot + sb_weight bundle in newWeight \<le> sl_capacity slot)"

definition compareBundlePriority :: "SlotBundle \<Rightarrow> SlotBundle \<Rightarrow> rat" where
  "compareBundlePriority a b = sb_priorityScore b - sb_priorityScore a"

definition isBundleExpired :: "int \<Rightarrow> SlotBundle \<Rightarrow> bool" where
  "isBundleExpired now bundle \<longleftrightarrow> sb_ttl bundle \<le> now"

definition findLowestPriorityBundle :: "Slot \<Rightarrow> SlotBundle option" where
  "findLowestPriorityBundle slot =
    (case sl_bundles slot of
       [] \<Rightarrow> None
     | b # bs \<Rightarrow>
         Some (foldl (\<lambda>lowest current.
                 if sb_priorityScore current < sb_priorityScore lowest then current else lowest) b bs))"

text \<open>\<^verbatim>\<open>bundles.sort(compareBundlePriority)\<close>: stable, highest score first.\<close>

definition sortByPriority :: "SlotBundle list \<Rightarrow> SlotBundle list" where
  "sortByPriority bundles = sort_key (\<lambda>b. - sb_priorityScore b) bundles"

section \<open>Operations of the class\<close>

definition newSlot :: "int \<Rightarrow> string \<Rightarrow> Slot" where
  "newSlot capacity channelContractId =
    \<lparr>sl_bundles = [], sl_currentWeight = 0, sl_capacity = capacity,
     sl_channelContractId = channelContractId\<rparr>"

definition Slot_add :: "Slot \<Rightarrow> SlotBundle \<Rightarrow> SlotBundle option \<times> Slot" where
  "Slot_add this bundle =
    (if sl_currentWeight this + sb_weight bundle \<le> sl_capacity this
     then (None,
           this\<lparr>sl_bundles := sortByPriority (sl_bundles this @ [bundle]),
                sl_currentWeight := sl_currentWeight this + sb_weight bundle\<rparr>)
     else
       (case findLowestPriorityBundle this of
          Some lowestPriority \<Rightarrow>
            (if sb_priorityScore bundle > sb_priorityScore lowestPriority
             then (Some lowestPriority,
                   this\<lparr>sl_bundles :=
                          sortByPriority (remove1 lowestPriority (sl_bundles this) @ [bundle]),
                        sl_currentWeight :=
                          sl_currentWeight this - sb_weight lowestPriority + sb_weight bundle\<rparr>)
             else (Some bundle, this))
        | None \<Rightarrow> (Some bundle, this)))"

definition Slot_canFit :: "Slot \<Rightarrow> SlotBundle \<Rightarrow> bool" where
  "Slot_canFit this bundle = canBundleFitInSlot bundle this"

definition Slot_removeFirst :: "Slot \<Rightarrow> SlotBundle option \<times> Slot" where
  "Slot_removeFirst this =
    (case sl_bundles this of
       [] \<Rightarrow> (None, this)
     | bundle # rest \<Rightarrow>
         (Some bundle,
          this\<lparr>sl_bundles := rest, sl_currentWeight := sl_currentWeight this - sb_weight bundle\<rparr>))"

definition Slot_isEmpty :: "Slot \<Rightarrow> bool" where
  "Slot_isEmpty this \<longleftrightarrow> length (sl_bundles this) = 0"

definition Slot_getTotalWeight :: "Slot \<Rightarrow> int" where
  "Slot_getTotalWeight this = sl_currentWeight this"

definition Slot_getBundleCount :: "Slot \<Rightarrow> nat" where
  "Slot_getBundleCount this = length (sl_bundles this)"

definition Slot_getBundles :: "Slot \<Rightarrow> SlotBundle list" where
  "Slot_getBundles this = sl_bundles this"

definition Slot_removeBundle :: "Slot \<Rightarrow> string \<Rightarrow> bool \<times> Slot" where
  "Slot_removeBundle this bundleId =
    (case removeFirstBy (\<lambda>b. sb_bundleId b = bundleId) (sl_bundles this) of
       Some (bundle, rest) \<Rightarrow>
         (True,
          this\<lparr>sl_bundles := rest, sl_currentWeight := sl_currentWeight this - sb_weight bundle\<rparr>)
     | None \<Rightarrow> (False, this))"

text \<open>A loop that calls \<^verbatim>\<open>removeBundle\<close> for a list of ids.\<close>

fun Slot_removeAll :: "Slot \<Rightarrow> string list \<Rightarrow> Slot" where
  "Slot_removeAll this [] = this"
| "Slot_removeAll this (bundleId # ids) = Slot_removeAll (snd (Slot_removeBundle this bundleId)) ids"

text \<open>The loop of \<^verbatim>\<open>Mempool.addBundle\<close> over the slots: a bundle is offered to each slot that
  matches; what a slot hands back (the bundle itself or the occupant it displaced) is offered to
  the next one, until a slot keeps everything.\<close>

fun cascade ::
    "('q \<Rightarrow> 'a \<Rightarrow> 'a option \<times> 'q) \<Rightarrow> ('q \<Rightarrow> bool) \<Rightarrow> 'a \<Rightarrow> 'q list \<Rightarrow> 'a option \<times> 'q list" where
  "cascade add matches bundle [] = (Some bundle, [])"
| "cascade add matches bundle (slot # slots) =
    (if \<not> matches slot
     then (let (r, slots') = cascade add matches bundle slots in (r, slot # slots'))
     else
       (case add slot bundle of
          (None, slot') \<Rightarrow> (None, slot' # slots)
        | (Some removed, slot') \<Rightarrow>
            (let (r, slots') = cascade add matches removed slots in (r, slot' # slots'))))"

section \<open>The contract of a slot\<close>

fun mset_option :: "'a option \<Rightarrow> 'a multiset" where
  "mset_option None = {#}"
| "mset_option (Some x) = {#x#}"

locale priority_container =
  fixes add :: "'q \<Rightarrow> 'a \<Rightarrow> 'a option \<times> 'q"
    and items :: "'q \<Rightarrow> 'a list"
    and prio :: "'a \<Rightarrow> 'p::linorder"
    and key :: "'q \<Rightarrow> 'k"
    and invar :: "'q \<Rightarrow> bool"
  assumes add_invar: "invar q \<Longrightarrow> invar (snd (add q x))"
    and add_mset: "mset (items (snd (add q x))) + mset_option (fst (add q x)) =
          add_mset x (mset (items q))"
    and add_lowest: "fst (add q x) = Some r \<Longrightarrow> y \<in> set (items (snd (add q x))) \<Longrightarrow>
          prio r \<le> prio y"
    and add_key: "key (snd (add q x)) = key q"
begin

lemma add_subset: "set (items (snd (add q x))) \<subseteq> insert x (set (items q))"
proof -
  have "set_mset (mset (items (snd (add q x))) + mset_option (fst (add q x))) =
      insert x (set (items q))"
    by (simp add: add_mset)
  then show ?thesis by auto
qed

lemma add_returned: "fst (add q x) = Some r \<Longrightarrow> r = x \<or> r \<in> set (items q)"
proof -
  assume r: "fst (add q x) = Some r"
  have "set_mset (mset (items (snd (add q x))) + mset_option (fst (add q x))) =
      insert x (set (items q))"
    by (simp add: add_mset)
  with r have "r \<in> insert x (set (items q))" by auto
  then show ?thesis by simp
qed

lemma cascade_mset:
  assumes "cascade add P x qs = (r, qs')"
  shows "(\<Sum>q\<leftarrow>qs'. mset (items q)) + mset_option r = add_mset x (\<Sum>q\<leftarrow>qs. mset (items q))"
  using assms
proof (induction qs arbitrary: x r qs')
  case Nil
  then show ?case by auto
next
  case (Cons q qs)
  show ?case
  proof (cases "P q")
    case False
    with Cons.prems obtain us where "cascade add P x qs = (r, us)" "qs' = q # us"
      by (auto split: prod.splits)
    with Cons.IH [of x r us] show ?thesis by (simp add: algebra_simps)
  next
    case True
    obtain o1 q1 where a: "add q x = (o1, q1)" by (cases "add q x")
    have m: "mset (items q1) + mset_option o1 = add_mset x (mset (items q))"
      using add_mset [of q x] a by simp
    show ?thesis
    proof (cases o1)
      case None
      with True a m Cons.prems show ?thesis by auto
    next
      case (Some y)
      with True a Cons.prems obtain us where us: "cascade add P y qs = (r, us)" "qs' = q1 # us"
        by (auto split: prod.splits)
      from Cons.IH [OF us(1)] m Some us(2) show ?thesis
        by (simp add: algebra_simps) (metis add.left_commute add_mset_add_single union_mset_add_mset_right)
    qed
  qed
qed

lemma cascade_invar:
  assumes "cascade add P x qs = (r, qs')" and "\<forall>q\<in>set qs. invar q"
  shows "\<forall>q\<in>set qs'. invar q"
  using assms
proof (induction qs arbitrary: x r qs')
  case Nil
  then show ?case by auto
next
  case (Cons q qs)
  have IH: "\<forall>u\<in>set us. invar u" if "cascade add P y qs = (r', us)" for y r' us
    using Cons.IH [OF that] Cons.prems(2) by simp
  have q1: "invar (snd (add q x))" using add_invar Cons.prems(2) by simp
  show ?case
    using Cons.prems IH q1
    by (auto split: if_splits prod.splits option.splits)
qed

lemma cascade_keys:
  assumes "cascade add P x qs = (r, qs')"
  shows "map key qs' = map key qs"
  using assms
proof (induction qs arbitrary: x r qs')
  case Nil
  then show ?case by auto
next
  case (Cons q qs)
  then show ?case
    using add_key [of q x] by (auto split: if_splits prod.splits option.splits)
qed

text \<open>Every item of the result was offered or was already there, and a slot that does not match
  keeps its items.\<close>

lemma cascade_items:
  assumes "cascade add P x qs = (r, qs')"
    and "\<forall>q\<in>set qs. \<forall>y\<in>set (items q). Q q y" and "\<forall>q. P q \<longrightarrow> Q q x"
    and "\<And>q y z. Q (snd (add q y)) z = Q q z"
    and "\<And>q q' y. P q \<Longrightarrow> P q' \<Longrightarrow> Q q y \<Longrightarrow> Q q' y"
  shows "\<forall>q\<in>set qs'. \<forall>y\<in>set (items q). Q q y"
  using assms(1-3)
proof (induction qs arbitrary: x r qs')
  case Nil
  then show ?case by auto
next
  case (Cons q qs)
  have q1: "\<forall>y\<in>set (items (snd (add q x))). Q (snd (add q x)) y" if "P q"
    using add_subset [of q x] Cons.prems(2,3) assms(4) that by auto
  show ?case
  proof (cases "P q")
    case False
    with Cons.prems(1) obtain us where us: "cascade add P x qs = (r, us)" "qs' = q # us"
      by (auto split: prod.splits)
    have "\<forall>u\<in>set us. \<forall>y\<in>set (items u). Q u y"
      using Cons.IH [OF us(1)] Cons.prems(2,3) by simp
    then show ?thesis using us(2) Cons.prems(2) by simp
  next
    case True
    obtain o1 q1 where a: "add q x = (o1, q1)" by (cases "add q x")
    show ?thesis
    proof (cases o1)
      case None
      with True a q1 Cons.prems show ?thesis by auto
    next
      case (Some y)
      with True a Cons.prems(1) obtain us where us: "cascade add P y qs = (r, us)" "qs' = q1 # us"
        by (auto split: prod.splits)
      have "y = x \<or> y \<in> set (items q)" using add_returned [of q x y] a Some by simp
      then have "Q q y" using Cons.prems(2,3) True by auto
      then have "\<forall>q'. P q' \<longrightarrow> Q q' y" using assms(5) True by blast
      with Cons.IH [OF us(1)] Cons.prems(2) have "\<forall>u\<in>set us. \<forall>z\<in>set (items u). Q u z" by simp
      then show ?thesis using us(2) q1 [OF True] a by simp
    qed
  qed
qed

lemma cascade_returned:
  assumes "cascade add P x qs = (Some r, qs')" and "T x"
    and "\<forall>q\<in>set qs. P q \<longrightarrow> (\<forall>y\<in>set (items q). T y)"
  shows "T r"
  using assms
proof (induction qs arbitrary: x qs')
  case Nil
  then show ?case by simp
next
  case (Cons q qs)
  show ?case
  proof (cases "P q")
    case False
    with Cons.prems(1) obtain us where "cascade add P x qs = (Some r, us)"
      by (auto split: prod.splits)
    then show ?thesis using Cons.IH Cons.prems(2,3) by simp
  next
    case True
    obtain o1 q1 where a: "add q x = (o1, q1)" by (cases "add q x")
    with True Cons.prems(1) obtain y us where y: "o1 = Some y" "cascade add P y qs = (Some r, us)"
      by (auto split: option.splits prod.splits)
    have "y = x \<or> y \<in> set (items q)" using add_returned [of q x y] a y(1) by simp
    then have "T y" using Cons.prems(2,3) True by auto
    then show ?thesis using Cons.IH [OF y(2)] Cons.prems(3) by simp
  qed
qed

end

section \<open>The invariant of a slot\<close>

definition slotInv :: "Slot \<Rightarrow> bool" where
  "slotInv s \<longleftrightarrow>
    sorted (map (\<lambda>b. - sb_priorityScore b) (sl_bundles s)) \<and>
    sl_currentWeight s = sum_list (map sb_weight (sl_bundles s))"

definition slotChannelOk :: "Slot \<Rightarrow> bool" where
  "slotChannelOk s \<longleftrightarrow> (\<forall>b\<in>set (sl_bundles s). sb_channelContractId b = sl_channelContractId s)"

lemma calculateSlotWeight_sum: "calculateSlotWeight bs = sum_list (map sb_weight bs)"
  by (simp add: calculateSlotWeight_def foldl_sum)

lemma set_sortByPriority [simp]: "set (sortByPriority bs) = set bs"
  by (simp add: sortByPriority_def)

lemma sortByPriority_Nil [simp]: "sortByPriority bs = [] \<longleftrightarrow> bs = []"
  by (metis set_empty set_sortByPriority)

lemma mset_sortByPriority [simp]: "mset (sortByPriority bs) = mset bs"
  by (simp add: sortByPriority_def)

lemma sorted_sortByPriority [simp]:
  "sorted (map (\<lambda>b. - sb_priorityScore b) (sortByPriority bs))"
  by (simp add: sortByPriority_def)

lemma weight_sortByPriority [simp]:
  "sum_list (map sb_weight (sortByPriority bs)) = sum_list (map sb_weight bs)"
  by (simp add: sortByPriority_def sum_list_sort_key)

lemma fold_lowest:
  fixes bs :: "SlotBundle list"
  defines "step \<equiv> \<lambda>lowest current :: SlotBundle.
    if sb_priorityScore current < sb_priorityScore lowest then current else lowest"
  shows "foldl step b bs \<in> set (b # bs) \<and>
    (\<forall>x\<in>set (b # bs). sb_priorityScore (foldl step b bs) \<le> sb_priorityScore x)"
proof (induction bs arbitrary: b)
  case Nil
  then show ?case by simp
next
  case (Cons c bs)
  have "foldl step b (c # bs) = foldl step (step b c) bs" by simp
  moreover have "step b c = b \<or> step b c = c" by (simp add: step_def)
  moreover have "sb_priorityScore (step b c) \<le> sb_priorityScore b"
    "sb_priorityScore (step b c) \<le> sb_priorityScore c"
    by (simp_all add: step_def)
  ultimately show ?case
    using Cons.IH [of "step b c"] by auto
qed

lemma findLowestPriorityBundle_None:
  "findLowestPriorityBundle s = None \<longleftrightarrow> sl_bundles s = []"
  by (simp add: findLowestPriorityBundle_def split: list.splits)

lemma findLowestPriorityBundle_Some:
  assumes "findLowestPriorityBundle s = Some l"
  shows "l \<in> set (sl_bundles s)"
    and "\<forall>x\<in>set (sl_bundles s). sb_priorityScore l \<le> sb_priorityScore x"
  using assms fold_lowest by (auto simp: findLowestPriorityBundle_def split: list.splits)

lemma Slot_add_cases:
  obtains (direct) "sl_currentWeight s + sb_weight b \<le> sl_capacity s"
      "Slot_add s b = (None, s\<lparr>sl_bundles := sortByPriority (sl_bundles s @ [b]),
         sl_currentWeight := sl_currentWeight s + sb_weight b\<rparr>)"
  | (replaced) l where "\<not> sl_currentWeight s + sb_weight b \<le> sl_capacity s"
      "findLowestPriorityBundle s = Some l" "sb_priorityScore l < sb_priorityScore b"
      "Slot_add s b = (Some l, s\<lparr>sl_bundles := sortByPriority (remove1 l (sl_bundles s) @ [b]),
         sl_currentWeight := sl_currentWeight s - sb_weight l + sb_weight b\<rparr>)"
  | (rejected) "\<not> sl_currentWeight s + sb_weight b \<le> sl_capacity s"
      "\<forall>x\<in>set (sl_bundles s). sb_priorityScore b \<le> sb_priorityScore x"
      "Slot_add s b = (Some b, s)"
proof (cases "sl_currentWeight s + sb_weight b \<le> sl_capacity s")
  case True
  then show ?thesis using direct by (simp add: Slot_add_def)
next
  case False
  show ?thesis
  proof (cases "findLowestPriorityBundle s")
    case None
    then have "sl_bundles s = []" by (simp add: findLowestPriorityBundle_None)
    with False None rejected show ?thesis by (simp add: Slot_add_def)
  next
    case (Some l)
    note low = findLowestPriorityBundle_Some [OF Some]
    show ?thesis
    proof (cases "sb_priorityScore l < sb_priorityScore b")
      case True
      with False Some show ?thesis using replaced by (simp add: Slot_add_def)
    next
      case notless: False
      then have "\<forall>x\<in>set (sl_bundles s). sb_priorityScore b \<le> sb_priorityScore x"
        using low(2) by force
      with False Some notless show ?thesis using rejected by (simp add: Slot_add_def)
    qed
  qed
qed

lemma Slot_add_slotInv: "slotInv s \<Longrightarrow> slotInv (snd (Slot_add s b))"
  by (cases rule: Slot_add_cases [of s b])
    (auto simp: slotInv_def sum_list_remove1 findLowestPriorityBundle_Some(1))

lemma Slot_add_mset:
  "mset (sl_bundles (snd (Slot_add s b))) + mset_option (fst (Slot_add s b)) =
    add_mset b (mset (sl_bundles s))"
  by (cases rule: Slot_add_cases [of s b])
    (auto simp: findLowestPriorityBundle_Some(1))

lemma Slot_add_lowest:
  assumes "fst (Slot_add s b) = Some r" and "y \<in> set (sl_bundles (snd (Slot_add s b)))"
  shows "sb_priorityScore r \<le> sb_priorityScore y"
proof (cases rule: Slot_add_cases [of s b])
  case direct
  with assms show ?thesis by simp
next
  case (replaced l)
  then have "r = l" "y = b \<or> y \<in> set (sl_bundles s)"
    using assms by (auto dest: notin_set_remove1)
  then show ?thesis
    using replaced findLowestPriorityBundle_Some(2) [OF replaced(2)] by auto
next
  case rejected
  with assms show ?thesis by auto
qed

lemma Slot_add_frame [simp]:
  "sl_channelContractId (snd (Slot_add s b)) = sl_channelContractId s"
  "sl_capacity (snd (Slot_add s b)) = sl_capacity s"
  by (cases rule: Slot_add_cases [of s b]; simp)+

interpretation slot: priority_container Slot_add sl_bundles sb_priorityScore
    sl_channelContractId slotInv
  by unfold_locales (simp_all add: Slot_add_slotInv Slot_add_mset Slot_add_lowest)

lemma slotInv_newSlot [simp]: "slotInv (newSlot c ch)"
  by (simp add: slotInv_def newSlot_def)

lemma newSlot_simps [simp]:
  "sl_bundles (newSlot c ch) = []" "sl_channelContractId (newSlot c ch) = ch"
  "sl_capacity (newSlot c ch) = c" "sl_currentWeight (newSlot c ch) = 0"
  by (simp_all add: newSlot_def)

lemma Slot_removeFirst_slotInv: "slotInv s \<Longrightarrow> slotInv (snd (Slot_removeFirst s))"
  by (auto simp: slotInv_def Slot_removeFirst_def split: list.splits)

lemma Slot_removeBundle_slotInv: "slotInv s \<Longrightarrow> slotInv (snd (Slot_removeBundle s i))"
proof -
  assume inv: "slotInv s"
  show ?thesis
  proof (cases "removeFirstBy (\<lambda>b. sb_bundleId b = i) (sl_bundles s)")
    case None
    with inv show ?thesis by (simp add: Slot_removeBundle_def)
  next
    case (Some p)
    obtain b bs where p: "p = (b, bs)" by (cases p)
    have "mset (sl_bundles s) = add_mset b (mset bs)"
      using removeFirstBy_Some [of _ _ b bs] Some p by blast
    then have "sum_list (map sb_weight (sl_bundles s)) = sb_weight b + sum_list (map sb_weight bs)"
      by (metis (no_types, lifting) image_mset_add_mset mset_map sum_mset.add_mset sum_mset_sum_list)
    moreover have "sorted (map (\<lambda>b. - sb_priorityScore b) bs)"
      using removeFirstBy_sorted_key [OF Some [unfolded p], of "\<lambda>b. - sb_priorityScore b"] inv by (simp add: slotInv_def)
    ultimately show ?thesis
      using inv Some p by (simp add: slotInv_def Slot_removeBundle_def)
  qed
qed

lemma Slot_removeBundle_bundles:
  "sl_bundles (snd (Slot_removeBundle s i)) =
    (case removeFirstBy (\<lambda>b. sb_bundleId b = i) (sl_bundles s) of
       None \<Rightarrow> sl_bundles s | Some (b, bs) \<Rightarrow> bs)"
  by (auto simp: Slot_removeBundle_def split: option.splits)

lemma Slot_removeBundle_frame [simp]:
  "sl_channelContractId (snd (Slot_removeBundle s i)) = sl_channelContractId s"
  "sl_capacity (snd (Slot_removeBundle s i)) = sl_capacity s"
  by (auto simp: Slot_removeBundle_def split: option.splits)

lemma Slot_removeAll_slotInv: "slotInv s \<Longrightarrow> slotInv (Slot_removeAll s ids)"
  by (induction ids arbitrary: s) (auto simp: Slot_removeBundle_slotInv)

lemma Slot_removeAll_frame [simp]:
  "sl_channelContractId (Slot_removeAll s ids) = sl_channelContractId s"
  "sl_capacity (Slot_removeAll s ids) = sl_capacity s"
  by (induction ids arbitrary: s) simp_all

section \<open>Properties\<close>

text \<open>A closed slot for the witnesses: capacity 10, two bundles of weight 4.\<close>

definition sampleBundle :: "string \<Rightarrow> rat \<Rightarrow> int \<Rightarrow> SlotBundle" where
  "sampleBundle i prio weight = \<lparr>sb_bundleId = i, sb_channelContractId = ''C1'', sb_operationsMLXDR = [],
     sb_operations = \<lparr>cl_create = [], cl_spend = [], cl_deposit = [], cl_withdraw = []\<rparr>, sb_fee = 1,
     sb_weight = weight, sb_ttl = 0, sb_createdAt = 0, sb_priorityScore = prio, sb_retryCount = 0,
     sb_lastFailureReason = None, sb_ppPublicKey = ''P1'', sb_entityName = None, sb_jurisdictions = [],
     sb_amount = None\<rparr>"

definition sampleSlot :: Slot where
  "sampleSlot = \<lparr>sl_bundles = [sampleBundle ''b2'' 2 4, sampleBundle ''b1'' 1 4], sl_currentWeight = 8,
     sl_capacity = 10, sl_channelContractId = ''C1''\<rparr>"



text \<open>The representation invariant of a slot: its bundles are ordered by falling priority and its
  running weight is the sum of their weights.  Adding, taking the first and removing by id keep it.\<close>

theorem slot_invariant:
  assumes "slotInv s"
  shows "slotInv (snd (Slot_add s b)) \<and> slotInv (snd (Slot_removeFirst s)) \<and>
    slotInv (snd (Slot_removeBundle s i))"
  by (simp add: assms Slot_add_slotInv Slot_removeFirst_slotInv Slot_removeBundle_slotInv)

theorem slot_invariant_witness:
  "slotInv sampleSlot \<and> slotInv (snd (Slot_add sampleSlot (sampleBundle ''b3'' 3 4)))"
proof -
  have "slotInv sampleSlot" by (simp add: slotInv_def sampleSlot_def sampleBundle_def)
  with slot_invariant [of sampleSlot "sampleBundle ''b3'' 3 4"] show ?thesis by simp
qed

text \<open>A slot within its capacity stays within it unless the newcomer is heavier than the bundle it
  displaces.\<close>

theorem slot_capacity:
  assumes "sl_currentWeight s \<le> sl_capacity s"
    and "\<forall>l\<in>set (sl_bundles s). fst (Slot_add s b) = Some l \<longrightarrow> sb_weight b \<le> sb_weight l"
  shows "sl_currentWeight (snd (Slot_add s b)) \<le> sl_capacity (snd (Slot_add s b))"
proof (cases rule: Slot_add_cases [of s b])
  case direct
  then show ?thesis by simp
next
  case (replaced l)
  then have "sb_weight b \<le> sb_weight l" using assms(2) findLowestPriorityBundle_Some(1) by fastforce
  with replaced assms(1) show ?thesis by simp
next
  case rejected
  with assms(1) show ?thesis by simp
qed

theorem slot_capacity_witness:
  "sl_currentWeight (snd (Slot_add sampleSlot (sampleBundle ''b3'' 3 4))) \<le> 10"
  using slot_capacity [of sampleSlot "sampleBundle ''b3'' 3 4"]
  by (simp add: sampleSlot_def sampleBundle_def)

text \<open>The condition is not idle: \<^verbatim>\<open>Slot.add\<close> replaces the bundle of lowest priority without looking
  at the capacity again, and a slot of capacity 10 ends with a weight of 13.\<close>

theorem slot_overflow:
  "sl_currentWeight sampleSlot \<le> sl_capacity sampleSlot \<and>
   sl_currentWeight (snd (Slot_add sampleSlot (sampleBundle ''b3'' 3 9))) = 13 \<and>
   sl_capacity (snd (Slot_add sampleSlot (sampleBundle ''b3'' 3 9))) = 10"
  by (simp add: Slot_add_def findLowestPriorityBundle_def sampleSlot_def sampleBundle_def)

end
