(* ===== verification/Registry.thy ===== *)
theory Registry
  imports Slots
begin

text \<open>
  The in-memory registry of channels, \<^verbatim>\<open>core/service/event-watcher/channel-registry.ts\<close>, and the
  reconciliation with a council's public state (\<^verbatim>\<open>channel-convergence.ts\<close>).  The JavaScript \<^verbatim>\<open>Map\<close> of
  records is an association list in insertion order, the \<^verbatim>\<open>Set\<close> of configured channels a list without
  repetitions.  The registry decides whether a channel is in withdraw-only mode; the contract of that
  decision is the locale \<open>channel_gate\<close>.
\<close>

section \<open>Data\<close>

datatype ChannelState = CS_active | CS_pending | CS_inactive | CS_disabled

record ChannelRecord =
  ch_contractId :: string
  ch_state :: ChannelState
  ch_registeredAtLedger :: int
  ch_removedAtLedger :: "int option"

text \<open>The last constructor is a name that every JavaScript object inherits: \<^verbatim>\<open>in\<close> finds it in the table of
  known topics.\<close>

datatype ChannelAuthEventType =
    contract_initialized | provider_added | provider_removed | channel_state_changed
  | inherited_name string

record ChannelAuthEvent =
  ev_type :: ChannelAuthEventType
  ev_address :: string
  ev_ledger :: int
  ev_contractId :: string
  ev_channel :: "string option"
  ev_asset :: "string option"
  ev_enabled :: "bool option"

record ChannelRegistry =
  cr_channels :: "(string \<times> ChannelRecord) list"
  cr_configured :: "string list"

section \<open>Maps and sets of JavaScript\<close>

fun mapSet :: "('k \<times> 'v) list \<Rightarrow> 'k \<Rightarrow> 'v \<Rightarrow> ('k \<times> 'v) list" where
  "mapSet [] k v = [(k, v)]"
| "mapSet ((k', v') # kvs) k v = (if k' = k then (k, v) # kvs else (k', v') # mapSet kvs k v)"

definition setAdd :: "'a list \<Rightarrow> 'a \<Rightarrow> 'a list" where
  "setAdd xs x = (if x \<in> set xs then xs else xs @ [x])"

definition setDelete :: "'a list \<Rightarrow> 'a \<Rightarrow> 'a list" where
  "setDelete xs x = filter (\<lambda>y. y \<noteq> x) xs"

lemma map_of_mapSet [simp]: "map_of (mapSet kvs k v) = (map_of kvs)(k \<mapsto> v)"
  by (induction kvs) auto

lemma set_setAdd [simp]: "set (setAdd xs x) = insert x (set xs)"
  by (auto simp: setAdd_def)

lemma distinct_setAdd [simp]: "distinct xs \<Longrightarrow> distinct (setAdd xs x)"
  by (simp add: setAdd_def)

lemma keys_mapSet [simp]: "map fst (mapSet kvs k v) = setAdd (map fst kvs) k"
  by (induction kvs k v rule: mapSet.induct) (auto simp: setAdd_def)

lemma set_setDelete [simp]: "set (setDelete xs x) = set xs - {x}"
  by (auto simp: setDelete_def)

lemma distinct_setDelete [simp]: "distinct xs \<Longrightarrow> distinct (setDelete xs x)"
  by (simp add: setDelete_def)

section \<open>Operations\<close>

definition newChannelRegistry :: "string list \<Rightarrow> ChannelRegistry" where
  "newChannelRegistry configuredChannelIds =
    \<lparr>cr_channels = [], cr_configured = foldl setAdd [] configuredChannelIds\<rparr>"

definition registry_get :: "ChannelRegistry \<Rightarrow> string \<Rightarrow> ChannelRecord option" where
  "registry_get r contractId = map_of (cr_channels r) contractId"

definition setRecord :: "ChannelRegistry \<Rightarrow> string \<Rightarrow> ChannelRecord \<Rightarrow> ChannelRegistry" where
  "setRecord r contractId rec = r\<lparr>cr_channels := mapSet (cr_channels r) contractId rec\<rparr>"

definition addChannel :: "ChannelRegistry \<Rightarrow> string \<Rightarrow> ChannelRegistry" where
  "addChannel r contractId =
    (let r' = r\<lparr>cr_configured := setAdd (cr_configured r) contractId\<rparr> in
     if registry_get r' contractId = None
     then setRecord r' contractId \<lparr>ch_contractId = contractId, ch_state = CS_active,
            ch_registeredAtLedger = 0, ch_removedAtLedger = None\<rparr>
     else r')"

definition applyChannelState :: "ChannelRegistry \<Rightarrow> string \<Rightarrow> bool \<Rightarrow> int \<Rightarrow> ChannelRegistry" where
  "applyChannelState r channelContractId enabled ledger =
    (let nextState = (if enabled then CS_active else CS_disabled) in
     case registry_get r channelContractId of
       Some existing \<Rightarrow>
         if ch_state existing = nextState then r
         else setRecord r channelContractId \<lparr>ch_contractId = channelContractId, ch_state = nextState,
                ch_registeredAtLedger = ch_registeredAtLedger existing,
                ch_removedAtLedger = ch_removedAtLedger existing\<rparr>
     | None \<Rightarrow>
         setRecord r channelContractId \<lparr>ch_contractId = channelContractId, ch_state = nextState,
           ch_registeredAtLedger = ledger, ch_removedAtLedger = None\<rparr>)"

definition isDisabled :: "ChannelRegistry \<Rightarrow> string \<Rightarrow> bool" where
  "isDisabled r channelContractId \<longleftrightarrow>
    map_option ch_state (registry_get r channelContractId) = Some CS_disabled"

definition onProviderAdded :: "ChannelRegistry \<Rightarrow> ChannelAuthEvent \<Rightarrow> ChannelRegistry" where
  "onProviderAdded r event =
    (let isConfigured = (ev_contractId event \<in> set (cr_configured r)) in
     setRecord r (ev_contractId event) \<lparr>ch_contractId = ev_contractId event,
       ch_state = (if isConfigured then CS_active else CS_pending),
       ch_registeredAtLedger = ev_ledger event, ch_removedAtLedger = None\<rparr>)"

definition onProviderRemoved :: "ChannelRegistry \<Rightarrow> ChannelAuthEvent \<Rightarrow> ChannelRegistry" where
  "onProviderRemoved r event =
    (case registry_get r (ev_contractId event) of
       Some existing \<Rightarrow> setRecord r (ev_contractId event)
         (existing\<lparr>ch_state := CS_inactive, ch_removedAtLedger := Some (ev_ledger event)\<rparr>)
     | None \<Rightarrow> setRecord r (ev_contractId event) \<lparr>ch_contractId = ev_contractId event,
         ch_state = CS_inactive, ch_registeredAtLedger = 0,
         ch_removedAtLedger = Some (ev_ledger event)\<rparr>)"

fun handleEventBy :: "ChannelAuthEventType \<Rightarrow> ChannelRegistry \<Rightarrow> ChannelAuthEvent \<Rightarrow> ChannelRegistry" where
  "handleEventBy provider_added r event = onProviderAdded r event"
| "handleEventBy provider_removed r event = onProviderRemoved r event"
| "handleEventBy channel_state_changed r event =
    applyChannelState r (case ev_channel event of Some c \<Rightarrow> c | None \<Rightarrow> ev_address event)
      (case ev_enabled event of Some b \<Rightarrow> b | None \<Rightarrow> True) (ev_ledger event)"
| "handleEventBy contract_initialized r event = r"
| "handleEventBy (inherited_name n) r event = r"

definition handleEvent :: "ChannelRegistry \<Rightarrow> ChannelAuthEvent \<Rightarrow> ChannelRegistry" where
  "handleEvent r event = handleEventBy (ev_type event) r event"

definition getAll :: "ChannelRegistry \<Rightarrow> ChannelRecord list" where
  "getAll r = map snd (cr_channels r)"

definition getByState :: "ChannelRegistry \<Rightarrow> ChannelState \<Rightarrow> ChannelRecord list" where
  "getByState r state = filter (\<lambda>c. ch_state c = state) (getAll r)"

definition activateChannel :: "ChannelRegistry \<Rightarrow> string \<Rightarrow> ChannelRegistry" where
  "activateChannel r contractId =
    (let r' = r\<lparr>cr_configured := setAdd (cr_configured r) contractId\<rparr> in
     case registry_get r' contractId of
       Some channel \<Rightarrow>
         if ch_state channel = CS_pending
         then setRecord r' contractId (channel\<lparr>ch_state := CS_active\<rparr>) else r'
     | None \<Rightarrow> r')"

definition deactivateChannel :: "ChannelRegistry \<Rightarrow> string \<Rightarrow> ChannelRegistry" where
  "deactivateChannel r contractId =
    (let r' = r\<lparr>cr_configured := setDelete (cr_configured r) contractId\<rparr> in
     case registry_get r' contractId of
       Some channel \<Rightarrow>
         if ch_state channel = CS_active
         then setRecord r' contractId (channel\<lparr>ch_state := CS_pending\<rparr>) else r'
     | None \<Rightarrow> r')"

section \<open>Reconciliation with the council\<close>

record CouncilChannelStatus =
  cs_channelContractId :: "string option"
  cs_status :: "string option"

record CouncilConfigData =
  cd_name :: "string option"
  cd_channelAuthId :: "string option"
  cd_channels :: "CouncilChannelStatus list option"

definition channelStatuses :: "CouncilConfigData \<Rightarrow> (string \<times> bool) list" where
  "channelStatuses data =
    [(i, cs_status ch \<noteq> Some ''disabled'').
      ch \<leftarrow> (case cd_channels data of None \<Rightarrow> [] | Some chs \<Rightarrow> chs),
      Some i \<leftarrow> [cs_channelContractId ch], i \<noteq> []]"

definition reconcileChannelStatuses :: "ChannelRegistry \<Rightarrow> CouncilConfigData \<Rightarrow> ChannelRegistry" where
  "reconcileChannelStatuses registry data =
    foldl (\<lambda>r (i, enabled). applyChannelState r i enabled 0) registry (channelStatuses data)"

section \<open>The contract of the gate\<close>

text \<open>Whatever keeps the decisions, the last one applied to a channel holds, and no other channel is
  concerned.\<close>

locale channel_gate =
  fixes decide :: "'r \<Rightarrow> string \<Rightarrow> bool \<Rightarrow> 'l \<Rightarrow> 'r" and off :: "'r \<Rightarrow> string \<Rightarrow> bool"
  assumes off_decide: "off (decide r c enabled l) d = (if d = c then \<not> enabled else off r d)"
begin

lemma off_decisions:
  "off (foldl (\<lambda>r (i, enabled). decide r i enabled l) r ds) d =
    (case map_of (rev ds) d of None \<Rightarrow> off r d | Some enabled \<Rightarrow> \<not> enabled)"
proof (induction ds arbitrary: r)
  case (Cons x ds)
  obtain i b where x: "x = (i, b)" by (cases x)
  have "off (foldl (\<lambda>r (i, enabled). decide r i enabled l) (decide r i b l) ds) d =
      (case map_of (rev ds) d of None \<Rightarrow> off (decide r i b l) d | Some enabled \<Rightarrow> \<not> enabled)"
    by (rule Cons.IH)
  then show ?case by (auto simp: x off_decide map_add_def split: option.split)
qed simp

lemma decide_idempotent: "off (decide (decide r c b l) c b l') = off (decide r c b l)"
  by (rule ext) (simp add: off_decide)

end

lemma registry_get_setRecord [simp]:
  "registry_get (setRecord r c rec) d = (if d = c then Some rec else registry_get r d)"
  by (simp add: registry_get_def setRecord_def)

lemma registry_get_configured [simp]: "registry_get (r\<lparr>cr_configured := xs\<rparr>) d = registry_get r d"
  by (simp add: registry_get_def)

interpretation registry_gate: channel_gate applyChannelState isDisabled
  by unfold_locales (simp add: isDisabled_def applyChannelState_def Let_def split: option.split)

section \<open>The invariant\<close>

definition registryInv :: "ChannelRegistry \<Rightarrow> bool" where
  "registryInv r \<longleftrightarrow> distinct (map fst (cr_channels r)) \<and> distinct (cr_configured r) \<and>
    (\<forall>(c, rec)\<in>set (cr_channels r). ch_contractId rec = c)"

lemma set_mapSet_sub: "set (mapSet kvs k v) \<subseteq> insert (k, v) (set kvs)"
  by (induction kvs k v rule: mapSet.induct) auto

lemma registryInv_setRecord [simp]:
  "registryInv r \<Longrightarrow> ch_contractId rec = c \<Longrightarrow> registryInv (setRecord r c rec)"
  using set_mapSet_sub [of "cr_channels r" c rec]
  by (auto simp: registryInv_def setRecord_def simp del: map_of_mapSet)

lemma registryInv_configured [simp]:
  "registryInv r \<Longrightarrow> distinct xs \<Longrightarrow> registryInv (r\<lparr>cr_configured := xs\<rparr>)"
  by (simp add: registryInv_def)

lemma registryInv_get: "registryInv r \<Longrightarrow> registry_get r c = Some rec \<Longrightarrow> ch_contractId rec = c"
  by (auto simp: registryInv_def registry_get_def dest!: map_of_SomeD)

lemma registryInv_new: "registryInv (newChannelRegistry cs)"
proof -
  have "distinct (foldl setAdd xs cs)" if "distinct xs" for xs :: "string list"
    using that by (induction cs arbitrary: xs) simp_all
  then show ?thesis by (simp add: registryInv_def newChannelRegistry_def)
qed

lemma registryInv_ops:
  assumes "registryInv r"
  shows "registryInv (addChannel r c)" "registryInv (applyChannelState r c b l)"
    "registryInv (onProviderAdded r e)" "registryInv (onProviderRemoved r e)"
    "registryInv (activateChannel r c)" "registryInv (deactivateChannel r c)"
proof -
  have d: "distinct (cr_configured r)" using assms by (simp add: registryInv_def)
  show "registryInv (addChannel r c)" "registryInv (applyChannelState r c b l)"
    "registryInv (onProviderAdded r e)"
    using assms d by (auto simp: addChannel_def applyChannelState_def onProviderAdded_def Let_def
        split: option.split)
  show "registryInv (onProviderRemoved r e)" "registryInv (activateChannel r c)"
    "registryInv (deactivateChannel r c)"
    using assms d registryInv_get [OF assms]
    by (auto simp: onProviderRemoved_def activateChannel_def deactivateChannel_def Let_def
        split: option.split)
qed

lemma registryInv_handleEvent: "registryInv r \<Longrightarrow> registryInv (handleEvent r e)"
  by (cases "ev_type e") (simp_all add: handleEvent_def registryInv_ops)

lemma registryInv_reconcile: "registryInv r \<Longrightarrow> registryInv (reconcileChannelStatuses r data)"
proof -
  have "registryInv (foldl (\<lambda>r (i, enabled). applyChannelState r i enabled 0) r ds)" if "registryInv r" for ds
    using that by (induction ds arbitrary: r) (auto simp: registryInv_ops)
  then show "registryInv r \<Longrightarrow> registryInv (reconcileChannelStatuses r data)"
    by (simp add: reconcileChannelStatuses_def)
qed

section \<open>Properties\<close>

text \<open>The withdraw-only gate follows the council.  After a reconciliation a channel the council lists
  is disabled exactly when its last entry says so, and a channel it does not list keeps its mode.\<close>

theorem reconciliation_follows_council:
  "isDisabled (reconcileChannelStatuses r data) c =
    (case map_of (rev (channelStatuses data)) c of None \<Rightarrow> isDisabled r c | Some enabled \<Rightarrow> \<not> enabled)"
  unfolding reconcileChannelStatuses_def by (rule registry_gate.off_decisions)

end
