(* ===== verification/Errors.thy ===== *)
theory Errors
  imports Crypto
begin

text \<open>
  The error classes of the services: what every subclass of \<^verbatim>\<open>PlatformError\<close> (\<^verbatim>\<open>error/index.ts\<close>) passes to its
  constructor.  A class is a function of the arguments that appear in its texts; \<^verbatim>\<open>meta\<close> and \<^verbatim>\<open>baseError\<close> are kept
  for logs only and are left out.
\<close>

section \<open>The shape of an error\<close>

record APIDetails =
  ad_status :: nat
  ad_message :: string
  ad_details :: "string option"

record PlatformErrorShape =
  e_source :: string
  e_code :: string
  e_message :: string
  e_details :: "string option"
  e_api :: "APIDetails option"

record ApiError =
  api_code :: string
  api_status :: nat
  api_message :: string
  api_details :: "string option"

definition getAPIError :: "PlatformErrorShape \<Rightarrow> ApiError" where
  "getAPIError e =
    (case e_api e of
       Some api \<Rightarrow> \<lparr>api_code = e_code e, api_status = ad_status api, api_message = ad_message api,
         api_details = ad_details api\<rparr>
     | None \<Rightarrow> \<lparr>api_code = e_code e, api_status = 500, api_message = ''Internal server error.'',
         api_details = Some ''Contact your provider and share the details of this error.''\<rparr>)"

record InsufficientFeesDetail =
  ifd_feePayerPubkey :: string
  ifd_availableXlm :: string
  ifd_requiredXlm :: string
  ifd_shortfallXlm :: string

text \<open>The issues of a schema, one line each: the path and the message.\<close>

definition issueLines :: "(string list \<times> string) list \<Rightarrow> string" where
  "issueLines issues =
    joinWith [CHR 0x0A] (map (\<lambda>(path, message). ''- ['' @ joinWith ''.'' path @ ''] '' @ message) issues)"

section \<open>Bundle errors\<close>

definition Err_PP_PUBLIC_KEY_REQUIRED :: "PlatformErrorShape" where
  "Err_PP_PUBLIC_KEY_REQUIRED =
    \<lparr>e_source = ''@service/bundle'', e_code = ''BND_012'', e_message = ''PP public key is required'',
     e_details = Some (''Bundle submission requires the route /providers/:ppPublicKey/entity/bundles. No default PP exists.''),
     e_api = Some \<lparr>ad_status = 400, ad_message = ''PP public key is required'',
        ad_details = Some (''Submit the bundle to /api/v1/providers/<ppPublicKey>/entity/bundles. The PP must be specified explicitly.'')\<rparr>\<rparr>"

definition Err_PP_NOT_FOUND :: "string \<Rightarrow> PlatformErrorShape" where
  "Err_PP_NOT_FOUND ppPublicKey =
    \<lparr>e_source = ''@service/bundle'', e_code = ''BND_013'', e_message = ''PP not found'',
     e_details = Some (''No active Privacy Provider was found with public key '' @ [CHR 0x27] @ ppPublicKey @ [CHR 0x27] @ ''.''),
     e_api = Some \<lparr>ad_status = 404, ad_message = ''PP not found'',
        ad_details = Some (''The PP '' @ [CHR 0x27] @ ppPublicKey @ [CHR 0x27] @ '' does not exist or isn'' @ [CHR 0x27] @ ''t active on this provider-platform.'')\<rparr>\<rparr>"

definition Err_PP_NOT_MEMBER_OF_CHANNEL :: "string \<Rightarrow> string \<Rightarrow> PlatformErrorShape" where
  "Err_PP_NOT_MEMBER_OF_CHANNEL ppPublicKey channelContractId =
    \<lparr>e_source = ''@service/bundle'', e_code = ''BND_014'', e_message = ''PP is not a member of the channel'',
     e_details = Some (''PP '' @ [CHR 0x27] @ ppPublicKey @ [CHR 0x27] @ '' has no active membership that includes channel '' @ [CHR 0x27] @ channelContractId @ [CHR 0x27] @ ''.''),
     e_api = Some \<lparr>ad_status = 403, ad_message = ''PP is not a member of the channel'',
        ad_details = Some (''The addressed Privacy Provider is not authorized to process bundles for this channel.'')\<rparr>\<rparr>"

definition Err_CHANNEL_DISABLED :: "string \<Rightarrow> PlatformErrorShape" where
  "Err_CHANNEL_DISABLED channelContractId =
    \<lparr>e_source = ''@service/bundle'', e_code = ''BND_015'', e_message = ''Channel is disabled (withdraw-only)'',
     e_details = Some (''Channel '' @ [CHR 0x27] @ channelContractId @ [CHR 0x27] @ '' has been disabled by its council. Only withdrawals are accepted; new deposits and sends are rejected until it is re-enabled.''),
     e_api = Some \<lparr>ad_status = 403, ad_message = ''Channel is disabled (withdraw-only)'',
        ad_details = Some (''This channel has been disabled by its council. You can still withdraw existing funds, but new deposits and sends are not accepted until the council re-enables it.'')\<rparr>\<rparr>"

definition Err_CHANNEL_RPC_UNAVAILABLE :: "string \<Rightarrow> PlatformErrorShape" where
  "Err_CHANNEL_RPC_UNAVAILABLE channelContractId =
    \<lparr>e_source = ''@service/bundle'', e_code = ''BND_016'', e_message = ''Channel network is temporarily unavailable'',
     e_details = Some (''An on-chain read for channel '' @ [CHR 0x27] @ channelContractId @ [CHR 0x27] @ '' did not respond in time.''),
     e_api = Some \<lparr>ad_status = 503, ad_message = ''Channel network is temporarily unavailable'',
        ad_details = Some (''The network could not be reached to process your bundle right now. Please try again shortly.'')\<rparr>\<rparr>"

definition Err_SUBMITTER_NOT_APPROVED :: "string \<Rightarrow> PlatformErrorShape" where
  "Err_SUBMITTER_NOT_APPROVED pubkey =
    \<lparr>e_source = ''@service/bundle'', e_code = ''BND_011'', e_message = ''Submitter not approved'',
     e_details = Some (''No APPROVED entity record exists for the submitter pubkey '' @ [CHR 0x27] @ pubkey @ [CHR 0x27] @ ''. Submit KYC/KYB info via POST /api/v1/entities first.''),
     e_api = Some \<lparr>ad_status = 403, ad_message = ''Submitter not approved'',
        ad_details = Some (''The submitter has not completed KYC/KYB. POST your entity info to /api/v1/entities before submitting bundles.'')\<rparr>\<rparr>"

definition Err_INVALID_SESSION :: "string \<Rightarrow> PlatformErrorShape" where
  "Err_INVALID_SESSION sessionId =
    \<lparr>e_source = ''@service/bundle'', e_code = ''BND_001'', e_message = ''Invalid session'',
     e_details = Some (''The session with ID '' @ [CHR 0x27] @ sessionId @ [CHR 0x27] @ '' was not found or is invalid.''),
     e_api = Some \<lparr>ad_status = 401, ad_message = ''Invalid session'',
        ad_details = Some (''The provided session is invalid or has expired. Please authenticate again.'')\<rparr>\<rparr>"

definition Err_BUNDLE_NOT_FOUND_bundle :: "string \<Rightarrow> PlatformErrorShape" where
  "Err_BUNDLE_NOT_FOUND_bundle bundleId =
    \<lparr>e_source = ''@service/bundle'', e_code = ''BND_008'', e_message = ''Bundle not found'',
     e_details = Some (''The bundle with ID '' @ [CHR 0x27] @ bundleId @ [CHR 0x27] @ '' was not found.''),
     e_api = Some \<lparr>ad_status = 404, ad_message = ''Bundle not found'',
        ad_details = Some (''The bundle with ID '' @ [CHR 0x27] @ bundleId @ [CHR 0x27] @ '' was not found.'')\<rparr>\<rparr>"

definition Err_BUNDLE_ACCESS_FORBIDDEN :: "string \<Rightarrow> string \<Rightarrow> PlatformErrorShape" where
  "Err_BUNDLE_ACCESS_FORBIDDEN bundleId accountId =
    \<lparr>e_source = ''@service/bundle'', e_code = ''BND_009'', e_message = ''Bundle access forbidden'',
     e_details = Some (''The account '' @ [CHR 0x27] @ accountId @ [CHR 0x27] @ '' is not allowed to access bundle '' @ [CHR 0x27] @ bundleId @ [CHR 0x27] @ ''.''),
     e_api = Some \<lparr>ad_status = 403, ad_message = ''Bundle access forbidden'',
        ad_details = Some (''You are not allowed to access this bundle. Only the creator can retrieve it.'')\<rparr>\<rparr>"

definition Err_BUNDLE_ALREADY_EXISTS :: "string \<Rightarrow> PlatformErrorShape" where
  "Err_BUNDLE_ALREADY_EXISTS bundleId =
    \<lparr>e_source = ''@service/bundle'', e_code = ''BND_002'', e_message = ''Bundle already exists'',
     e_details = Some (''A bundle with ID '' @ [CHR 0x27] @ bundleId @ [CHR 0x27] @ '' already exists in PENDING or COMPLETED status.''),
     e_api = Some \<lparr>ad_status = 409, ad_message = ''Bundle already exists'',
        ad_details = Some (''An operations bundle with the same ID is already being processed or has already been completed. Please wait for it to complete or use a different set of operations.'')\<rparr>\<rparr>"

definition Err_SPEND_OPERATION_NOT_SIGNED :: "PlatformErrorShape" where
  "Err_SPEND_OPERATION_NOT_SIGNED =
    \<lparr>e_source = ''@service/bundle'', e_code = ''BND_006'', e_message = ''Spend operation not signed'',
     e_details = Some (''A spend operation must be signed by the UTXO owner.''),
     e_api = Some \<lparr>ad_status = 400, ad_message = ''Spend operation not signed'',
        ad_details = Some (''All spend operations must be signed by the UTXO owner. Please ensure the operation includes the required signature.'')\<rparr>\<rparr>"

definition Err_UTXO_NOT_FOUND :: "string \<Rightarrow> PlatformErrorShape" where
  "Err_UTXO_NOT_FOUND utxoId =
    \<lparr>e_source = ''@service/bundle'', e_code = ''BND_005'', e_message = ''UTXO not found'',
     e_details = Some (''The UTXO with ID '' @ [CHR 0x27] @ utxoId @ [CHR 0x27] @ '' was not found in the system.''),
     e_api = Some \<lparr>ad_status = 404, ad_message = ''UTXO not found'',
        ad_details = Some (''The UTXO referenced in the spend operation does not exist or has already been spent. UTXO ID: '' @ utxoId)\<rparr>\<rparr>"

definition Err_INSUFFICIENT_UTXOS_bundle :: "nat \<Rightarrow> nat option \<Rightarrow> PlatformErrorShape" where
  "Err_INSUFFICIENT_UTXOS_bundle required available =
    \<lparr>e_source = ''@service/bundle'', e_code = ''BND_004'', e_message = ''Insufficient UTXOs'',
     e_details = Some (''Not enough free UTXOs available. Required: '' @ natToString required @
       (case available of None \<Rightarrow> [] | Some n \<Rightarrow> '', Available: '' @ natToString n) @ ''.''),
     e_api = Some \<lparr>ad_status = 400, ad_message = ''Insufficient UTXOs'',
        ad_details = Some (''The system does not have enough available UTXOs to process this bundle. Please try again later.'')\<rparr>\<rparr>"

definition Err_TOO_MANY_OPERATIONS :: "int \<Rightarrow> int \<Rightarrow> PlatformErrorShape" where
  "Err_TOO_MANY_OPERATIONS received maxOps =
    \<lparr>e_source = ''@service/bundle'', e_code = ''BND_010'', e_message = ''Too many operations'',
     e_details = Some (''The bundle contains '' @ intToString received @ '' operations, but the maximum allowed is '' @ intToString maxOps @ ''.''),
     e_api = Some \<lparr>ad_status = 400, ad_message = ''Too many operations'',
        ad_details = Some (''A bundle can contain at most '' @ intToString maxOps @ '' operations, but '' @ intToString received @ '' were provided.'')\<rparr>\<rparr>"

definition Err_INSUFFICIENT_BALANCE :: "int \<Rightarrow> int \<Rightarrow> PlatformErrorShape" where
  "Err_INSUFFICIENT_BALANCE availableStroops requiredStroops =
    \<lparr>e_source = ''@service/bundle'', e_code = ''BND_017'', e_message = ''Insufficient balance'',
     e_details = Some (''The bundle'' @ [CHR 0x27] @ ''s outflows ('' @ intToString requiredStroops @ '' stroops) are not covered by its inflows ('' @ intToString availableStroops @ '' stroops) plus a positive fee, so it can never execute.''),
     e_api = Some \<lparr>ad_status = 400, ad_message = ''Insufficient balance'',
        ad_details = Some (''The bundle spends or deposits '' @ intToString availableStroops @ '' stroops but its creates and withdraws require '' @ intToString requiredStroops @ '' stroops. Inflows must exceed outflows so the bundle carries a positive fee.'')\<rparr>\<rparr>"

definition Err_INVALID_OPERATIONS :: "string \<Rightarrow> string option \<Rightarrow> PlatformErrorShape" where
  "Err_INVALID_OPERATIONS reason details =
    \<lparr>e_source = ''@service/bundle'', e_code = ''BND_003'', e_message = ''Invalid operations'',
     e_details = Some (if orEmpty details = [] then ''The provided operations are invalid: '' @ reason else orEmpty details),
     e_api = Some \<lparr>ad_status = 400, ad_message = ''Invalid operations'',
        ad_details = Some (''The operations bundle contains invalid operations: '' @ reason)\<rparr>\<rparr>"

section \<open>Mempool errors\<close>

definition Err_BUNDLE_NOT_FOUND_mempool :: "string \<Rightarrow> PlatformErrorShape" where
  "Err_BUNDLE_NOT_FOUND_mempool bundleId =
    \<lparr>e_source = ''@service/mempool'', e_code = ''MPL_001'', e_message = ''Bundle not found in mempool'',
     e_details = Some (''The bundle with ID '' @ [CHR 0x27] @ bundleId @ [CHR 0x27] @ '' was not found in the mempool.''),
     e_api = None\<rparr>"

definition Err_SLOT_FULL :: "int \<Rightarrow> int \<Rightarrow> PlatformErrorShape" where
  "Err_SLOT_FULL slotWeight capacity =
    \<lparr>e_source = ''@service/mempool'', e_code = ''MPL_002'', e_message = ''Slot is full'',
     e_details = Some (''The slot cannot accommodate more bundles. Current weight: '' @ intToString slotWeight @ '', Capacity: '' @ intToString capacity),
     e_api = None\<rparr>"

section \<open>Executor errors\<close>

definition Err_TRANSACTION_BUILD_FAILED :: "string \<Rightarrow> PlatformErrorShape" where
  "Err_TRANSACTION_BUILD_FAILED reason =
    \<lparr>e_source = ''@service/executor'', e_code = ''EXC_001'', e_message = ''Transaction build failed'',
     e_details = Some (''Failed to build transaction from slot: '' @ reason),
     e_api = None\<rparr>"

definition Err_TRANSACTION_SUBMIT_FAILED :: "string \<Rightarrow> PlatformErrorShape" where
  "Err_TRANSACTION_SUBMIT_FAILED reason =
    \<lparr>e_source = ''@service/executor'', e_code = ''EXC_002'', e_message = ''Transaction submission failed'',
     e_details = Some (''Failed to submit transaction to network: '' @ reason),
     e_api = None\<rparr>"

definition Err_INSUFFICIENT_UTXOS_executor :: "int \<Rightarrow> int \<Rightarrow> PlatformErrorShape" where
  "Err_INSUFFICIENT_UTXOS_executor required available =
    \<lparr>e_source = ''@service/executor'', e_code = ''EXC_003'', e_message = ''Insufficient UTXOs'',
     e_details = Some (''Not enough free UTXOs available. Required: '' @ intToString required @ '', Available: '' @ intToString available),
     e_api = None\<rparr>"

definition Err_InsufficientFees :: "InsufficientFeesDetail \<Rightarrow> PlatformErrorShape" where
  "Err_InsufficientFees detail =
    \<lparr>e_source = ''@service/executor'', e_code = ''EXC_005'', e_message = ''Insufficient fees on fee-payer account'',
     e_details = Some (''Fee payer '' @ ifd_feePayerPubkey detail @ '' has '' @ ifd_availableXlm detail @ '' stroops available after reserves; required '' @ ifd_requiredXlm detail @ '' (shortfall '' @ ifd_shortfallXlm detail @ '').''),
     e_api = None\<rparr>"

definition Err_SLOT_EMPTY :: "PlatformErrorShape" where
  "Err_SLOT_EMPTY =
    \<lparr>e_source = ''@service/executor'', e_code = ''EXC_004'', e_message = ''Slot is empty'',
     e_details = Some (''Cannot execute an empty slot''),
     e_api = None\<rparr>"

section \<open>Verifier errors\<close>

definition Err_TRANSACTION_NOT_FOUND :: "string \<Rightarrow> PlatformErrorShape" where
  "Err_TRANSACTION_NOT_FOUND transactionId =
    \<lparr>e_source = ''@service/verifier'', e_code = ''VRF_001'', e_message = ''Transaction not found on network'',
     e_details = Some (''The transaction with ID '' @ [CHR 0x27] @ transactionId @ [CHR 0x27] @ '' was not found on the Stellar network.''),
     e_api = None\<rparr>"

definition Err_VERIFICATION_FAILED :: "string \<Rightarrow> string \<Rightarrow> PlatformErrorShape" where
  "Err_VERIFICATION_FAILED transactionId reason =
    \<lparr>e_source = ''@service/verifier'', e_code = ''VRF_002'', e_message = ''Transaction verification failed'',
     e_details = Some (''Failed to verify transaction '' @ [CHR 0x27] @ transactionId @ [CHR 0x27] @ '': '' @ reason),
     e_api = None\<rparr>"

section \<open>Errors of creating a challenge\<close>

definition Err_MISSING_CLIENT_ACCOUNT_create :: "PlatformErrorShape" where
  "Err_MISSING_CLIENT_ACCOUNT_create =
    \<lparr>e_source = ''@service/auth/challenge/create'', e_code = ''ACH_CR_001'', e_message = ''Missing client account in challenge request'',
     e_details = Some (''The client account is missing from the authentication challenge request.''),
     e_api = Some \<lparr>ad_status = 400, ad_message = ''Missing client account'',
        ad_details = Some (''The authentication challenge request did not include the required client account.'')\<rparr>\<rparr>"

definition Err_FAILED_TO_CREATE_CHALLENGE :: "PlatformErrorShape" where
  "Err_FAILED_TO_CREATE_CHALLENGE =
    \<lparr>e_source = ''@service/auth/challenge/create'', e_code = ''ACH_CR_002'', e_message = ''Failed to create authentication challenge'',
     e_details = Some (''An error occurred while attempting to create the authentication challenge.''),
     e_api = Some \<lparr>ad_status = 500, ad_message = ''Failed to create authentication challenge'',
        ad_details = Some (''An unexpected error occurred during the creation of the authentication challenge.'')\<rparr>\<rparr>"

definition Err_INVALID_SIGNED_TRANSACTION_OBJ :: "PlatformErrorShape" where
  "Err_INVALID_SIGNED_TRANSACTION_OBJ =
    \<lparr>e_source = ''@service/auth/challenge/create'', e_code = ''ACH_CR_003'', e_message = ''Invalid signed transaction object'',
     e_details = Some (''The signed transaction object provided in the challenge request is invalid.''),
     e_api = Some \<lparr>ad_status = 400, ad_message = ''Invalid signed transaction object'',
        ad_details = Some (''The signed transaction object included in the authentication challenge request is not valid.'')\<rparr>\<rparr>"

section \<open>Errors of storing a challenge\<close>

definition Err_FAILED_TO_STORE_CHALLENGE_IN_DATABASE :: "PlatformErrorShape" where
  "Err_FAILED_TO_STORE_CHALLENGE_IN_DATABASE =
    \<lparr>e_source = ''@service/auth/challenge/store'', e_code = ''ACH_ST_001'', e_message = ''Failed to store challenge in database'',
     e_details = Some (''An error occurred while attempting to store the authentication challenge in the database.''),
     e_api = Some \<lparr>ad_status = 500, ad_message = ''Failed to store challenge in database'',
        ad_details = Some (''An unexpected error occurred while saving the authentication challenge to the database.'')\<rparr>\<rparr>"

definition Err_FAILED_TO_CACHE_CHALLENGE_IN_LIVE_SESSIONS :: "PlatformErrorShape" where
  "Err_FAILED_TO_CACHE_CHALLENGE_IN_LIVE_SESSIONS =
    \<lparr>e_source = ''@service/auth/challenge/store'', e_code = ''ACH_ST_002'', e_message = ''Failed to cache challenge in live sessions'',
     e_details = Some (''An error occurred while attempting to cache the authentication challenge in live sessions.''),
     e_api = Some \<lparr>ad_status = 500, ad_message = ''Failed to cache challenge in live sessions'',
        ad_details = Some (''An unexpected error occurred while caching the authentication challenge in live sessions.'')\<rparr>\<rparr>"

definition Err_SESSION_ALREADY_EXISTS :: "string \<Rightarrow> PlatformErrorShape" where
  "Err_SESSION_ALREADY_EXISTS sessionId =
    \<lparr>e_source = ''@service/auth/challenge/store'', e_code = ''ACH_ST_003'', e_message = ''Session already exists'',
     e_details = Some (''An authentication session with the provided ID already exists.''),
     e_api = Some \<lparr>ad_status = 409, ad_message = ''Session already exists'',
        ad_details = Some (''An authentication session with ID '' @ [CHR 0x27] @ sessionId @ [CHR 0x27] @ '' already exists in live sessions.'')\<rparr>\<rparr>"

definition Err_CHALLENGE_NOT_FOUND_IN_DATABASE :: "string \<Rightarrow> PlatformErrorShape" where
  "Err_CHALLENGE_NOT_FOUND_IN_DATABASE challengeId =
    \<lparr>e_source = ''@service/auth/challenge/store'', e_code = ''ACH_ST_004'', e_message = ''Challenge not found in database'',
     e_details = Some (''The requested authentication challenge could not be found in the database.''),
     e_api = Some \<lparr>ad_status = 404, ad_message = ''Challenge not found'',
        ad_details = Some (''The authentication challenge with ID '' @ [CHR 0x27] @ challengeId @ [CHR 0x27] @ '' was not found in the database.'')\<rparr>\<rparr>"

definition Err_CHALLENGE_HAS_NO_OPERATIONS :: "string \<Rightarrow> PlatformErrorShape" where
  "Err_CHALLENGE_HAS_NO_OPERATIONS sessionId =
    \<lparr>e_source = ''@service/auth/challenge/store'', e_code = ''ACH_ST_005'', e_message = ''Challenge has no operations'',
     e_details = Some (''The authentication challenge does not contain any operations to process.''),
     e_api = Some \<lparr>ad_status = 400, ad_message = ''Challenge has no operations'',
        ad_details = Some (''The authentication session with ID '' @ [CHR 0x27] @ sessionId @ [CHR 0x27] @ '' has a challenge that does not contain any operations.'')\<rparr>\<rparr>"

definition Err_MISSING_CLIENT_ACCOUNT_store :: "PlatformErrorShape" where
  "Err_MISSING_CLIENT_ACCOUNT_store =
    \<lparr>e_source = ''@service/auth/challenge/store'', e_code = ''ACH_ST_006'', e_message = ''Missing client account'',
     e_details = Some (''The client account is missing from the authentication challenge session.''),
     e_api = Some \<lparr>ad_status = 400, ad_message = ''Missing client account'',
        ad_details = Some (''The authentication challenge session did not include the required client account.'')\<rparr>\<rparr>"

definition Err_USER_NOT_FOUND_IN_DATABASE :: "string \<Rightarrow> PlatformErrorShape" where
  "Err_USER_NOT_FOUND_IN_DATABASE clientAccount =
    \<lparr>e_source = ''@service/auth/challenge/store'', e_code = ''ACH_ST_007'', e_message = ''User not found in database'',
     e_details = Some (''The user associated with the provided client account could not be found in the database.''),
     e_api = Some \<lparr>ad_status = 404, ad_message = ''User not found'',
        ad_details = Some (''The user with client account '' @ [CHR 0x27] @ clientAccount @ [CHR 0x27] @ '' was not found in the database.'')\<rparr>\<rparr>"

section \<open>Errors of verifying a challenge\<close>

definition Err_CHALLENGE_IS_NOT_TRANSACTION :: "PlatformErrorShape" where
  "Err_CHALLENGE_IS_NOT_TRANSACTION =
    \<lparr>e_source = ''@service/auth/challenge/verify'', e_code = ''ACH_VR_001'', e_message = ''Challenge is not a transaction'',
     e_details = Some (''The provided authentication challenge is not a valid Stellar transaction.''),
     e_api = Some \<lparr>ad_status = 400, ad_message = ''Challenge is not a transaction'',
        ad_details = Some (''The authentication challenge provided could not be parsed as a Stellar transaction.'')\<rparr>\<rparr>"

definition Err_CHALLENGE_NOT_FOUND :: "string \<Rightarrow> PlatformErrorShape" where
  "Err_CHALLENGE_NOT_FOUND challengeId =
    \<lparr>e_source = ''@service/auth/challenge/verify'', e_code = ''AUTH_VR_002'', e_message = ''Authentication challenge not found'',
     e_details = Some (''The authentication challenge with ID '' @ [CHR 0x27] @ challengeId @ [CHR 0x27] @ '' was not found.''),
     e_api = Some \<lparr>ad_status = 404, ad_message = ''Authentication challenge not found'',
        ad_details = Some (''No authentication challenge exists with the provided ID '' @ [CHR 0x27] @ challengeId @ [CHR 0x27] @ ''.'')\<rparr>\<rparr>"

definition Err_NONCE_MISMATCH :: "PlatformErrorShape" where
  "Err_NONCE_MISMATCH =
    \<lparr>e_source = ''@service/auth/challenge/verify'', e_code = ''AUTH_VR_003'', e_message = ''Nonce mismatch'',
     e_details = Some (''The provided nonce does not match the expected nonce for the authentication challenge.''),
     e_api = Some \<lparr>ad_status = 400, ad_message = ''Nonce mismatch'',
        ad_details = Some (''The nonce provided in the authentication challenge response does not match the expected value.'')\<rparr>\<rparr>"

definition Err_CLIENT_ACCOUNT_MISMATCH :: "PlatformErrorShape" where
  "Err_CLIENT_ACCOUNT_MISMATCH =
    \<lparr>e_source = ''@service/auth/challenge/verify'', e_code = ''AUTH_VR_004'', e_message = ''Client account mismatch'',
     e_details = Some (''The provided client account does not match the expected account for the authentication challenge.''),
     e_api = Some \<lparr>ad_status = 400, ad_message = ''Client account mismatch'',
        ad_details = Some (''The client account provided in the authentication challenge response does not match the expected account.'')\<rparr>\<rparr>"

definition Err_CHALLENGE_TTL_MISMATCH :: "PlatformErrorShape" where
  "Err_CHALLENGE_TTL_MISMATCH =
    \<lparr>e_source = ''@service/auth/challenge/verify'', e_code = ''AUTH_VR_005'', e_message = ''Challenge TTL mismatch'',
     e_details = Some (''The provided challenge TTL does not match the expected TTL for the authentication challenge.''),
     e_api = Some \<lparr>ad_status = 400, ad_message = ''Challenge TTL mismatch'',
        ad_details = Some (''The TTL provided in the authentication challenge response does not match the expected value.'')\<rparr>\<rparr>"

definition Err_MISSING_NONCE_OPERATION :: "PlatformErrorShape" where
  "Err_MISSING_NONCE_OPERATION =
    \<lparr>e_source = ''@service/auth/challenge/verify'', e_code = ''AUTH_VR_006'', e_message = ''Missing nonce operation'',
     e_details = Some (''The authentication challenge is missing the required nonce operation.''),
     e_api = Some \<lparr>ad_status = 500, ad_message = ''Missing nonce operation'',
        ad_details = Some (''The authentication challenge does not include the necessary nonce operation for validation.'')\<rparr>\<rparr>"

definition Err_WRONG_OPERATION_TYPE :: "string \<Rightarrow> string \<Rightarrow> PlatformErrorShape" where
  "Err_WRONG_OPERATION_TYPE expectedType actualType =
    \<lparr>e_source = ''@service/auth/challenge/verify'', e_code = ''AUTH_VR_007'', e_message = ''Wrong operation type'',
     e_details = Some (''The operation type in the authentication challenge does not match the expected type.''),
     e_api = Some \<lparr>ad_status = 500, ad_message = ''Wrong operation type'',
        ad_details = Some (''The operation type '' @ [CHR 0x27] @ actualType @ [CHR 0x27] @ '' does not match the expected type '' @ [CHR 0x27] @ expectedType @ [CHR 0x27] @ '' for the authentication challenge.'')\<rparr>\<rparr>"

definition Err_MISSING_CLIENT_ACCOUNT_verify :: "PlatformErrorShape" where
  "Err_MISSING_CLIENT_ACCOUNT_verify =
    \<lparr>e_source = ''@service/auth/challenge/verify'', e_code = ''AUTH_VR_008'', e_message = ''Missing client account'',
     e_details = Some (''The client account is missing from the authentication challenge operation.''),
     e_api = Some \<lparr>ad_status = 500, ad_message = ''Missing client account'',
        ad_details = Some (''The authentication challenge operation does not specify the client account.'')\<rparr>\<rparr>"

definition Err_MISSING_NONCE :: "PlatformErrorShape" where
  "Err_MISSING_NONCE =
    \<lparr>e_source = ''@service/auth/challenge/verify'', e_code = ''AUTH_VR_009'', e_message = ''Missing nonce'',
     e_details = Some (''The nonce is missing from the authentication challenge operation.''),
     e_api = Some \<lparr>ad_status = 500, ad_message = ''Missing nonce'',
        ad_details = Some (''The authentication challenge operation does not include the required nonce value.'')\<rparr>\<rparr>"

definition Err_INVALID_SEQUENCE_NUMBER :: "string \<Rightarrow> PlatformErrorShape" where
  "Err_INVALID_SEQUENCE_NUMBER sequence =
    \<lparr>e_source = ''@service/auth/challenge/verify'', e_code = ''AUTH_VR_010'', e_message = ''Invalid sequence number'',
     e_details = Some (''The sequence number '' @ [CHR 0x27] @ sequence @ [CHR 0x27] @ '' of the authentication challenge transaction is invalid.''),
     e_api = Some \<lparr>ad_status = 400, ad_message = ''Invalid sequence number'',
        ad_details = Some (''The sequence number of the provided authentication challenge transaction must be '' @ [CHR 0x27] @ ''0'' @ [CHR 0x27] @ ''. The received sequence number was '' @ [CHR 0x27] @ sequence @ [CHR 0x27] @ ''.'')\<rparr>\<rparr>"

definition Err_MISSING_TIME_BOUNDS :: "PlatformErrorShape" where
  "Err_MISSING_TIME_BOUNDS =
    \<lparr>e_source = ''@service/auth/challenge/verify'', e_code = ''AUTH_VR_011'', e_message = ''Missing time bounds'',
     e_details = Some (''The authentication challenge transaction is missing the required time bounds.''),
     e_api = Some \<lparr>ad_status = 400, ad_message = ''Missing time bounds'',
        ad_details = Some (''The provided authentication challenge transaction does not include time bounds, which are required for validation.'')\<rparr>\<rparr>"

definition Err_MISSING_OPERATIONS :: "PlatformErrorShape" where
  "Err_MISSING_OPERATIONS =
    \<lparr>e_source = ''@service/auth/challenge/verify'', e_code = ''AUTH_VR_012'', e_message = ''Missing operations'',
     e_details = Some (''The authentication challenge transaction does not contain any operations.''),
     e_api = Some \<lparr>ad_status = 400, ad_message = ''Missing operations'',
        ad_details = Some (''The provided authentication challenge transaction must include at least one operation for validation.'')\<rparr>\<rparr>"

definition Err_OPERATION_KEY_MISMATCH :: "string \<Rightarrow> string \<Rightarrow> PlatformErrorShape" where
  "Err_OPERATION_KEY_MISMATCH expectedKey actualKey =
    \<lparr>e_source = ''@service/auth/challenge/verify'', e_code = ''AUTH_VR_013'', e_message = ''Operation key mismatch'',
     e_details = Some (''The operation key in the authentication challenge does not match the expected key.''),
     e_api = Some \<lparr>ad_status = 400, ad_message = ''Operation key mismatch'',
        ad_details = Some (''The operation key '' @ [CHR 0x27] @ actualKey @ [CHR 0x27] @ '' does not match the expected key '' @ [CHR 0x27] @ expectedKey @ [CHR 0x27] @ '' for the authentication challenge.'')\<rparr>\<rparr>"

definition Err_CHALLENGE_TOO_EARLY :: "int \<Rightarrow> int \<Rightarrow> PlatformErrorShape" where
  "Err_CHALLENGE_TOO_EARLY currentTime minTime =
    \<lparr>e_source = ''@service/auth/challenge/verify'', e_code = ''AUTH_VR_014'', e_message = ''Challenge too early'',
     e_details = Some (''The authentication challenge transaction'' @ [CHR 0x27] @ ''s time bounds indicate it is not yet valid.''),
     e_api = Some \<lparr>ad_status = 400, ad_message = ''Challenge too early'',
        ad_details = Some (''The authentication challenge transaction cannot be used before its minimum time of '' @ intToString minTime @ ''. Current time is '' @ intToString currentTime @ ''.'')\<rparr>\<rparr>"

definition Err_CHALLENGE_EXPIRED :: "int \<Rightarrow> int \<Rightarrow> PlatformErrorShape" where
  "Err_CHALLENGE_EXPIRED currentTime maxTime =
    \<lparr>e_source = ''@service/auth/challenge/verify'', e_code = ''AUTH_VR_015'', e_message = ''Challenge expired'',
     e_details = Some (''The authentication challenge transaction'' @ [CHR 0x27] @ ''s time bounds indicate it has expired.''),
     e_api = Some \<lparr>ad_status = 400, ad_message = ''Challenge expired'',
        ad_details = Some (''The authentication challenge transaction expired at its maximum time of '' @ intToString maxTime @ ''. Current time is '' @ intToString currentTime @ ''.'')\<rparr>\<rparr>"

definition Err_MISSING_SERVER_SIGNATURE :: "PlatformErrorShape" where
  "Err_MISSING_SERVER_SIGNATURE =
    \<lparr>e_source = ''@service/auth/challenge/verify'', e_code = ''AUTH_VR_016'', e_message = ''Missing server signature'',
     e_details = Some (''The authentication challenge transaction is missing the required server signature.''),
     e_api = Some \<lparr>ad_status = 400, ad_message = ''Missing server signature'',
        ad_details = Some (''The provided authentication challenge transaction does not include the necessary server signature for validation.'')\<rparr>\<rparr>"

definition Err_MISSING_CLIENT_SIGNATURE :: "PlatformErrorShape" where
  "Err_MISSING_CLIENT_SIGNATURE =
    \<lparr>e_source = ''@service/auth/challenge/verify'', e_code = ''AUTH_VR_017'', e_message = ''Missing client signature'',
     e_details = Some (''The authentication challenge transaction is missing the required client signature.''),
     e_api = Some \<lparr>ad_status = 400, ad_message = ''Missing client signature'',
        ad_details = Some (''The provided authentication challenge transaction does not include the necessary client signature for validation.'')\<rparr>\<rparr>"

definition Err_CHALLENGE_VERIFICATION_FAILED :: "PlatformErrorShape" where
  "Err_CHALLENGE_VERIFICATION_FAILED =
    \<lparr>e_source = ''@service/auth/challenge/verify'', e_code = ''AUTH_VR_018'', e_message = ''Challenge verification failed'',
     e_details = Some (''An error occurred during the verification of the authentication challenge.''),
     e_api = Some \<lparr>ad_status = 500, ad_message = ''Challenge verification failed'',
        ad_details = Some (''An unexpected error occurred while verifying the authentication challenge transaction.'')\<rparr>\<rparr>"

section \<open>Errors of the session middleware\<close>

definition Err_MISSING_AUTHORIZATION_HEADER :: "PlatformErrorShape" where
  "Err_MISSING_AUTHORIZATION_HEADER =
    \<lparr>e_source = ''@http/middleware/auth'', e_code = ''HTTP_AUTH_001'', e_message = ''Missing authorization header'',
     e_details = Some (''The authorization header is missing from the HTTP request.''),
     e_api = Some \<lparr>ad_status = 401, ad_message = ''Missing authorization header'',
        ad_details = Some (''The HTTP request did not include the required authorization header.'')\<rparr>\<rparr>"

definition Err_INVALID_AUTHORIZATION_HEADER :: "PlatformErrorShape" where
  "Err_INVALID_AUTHORIZATION_HEADER =
    \<lparr>e_source = ''@http/middleware/auth'', e_code = ''HTTP_AUTH_002'', e_message = ''Invalid authorization header'',
     e_details = Some (''The authorization header provided in the HTTP request is invalid.''),
     e_api = Some \<lparr>ad_status = 401, ad_message = ''Invalid authorization header'',
        ad_details = Some (''The HTTP request included an invalid authorization header. It must be formatted as '' @ [CHR 0x27] @ ''Bearer <token>'' @ [CHR 0x27] @ ''.'')\<rparr>\<rparr>"

definition Err_EXPIRED_TOKEN :: "PlatformErrorShape" where
  "Err_EXPIRED_TOKEN =
    \<lparr>e_source = ''@http/middleware/auth'', e_code = ''HTTP_AUTH_003'', e_message = ''Expired token'',
     e_details = Some (''The provided authentication token has expired.''),
     e_api = Some \<lparr>ad_status = 401, ad_message = ''Expired token'',
        ad_details = Some (''The authentication token provided in the request has expired and is no longer valid.'')\<rparr>\<rparr>"

definition Err_JWT_VERIFICATION_FAILED :: "PlatformErrorShape" where
  "Err_JWT_VERIFICATION_FAILED =
    \<lparr>e_source = ''@http/middleware/auth'', e_code = ''HTTP_AUTH_004'', e_message = ''JWT verification failed'',
     e_details = Some (''The provided JWT token could not be verified.''),
     e_api = Some \<lparr>ad_status = 401, ad_message = ''JWT verification failed'',
        ad_details = Some (''The JWT token provided in the request could not be verified. It may be malformed or tampered with.'')\<rparr>\<rparr>"

section \<open>Errors of the HTTP processes\<close>

definition Err_INVALID_PAYLOAD :: "(string list \<times> string) list \<Rightarrow> PlatformErrorShape" where
  "Err_INVALID_PAYLOAD issues =
    \<lparr>e_source = ''@http/processes'', e_code = ''HTTP_PRO_001'', e_message = ''Invalid payload'',
     e_details = Some (''The payload provided in the HTTP request is invalid.''),
     e_api = Some \<lparr>ad_status = 400, ad_message = ''Invalid payload'',
        ad_details = Some (''The HTTP request payload did not conform to the expected format. '' @ [CHR 0x0A] @ '' '' @ issueLines issues)\<rparr>\<rparr>"

definition Err_FAILED_TO_PARSE_BODY :: "PlatformErrorShape" where
  "Err_FAILED_TO_PARSE_BODY =
    \<lparr>e_source = ''@http/processes'', e_code = ''HTTP_PRO_002'', e_message = ''Failed to parse request body'',
     e_details = Some (''An error occurred while parsing the HTTP request body.''),
     e_api = Some \<lparr>ad_status = 400, ad_message = ''Failed to parse request body'',
        ad_details = Some (''The HTTP request body could not be parsed due to an unexpected error.'')\<rparr>\<rparr>"

definition Err_INVALID_QUERY_PARAMS :: "(string list \<times> string) list \<Rightarrow> PlatformErrorShape" where
  "Err_INVALID_QUERY_PARAMS issues =
    \<lparr>e_source = ''@http/processes'', e_code = ''HTTP_PRO_003'', e_message = ''Invalid query parameters'',
     e_details = Some (''The query parameters provided in the HTTP request are invalid.''),
     e_api = Some \<lparr>ad_status = 400, ad_message = ''Invalid query parameters'',
        ad_details = Some (''The HTTP request query parameters did not conform to the expected format. '' @ [CHR 0x0A] @ '' '' @ issueLines issues)\<rparr>\<rparr>"

definition Err_FAILED_TO_PARSE_QUERY_PARAMS :: "PlatformErrorShape" where
  "Err_FAILED_TO_PARSE_QUERY_PARAMS =
    \<lparr>e_source = ''@http/processes'', e_code = ''HTTP_PRO_004'', e_message = ''Failed to parse query parameters'',
     e_details = Some (''An error occurred while parsing the HTTP request query parameters.''),
     e_api = Some \<lparr>ad_status = 400, ad_message = ''Failed to parse query parameters'',
        ad_details = Some (''The HTTP request query parameters could not be parsed due to an unexpected error.'')\<rparr>\<rparr>"

definition Err_FAILED_TO_SET_SUCCESS_RESPONSE :: "PlatformErrorShape" where
  "Err_FAILED_TO_SET_SUCCESS_RESPONSE =
    \<lparr>e_source = ''@http/processes'', e_code = ''HTTP_PRO_005'', e_message = ''Failed to set success response'',
     e_details = Some (''An error occurred while setting the HTTP success response.''),
     e_api = Some \<lparr>ad_status = 500, ad_message = ''Failed to set success response'',
        ad_details = Some (''An unexpected error occurred while preparing the HTTP success response.'')\<rparr>\<rparr>"

section \<open>Errors of the HTTP plugin\<close>

definition Err_PROCESSING_ERROR_RESPONSE_FAILED :: "PlatformErrorShape" where
  "Err_PROCESSING_ERROR_RESPONSE_FAILED =
    \<lparr>e_source = ''@http/plugins/process-error-response'', e_code = ''HTTP_PLG_001'', e_message = ''Failed to process error response'',
     e_details = Some (''An error occurred while processing the error response in the HTTP plugin.''),
     e_api = Some \<lparr>ad_status = 500, ad_message = ''Failed to process error response'',
        ad_details = Some (''An unexpected failure occurred while processing a captured error response.'')\<rparr>\<rparr>"

section \<open>Errors of the configuration\<close>

definition Err_INVALID_NETWORK :: "PlatformErrorShape" where
  "Err_INVALID_NETWORK =
    \<lparr>e_source = ''@config'', e_code = ''CFG_001'', e_message = ''Invalid network configuration'',
     e_details = Some (''The network configuration provided is invalid. Review the environment settings.''),
     e_api = None\<rparr>"

end
