(* ===== verification/Dates.thy ===== *)
theory Dates
  imports Crypto
begin

text \<open>
  \<^verbatim>\<open>Date.prototype.toISOString\<close>: the proleptic Gregorian calendar in UTC, milliseconds since 1970.  A year counts
  from March, so the leap day is its last; an era is 400 years.
\<close>

section \<open>The calendar\<close>

text \<open>The day of an era split into years, and the day of a year into months.\<close>

definition yearOfEra :: "int \<Rightarrow> int \<times> int" where
  "yearOfEra doe =
    (let c = min 3 (doe div 36524); r = doe - 36524 * c; q = r div 1461; s = r mod 1461; y = min 3 (s div 365)
     in (100 * c + 4 * q + y, s - 365 * y))"

definition monthOfYear :: "int \<Rightarrow> int \<times> int" where
  "monthOfYear doy = (let mp = (5 * doy + 2) div 153 in (if mp < 10 then mp + 3 else mp - 9, doy - (153 * mp + 2) div 5 + 1))"

definition civilFromDays :: "int \<Rightarrow> int \<times> int \<times> int" where
  "civilFromDays days =
    (let z = days + 719468; era = z div 146097; (yoe, doy) = yearOfEra (z mod 146097); (m, d) = monthOfYear doy
     in (400 * era + yoe + (if m \<le> 2 then 1 else 0), m, d))"

definition daysFromCivil :: "int \<times> int \<times> int \<Rightarrow> int" where
  "daysFromCivil ymd =
    (case ymd of (y, m, d) \<Rightarrow>
     let y' = (if m \<le> 2 then y - 1 else y); yoe = y' mod 400; mp = (if m \<le> 2 then m + 9 else m - 3)
     in 146097 * (y' div 400) + (365 * yoe + yoe div 4 - yoe div 100) + ((153 * mp + 2) div 5 + d - 1) - 719468)"

lemma yearOfEra_facts:
  assumes "yearOfEra doe = (yoe, doy)" and "0 \<le> doe" and "doe < 146097"
  shows "0 \<le> yoe \<and> yoe < 400 \<and> 0 \<le> doy \<and> doy \<le> 365 \<and> 365 * yoe + yoe div 4 - yoe div 100 + doy = doe"
proof -
  define c where "c = min 3 (doe div 36524)"
  define r where "r = doe - 36524 * c"
  define q where "q = r div 1461"
  define s where "s = r mod 1461"
  define y where "y = min 3 (s div 365)"
  have yd: "yoe = 100 * c + 4 * q + y" "doy = s - 365 * y"
    using assms(1) by (simp_all add: yearOfEra_def Let_def c_def r_def q_def s_def y_def)
  have c: "0 \<le> c" "c \<le> 3" using assms(2) by (simp_all add: c_def)
  have r: "0 \<le> r" "r \<le> 36524" using assms(2,3) unfolding r_def c_def by linarith+
  have q: "0 \<le> q" "q \<le> 24" using r unfolding q_def by linarith+
  have s: "0 \<le> s" "s \<le> 1460" by (simp_all add: s_def)
  have y: "0 \<le> y" "y \<le> 3" using s by (simp_all add: y_def)
  have d: "0 \<le> doy" "doy \<le> 365" using s unfolding yd y_def by linarith+
  have rqs: "r = 1461 * q + s" by (simp add: q_def s_def)
  have q4: "yoe div 4 = 25 * c + q" using y unfolding yd by linarith
  have q100: "yoe div 100 = c" using y q unfolding yd by linarith
  have "365 * yoe + yoe div 4 - yoe div 100 + doy = doe"
    unfolding q4 q100 unfolding yd using rqs r_def by simp
  with c q y d show ?thesis unfolding yd by simp
qed

lemma monthOfYear_facts:
  assumes "monthOfYear doy = (m, d)" and "0 \<le> doy" and "doy \<le> 365"
  shows "1 \<le> m \<and> m \<le> 12 \<and> 1 \<le> d \<and> d \<le> 31 \<and> (153 * (if m \<le> 2 then m + 9 else m - 3) + 2) div 5 + d - 1 = doy"
proof -
  define mp where "mp = (5 * doy + 2) div 153"
  have mp: "0 \<le> mp" "mp \<le> 11" using assms(2,3) unfolding mp_def by linarith+
  have md: "m = (if mp < 10 then mp + 3 else mp - 9)" "d = doy - (153 * mp + 2) div 5 + 1"
    using assms(1) by (auto simp: monthOfYear_def Let_def mp_def)
  have mpb: "(if m \<le> 2 then m + 9 else m - 3) = mp" using mp by (simp add: md)
  have "(153 * mp + 2) div 5 \<le> doy" "doy - (153 * mp + 2) div 5 \<le> 30" unfolding mp_def by linarith+
  with mp mpb show ?thesis by (simp add: md)
qed

lemma civilFromDays_facts:
  assumes "civilFromDays days = (y, m, d)"
  shows "daysFromCivil (y, m, d) = days \<and> 1 \<le> m \<and> m \<le> 12 \<and> 1 \<le> d \<and> d \<le> 31"
proof -
  let ?z = "days + 719468"
  obtain yoe doy where yd: "yearOfEra (?z mod 146097) = (yoe, doy)" by fastforce
  obtain m' d' where md: "monthOfYear doy = (m', d')" by fastforce
  have ymd: "m = m'" "d = d'" "y = 400 * (?z div 146097) + yoe + (if m' \<le> 2 then 1 else 0)"
    using assms by (auto simp: civilFromDays_def yd md)
  have e: "0 \<le> yoe \<and> yoe < 400 \<and> 0 \<le> doy \<and> doy \<le> 365 \<and>
      365 * yoe + yoe div 4 - yoe div 100 + doy = ?z mod 146097" by (rule yearOfEra_facts [OF yd]) simp_all
  then have f: "1 \<le> m \<and> m \<le> 12 \<and> 1 \<le> d \<and> d \<le> 31 \<and>
      (153 * (if m \<le> 2 then m + 9 else m - 3) + 2) div 5 + d - 1 = doy"
    using monthOfYear_facts [OF md] unfolding ymd(1,2) by blast
  have y': "(if m \<le> 2 then y - 1 else y) = 400 * (?z div 146097) + yoe" by (simp add: ymd)
  have q: "(400 * (?z div 146097) + yoe) div 400 = ?z div 146097" "(400 * (?z div 146097) + yoe) mod 400 = yoe"
    using e by simp_all
  have "daysFromCivil (y, m, d) = 146097 * (?z div 146097) + (365 * yoe + yoe div 4 - yoe div 100) + doy - 719468"
    unfolding daysFromCivil_def prod.case Let_def y' q using f by simp
  also have "\<dots> = 146097 * (?z div 146097) + ?z mod 146097 - 719468" using e by linarith
  also have "\<dots> = days" by simp
  finally show ?thesis using f by blast
qed

section \<open>The text\<close>

definition padNat :: "nat \<Rightarrow> nat \<Rightarrow> string" where
  "padNat width n = padStart width (CHR ''0'') (natToString n)"

definition isoYear :: "int \<Rightarrow> string" where
  "isoYear y = (if 0 \<le> y \<and> y \<le> 9999 then padNat 4 (nat y)
     else if y < 0 then ''-'' @ padNat 6 (nat (- y)) else ''+'' @ padNat 6 (nat y))"

definition toISOString :: "int \<Rightarrow> string" where
  "toISOString t =
    (let ms = t mod 86400000; (y, m, d) = civilFromDays (t div 86400000)
     in isoYear y @ ''-'' @ padNat 2 (nat m) @ ''-'' @ padNat 2 (nat d) @ ''T'' @
        padNat 2 (nat (ms div 3600000)) @ '':'' @ padNat 2 (nat (ms div 60000 mod 60)) @ '':'' @
        padNat 2 (nat (ms div 1000 mod 60)) @ ''.'' @ padNat 3 (nat (ms mod 1000)) @ ''Z'')"

section \<open>Reading the text back\<close>

definition readYear :: "string \<Rightarrow> int option" where
  "readYear s =
    (case s of
       [] \<Rightarrow> None
     | c # r \<Rightarrow> if c = CHR ''-'' then map_option (\<lambda>n. - int n) (parseDigits 0 r)
                 else if c = CHR ''+'' then map_option int (parseDigits 0 r) else map_option int (parseDigits 0 s))"

definition readISO :: "string \<Rightarrow> int option" where
  "readISO s =
    (let k = length s - 20; field = (\<lambda>i n. parseDigits 0 (take n (drop (k + i) s))) in
     case (readYear (take k s), field 1 2, field 4 2, field 7 2, field 10 2, field 13 2, field 16 3) of
       (Some y, Some m, Some d, Some h, Some mi, Some sec, Some ms) \<Rightarrow>
         Some (86400000 * daysFromCivil (y, int m, int d) + 3600000 * int h + 60000 * int mi + 1000 * int sec + int ms)
     | _ \<Rightarrow> None)"

lemma digitValue_zero: "digitValue (CHR ''0'') = Some 0"
  by (simp add: digitValue_def)

lemma parseDigits_zeros: "parseDigits 0 (replicate m (CHR ''0'') @ s) = parseDigits 0 s"
  by (induction m) (simp_all add: digitValue_zero)

lemma parseDigits_padNat [simp]: "parseDigits 0 (padNat k n) = Some n"
  by (simp add: padNat_def padStart_def parseDigits_zeros parseDigits_natToString)

lemma length_natToString: "n < 10 ^ Suc k \<Longrightarrow> length (natToString n) \<le> Suc k"
proof (induction k arbitrary: n)
  case 0
  then show ?case by (subst natToString.simps) simp
next
  case (Suc k)
  then have "n div 10 < 10 ^ Suc k" by (simp add: less_mult_imp_div_less mult.commute)
  with Suc.IH [of "n div 10"] show ?case by (subst natToString.simps) simp
qed

lemma length_padNat: "n < 10 ^ Suc k \<Longrightarrow> length (padNat (Suc k) n) = Suc k"
  using length_natToString [of n k] by (simp add: padNat_def padStart_def)

lemma padNat_digit: "padNat k n \<noteq> [] \<and> hd (padNat k n) \<noteq> CHR ''-'' \<and> hd (padNat k n) \<noteq> CHR ''+''"
proof -
  obtain c r where cr: "padNat k n = c # r" by (cases "padNat k n") (auto simp: padNat_def padStart_def)
  have "parseDigits 0 (c # r) = Some n" using parseDigits_padNat [of k n] by (simp add: cr)
  then have "digitValue c \<noteq> None" by (auto split: option.splits)
  then show ?thesis by (auto simp: cr digitValue_def Let_def split: if_splits)
qed

lemma readYear_isoYear: "readYear (isoYear y) = Some y"
proof -
  have "readYear (padNat 4 (nat y)) = Some (int (nat y))"
    using padNat_digit [of 4 "nat y"] parseDigits_padNat [of 4 "nat y"]
    by (cases "padNat 4 (nat y)") (simp_all add: readYear_def)
  then show ?thesis by (auto simp: isoYear_def readYear_def)
qed

text \<open>Every instant is printed so that it can be read back, to the millisecond.\<close>

theorem toISOString_reads_back: "readISO (toISOString t) = Some t"
proof -
  define ms where "ms = t mod 86400000"
  obtain y m d where ymd: "civilFromDays (t div 86400000) = (y, m, d)" by (cases "civilFromDays (t div 86400000)")
  note civil = civilFromDays_facts [OF ymd]
  let ?f = "\<lambda>n. padNat 2 (nat n)"
  have ms: "0 \<le> ms" "ms < 86400000" by (simp_all add: ms_def)
  have len2: "length (?f n) = 2" if "0 \<le> n" "n < 100" for n
    using length_padNat [of "nat n" 1] that by (simp add: numeral_2_eq_2)
  have len3: "length (padNat 3 (nat (ms mod 1000))) = 3"
    using length_padNat [of "nat (ms mod 1000)" 2] by (simp add: numeral_3_eq_3 nat_less_iff)
  have lens: "length (?f m) = 2" "length (?f d) = 2" "length (?f (ms div 3600000)) = 2"
      "length (?f (ms div 60000 mod 60)) = 2" "length (?f (ms div 1000 mod 60)) = 2"
    using civil ms by (intro len2; simp)+
  let ?s = "isoYear y @ ''-'' @ ?f m @ ''-'' @ ?f d @ ''T'' @ ?f (ms div 3600000) @ '':'' @ ?f (ms div 60000 mod 60) @ '':'' @
      ?f (ms div 1000 mod 60) @ ''.'' @ padNat 3 (nat (ms mod 1000)) @ ''Z''"
  have s: "toISOString t = ?s" unfolding toISOString_def Let_def ms_def ymd prod.case by (rule refl)
  have k: "length ?s - 20 = length (isoYear y)" by (simp add: lens len3)
  have "readISO ?s = Some (86400000 * daysFromCivil (y, m, d) + 3600000 * (ms div 3600000) + 60000 * (ms div 60000 mod 60) +
      1000 * (ms div 1000 mod 60) + ms mod 1000)"
    unfolding readISO_def Let_def k using civil ms
    by (simp add: readYear_isoYear lens len3 drop_Cons' take_Cons')
  also have "\<dots> = Some (86400000 * daysFromCivil (y, m, d) + ms)"
  proof -
    have mixed: "3600000 * c + 60000 * u + 1000 * v + r = x"
      if "x = 1000 * a + r" "a = 60 * b + v" "b = 60 * c + u" for a b c r u v x :: int using that by simp
    have "ms div 60000 = ms div 1000 div 60" "ms div 3600000 = ms div 1000 div 60 div 60"
      by (simp_all add: zdiv_zmult2_eq [symmetric])
    then have "3600000 * (ms div 3600000) + 60000 * (ms div 60000 mod 60) + 1000 * (ms div 1000 mod 60) + ms mod 1000 = ms"
      by (simp only:) (rule mixed; simp only: mult_div_mod_eq)
    then show ?thesis by simp
  qed
  finally show ?thesis using civil by (simp add: s ms_def)
qed

end
