(* ===== verification/World.thy ===== *)
theory World
  imports Registry Errors Dates
begin

text \<open>
  The state the background services and the request handlers share: the rows of the database
  tables (\<^verbatim>\<open>persistence/drizzle/entity\<close>), the in-memory slots of the mempool singleton, the events
  handed to the bus and the transactions handed to the network; and the environment they run in:
  configuration, clock, database faults, and the third-party code they call.

  Every awaited call that leaves the process (a database statement, an RPC, an SDK call that talks
  to the network) advances \<open>w_tick\<close>.  The clock and every external answer are functions of that
  counter, so time may pass and answers may change between any two calls, and a database statement
  may fail at any point.  Nothing is assumed of these functions unless a theorem says so.
\<close>

section \<open>Entities\<close>

datatype BundleStatus = B_PENDING | B_PROCESSING | B_EXPIRED | B_COMPLETED | B_FAILED

datatype TransactionStatus = T_UNVERIFIED | T_VERIFIED | T_FAILED

datatype EntityStatus = E_UNVERIFIED | E_APPROVED | E_PENDING | E_BLOCKED

datatype CouncilMembershipStatus = M_PENDING | M_ACTIVE | M_REJECTED

record StructuredFailureDetail =
  sfd_code :: string
  sfd_source :: string
  sfd_message :: string
  sfd_name :: "string option"

datatype FailureDetail =
    StructuredDetail StructuredFailureDetail
  | FeesDetail InsufficientFeesDetail

record BaseColumns =
  createdAt :: int
  updatedAt :: int
  createdBy :: "string option"
  updatedBy :: "string option"
  deletedAt :: "int option"

record OperationsBundle = BaseColumns +
  ob_id :: string
  ob_status :: BundleStatus
  ob_channelContractId :: "string option"
  ob_ttl :: int
  ob_operationsMLXDR :: "string list"
  ob_fee :: int
  ob_retryCount :: int
  ob_lastFailureReason :: "string option"
  ob_failureDetail :: "FailureDetail option"
  ob_ppPublicKey :: "string option"

record Transaction = BaseColumns +
  t_id :: string
  t_status :: TransactionStatus
  t_timeout :: int
  t_ledgerSequence :: string

record BundleTransaction = BaseColumns +
  bt_bundleId :: string
  bt_transactionId :: string

record Utxo = BaseColumns +
  u_id :: string
  u_amount :: int
  u_accountId :: string
  u_spentByAccountId :: "string option"
  u_createdAtBundleId :: "string option"
  u_spentAtBundleId :: "string option"

datatype SessionStatus = S_ACTIVE | S_INACTIVE

record Session = BaseColumns +
  s_id :: string
  s_status :: SessionStatus
  s_jwtToken :: "string option"
  s_accountId :: string

datatype AccountType = A_OPEX | A_USER

record Account = BaseColumns +
  a_id :: string
  a_type :: AccountType
  a_entityId :: string

record Entity = BaseColumns +
  e_id :: string
  e_name :: "string option"
  e_jurisdictions :: "string list option"

record PpEntityApproval = BaseColumns +
  pa_id :: string
  pa_ppPublicKey :: string
  pa_accountPubkey :: string
  pa_status :: EntityStatus

record PaymentProvider = BaseColumns +
  pp_id :: string
  pp_publicKey :: string
  pp_encryptedSk :: string
  pp_derivationIndex :: int
  pp_ownerPublicKey :: "string option"
  pp_isActive :: bool
  pp_label :: "string option"
  pp_kycSubmissionUrl :: "string option"

record CouncilMembership = BaseColumns +
  cm_id :: string
  cm_councilUrl :: string
  cm_councilName :: "string option"
  cm_councilPublicKey :: string
  cm_channelAuthId :: string
  cm_status :: CouncilMembershipStatus
  cm_configJson :: "string option"
  cm_claimedJurisdictions :: "string option"
  cm_joinRequestId :: "string option"
  cm_ppPublicKey :: string

datatype ChallengeStatus = C_VERIFIED | C_UNVERIFIED

record Challenge = BaseColumns +
  c_id :: string
  c_accountId :: string
  c_status :: ChallengeStatus
  c_ttl :: int
  c_txHash :: string
  c_txXDR :: string

datatype PayKycStatus = K_NONE | K_PENDING | K_VERIFIED

record PayKyc = BaseColumns +
  pk_id :: string
  pk_address :: string
  pk_status :: PayKycStatus
  pk_jurisdiction :: "string option"
  pk_verifiedAt :: "int option"

datatype PayCustodialStatus = PC_ACTIVE | PC_SUSPENDED

record PayCustodialAccount = BaseColumns +
  pca_id :: string
  pca_username :: string
  pca_passwordHash :: string
  pca_depositAddress :: string
  pca_balance :: int
  pca_status :: PayCustodialStatus

datatype PayEscrowStatus = ES_HELD | ES_CLAIMED | ES_EXPIRED

datatype PayMode = SelfCustodial | Custodial

record PayEscrow = BaseColumns +
  esc_id :: string
  esc_heldForAddress :: string
  esc_senderAddress :: string
  esc_amount :: int
  esc_assetCode :: string
  esc_status :: PayEscrowStatus
  esc_utxoPublicKeys :: "string option"
  esc_bundleId :: "string option"
  esc_claimBundleId :: "string option"
  esc_mode :: PayMode

datatype PayTransactionType = PT_DEPOSIT | PT_WITHDRAW | PT_SEND | PT_RECEIVE

datatype PayTransactionStatus = PS_PENDING | PS_COMPLETED | PS_FAILED | PS_EXPIRED

record PayTransaction = BaseColumns +
  ptx_id :: string
  ptx_type :: PayTransactionType
  ptx_status :: PayTransactionStatus
  ptx_amount :: int
  ptx_assetCode :: string
  ptx_fromAddress :: "string option"
  ptx_toAddress :: "string option"
  ptx_jurisdictionFrom :: "string option"
  ptx_jurisdictionTo :: "string option"
  ptx_bundleId :: "string option"
  ptx_accountId :: string
  ptx_mode :: PayMode

text \<open>The measured averages of a sample are rational numbers; the rounding of doubles is not modelled.\<close>

record MempoolMetric =
  mm_id :: nat
  mm_recordedAt :: int
  mm_platformVersion :: string
  mm_ppPublicKey :: "string option"
  mm_queueDepth :: nat
  mm_slotCount :: nat
  mm_bundlesCompleted :: nat
  mm_bundlesExpired :: nat
  mm_bundlesFailed :: nat
  mm_avgProcessingMs :: "rat option"
  mm_p95ProcessingMs :: "rat option"
  mm_throughputPerMin :: "rat option"

record WaitlistRequest = BaseColumns +
  wl_id :: string
  wl_email :: string
  wl_walletPublicKey :: "string option"
  wl_source :: string

record WalletUser =
  wu_publicKey :: string
  wu_createdAt :: int

section \<open>Errors\<close>

datatype exn =
    DbError
  | JsError string
  | TypeError
  | TimeoutError string
  | NetworkError string
  | ExecutionError exn
  | InsufficientFees InsufficientFeesDetail
  | OutOfFuel
  | SLOT_FULL int int
  | INVALID_SESSION string
  | BUNDLE_ALREADY_EXISTS string
  | UTXO_NOT_FOUND string
  | SPEND_OPERATION_NOT_SIGNED nat
  | BUNDLE_NOT_FOUND string
  | BUNDLE_ACCESS_FORBIDDEN string string
  | TOO_MANY_OPERATIONS nat nat
  | SUBMITTER_NOT_APPROVED string
  | PP_PUBLIC_KEY_REQUIRED
  | CHANNEL_DISABLED string
  | CHANNEL_RPC_UNAVAILABLE string
  | INSUFFICIENT_BALANCE int int
  | PlatformError PlatformErrorShape

section \<open>Events\<close>

record EventScope =
  es_ppPublicKey :: string
  es_ppLabel :: "string option"

datatype EventPayload =
    MempoolBundleAdded (ba_bundleId: string) int string bool "string option" "string list"
      "string option"
  | MempoolBundleExpired string string
  | ExecutorTransactionSubmitted string "string list" string
  | ExecutorExecutionFailed "string list" "string option" string
  | VerifierBundleCompleted string "string list" string
  | VerifierBundleFailed string "string list" string string
  | BundleDepositCompleted string string string string string
  | BundleWithdrawCompleted string string string string string
  | ChannelProviderAdded string
  | ChannelProviderRemoved string

record ProviderEvent =
  pe_ts :: int
  pe_scope :: EventScope
  pe_payload :: EventPayload

section \<open>The transaction builder and the council configuration\<close>

text \<open>A privacy-channel client is what it was constructed with.\<close>

record PrivacyChannel =
  pc_channelId :: string
  pc_authId :: string
  pc_assetId :: string

record MoonlightTx =
  tx_channel :: PrivacyChannel
  tx_operations :: "MoonlightOperation list"

text \<open>A call of \<^verbatim>\<open>invokeRaw\<close>: the transaction, the account that pays and signs, and what the call
  returned.\<close>

record Submission =
  sub_tx :: MoonlightTx
  sub_source :: string
  sub_result :: "exn + string"

record CouncilChannel =
  cc_channelContractId :: string
  cc_assetContractId :: "string option"

record CouncilConfig =
  cfg_channelAuthId :: "string option"
  cfg_channels :: "CouncilChannel list option"

record ContractError =
  ce_code :: string
  ce_name :: string
  ce_details :: string

record AccountEntry =
  ae_balance :: int
  ae_numSubEntries :: int
  ae_seqNum :: int

datatype LedgerEntryData = AccountLedgerEntry AccountEntry | OtherLedgerEntry

datatype SimulationResponse =
    SimulationError string
  | SimulationSuccess "int option"

datatype TxStatus = TX_SUCCESS | TX_FAILED | TX_NOT_FOUND

record TxResponse =
  tr_status :: TxStatus
  tr_ledger :: "int option"
  tr_resultXdr :: "string option"

datatype FailurePayload =
    ExecutionPayload int string exn "nat \<times> int" "string list"
  | VerificationPayload int string string string

section \<open>Contract events\<close>

text \<open>A Soroban value as the watcher reads it: a symbol, an address, a boolean, or anything else with the
  truth value JavaScript gives to its native form.\<close>

datatype ScVal = ScSymbol string | ScAddress string | ScBool bool | ScOther bool

record RawEvent =
  re_topic :: "ScVal list option"
  re_value :: ScVal
  re_ledger :: int
  re_contractId :: "string option"

record EventsResponse =
  er_latestLedger :: int
  er_events :: "RawEvent list"

text \<open>The event watcher of the process: the two cursors, the set of watched contracts and the health
  signal.\<close>

record EventWatcher =
  ew_isRunning :: bool
  ew_liveLedger :: "int option"
  ew_backfillLedger :: "int option"
  ew_backfillCeiling :: "int option"
  ew_contractIds :: "string list"
  ew_lastPollOkAt :: "int option"
  ew_lastPollError :: "(int \<times> string) option"

section \<open>Sessions in memory\<close>

record PendingChallenge =
  pch_nonce :: string
  pch_publicKey :: string
  pch_createdAt :: int

datatype MemorySessionStatus = MS_PENDING | MS_ACTIVE

record MemorySession =
  ms_txHash :: string
  ms_clientAccount :: "string option"
  ms_requestId :: string
  ms_expiresAt :: int
  ms_status :: MemorySessionStatus

section \<open>World and environment\<close>

record world =
  w_tick :: nat
  w_bundles :: "OperationsBundle list"
  w_transactions :: "Transaction list"
  w_links :: "BundleTransaction list"
  w_utxos :: "Utxo list"
  w_sessions :: "Session list"
  w_accounts :: "Account list"
  w_entities :: "Entity list"
  w_approvals :: "PpEntityApproval list"
  w_pps :: "PaymentProvider list"
  w_memberships :: "CouncilMembership list"
  w_slots :: "Slot list"
  w_isProcessing :: bool
  w_bus :: "ProviderEvent list"
  w_submitted :: "Submission list"
  w_channelCache :: "(string \<times> PrivacyChannel) list"
  w_challenges :: "Challenge list"
  w_registry :: "ChannelRegistry option"
  w_watcher :: "EventWatcher option"
  w_registeredProviders :: "string list"
  w_dashboardChallenges :: "(string \<times> PendingChallenge) list"
  w_entityChallenges :: "(string \<times> PendingChallenge) list"
  w_sessionManager :: "(string \<times> MemorySession) list"
  w_payKyc :: "PayKyc list"
  w_payAccounts :: "PayCustodialAccount list"
  w_payEscrows :: "PayEscrow list"
  w_payTransactions :: "PayTransaction list"
  w_metrics :: "MempoolMetric list"
  w_waitlist :: "WaitlistRequest list"
  w_walletUsers :: "WalletUser list"

text \<open>The \<open>env\<close> record: the constants of \<^verbatim>\<open>config/env.ts\<close>, the clock and the database faults, then the
  parameters that stand for code outside the repository.\<close>

record env =
  MEMPOOL_SLOT_CAPACITY :: int
  MEMPOOL_WEIGHT_CONFIG :: WeightConfig
  MEMPOOL_MAX_RETRY_ATTEMPTS :: int
  MEMPOOL_STARTUP_MAX_BUNDLE_AGE_MS :: int
  BUNDLE_MAX_OPERATIONS :: nat
  TRANSACTION_EXPIRATION_OFFSET :: int
  NETWORK_FEE :: int
  BASE_RESERVE_STROOPS :: int
  SERVICE_AUTH_SECRET :: string
  clock :: "nat \<Rightarrow> int"
  dbFault :: "nat \<Rightarrow> bool"
  rpcTimeout :: "nat \<Rightarrow> bool"
  fromMLXDR :: "string \<Rightarrow> exn + MoonlightOperation"
  subtle :: SubtleCrypto
  parseConfigJson :: "string \<Rightarrow> CouncilConfig option"
  stringifyFailure :: "FailurePayload \<Rightarrow> string option"
  keypairPublicKey :: "string \<Rightarrow> exn + string"
  decodeContractError :: "exn \<Rightarrow> ContractError option"
  errorMessage :: "exn \<Rightarrow> string"
  createOperation :: "string \<Rightarrow> int \<Rightarrow> exn + CreateOperation"
  addOperationCheck :: "MoonlightOperation list \<Rightarrow> MoonlightOperation \<Rightarrow> exn option"
  opexFreeUtxos :: "string \<Rightarrow> PrivacyChannel \<Rightarrow> nat \<Rightarrow> string list"
  opexReserve :: "string list \<Rightarrow> nat \<Rightarrow> string list option"
  opexDerive :: "nat \<Rightarrow> exn option"
  opexFuel :: nat
  rpcUtxoBalances :: "nat \<Rightarrow> PrivacyChannel \<Rightarrow> string list \<Rightarrow> exn + int list"
  rpcLatestLedger :: "nat \<Rightarrow> exn + int"
  rpcLedgerEntries :: "nat \<Rightarrow> string \<Rightarrow> exn + LedgerEntryData list"
  rpcSimulate :: "nat \<Rightarrow> MoonlightTx \<Rightarrow> exn + SimulationResponse"
  rpcSign :: "nat \<Rightarrow> string \<Rightarrow> MoonlightTx \<Rightarrow> int \<Rightarrow> exn option"
  rpcInvoke :: "nat \<Rightarrow> string \<Rightarrow> MoonlightTx \<Rightarrow> exn + string"
  rpcGetTransaction :: "nat \<Rightarrow> string \<Rightarrow> exn + TxResponse option"
  BOOT_SYNC_START_LEDGER_BLOCK :: "int option"
  rpcGetEvents :: "nat \<Rightarrow> int \<Rightarrow> string list list \<Rightarrow> exn + EventsResponse"
  rpcOldestLedger :: "nat \<Rightarrow> exn + int"
  retentionText :: "exn \<Rightarrow> string"
  fetchCouncil :: "nat \<Rightarrow> string \<Rightarrow> string \<Rightarrow> exn + int \<times> CouncilConfigData option"
  fetchMembership :: "nat \<Rightarrow> string \<Rightarrow> string \<Rightarrow> string \<Rightarrow> exn + int \<times> string option"
  stringifyCouncil :: "CouncilConfigData \<Rightarrow> string"

type_synonym 'a action = "(world, exn, 'a) act"

definition dateNow :: "env \<Rightarrow> int action" where
  "dateNow env = gets (\<lambda>w. clock env (w_tick w))"

definition advance :: "world \<Rightarrow> world" where
  "advance w = w\<lparr>w_tick := Suc (w_tick w)\<rparr>"

text \<open>A read, a write and a call of external code.  A failing statement leaves the tables as they
  were.\<close>

definition dbQuery :: "env \<Rightarrow> (world \<Rightarrow> 'a) \<Rightarrow> 'a action" where
  "dbQuery env f = (\<lambda>w.
    if dbFault env (w_tick w) then (Inl DbError, advance w) else (Inr (f w), advance w))"

definition dbExec :: "env \<Rightarrow> (int \<Rightarrow> 'a action) \<Rightarrow> 'a action" where
  "dbExec env f = (\<lambda>w.
    if dbFault env (w_tick w) then (Inl DbError, advance w)
    else (case f (clock env (w_tick w)) w of (r, w') \<Rightarrow> (r, advance w')))"

definition external :: "(nat \<Rightarrow> exn + 'a) \<Rightarrow> 'a action" where
  "external f = (\<lambda>w. (f (w_tick w), advance w))"

definition liftSum :: "exn + 'a \<Rightarrow> 'a action" where
  "liftSum r = (\<lambda>w. (r, w))"

definition throwIf :: "exn option \<Rightarrow> unit action" where
  "throwIf e = (case e of None \<Rightarrow> ret () | Some x \<Rightarrow> throw x)"

text \<open>The secret key of a provider as the services read it.\<close>

definition decryptSk :: "env \<Rightarrow> string \<Rightarrow> string \<Rightarrow> exn + string" where
  "decryptSk env ciphertext secret = map_sum JsError (\<lambda>sk. sk) (openSk (subtle env) ciphertext secret)"

section \<open>Facts\<close>

lemma advance_simps [simp]:
  "w_tick (advance w) = Suc (w_tick w)" "w_bundles (advance w) = w_bundles w"
  "w_transactions (advance w) = w_transactions w" "w_links (advance w) = w_links w"
  "w_utxos (advance w) = w_utxos w" "w_sessions (advance w) = w_sessions w"
  "w_accounts (advance w) = w_accounts w" "w_entities (advance w) = w_entities w"
  "w_approvals (advance w) = w_approvals w" "w_pps (advance w) = w_pps w"
  "w_memberships (advance w) = w_memberships w" "w_slots (advance w) = w_slots w"
  "w_isProcessing (advance w) = w_isProcessing w" "w_bus (advance w) = w_bus w"
  "w_submitted (advance w) = w_submitted w" "w_channelCache (advance w) = w_channelCache w"
  "w_challenges (advance w) = w_challenges w" "w_registry (advance w) = w_registry w"
  "w_watcher (advance w) = w_watcher w"
  "w_registeredProviders (advance w) = w_registeredProviders w"
  "w_dashboardChallenges (advance w) = w_dashboardChallenges w"
  "w_entityChallenges (advance w) = w_entityChallenges w"
  "w_sessionManager (advance w) = w_sessionManager w"
  "w_payKyc (advance w) = w_payKyc w"
  "w_payAccounts (advance w) = w_payAccounts w"
  "w_payEscrows (advance w) = w_payEscrows w"
  "w_payTransactions (advance w) = w_payTransactions w"
  "w_metrics (advance w) = w_metrics w"
  "w_waitlist (advance w) = w_waitlist w"
  "w_walletUsers (advance w) = w_walletUsers w"
  by (simp_all add: advance_def)

lemma liftSum_apply [run_simps, simp]: "liftSum r w = (r, w)"
  by (simp add: liftSum_def)

lemma dateNow_apply [run_simps, simp]: "dateNow env w = (Inr (clock env (w_tick w)), w)"
  by (simp add: dateNow_def)

lemma dbQuery_apply [run_simps]:
  "dbQuery env f w =
    (if dbFault env (w_tick w) then (Inl DbError, advance w) else (Inr (f w), advance w))"
  by (simp add: dbQuery_def)

lemma external_apply [run_simps]: "external f w = (f (w_tick w), advance w)"
  by (simp add: external_def)

text \<open>A guarantee on worlds that does not look at the call counter.\<close>

locale world_guarantee = guarantee R for R :: "world \<Rightarrow> world \<Rightarrow> bool" +
  assumes R_advance: "R w (advance w)"
begin

lemma guar_dateNow: "guar R (dateNow env)"
  by (simp add: dateNow_def guar_gets)

lemma guar_dbQuery: "guar R (dbQuery env f)"
  by (simp add: guar_def dbQuery_def R_advance)

lemma guar_external: "guar R (external f)"
  by (simp add: guar_def external_def R_advance)

lemma guar_liftSum: "guar R (liftSum r)"
  by (simp add: guar_def R_refl)

lemma guar_throwIf: "guar R (throwIf e)"
  by (cases e) (simp_all add: throwIf_def guar_ret guar_throw)

lemma guar_dbExec:
  assumes "\<And>t. guar R (f t)"
  shows "guar R (dbExec env f)"
proof (rule guarI)
  fix w
  obtain r w' where f: "f (clock env (w_tick w)) w = (r, w')"
    by (cases "f (clock env (w_tick w)) w")
  have "R w w'" using assms f by (rule guarD)
  then have "R w (advance w')" using R_advance by (rule R_trans)
  with f R_advance show "R w (snd (dbExec env f w))" by (simp add: dbExec_def)
qed

lemmas world_rules = guar_rules guar_dateNow guar_dbQuery guar_external guar_liftSum guar_throwIf
  guar_dbExec

end

end
