(* ===== verification/Repositories.thy ===== *)
theory Repositories
  imports World
begin

text \<open>
  The repositories of \<^verbatim>\<open>persistence/drizzle/repository\<close> over the tables of the world.

  A table is a list of rows in insertion order; a query without \<^verbatim>\<open>ORDER BY\<close> returns them in that
  order.  \<open>create\<close> fails on a duplicate primary key; foreign keys are not modelled.  \<open>update\<close>
  returns what the driver's \<^verbatim>\<open>returning()\<close> gives, the list of rows it touched.
\<close>

section \<open>The base repository\<close>

definition base_create ::
    "env \<Rightarrow> (world \<Rightarrow> 'r list) \<Rightarrow> (('r list \<Rightarrow> 'r list) \<Rightarrow> world \<Rightarrow> world) \<Rightarrow> ('r \<Rightarrow> 'k) \<Rightarrow>
      'r \<Rightarrow> 'r action" where
  "base_create env get upd key row = dbExec env (\<lambda>_ w.
    if list_ex (\<lambda>r. key r = key row) (get w) then (Inl DbError, w)
    else (Inr row, upd (\<lambda>rs. rs @ [row]) w))"

definition base_findById ::
    "env \<Rightarrow> (world \<Rightarrow> 'a BaseColumns_scheme list) \<Rightarrow> ('a BaseColumns_scheme \<Rightarrow> string) \<Rightarrow> string \<Rightarrow>
      'a BaseColumns_scheme option action" where
  "base_findById env get key i =
    dbQuery env (\<lambda>w. find (\<lambda>r. key r = i \<and> deletedAt r = None) (get w))"

definition base_findMany ::
    "env \<Rightarrow> (world \<Rightarrow> 'a BaseColumns_scheme list) \<Rightarrow> ('a BaseColumns_scheme \<Rightarrow> bool) \<Rightarrow>
      'a BaseColumns_scheme list action" where
  "base_findMany env get P = dbQuery env (\<lambda>w. filter (\<lambda>r. P r \<and> deletedAt r = None) (get w))"

definition base_update ::
    "env \<Rightarrow> (world \<Rightarrow> 'a BaseColumns_scheme list) \<Rightarrow>
      (('a BaseColumns_scheme list \<Rightarrow> 'a BaseColumns_scheme list) \<Rightarrow> world \<Rightarrow> world) \<Rightarrow>
      ('a BaseColumns_scheme \<Rightarrow> string) \<Rightarrow> string \<Rightarrow>
      ('a BaseColumns_scheme \<Rightarrow> 'a BaseColumns_scheme) \<Rightarrow> 'a BaseColumns_scheme list action" where
  "base_update env get upd key i data = dbExec env (\<lambda>now w.
    (Inr (map (\<lambda>r. (data r)\<lparr>updatedAt := now\<rparr>) (filter (\<lambda>r. key r = i) (get w))),
     upd (map (\<lambda>r. if key r = i then (data r)\<lparr>updatedAt := now\<rparr> else r)) w))"

definition base_delete ::
    "env \<Rightarrow> (('a BaseColumns_scheme list \<Rightarrow> 'a BaseColumns_scheme list) \<Rightarrow> world \<Rightarrow> world) \<Rightarrow>
      ('a BaseColumns_scheme \<Rightarrow> string) \<Rightarrow> string \<Rightarrow> unit action" where
  "base_delete env upd key i = dbExec env (\<lambda>now w.
    (Inr (), upd (map (\<lambda>r. if key r = i then r\<lparr>deletedAt := Some now\<rparr> else r)) w))"

section \<open>Operations bundles\<close>

definition bundles_create :: "env \<Rightarrow> OperationsBundle \<Rightarrow> OperationsBundle action" where
  "bundles_create env = base_create env w_bundles w_bundles_update ob_id"

definition bundles_findById :: "env \<Rightarrow> string \<Rightarrow> OperationsBundle option action" where
  "bundles_findById env = base_findById env w_bundles ob_id"

definition bundles_update ::
    "env \<Rightarrow> string \<Rightarrow> (OperationsBundle \<Rightarrow> OperationsBundle) \<Rightarrow> OperationsBundle list action" where
  "bundles_update env = base_update env w_bundles w_bundles_update ob_id"

definition findByStatus :: "env \<Rightarrow> BundleStatus \<Rightarrow> OperationsBundle list action" where
  "findByStatus env status =
    dbQuery env (\<lambda>w. filter (\<lambda>r. ob_status r = status \<and> deletedAt r = None) (w_bundles w))"

definition findPendingOrProcessing :: "env \<Rightarrow> OperationsBundle list action" where
  "findPendingOrProcessing env =
    dbQuery env (\<lambda>w. filter (\<lambda>r. deletedAt r = None \<and>
      (ob_status r = B_PENDING \<or> ob_status r = B_PROCESSING)) (w_bundles w))"

definition countByStatus :: "env \<Rightarrow> BundleStatus \<Rightarrow> nat action" where
  "countByStatus env status =
    dbQuery env (\<lambda>w. length (filter (\<lambda>r. ob_status r = status \<and> deletedAt r = None) (w_bundles w)))"

definition findByStatusAndDateRange ::
    "env \<Rightarrow> BundleStatus \<Rightarrow> int option \<Rightarrow> int option \<Rightarrow> nat \<Rightarrow> OperationsBundle list action" where
  "findByStatusAndDateRange env status from until limit = dbQuery env (\<lambda>w.
    take limit (sort_key (\<lambda>r. - createdAt r) (filter (\<lambda>r.
      ob_status r = status \<and> deletedAt r = None \<and>
      (case from of None \<Rightarrow> True | Some f \<Rightarrow> f \<le> createdAt r) \<and>
      (case until of None \<Rightarrow> True | Some t \<Rightarrow> createdAt r \<le> t)) (w_bundles w))))"

definition findByStatusUpdatedSince ::
    "env \<Rightarrow> BundleStatus \<Rightarrow> int \<Rightarrow> nat \<Rightarrow> OperationsBundle list action" where
  "findByStatusUpdatedSince env status since limit = dbQuery env (\<lambda>w.
    take limit (sort_key (\<lambda>r. - updatedAt r) (filter (\<lambda>r.
      ob_status r = status \<and> since \<le> updatedAt r \<and> deletedAt r = None) (w_bundles w))))"

definition findByStatusUpdatedSinceForChannels ::
    "env \<Rightarrow> BundleStatus \<Rightarrow> int \<Rightarrow> string list \<Rightarrow> nat \<Rightarrow> OperationsBundle list action" where
  "findByStatusUpdatedSinceForChannels env status since channelContractIds limit =
    (if channelContractIds = [] then ret []
     else dbQuery env (\<lambda>w.
       take limit (sort_key (\<lambda>r. - updatedAt r) (filter (\<lambda>r.
         ob_status r = status \<and> since \<le> updatedAt r \<and>
         (case ob_channelContractId r of None \<Rightarrow> False | Some c \<Rightarrow> c \<in> set channelContractIds) \<and>
         deletedAt r = None) (w_bundles w)))))"

definition staleRow :: "int \<Rightarrow> BundleStatus list \<Rightarrow> OperationsBundle \<Rightarrow> bool" where
  "staleRow olderThan statuses r \<longleftrightarrow>
    deletedAt r = None \<and> ob_status r \<in> set statuses \<and> createdAt r < olderThan"

definition expireOlderThan ::
    "env \<Rightarrow> int \<Rightarrow> BundleStatus list \<Rightarrow> nat option \<Rightarrow> string list action" where
  "expireOlderThan env olderThan statuses limit = dbExec env (\<lambda>now w.
    let matching = filter (staleRow olderThan statuses) (w_bundles w);
        ids = (case limit of
                 None \<Rightarrow> map ob_id matching
               | Some n \<Rightarrow> map ob_id (take n (sort_key createdAt matching)))
    in (Inr (map ob_id (filter (\<lambda>r. ob_id r \<in> set ids) (w_bundles w))),
        w\<lparr>w_bundles := map (\<lambda>r. if ob_id r \<in> set ids
                              then r\<lparr>ob_status := B_EXPIRED, updatedAt := now\<rparr> else r)
                        (w_bundles w)\<rparr>))"

definition expireByIds :: "env \<Rightarrow> string list \<Rightarrow> BundleStatus list \<Rightarrow> string list action" where
  "expireByIds env ids activeStatuses =
    (if ids = [] then ret []
     else dbExec env (\<lambda>now w.
       let hit = (\<lambda>r. deletedAt r = None \<and> ob_id r \<in> set ids \<and> ob_status r \<in> set activeStatuses)
       in (Inr (map ob_id (filter hit (w_bundles w))),
           w\<lparr>w_bundles := map (\<lambda>r. if hit r then r\<lparr>ob_status := B_EXPIRED, updatedAt := now\<rparr> else r)
                           (w_bundles w)\<rparr>)))"

definition updateIfStatusIn ::
    "env \<Rightarrow> string \<Rightarrow> (OperationsBundle \<Rightarrow> OperationsBundle) \<Rightarrow> BundleStatus list \<Rightarrow> bool action" where
  "updateIfStatusIn env i data activeStatuses = dbExec env (\<lambda>now w.
    let hit = (\<lambda>r. ob_id r = i \<and> deletedAt r = None \<and> ob_status r \<in> set activeStatuses)
    in (Inr (filter hit (w_bundles w) \<noteq> []),
        w\<lparr>w_bundles := map (\<lambda>r. if hit r then (data r)\<lparr>updatedAt := now\<rparr> else r) (w_bundles w)\<rparr>))"

definition updateStatusIfActive ::
    "env \<Rightarrow> string \<Rightarrow> BundleStatus \<Rightarrow> BundleStatus list \<Rightarrow> bool action" where
  "updateStatusIfActive env i newStatus activeStatuses = dbExec env (\<lambda>now w.
    let hit = (\<lambda>r. ob_id r = i \<and> deletedAt r = None \<and> ob_status r \<in> set activeStatuses)
    in (Inr (filter hit (w_bundles w) \<noteq> []),
        w\<lparr>w_bundles := map (\<lambda>r. if hit r then r\<lparr>ob_status := newStatus, updatedAt := now\<rparr> else r)
                        (w_bundles w)\<rparr>))"

definition findByCreatedBy ::
    "env \<Rightarrow> string \<Rightarrow> BundleStatus option \<Rightarrow> OperationsBundle list action" where
  "findByCreatedBy env accountId status = dbQuery env (\<lambda>w.
    sort_key (\<lambda>r. - createdAt r) (filter (\<lambda>r.
      createdBy r = Some accountId \<and> deletedAt r = None \<and>
      (case status of None \<Rightarrow> True | Some s \<Rightarrow> ob_status r = s)) (w_bundles w)))"

section \<open>Transactions and their links\<close>

definition transactions_create :: "env \<Rightarrow> Transaction \<Rightarrow> Transaction action" where
  "transactions_create env = base_create env w_transactions w_transactions_update t_id"

definition transactions_update ::
    "env \<Rightarrow> string \<Rightarrow> (Transaction \<Rightarrow> Transaction) \<Rightarrow> Transaction list action" where
  "transactions_update env = base_update env w_transactions w_transactions_update t_id"

definition transactions_findByStatus :: "env \<Rightarrow> TransactionStatus \<Rightarrow> Transaction list action" where
  "transactions_findByStatus env status =
    dbQuery env (\<lambda>w. filter (\<lambda>r. t_status r = status \<and> deletedAt r = None) (w_transactions w))"

definition links_create :: "env \<Rightarrow> BundleTransaction \<Rightarrow> BundleTransaction action" where
  "links_create env =
    base_create env w_links w_links_update (\<lambda>r. (bt_bundleId r, bt_transactionId r))"

definition findByBundleId :: "env \<Rightarrow> string \<Rightarrow> BundleTransaction list action" where
  "findByBundleId env bundleId =
    dbQuery env (\<lambda>w. filter (\<lambda>r. bt_bundleId r = bundleId \<and> deletedAt r = None) (w_links w))"

definition findByTransactionId :: "env \<Rightarrow> string \<Rightarrow> BundleTransaction list action" where
  "findByTransactionId env transactionId =
    dbQuery env (\<lambda>w. filter (\<lambda>r. bt_transactionId r = transactionId \<and> deletedAt r = None) (w_links w))"

section \<open>UTXOs, sessions, accounts, entities\<close>

definition utxos_create :: "env \<Rightarrow> Utxo \<Rightarrow> Utxo action" where
  "utxos_create env = base_create env w_utxos w_utxos_update u_id"

definition utxos_findById :: "env \<Rightarrow> string \<Rightarrow> Utxo option action" where
  "utxos_findById env = base_findById env w_utxos u_id"

definition utxos_update :: "env \<Rightarrow> string \<Rightarrow> (Utxo \<Rightarrow> Utxo) \<Rightarrow> Utxo list action" where
  "utxos_update env = base_update env w_utxos w_utxos_update u_id"

definition sessions_findById :: "env \<Rightarrow> string \<Rightarrow> Session option action" where
  "sessions_findById env = base_findById env w_sessions s_id"

definition accounts_findById :: "env \<Rightarrow> string \<Rightarrow> Account option action" where
  "accounts_findById env = base_findById env w_accounts a_id"

definition entities_findById :: "env \<Rightarrow> string \<Rightarrow> Entity option action" where
  "entities_findById env = base_findById env w_entities e_id"

section \<open>Approvals\<close>

definition findByPpAndAccount :: "env \<Rightarrow> string \<Rightarrow> string \<Rightarrow> PpEntityApproval option action" where
  "findByPpAndAccount env ppPublicKey accountPubkey = dbQuery env (\<lambda>w.
    find (\<lambda>r. pa_ppPublicKey r = ppPublicKey \<and> pa_accountPubkey r = accountPubkey \<and>
      deletedAt r = None) (w_approvals w))"

text \<open>The upsert of \<^verbatim>\<open>recordInteraction\<close>, keyed on the unique index over (pp, account), which also
  covers soft-deleted rows.  \<open>newId\<close> is the \<^verbatim>\<open>crypto.randomUUID()\<close> of the call.\<close>

definition recordInteraction :: "env \<Rightarrow> string \<Rightarrow> string \<Rightarrow> string \<Rightarrow> unit action" where
  "recordInteraction env newId ppPublicKey accountPubkey = dbExec env (\<lambda>now w.
    let conflict = (\<lambda>r. pa_ppPublicKey r = ppPublicKey \<and> pa_accountPubkey r = accountPubkey)
    in if list_ex conflict (w_approvals w)
       then (Inr (), w\<lparr>w_approvals :=
               map (\<lambda>r. if conflict r \<and> pa_status r = E_UNVERIFIED then r\<lparr>updatedAt := now\<rparr> else r)
                 (w_approvals w)\<rparr>)
       else if list_ex (\<lambda>r. pa_id r = newId) (w_approvals w) then (Inl DbError, w)
       else (Inr (), w\<lparr>w_approvals := w_approvals w @
               [\<lparr>createdAt = now, updatedAt = now, createdBy = None, updatedBy = None, deletedAt = None,
                 pa_id = newId, pa_ppPublicKey = ppPublicKey, pa_accountPubkey = accountPubkey,
                 pa_status = E_UNVERIFIED\<rparr>]\<rparr>))"

section \<open>Payment providers and memberships\<close>

definition findByPublicKey :: "env \<Rightarrow> string \<Rightarrow> PaymentProvider option action" where
  "findByPublicKey env publicKey =
    dbQuery env (\<lambda>w. find (\<lambda>r. pp_publicKey r = publicKey) (w_pps w))"

definition listActive :: "env \<Rightarrow> PaymentProvider list action" where
  "listActive env = dbQuery env (\<lambda>w. filter pp_isActive (w_pps w))"

definition listAll :: "env \<Rightarrow> PaymentProvider list action" where
  "listAll env = dbQuery env (\<lambda>w. sort_key createdAt (w_pps w))"

definition getActiveForPp :: "env \<Rightarrow> string \<Rightarrow> CouncilMembership option action" where
  "getActiveForPp env ppPublicKey = dbQuery env (\<lambda>w.
    find (\<lambda>r. cm_ppPublicKey r = ppPublicKey \<and> cm_status r = M_ACTIVE \<and> deletedAt r = None)
      (w_memberships w))"

definition getCurrentForPp :: "env \<Rightarrow> string \<Rightarrow> CouncilMembership option action" where
  "getCurrentForPp env ppPublicKey =
    andThen (getActiveForPp env ppPublicKey) (\<lambda>active.
      case active of
        Some m \<Rightarrow> ret (Some m)
      | None \<Rightarrow> dbQuery env (\<lambda>w.
          (case sort_key (\<lambda>r. - updatedAt r)
                  (filter (\<lambda>r. cm_ppPublicKey r = ppPublicKey \<and> deletedAt r = None) (w_memberships w)) of
             [] \<Rightarrow> None | m # _ \<Rightarrow> Some m)))"

definition memberships_update ::
    "env \<Rightarrow> string \<Rightarrow> (CouncilMembership \<Rightarrow> CouncilMembership) \<Rightarrow> CouncilMembership list action" where
  "memberships_update env = base_update env w_memberships w_memberships_update cm_id"

section \<open>Scopes of events\<close>

definition resolveScopeForPp :: "env \<Rightarrow> string \<Rightarrow> EventScope option action" where
  "resolveScopeForPp env ppPublicKey = dbQuery env (\<lambda>w.
    map_option (\<lambda>r. \<lparr>es_ppPublicKey = pp_publicKey r, es_ppLabel = pp_label r\<rparr>)
      (find (\<lambda>r. pp_publicKey r = ppPublicKey) (w_pps w)))"

section \<open>Guarantees of the repositories\<close>

text \<open>Reads keep every guarantee.\<close>

context world_guarantee
begin

lemma guar_reads:
  "guar R (bundles_findById env i)" "guar R (findByStatus env st)"
  "guar R (findPendingOrProcessing env)" "guar R (countByStatus env st)"
  "guar R (findByStatusAndDateRange env st a b n)" "guar R (findByStatusUpdatedSince env st s n)"
  "guar R (findByCreatedBy env acc ost)" "guar R (transactions_findByStatus env tst)"
  "guar R (findByBundleId env i)" "guar R (findByTransactionId env i)"
  "guar R (utxos_findById env i)" "guar R (sessions_findById env i)"
  "guar R (accounts_findById env i)" "guar R (entities_findById env i)"
  "guar R (findByPpAndAccount env i j)" "guar R (findByPublicKey env i)"
  "guar R (listActive env)" "guar R (listAll env)" "guar R (getActiveForPp env i)"
  "guar R (resolveScopeForPp env i)"
  by (simp_all add: bundles_findById_def findByStatus_def findPendingOrProcessing_def
      countByStatus_def findByStatusAndDateRange_def findByStatusUpdatedSince_def
      findByCreatedBy_def transactions_findByStatus_def findByBundleId_def findByTransactionId_def
      utxos_findById_def sessions_findById_def accounts_findById_def entities_findById_def
      findByPpAndAccount_def findByPublicKey_def listActive_def listAll_def getActiveForPp_def
      resolveScopeForPp_def base_findById_def guar_dbQuery)

lemma guar_getCurrentForPp: "guar R (getCurrentForPp env i)"
  unfolding getCurrentForPp_def by (intro world_rules guar_reads)

end

text \<open>Two extensions: for code that may also fill the cache of channel clients, and for code that may
  also record a rejected submitter.\<close>

locale cache_guarantee = world_guarantee R for R :: "world \<Rightarrow> world \<Rightarrow> bool" +
  assumes R_cache: "R w (w_channelCache_update f7 w)"

locale gate_guarantee = cache_guarantee R for R :: "world \<Rightarrow> world \<Rightarrow> bool" +
  assumes R_approvals: "R w (w_approvals_update f4 w)"
begin

lemma guar_recordInteraction: "guar R (recordInteraction env u p a)"
  unfolding recordInteraction_def
  by (intro guar_dbExec guarI) (auto simp: R_refl Let_def intro: R_approvals)

end

text \<open>A guarantee that looks neither at the side tables nor at the bus: the writes to those tables
  keep it, so every repository but the one of the bundles does.\<close>

locale side_tables = gate_guarantee R for R :: "world \<Rightarrow> world \<Rightarrow> bool" +
  assumes R_transactions: "R w (w_transactions_update f1 w)"
    and R_links: "R w (w_links_update f2 w)"
    and R_utxos: "R w (w_utxos_update f3 w)"
    and R_memberships: "R w (w_memberships_update f5 w)"
    and R_bus: "R w (w_bus_update f6 w)"
begin

lemma guar_transactions_create: "guar R (transactions_create env r)"
  unfolding transactions_create_def base_create_def
  by (intro guar_dbExec guarI) (auto simp: R_refl R_transactions)

lemma guar_transactions_update: "guar R (transactions_update env i f)"
  unfolding transactions_update_def base_update_def
  by (intro guar_dbExec guarI) (auto simp: R_refl R_transactions)

lemma guar_links_create: "guar R (links_create env r)"
  unfolding links_create_def base_create_def
  by (intro guar_dbExec guarI) (auto simp: R_refl R_links)

lemma guar_utxos_create: "guar R (utxos_create env r)"
  unfolding utxos_create_def base_create_def
  by (intro guar_dbExec guarI) (auto simp: R_refl R_utxos)

lemma guar_utxos_update: "guar R (utxos_update env i f)"
  unfolding utxos_update_def base_update_def
  by (intro guar_dbExec guarI) (auto simp: R_refl R_utxos)

lemma guar_memberships_update: "guar R (memberships_update env i f)"
  unfolding memberships_update_def base_update_def
  by (intro guar_dbExec guarI) (auto simp: R_refl R_memberships)

lemmas repo_rules = guar_reads guar_transactions_create guar_transactions_update guar_links_create
  guar_utxos_create guar_utxos_update guar_memberships_update guar_recordInteraction
  guar_getCurrentForPp

end

text \<open>The mempool is not touched.\<close>

definition slotsKept :: "world \<Rightarrow> world \<Rightarrow> bool" where
  "slotsKept w w' \<longleftrightarrow> w_slots w' = w_slots w"

interpretation slots_kept: side_tables slotsKept
  by unfold_locales (simp_all add: slotsKept_def)

lemma slotsKept_bundles: "slotsKept w (w_bundles_update f w)"
  by (simp add: slotsKept_def)

text \<open>No transaction is handed to the network.\<close>

definition submittedKept :: "world \<Rightarrow> world \<Rightarrow> bool" where
  "submittedKept w w' \<longleftrightarrow> w_submitted w' = w_submitted w"

interpretation submitted_kept: side_tables submittedKept
  by unfold_locales (simp_all add: submittedKept_def)

text \<open>No row of the bundles table disappears, and a bundle in a terminal status stays in one.\<close>

fun terminal :: "BundleStatus \<Rightarrow> bool" where
  "terminal B_PENDING = False"
| "terminal B_PROCESSING = False"
| "terminal B_EXPIRED = True"
| "terminal B_COMPLETED = True"
| "terminal B_FAILED = True"

definition bundleRow :: "world \<Rightarrow> string \<Rightarrow> OperationsBundle option" where
  "bundleRow w i = find (\<lambda>r. ob_id r = i) (w_bundles w)"

definition statusOf :: "world \<Rightarrow> string \<Rightarrow> BundleStatus option" where
  "statusOf w i = map_option ob_status (bundleRow w i)"

definition terminalKept :: "world \<Rightarrow> world \<Rightarrow> bool" where
  "terminalKept w w' \<longleftrightarrow>
    (\<forall>i s. statusOf w i = Some s \<longrightarrow>
      (\<exists>s'. statusOf w' i = Some s' \<and> (terminal s \<longrightarrow> terminal s')))"

lemma bundleRow_cong: "w_bundles w' = w_bundles w \<Longrightarrow> bundleRow w' i = bundleRow w i"
  by (simp add: bundleRow_def)

lemma terminalKept_same: "w_bundles w' = w_bundles w \<Longrightarrow> terminalKept w w'"
  by (auto simp: terminalKept_def statusOf_def bundleRow_def)

interpretation terminal_kept: side_tables terminalKept
proof unfold_locales
  show "terminalKept s t \<Longrightarrow> terminalKept t u \<Longrightarrow> terminalKept s u" for s t u
    unfolding terminalKept_def by meson
qed (simp_all add: terminalKept_same)

lemma find_map_key:
  "(\<And>r. key (g r) = key r) \<Longrightarrow>
    find (\<lambda>r. key r = i) (map g rs) = map_option g (find (\<lambda>r. key r = i) rs)"
  by (induction rs) auto

lemma find_append_key:
  "find P (xs @ ys) = (case find P xs of None \<Rightarrow> find P ys | Some x \<Rightarrow> Some x)"
  by (induction xs) auto

lemma bundleRow_map:
  assumes "w_bundles w' = map g (w_bundles w)" and "\<And>r. ob_id (g r) = ob_id r"
  shows "bundleRow w' i = map_option g (bundleRow w i)"
  using find_map_key [of ob_id g, OF assms(2)] by (simp add: bundleRow_def assms(1))

lemma terminalKept_map:
  assumes "w_bundles w' = map g (w_bundles w)" and "\<And>r. ob_id (g r) = ob_id r"
    and "\<And>r. terminal (ob_status r) \<Longrightarrow> terminal (ob_status (g r))"
  shows "terminalKept w w'"
  using assms(3) by (auto simp: terminalKept_def statusOf_def bundleRow_map [OF assms(1,2)])

text \<open>The bundle statements keep it when the data they write does.\<close>

definition keepsTerminal :: "(OperationsBundle \<Rightarrow> OperationsBundle) \<Rightarrow> bool" where
  "keepsTerminal f \<longleftrightarrow>
    (\<forall>r. ob_id (f r) = ob_id r \<and> (terminal (ob_status r) \<longrightarrow> terminal (ob_status (f r))))"

lemma guar_tk_bundles_update:
  assumes "keepsTerminal f"
  shows "guar terminalKept (bundles_update env i f)"
  unfolding bundles_update_def base_update_def
proof (intro terminal_kept.guar_dbExec guarI, unfold snd_conv)
  fix t w
  show "terminalKept w
      (w_bundles_update (map (\<lambda>r. if ob_id r = i then (f r)\<lparr>updatedAt := t\<rparr> else r)) w)"
    using assms
    by (intro terminalKept_map [where g = "\<lambda>r. if ob_id r = i then (f r)\<lparr>updatedAt := t\<rparr> else r"])
      (auto simp: keepsTerminal_def)
qed

lemma guar_tk_updateIfStatusIn:
  assumes "\<And>r. ob_id (f r) = ob_id r" and "\<forall>s\<in>set active. \<not> terminal s"
  shows "guar terminalKept (updateIfStatusIn env i f active)"
  unfolding updateIfStatusIn_def Let_def
proof (intro terminal_kept.guar_dbExec guarI, unfold snd_conv)
  fix t w
  let ?g = "\<lambda>r. if ob_id r = i \<and> deletedAt r = None \<and> ob_status r \<in> set active
    then (f r)\<lparr>updatedAt := t\<rparr> else r"
  show "terminalKept w (w\<lparr>w_bundles := map ?g (w_bundles w)\<rparr>)"
    using assms by (intro terminalKept_map [where g = ?g]) auto
qed

lemma guar_tk_updateStatusIfActive:
  assumes "\<forall>s\<in>set active. \<not> terminal s"
  shows "guar terminalKept (updateStatusIfActive env i st active)"
  unfolding updateStatusIfActive_def Let_def
proof (intro terminal_kept.guar_dbExec guarI, unfold snd_conv)
  fix t w
  let ?g = "\<lambda>r. if ob_id r = i \<and> deletedAt r = None \<and> ob_status r \<in> set active
    then r\<lparr>ob_status := st, updatedAt := t\<rparr> else r"
  show "terminalKept w (w\<lparr>w_bundles := map ?g (w_bundles w)\<rparr>)"
    using assms by (intro terminalKept_map [where g = ?g]) auto
qed

lemma guar_tk_expireOlderThan: "guar terminalKept (expireOlderThan env c sts lmt)"
  unfolding expireOlderThan_def Let_def
proof (intro terminal_kept.guar_dbExec guarI, unfold snd_conv)
  fix t and w :: world
  let ?ids = "case lmt of None \<Rightarrow> map ob_id (filter (staleRow c sts) (w_bundles w))
    | Some n \<Rightarrow> map ob_id (take n (sort_key createdAt (filter (staleRow c sts) (w_bundles w))))"
  let ?g = "\<lambda>r. if ob_id r \<in> set ?ids then r\<lparr>ob_status := B_EXPIRED, updatedAt := t\<rparr> else r"
  show "terminalKept w (w\<lparr>w_bundles := map ?g (w_bundles w)\<rparr>)"
    by (intro terminalKept_map [where g = ?g]) auto
qed

lemma guar_slots_bundles:
  "guar slotsKept (bundles_update env i f)" "guar slotsKept (updateIfStatusIn env i f a)"
  "guar slotsKept (updateStatusIfActive env i st a)" "guar slotsKept (expireOlderThan env c sts lmt)"
  "guar slotsKept (bundles_create env r)"
  unfolding bundles_update_def base_update_def updateIfStatusIn_def updateStatusIfActive_def
    expireOlderThan_def bundles_create_def base_create_def Let_def
  by (intro slots_kept.guar_dbExec guarI; simp add: slotsKept_def)+

lemma guar_submitted_bundles:
  "guar submittedKept (bundles_update env i f)" "guar submittedKept (updateIfStatusIn env i f a)"
  "guar submittedKept (updateStatusIfActive env i st a)"
  "guar submittedKept (expireOlderThan env c sts lmt)" "guar submittedKept (bundles_create env r)"
  unfolding bundles_update_def base_update_def updateIfStatusIn_def updateStatusIfActive_def
    expireOlderThan_def bundles_create_def base_create_def Let_def
  by (intro submitted_kept.guar_dbExec guarI; simp add: submittedKept_def)+

lemma guar_tk_bundles_create: "guar terminalKept (bundles_create env r)"
  unfolding bundles_create_def base_create_def
  by (intro terminal_kept.guar_dbExec guarI)
    (auto simp: terminalKept_def statusOf_def bundleRow_def find_append_key list_ex_iff
      split: option.splits)

end
