(* ===== verification/Fixtures.thy ===== *)
theory Fixtures
  imports Repositories
begin

text \<open>
  One concrete environment and a few concrete worlds, on which the theorems of the library are applied:
  a payment provider \<open>P1\<close> with an active membership in channel \<open>C1\<close>, an approved account \<open>A1\<close> with a
  session, a reliable database and a reliable network.  Every parameter of \<open>env\<close> is instantiated by an
  executable function.
\<close>

definition decode0 :: "string \<Rightarrow> exn + MoonlightOperation" where
  "decode0 x =
    (if x = ''dep'' then Inr (Deposit \<lparr>dep_publicKey = ''G1'', dep_amount = 100\<rparr>)
     else if x = ''cre'' then Inr (Create \<lparr>co_utxo = ''u1'', co_amount = 60\<rparr>)
     else if x = ''spe'' then Inr (Spend \<lparr>so_utxo = ''u0'', so_signatureExp = Some 30, so_signedByUTXO = True\<rparr>)
     else if x = ''wit'' then Inr (Withdraw \<lparr>wd_publicKey = ''G2'', wd_amount = 30\<rparr>)
     else Inl (JsError ''invalid MLXDR''))"

definition config0 :: CouncilConfig where
  "config0 = \<lparr>cfg_channelAuthId = Some ''auth'',
     cfg_channels = Some [\<lparr>cc_channelContractId = ''C1'', cc_assetContractId = Some ''asset''\<rparr>]\<rparr>"

definition council0 :: CouncilConfigData where
  "council0 = \<lparr>cd_name = Some ''Council'', cd_channelAuthId = Some ''auth'',
     cd_channels = Some [\<lparr>cs_channelContractId = Some ''C1'', cs_status = Some ''enabled''\<rparr>,
       \<lparr>cs_channelContractId = Some ''CX'', cs_status = Some ''disabled''\<rparr>]\<rparr>"

definition subtle0 :: SubtleCrypto where
  "subtle0 = \<lparr>digestSha256 = (\<lambda>_. [220]), hmacSha256 = (\<lambda>_ m. take 32 (m @ replicate 32 0)),
     pbkdf2 = (\<lambda>s salt n bits. take (nat (bits div 8)) (s @ salt @ replicate (nat (bits div 8)) 0)),
     aesGcmEncrypt = (\<lambda>_ _ m. m), aesGcmDecrypt = (\<lambda>_ _ m. Some m)\<rparr>"

text \<open>28 zero bytes, the salt and the nonce, followed by the key \<open>SP1\<close> in the clear.\<close>

definition encryptedSk0 :: string where
  "encryptedSk0 = ''AAAAAAAAAAAAAAAAAAAAAAAAAAAAAAAAAAAAAFNQMQ==''"

lemma subtleLaws0 [simp]: "subtleLaws subtle0"
  by (auto simp: subtleLaws_def subtle0_def min_def)

definition env0 :: env where
  "env0 = \<lparr>MEMPOOL_SLOT_CAPACITY = 10,
     MEMPOOL_WEIGHT_CONFIG = \<lparr>expensiveOpWeight = 4, cheapOpWeight = 1\<rparr>,
     MEMPOOL_MAX_RETRY_ATTEMPTS = 3, MEMPOOL_STARTUP_MAX_BUNDLE_AGE_MS = 500,
     BUNDLE_MAX_OPERATIONS = 5, TRANSACTION_EXPIRATION_OFFSET = 10, NETWORK_FEE = 100,
     BASE_RESERVE_STROOPS = 5, SERVICE_AUTH_SECRET = ''secret'',
     clock = (\<lambda>_. 1000), dbFault = (\<lambda>_. False),
     rpcTimeout = (\<lambda>_. False), fromMLXDR = decode0, subtle = subtle0,
     parseConfigJson = (\<lambda>s. if s = ''cfg'' then Some config0 else None),
     stringifyFailure = (\<lambda>_. None),
     keypairPublicKey = (\<lambda>sk. Inr (tl sk)),
     decodeContractError = (\<lambda>_. None), errorMessage = (\<lambda>_. ''error''),
     createOperation = (\<lambda>u a. if a > 0 then Inr \<lparr>co_utxo = u, co_amount = a\<rparr> else Inl (JsError ''amount'')),
     addOperationCheck = (\<lambda>_ _. None), opexFreeUtxos = (\<lambda>_ _ n. if n = 0 then [''f0''] else [''f0'', ''f1'']),
     opexReserve = (\<lambda>us n. Some (take n us)), opexDerive = (\<lambda>_. None), opexFuel = 3,
     rpcUtxoBalances = (\<lambda>_ _ us. Inr (map (\<lambda>_. 90) us)), rpcLatestLedger = (\<lambda>_. Inr 20),
     rpcLedgerEntries = (\<lambda>_ _. Inr [AccountLedgerEntry \<lparr>ae_balance = 100000, ae_numSubEntries = 1, ae_seqNum = 7\<rparr>]),
     rpcSimulate = (\<lambda>_ _. Inr (SimulationSuccess (Some 50))), rpcSign = (\<lambda>_ _ _ _. None),
     rpcInvoke = (\<lambda>n _ _. Inr (''tx'' @ replicate n CHR ''i'')), rpcGetTransaction = (\<lambda>_ _. Inr None),
     BOOT_SYNC_START_LEDGER_BLOCK = None,
     rpcGetEvents = (\<lambda>_ _ _. Inr \<lparr>er_latestLedger = 20, er_events = []\<rparr>),
     rpcOldestLedger = (\<lambda>_. Inr 5), retentionText = (\<lambda>_. ''error''),
     fetchCouncil = (\<lambda>_ _ _. Inr (200, Some council0)),
     fetchMembership = (\<lambda>_ _ _ _. Inr (200, Some ''ACTIVE'')),
     stringifyCouncil = (\<lambda>_. ''cfg'')\<rparr>"

definition noFaults :: "env \<Rightarrow> bool" where
  "noFaults env \<longleftrightarrow> (\<forall>n. \<not> dbFault env n)"

lemma noFaultsD [simp]: "noFaults env \<Longrightarrow> \<not> dbFault env n"
  by (simp add: noFaults_def)

lemma noFaults_env0 [simp]: "noFaults env0"
  by (simp add: noFaults_def env0_def)

definition row0 :: "string \<Rightarrow> BundleStatus \<Rightarrow> OperationsBundle" where
  "row0 i st = \<lparr>createdAt = 900, updatedAt = 900, createdBy = Some ''A1'', updatedBy = None,
     deletedAt = None, ob_id = i, ob_status = st, ob_channelContractId = Some ''C1'', ob_ttl = 9000,
     ob_operationsMLXDR = [''dep'', ''cre''], ob_fee = 40, ob_retryCount = 0,
     ob_lastFailureReason = None, ob_failureDetail = None, ob_ppPublicKey = Some ''P1''\<rparr>"

definition bundle0 :: "string \<Rightarrow> rat \<Rightarrow> int \<Rightarrow> int \<Rightarrow> SlotBundle" where
  "bundle0 i prio weight ttl = \<lparr>sb_bundleId = i, sb_channelContractId = ''C1'',
     sb_operationsMLXDR = [''dep'', ''cre''],
     sb_operations = \<lparr>cl_create = [\<lparr>co_utxo = ''u1'', co_amount = 60\<rparr>], cl_spend = [],
       cl_deposit = [\<lparr>dep_publicKey = ''G1'', dep_amount = 100\<rparr>], cl_withdraw = []\<rparr>,
     sb_fee = 40, sb_weight = weight, sb_ttl = ttl, sb_createdAt = 900, sb_priorityScore = prio,
     sb_retryCount = 0, sb_lastFailureReason = None, sb_ppPublicKey = ''P1'', sb_entityName = None,
     sb_jurisdictions = [], sb_amount = Some ''100''\<rparr>"

definition slot0 :: "SlotBundle list \<Rightarrow> Slot" where
  "slot0 bs = \<lparr>sl_bundles = bs, sl_currentWeight = sum_list (map sb_weight bs), sl_capacity = 10,
     sl_channelContractId = ''C1''\<rparr>"

definition base0 :: BaseColumns where
  "base0 = \<lparr>createdAt = 1, updatedAt = 1, createdBy = None, updatedBy = None, deletedAt = None\<rparr>"

definition world0 :: world where
  "world0 = \<lparr>w_tick = 0, w_bundles = [], w_transactions = [], w_links = [],
     w_utxos = [BaseColumns.extend base0 \<lparr>u_id = ''u0'', u_amount = 90, u_accountId = ''A1'',
        u_spentByAccountId = None, u_createdAtBundleId = None, u_spentAtBundleId = None\<rparr>],
     w_sessions = [BaseColumns.extend base0 \<lparr>s_id = ''s1'', s_status = S_ACTIVE, s_jwtToken = None, s_accountId = ''A1''\<rparr>],
     w_accounts = [BaseColumns.extend base0 \<lparr>a_id = ''A1'', a_type = A_USER, a_entityId = ''E1''\<rparr>],
     w_entities = [], 
     w_approvals = [BaseColumns.extend base0 \<lparr>pa_id = ''x'', pa_ppPublicKey = ''P1'',
        pa_accountPubkey = ''A1'', pa_status = E_APPROVED\<rparr>],
     w_pps = [BaseColumns.extend base0 \<lparr>pp_id = ''p1'', pp_publicKey = ''P1'', pp_encryptedSk = encryptedSk0, pp_derivationIndex = 0,
        pp_ownerPublicKey = None, pp_isActive = True, pp_label = None, pp_kycSubmissionUrl = None\<rparr>],
     w_memberships = [BaseColumns.extend base0 \<lparr>cm_id = ''m1'', cm_councilUrl = ''url'',
        cm_councilName = None, cm_councilPublicKey = [], cm_channelAuthId = ''auth'', cm_status = M_ACTIVE,
        cm_configJson = Some ''cfg'', cm_claimedJurisdictions = None,
        cm_joinRequestId = None, cm_ppPublicKey = ''P1''\<rparr>],
     w_slots = [], w_isProcessing = False, w_bus = [], w_submitted = [], w_channelCache = [],
     w_challenges = [],
     w_registry = Some \<lparr>cr_channels = [(''CX'', \<lparr>ch_contractId = ''CX'', ch_state = CS_disabled,
        ch_registeredAtLedger = 0, ch_removedAtLedger = None\<rparr>)], cr_configured = []\<rparr>,
     w_watcher = None, w_registeredProviders = [], w_dashboardChallenges = [], w_entityChallenges = [],
     w_sessionManager = [], w_payKyc = [], w_payAccounts = [], w_payEscrows = [], w_payTransactions = [],
     w_metrics = [], w_waitlist = [], w_walletUsers = []\<rparr>"

lemma env0_simps [simp]:
  "MEMPOOL_SLOT_CAPACITY env0 = 10"
  "MEMPOOL_WEIGHT_CONFIG env0 = \<lparr>expensiveOpWeight = 4, cheapOpWeight = 1\<rparr>"
  "MEMPOOL_MAX_RETRY_ATTEMPTS env0 = 3"
  "MEMPOOL_STARTUP_MAX_BUNDLE_AGE_MS env0 = 500"
  "BUNDLE_MAX_OPERATIONS env0 = 5"
  "TRANSACTION_EXPIRATION_OFFSET env0 = 10"
  "NETWORK_FEE env0 = 100"
  "BASE_RESERVE_STROOPS env0 = 5"
  "SERVICE_AUTH_SECRET env0 = ''secret''"
  "clock env0 = (\<lambda>_. 1000)"
  "dbFault env0 = (\<lambda>_. False)"
  "rpcTimeout env0 = (\<lambda>_. False)"
  "fromMLXDR env0 = decode0"
  "subtle env0 = subtle0"
  "parseConfigJson env0 = (\<lambda>s. if s = ''cfg'' then Some config0 else None)"
  "stringifyFailure env0 = (\<lambda>_. None)"
  "keypairPublicKey env0 = (\<lambda>sk. Inr (tl sk))"
  "decodeContractError env0 = (\<lambda>_. None)"
  "errorMessage env0 = (\<lambda>_. ''error'')"
  "createOperation env0 = (\<lambda>u a. if a > 0 then Inr \<lparr>co_utxo = u, co_amount = a\<rparr> else Inl (JsError ''amount''))"
  "addOperationCheck env0 = (\<lambda>_ _. None)"
  "opexFreeUtxos env0 = (\<lambda>_ _ n. if n = 0 then [''f0''] else [''f0'', ''f1''])"
  "opexReserve env0 = (\<lambda>us n. Some (take n us))"
  "opexDerive env0 = (\<lambda>_. None)"
  "opexFuel env0 = 3"
  "rpcUtxoBalances env0 = (\<lambda>_ _ us. Inr (map (\<lambda>_. 90) us))"
  "rpcLatestLedger env0 = (\<lambda>_. Inr 20)"
  "rpcLedgerEntries env0 = (\<lambda>_ _. Inr [AccountLedgerEntry \<lparr>ae_balance = 100000, ae_numSubEntries = 1, ae_seqNum = 7\<rparr>])"
  "rpcSimulate env0 = (\<lambda>_ _. Inr (SimulationSuccess (Some 50)))"
  "rpcSign env0 = (\<lambda>_ _ _ _. None)"
  "rpcInvoke env0 = (\<lambda>n _ _. Inr (''tx'' @ replicate n CHR ''i''))"
  "rpcGetTransaction env0 = (\<lambda>_ _. Inr None)"
  "BOOT_SYNC_START_LEDGER_BLOCK env0 = None"
  "rpcGetEvents env0 = (\<lambda>_ _ _. Inr \<lparr>er_latestLedger = 20, er_events = []\<rparr>)"
  "rpcOldestLedger env0 = (\<lambda>_. Inr 5)"
  "retentionText env0 = (\<lambda>_. ''error'')"
  "fetchCouncil env0 = (\<lambda>_ _ _. Inr (200, Some council0))"
  "fetchMembership env0 = (\<lambda>_ _ _ _. Inr (200, Some ''ACTIVE''))"
  "stringifyCouncil env0 = (\<lambda>_. ''cfg'')"
  by (simp_all add: env0_def)

lemma decryptSk0 [simp]: "decryptSk env0 encryptedSk0 ''secret'' = Inr ''SP1''"
proof -
  have "openSk subtle0 encryptedSk0 ''secret'' = Inr ''SP1''" by code_simp
  then show ?thesis by (simp add: decryptSk_def)
qed

lemma generateBundleId0 [simp]: "generateBundleId subtle0 ops = ''dc''"
  unfolding generateBundleId_def sha256Hex_def subtle0_def by code_simp


lemma row0_simps [simp]:
  "createdAt (row0 i st) = 900"
  "updatedAt (row0 i st) = 900"
  "createdBy (row0 i st) = Some ''A1''"
  "updatedBy (row0 i st) = None"
  "deletedAt (row0 i st) = None"
  "ob_id (row0 i st) = i"
  "ob_status (row0 i st) = st"
  "ob_channelContractId (row0 i st) = Some ''C1''"
  "ob_ttl (row0 i st) = 9000"
  "ob_operationsMLXDR (row0 i st) = [''dep'', ''cre'']"
  "ob_fee (row0 i st) = 40"
  "ob_retryCount (row0 i st) = 0"
  "ob_lastFailureReason (row0 i st) = None"
  "ob_failureDetail (row0 i st) = None"
  "ob_ppPublicKey (row0 i st) = Some ''P1''"
  by (simp_all add: row0_def)

lemma bundle0_simps [simp]:
  "sb_bundleId (bundle0 i prio weight ttl) = i"
  "sb_channelContractId (bundle0 i prio weight ttl) = ''C1''"
  "sb_operationsMLXDR (bundle0 i prio weight ttl) = [''dep'', ''cre'']"
  "sb_operations (bundle0 i prio weight ttl) = \<lparr>cl_create = [\<lparr>co_utxo = ''u1'', co_amount = 60\<rparr>], cl_spend = [], cl_deposit = [\<lparr>dep_publicKey = ''G1'', dep_amount = 100\<rparr>], cl_withdraw = []\<rparr>"
  "sb_fee (bundle0 i prio weight ttl) = 40"
  "sb_weight (bundle0 i prio weight ttl) = weight"
  "sb_ttl (bundle0 i prio weight ttl) = ttl"
  "sb_createdAt (bundle0 i prio weight ttl) = 900"
  "sb_priorityScore (bundle0 i prio weight ttl) = prio"
  "sb_retryCount (bundle0 i prio weight ttl) = 0"
  "sb_lastFailureReason (bundle0 i prio weight ttl) = None"
  "sb_ppPublicKey (bundle0 i prio weight ttl) = ''P1''"
  "sb_entityName (bundle0 i prio weight ttl) = None"
  "sb_jurisdictions (bundle0 i prio weight ttl) = []"
  "sb_amount (bundle0 i prio weight ttl) = Some ''100''"
  by (simp_all add: bundle0_def)

lemma slot0_simps [simp]:
  "sl_bundles (slot0 bs) = bs"
  "sl_currentWeight (slot0 bs) = sum_list (map sb_weight bs)"
  "sl_capacity (slot0 bs) = 10"
  "sl_channelContractId (slot0 bs) = ''C1''"
  by (simp_all add: slot0_def)

lemma world0_simps [simp]:
  "w_tick world0 = 0"
  "w_bundles world0 = []"
  "w_transactions world0 = []"
  "w_links world0 = []"
  "w_utxos world0 = [BaseColumns.extend base0 \<lparr>u_id = ''u0'', u_amount = 90, u_accountId = ''A1'', u_spentByAccountId = None, u_createdAtBundleId = None, u_spentAtBundleId = None\<rparr>]"
  "w_sessions world0 = [BaseColumns.extend base0 \<lparr>s_id = ''s1'', s_status = S_ACTIVE, s_jwtToken = None, s_accountId = ''A1''\<rparr>]"
  "w_accounts world0 = [BaseColumns.extend base0 \<lparr>a_id = ''A1'', a_type = A_USER, a_entityId = ''E1''\<rparr>]"
  "w_entities world0 = []"
  "w_approvals world0 = [BaseColumns.extend base0 \<lparr>pa_id = ''x'', pa_ppPublicKey = ''P1'', pa_accountPubkey = ''A1'', pa_status = E_APPROVED\<rparr>]"
  "w_pps world0 = [BaseColumns.extend base0 \<lparr>pp_id = ''p1'', pp_publicKey = ''P1'', pp_encryptedSk = encryptedSk0, pp_derivationIndex = 0,
        pp_ownerPublicKey = None, pp_isActive = True, pp_label = None, pp_kycSubmissionUrl = None\<rparr>]"
  "w_memberships world0 = [BaseColumns.extend base0 \<lparr>cm_id = ''m1'', cm_councilUrl = ''url'', cm_councilName = None, cm_councilPublicKey = [], cm_channelAuthId = ''auth'', cm_status = M_ACTIVE, cm_configJson = Some ''cfg'', cm_claimedJurisdictions = None,
        cm_joinRequestId = None, cm_ppPublicKey = ''P1''\<rparr>]"
  "w_slots world0 = []"
  "w_isProcessing world0 = False"
  "w_bus world0 = []"
  "w_submitted world0 = []"
  "w_channelCache world0 = []"
  "w_challenges world0 = []"
  "w_payKyc world0 = []"
  "w_payAccounts world0 = []"
  "w_payEscrows world0 = []"
  "w_payTransactions world0 = []"
  "w_metrics world0 = []"
  "w_waitlist world0 = []"
  "w_walletUsers world0 = []"
  "w_registry world0 = Some \<lparr>cr_channels = [(''CX'', \<lparr>ch_contractId = ''CX'', ch_state = CS_disabled,
        ch_registeredAtLedger = 0, ch_removedAtLedger = None\<rparr>)], cr_configured = []\<rparr>"
  "w_watcher world0 = None"
  "w_registeredProviders world0 = []"
  "w_dashboardChallenges world0 = []"
  "w_entityChallenges world0 = []"
  "w_sessionManager world0 = []"
  by (simp_all add: world0_def)

lemmas fixture_defs = base0_def decode0_def config0_def BaseColumns.defs

end
