(* ===== verification/JsValues.thy ===== *)
theory JsValues
  imports Crypto
begin

text \<open>
  Values of the runtime: JSON with the JavaScript operations the handlers use on it, text helpers
  (\<^verbatim>\<open>trim\<close>, \<^verbatim>\<open>encodeURIComponent\<close>, lengths), and the conversion of texts and values to numbers.

  Strings are UTF-8 bytes, so \<^verbatim>\<open>encodeURIComponent\<close> is exact and a length in UTF-16 code units is computed from
  the lead bytes; \<^verbatim>\<open>trim\<close> removes the white space of the ASCII range.  Finite numbers are rational: the rounding
  of doubles is not modelled.
\<close>

section \<open>JSON values\<close>

datatype json =
    JUndefined | JNull | JBool bool | JNumber rat | JString string | JArray "json list"
  | JObject "(string \<times> json) list"

fun truthy :: "json \<Rightarrow> bool" where
  "truthy JUndefined = False"
| "truthy JNull = False"
| "truthy (JBool b) = b"
| "truthy (JNumber n) = (n \<noteq> 0)"
| "truthy (JString s) = (s \<noteq> [])"
| "truthy (JArray xs) = True"
| "truthy (JObject kvs) = True"

fun nullish :: "json \<Rightarrow> bool" where
  "nullish JUndefined = True"
| "nullish JNull = True"
| "nullish v = False"

text \<open>\<^verbatim>\<open>v.k\<close> on a value that is neither null nor undefined, and \<^verbatim>\<open>v?.k\<close>.  Of the members a JavaScript value
  inherits none is read by the handlers.\<close>

fun member :: "json \<Rightarrow> string \<Rightarrow> json" where
  "member (JObject kvs) k = (case map_of (rev kvs) k of None \<Rightarrow> JUndefined | Some v \<Rightarrow> v)"
| "member v k = JUndefined"

definition optMember :: "json \<Rightarrow> string \<Rightarrow> json" where
  "optMember v k = (if nullish v then JUndefined else member v k)"

text \<open>\<^verbatim>\<open>!v || typeof v !== "string"\<close> negated: a non-empty string.\<close>

fun nonEmptyString :: "json \<Rightarrow> string option" where
  "nonEmptyString (JString s) = (if s = [] then None else Some s)"
| "nonEmptyString v = None"

section \<open>Text\<close>

definition isSpace :: "char \<Rightarrow> bool" where
  "isSpace c \<longleftrightarrow> (let n = (of_char c :: nat) in n = 32 \<or> 9 \<le> n \<and> n \<le> 13)"

definition trim :: "string \<Rightarrow> string" where
  "trim s = rev (dropWhile isSpace (rev (dropWhile isSpace s)))"

definition isUpperChar :: "char \<Rightarrow> bool" where
  "isUpperChar c \<longleftrightarrow> (let n = (of_char c :: nat) in 65 \<le> n \<and> n \<le> 90)"

definition isLowerChar :: "char \<Rightarrow> bool" where
  "isLowerChar c \<longleftrightarrow> (let n = (of_char c :: nat) in 97 \<le> n \<and> n \<le> 122)"

definition isDigitChar :: "char \<Rightarrow> bool" where
  "isDigitChar c \<longleftrightarrow> (let n = (of_char c :: nat) in 48 \<le> n \<and> n \<le> 57)"

definition hexDigit :: "nat \<Rightarrow> char" where
  "hexDigit n = (if n < 10 then char_of (48 + n) else char_of (55 + n))"

definition encodeURIComponent :: "string \<Rightarrow> string" where
  "encodeURIComponent s = concat (map (\<lambda>c.
    if isUpperChar c \<or> isLowerChar c \<or> isDigitChar c \<or> c \<in> set ''-_.!~*()'' \<or> of_char c = (39 :: nat) then [c]
    else let n = (of_char c :: nat) in [CHR ''%'', hexDigit (n div 16), hexDigit (n mod 16)]) s)"

definition startsWith :: "string \<Rightarrow> string \<Rightarrow> bool" where
  "startsWith s p \<longleftrightarrow> take (length p) s = p"

text \<open>\<^verbatim>\<open>text.includes(part)\<close>\<close>

fun includesText :: "string \<Rightarrow> string \<Rightarrow> bool" where
  "includesText [] p = (p = [])"
| "includesText (c # s) p = (startsWith (c # s) p \<or> includesText s p)"

definition endsWith :: "string \<Rightarrow> string \<Rightarrow> bool" where
  "endsWith s p \<longleftrightarrow> startsWith (rev s) (rev p)"

definition toLowerCase :: "string \<Rightarrow> string" where
  "toLowerCase = map (\<lambda>c. let n = (of_char c :: nat) in if 65 \<le> n \<and> n \<le> 90 then char_of (n + 32) else c)"

definition allDigits :: "string \<Rightarrow> bool" where
  "allDigits s \<longleftrightarrow> s \<noteq> [] \<and> list_all isDigitChar s"

definition utf16Length :: "string \<Rightarrow> nat" where
  "utf16Length s = sum_list (map (\<lambda>c. let n = (of_char c :: nat) in
     if n < 128 then 1 else if n < 192 then 0 else if n < 240 then 1 else 2) s)"

section \<open>Numbers\<close>

datatype number = NaN | Infinite bool | Finite rat

text \<open>\<^verbatim>\<open>Number(text)\<close>: white space is trimmed, the empty text is 0; a radix prefix takes no sign; otherwise an
  optional sign, \<^verbatim>\<open>Infinity\<close> or a decimal with optional fraction and exponent.\<close>

fun radixDigits :: "nat \<Rightarrow> nat \<Rightarrow> string \<Rightarrow> nat option" where
  "radixDigits base acc [] = Some acc"
| "radixDigits base acc (c # cs) =
    (case hexValue c of
       None \<Rightarrow> None
     | Some d \<Rightarrow> if d < base then radixDigits base (base * acc + d) cs else None)"

definition radixNumber :: "nat \<Rightarrow> string \<Rightarrow> number" where
  "radixNumber base ds =
    (if ds = [] then NaN else case radixDigits base 0 ds of None \<Rightarrow> NaN | Some n \<Rightarrow> Finite (of_nat n))"

definition exponentOf :: "string \<Rightarrow> int option" where
  "exponentOf s =
    (case s of
       [] \<Rightarrow> Some 0
     | e # r \<Rightarrow>
        if e = CHR ''e'' \<or> e = CHR ''E''
        then (case r of
                [] \<Rightarrow> None
              | g # ds \<Rightarrow>
                 if g = CHR ''-'' then (if ds = [] then None else map_option (\<lambda>n. - int n) (parseDigits 0 ds))
                 else if g = CHR ''+'' then (if ds = [] then None else map_option int (parseDigits 0 ds))
                 else map_option int (parseDigits 0 r))
        else None)"

definition scale10 :: "rat \<Rightarrow> int \<Rightarrow> rat" where
  "scale10 x e = (if 0 \<le> e then x * 10 ^ nat e else x / 10 ^ nat (- e))"

definition decimalNumber :: "string \<Rightarrow> rat option" where
  "decimalNumber s =
    (let ip = takeWhile isDigitChar s; r1 = dropWhile isDigitChar s;
         dot = (take 1 r1 = ''.'');
         fp = (if dot then takeWhile isDigitChar (tl r1) else []);
         r2 = (if dot then dropWhile isDigitChar (tl r1) else r1)
     in if ip = [] \<and> fp = [] then None
        else case (parseDigits 0 (ip @ fp), exponentOf r2) of
               (Some n, Some e) \<Rightarrow> Some (scale10 (of_nat n) (e - int (length fp)))
             | _ \<Rightarrow> None)"

definition signedNumber :: "bool \<Rightarrow> string \<Rightarrow> number" where
  "signedNumber pos s =
    (if s = ''Infinity'' then Infinite pos
     else case decimalNumber s of None \<Rightarrow> NaN | Some x \<Rightarrow> Finite (if pos then x else - x))"

definition toNumberText :: "string \<Rightarrow> number" where
  "toNumberText text =
    (let s = trim text in
     case s of
       [] \<Rightarrow> Finite 0
     | c # r \<Rightarrow>
        if take 2 s = ''0x'' \<or> take 2 s = ''0X'' then radixNumber 16 (drop 2 s)
        else if take 2 s = ''0o'' \<or> take 2 s = ''0O'' then radixNumber 8 (drop 2 s)
        else if take 2 s = ''0b'' \<or> take 2 s = ''0B'' then radixNumber 2 (drop 2 s)
        else if c = CHR ''-'' then signedNumber False r
        else if c = CHR ''+'' then signedNumber True r
        else signedNumber True s)"

text \<open>\<^verbatim>\<open>Number(v)\<close>; an object has no own \<^verbatim>\<open>toString\<close> or \<^verbatim>\<open>valueOf\<close>.\<close>

fun toNumber :: "json \<Rightarrow> number" where
  "toNumber JUndefined = NaN"
| "toNumber JNull = Finite 0"
| "toNumber (JBool b) = Finite (if b then 1 else 0)"
| "toNumber (JNumber n) = Finite n"
| "toNumber (JString s) = toNumberText s"
| "toNumber (JArray []) = Finite 0"
| "toNumber (JArray [v]) =
    (case v of JBool _ \<Rightarrow> NaN | JUndefined \<Rightarrow> Finite 0 | JNull \<Rightarrow> Finite 0 | _ \<Rightarrow> toNumber v)"
| "toNumber (JArray (v # u # vs)) = NaN"
| "toNumber (JObject kvs) = NaN"

definition numberLess :: "number \<Rightarrow> number \<Rightarrow> bool" where
  "numberLess a b =
    (case (a, b) of
       (NaN, _) \<Rightarrow> False
     | (_, NaN) \<Rightarrow> False
     | (Finite x, Finite y) \<Rightarrow> x < y
     | (Infinite p, Infinite q) \<Rightarrow> \<not> p \<and> q
     | (Infinite p, Finite _) \<Rightarrow> \<not> p
     | (Finite _, Infinite q) \<Rightarrow> q)"

definition isInteger :: "number \<Rightarrow> bool" where
  "isInteger n = (case n of Finite x \<Rightarrow> snd (quotient_of x) = 1 | _ \<Rightarrow> False)"

definition isFinite :: "number \<Rightarrow> bool" where
  "isFinite n = (case n of Finite _ \<Rightarrow> True | _ \<Rightarrow> False)"

text \<open>\<^verbatim>\<open>Math.min\<close> and \<^verbatim>\<open>Math.max\<close> of two numbers.\<close>

definition numberMin :: "number \<Rightarrow> number \<Rightarrow> number" where
  "numberMin a b = (if a = NaN \<or> b = NaN then NaN else if numberLess b a then b else a)"

definition numberMax :: "number \<Rightarrow> number \<Rightarrow> number" where
  "numberMax a b = (if a = NaN \<or> b = NaN then NaN else if numberLess a b then b else a)"

text \<open>\<^verbatim>\<open>v.length\<close> of a string, an array or an object with such a member.\<close>

definition lengthMember :: "json \<Rightarrow> json" where
  "lengthMember v =
    (case v of
       JString s \<Rightarrow> JNumber (of_nat (utf16Length s))
     | JArray vs \<Rightarrow> JNumber (of_nat (length vs))
     | _ \<Rightarrow> member v ''length'')"

end
