(* ===== verification/Decimals.thy ===== *)
theory Decimals
  imports JsValues
begin

text \<open>
  Texts of decimal digits under the conversions of the runtime: \<^verbatim>\<open>trim\<close> leaves them, \<^verbatim>\<open>Number\<close> gives their value.
\<close>

lemma list_all_digit_natToString: "list_all isDigitChar (natToString n)"
proof (induction n rule: natToString.induct)
  case (1 n)
  have "isDigitChar (digitChar k)" if "k < 10" for k
    using that by (simp add: isDigitChar_def digitChar_def Let_def)
  with 1 show ?case by (subst natToString.simps) simp
qed

lemma digit_facts:
  assumes "isDigitChar c"
  shows "\<not> isSpace c" "c \<noteq> CHR ''x''" "c \<noteq> CHR ''X''" "c \<noteq> CHR ''o''" "c \<noteq> CHR ''O''" "c \<noteq> CHR ''b''" "c \<noteq> CHR ''B''"
    "c \<noteq> CHR ''-''" "c \<noteq> CHR ''+''" "c \<noteq> CHR ''I''"
  using assms by (auto simp: isDigitChar_def isSpace_def Let_def)

lemma trim_digits: "list_all isDigitChar s \<Longrightarrow> trim s = s"
proof -
  assume "list_all isDigitChar s"
  then have "\<forall>c\<in>set s. \<not> isSpace c" by (auto simp: list_all_iff dest: digit_facts)
  then have "dropWhile isSpace s = s" "dropWhile isSpace (rev s) = rev s"
    by (cases "s = []"; simp add: dropWhile_eq_self_iff hd_rev)+
  then show ?thesis by (simp add: trim_def)
qed

lemma toNumberText_digits:
  assumes "s \<noteq> []" and "list_all isDigitChar s" and "parseDigits 0 s = Some n"
  shows "toNumberText s = Finite (of_nat n)"
proof -
  obtain c r where s: "s = c # r" using assms(1) by (cases s) auto
  have all: "\<And>x. x \<in> set s \<Longrightarrow> isDigitChar x" using assms(2) by (simp add: list_all_iff)
  then have whole: "takeWhile isDigitChar s = s" "dropWhile isDigitChar s = []"
    by (simp_all add: takeWhile_eq_all_conv dropWhile_eq_Nil_conv)
  have "decimalNumber s = Some (of_nat n)"
    using assms by (simp add: decimalNumber_def whole exponentOf_def scale10_def)
  moreover have "s \<noteq> ''Infinity''" using all digit_facts s by auto
  ultimately have "signedNumber True s = Finite (of_nat n)" by (simp add: signedNumber_def)
  moreover have radix: "take 2 s \<noteq> [CHR ''0'', p]" if "p \<in> set ''xXoObB''" for p
    using all that s by (cases r) (auto dest: digit_facts)
  have "take 2 s \<noteq> ''0x''" "take 2 s \<noteq> ''0X''" "take 2 s \<noteq> ''0o''" "take 2 s \<noteq> ''0O''" "take 2 s \<noteq> ''0b''" "take 2 s \<noteq> ''0B''"
    by (simp_all add: radix)
  moreover have "c \<noteq> CHR ''-''" "c \<noteq> CHR ''+''" using all [of c] s digit_facts by simp_all
  ultimately show ?thesis
    unfolding toNumberText_def trim_digits [OF assms(2)] Let_def using s by simp blast
qed

lemma toNumberText_natToString: "toNumberText (natToString n) = Finite (of_nat n)"
  by (intro toNumberText_digits) (simp_all add: list_all_digit_natToString parseDigits_natToString)

end
