(* ===== verification/Config.thy ===== *)
theory Config
  imports Fixtures Decimals
begin

text \<open>
  Configuration: the environment (\<^verbatim>\<open>utils/env/loadEnv.ts\<close>), the constants read from it
  (\<^verbatim>\<open>config/env.ts\<close>, \<^verbatim>\<open>config/network.ts\<close>), and what is derived from the service secret
  (\<^verbatim>\<open>core/service/auth/service\<close>).  A module that throws while it is loaded ends the process, so loading the
  configuration is a result: the error, or all constants.  The two sources, the \<^verbatim>\<open>.env\<close> file and the process
  environment, are the arguments.  A constant the code converts with \<^verbatim>\<open>Number\<close> and does not check stays a
  number of the runtime, which may be NaN.
\<close>

section \<open>Results in sequence\<close>

definition bindSum :: "'e + 'a \<Rightarrow> ('a \<Rightarrow> 'e + 'b) \<Rightarrow> 'e + 'b" where
  "bindSum r f = (case r of Inl e \<Rightarrow> Inl e | Inr x \<Rightarrow> f x)"

lemma bindSum_simps [simp]: "bindSum (Inl e) f = Inl e" "bindSum (Inr x) f = f x"
  by (simp_all add: bindSum_def)

lemma bindSum_Inr: "bindSum r f = Inr y \<longleftrightarrow> (\<exists>x. r = Inr x \<and> f x = Inr y)"
  by (cases r) simp_all

lemma bindSum_InrE:
  assumes "bindSum r f = Inr y" obtains x where "r = Inr x" "f x = Inr y"
  using assms by (auto simp: bindSum_Inr)

section \<open>Variables\<close>

record EnvSources =
  dotenv :: "string \<Rightarrow> string option"
  denoEnv :: "string \<Rightarrow> string option"

definition requireEnv :: "EnvSources \<Rightarrow> string \<Rightarrow> exn + string" where
  "requireEnv src key =
    (case dotenv src key of
       Some value \<Rightarrow> Inr value
     | None \<Rightarrow> (case denoEnv src key of None \<Rightarrow> Inl (JsError (key @ '' is not loaded'')) | Some value \<Rightarrow> Inr value))"

definition loadOptionalEnv :: "EnvSources \<Rightarrow> string \<Rightarrow> string option" where
  "loadOptionalEnv src key = (case dotenv src key of Some value \<Rightarrow> Some value | None \<Rightarrow> denoEnv src key)"

definition quoted :: "string \<Rightarrow> string" where
  "quoted raw = [CHR 0x22] @ raw @ [CHR 0x22]"

definition requireBaseFee :: "EnvSources \<Rightarrow> string \<Rightarrow> exn + string" where
  "requireBaseFee src keyName =
    bindSum (requireEnv src keyName) (\<lambda>key.
    if toNumberText key = NaN \<or> numberLess (toNumberText key) (Finite 0)
    then Inl (JsError (''Invalid BaseFee '' @ [CHR 0x27] @ key @ [CHR 0x27] @ '' for '' @ keyName))
    else Inr key)"

text \<open>The value of an integral number.\<close>

definition integerOf :: "number \<Rightarrow> int" where
  "integerOf n = (case n of Finite x \<Rightarrow> \<lfloor>x\<rfloor> | _ \<Rightarrow> 0)"

text \<open>The three spellings of "everything" give \<open>None\<close>.\<close>

definition parseBootSyncStartLedger :: "string option \<Rightarrow> exn + int option" where
  "parseBootSyncStartLedger raw =
    (case raw of
       None \<Rightarrow> Inr None
     | Some text \<Rightarrow>
        let trimmed = trim text; n = toNumberText trimmed in
        if trimmed = [] \<or> toLowerCase trimmed = ''all'' then Inr None
        else if \<not> isInteger n \<or> numberLess n (Finite 0)
        then Inl (JsError (''BOOT_SYNC_START_LEDGER_BLOCK must be '' @ quoted ''all'' @
          '' (sync all available), a non-negative integer (pin that ledger), or empty/unset, got: '' @ quoted text))
        else Inr (Some (integerOf n)))"

section \<open>The network\<close>

record NetworkConfig =
  networkPassphrase :: string
  rpcUrl :: string
  horizonUrl :: string
  friendbotUrl :: "string option"
  allowHttp :: bool

text \<open>\<^verbatim>\<open>text.replace(part, "")\<close> for a part that is a text: its first occurrence.\<close>

fun removeFirstText :: "string \<Rightarrow> string \<Rightarrow> string" where
  "removeFirstText [] part = []"
| "removeFirstText (c # s) part =
    (if startsWith (c # s) part then drop (length part) (c # s) else c # removeFirstText s part)"

text \<open>The configuration and the passphrase the SDK is told; \<open>testnetId\<close> is the constant of the SDK.\<close>

definition selectNetwork :: "EnvSources \<Rightarrow> string \<Rightarrow> string \<Rightarrow> exn + NetworkConfig \<times> string" where
  "selectNetwork src testnetId envNetwork =
    (let rpc = (\<lambda>url. case loadOptionalEnv src ''STELLAR_RPC_URL'' of None \<Rightarrow> url | Some v \<Rightarrow> v) in
     if envNetwork = ''mainnet'' then
       Inr (\<lparr>networkPassphrase = ''Public Global Stellar Network ; September 2015'',
         rpcUrl = rpc ''https://soroban-rpc.mainnet.stellar.gateway.fm'', horizonUrl = ''https://horizon.stellar.org'',
         friendbotUrl = None, allowHttp = False\<rparr>, ''Public Global Stellar Network ; September 2015'')
     else if envNetwork = ''testnet'' then
       Inr (\<lparr>networkPassphrase = ''Test SDF Network ; September 2015'',
         rpcUrl = rpc ''https://soroban-testnet.stellar.org'', horizonUrl = ''https://horizon-testnet.stellar.org'',
         friendbotUrl = None, allowHttp = False\<rparr>, testnetId)
     else if envNetwork = ''local'' then
       (let url = rpc ''http://localhost:8000/soroban/rpc''; horizon = removeFirstText url ''/soroban/rpc'' in
        Inr (\<lparr>networkPassphrase = ''Standalone Network ; February 2017'', rpcUrl = url, horizonUrl = horizon,
          friendbotUrl = Some (horizon @ ''/friendbot''), allowHttp = True\<rparr>, ''Standalone Network ; February 2017''))
     else Inl (PlatformError Err_INVALID_NETWORK))"

section \<open>The constants\<close>

record PlatformConfig =
  DATABASE_URL :: string
  PORT :: string
  PLATFORM_MODE :: string
  SERVICE_DOMAIN :: string
  AUTH_SECRET :: string
  PROVIDER_BASE_URL :: string
  CHALLENGE_TTL_SECONDS :: number
  SESSION_TTL_SECONDS :: number
  NETWORK_CONFIG :: NetworkConfig
  NETWORK :: string
  NETWORK_FEE_TEXT :: string
  BASE_RESERVE :: int
  SLOT_CAPACITY :: number
  EXPENSIVE_OP_WEIGHT :: number
  CHEAP_OP_WEIGHT :: number
  EXECUTOR_INTERVAL_MS :: number
  VERIFIER_INTERVAL_MS :: number
  TTL_CHECK_INTERVAL_MS :: number
  STARTUP_MAX_BUNDLE_AGE_MS :: number
  MAX_RETRY_ATTEMPTS :: number
  MAX_OPERATIONS :: number
  EXPIRATION_OFFSET :: number
  EVENT_WATCHER_INTERVAL_MS :: number
  BOOT_SYNC_START :: "int option"

definition requireNumber :: "EnvSources \<Rightarrow> string \<Rightarrow> exn + number" where
  "requireNumber src key = bindSum (requireEnv src key) (\<lambda>raw. Inr (toNumberText raw))"

text \<open>The check of the retry limit, the bundle limit and the expiration offset.\<close>

definition positiveInteger :: "string \<Rightarrow> string \<Rightarrow> exn + number" where
  "positiveInteger key raw =
    (let n = toNumberText raw in
     if \<not> isFinite n \<or> \<not> isInteger n \<or> numberLess n (Finite 1)
     then Inl (JsError (key @ '' must be a positive integer, got: '' @ quoted raw)) else Inr n)"

definition baseReserve :: "EnvSources \<Rightarrow> exn + int" where
  "baseReserve src =
    (let raw = (case loadOptionalEnv src ''BASE_RESERVE_STROOPS'' of None \<Rightarrow> ''5000000'' | Some v \<Rightarrow> v);
         parsed = toNumberText raw in
     if \<not> isFinite parsed \<or> \<not> isInteger parsed \<or> numberLess parsed (Finite 0)
     then Inl (JsError (''BASE_RESERVE_STROOPS must be a non-negative integer, got: '' @ quoted raw))
     else Inr (integerOf parsed))"

text \<open>The text of the error is \<^verbatim>\<open>undefined\<close> for an absent variable, which does not fail the check.\<close>

definition startupAge :: "EnvSources \<Rightarrow> exn + number" where
  "startupAge src =
    (let raw = loadOptionalEnv src ''MEMPOOL_STARTUP_MAX_BUNDLE_AGE_MS'';
         n = toNumberText (case raw of None \<Rightarrow> ''0'' | Some v \<Rightarrow> v) in
     if \<not> isFinite n \<or> numberLess n (Finite 0)
     then Inl (JsError (''MEMPOOL_STARTUP_MAX_BUNDLE_AGE_MS must be a non-negative number, got: '' @
       quoted (case raw of None \<Rightarrow> ''undefined'' | Some v \<Rightarrow> v)))
     else Inr n)"

text \<open>\<^verbatim>\<open>config/env.ts\<close> from top to bottom.  \<open>newServer\<close> is the constructor of the SDK's RPC client, which may
  refuse a URL.\<close>

definition loadConfig :: "EnvSources \<Rightarrow> string \<Rightarrow> (string \<Rightarrow> bool \<Rightarrow> exn option) \<Rightarrow> exn + PlatformConfig" where
  "loadConfig src testnetId newServer =
    bindSum (requireEnv src ''DATABASE_URL'') (\<lambda>databaseUrl.
    bindSum (requireEnv src ''PORT'') (\<lambda>port.
    bindSum (requireEnv src ''MODE'') (\<lambda>mode.
    bindSum (requireEnv src ''SERVICE_DOMAIN'') (\<lambda>domain.
    bindSum (requireEnv src ''SERVICE_AUTH_SECRET'') (\<lambda>secret.
    bindSum (requireNumber src ''CHALLENGE_TTL'') (\<lambda>challengeTtl.
    bindSum (requireNumber src ''SESSION_TTL'') (\<lambda>sessionTtl.
    bindSum (bindSum (requireEnv src ''NETWORK'') (selectNetwork src testnetId)) (\<lambda>network.
    bindSum (requireBaseFee src ''NETWORK_FEE'') (\<lambda>fee.
    bindSum (baseReserve src) (\<lambda>reserve.
    bindSum (case newServer (rpcUrl (fst network)) (allowHttp (fst network)) of None \<Rightarrow> Inr () | Some e \<Rightarrow> Inl e) (\<lambda>_.
    bindSum (requireNumber src ''MEMPOOL_SLOT_CAPACITY'') (\<lambda>capacity.
    bindSum (requireNumber src ''MEMPOOL_EXPENSIVE_OP_WEIGHT'') (\<lambda>expensive.
    bindSum (requireNumber src ''MEMPOOL_CHEAP_OP_WEIGHT'') (\<lambda>cheap.
    bindSum (requireNumber src ''MEMPOOL_EXECUTOR_INTERVAL_MS'') (\<lambda>executorMs.
    bindSum (requireNumber src ''MEMPOOL_VERIFIER_INTERVAL_MS'') (\<lambda>verifierMs.
    bindSum (requireNumber src ''MEMPOOL_TTL_CHECK_INTERVAL_MS'') (\<lambda>ttlMs.
    bindSum (startupAge src) (\<lambda>age.
    bindSum (bindSum (requireEnv src ''MEMPOOL_MAX_RETRY_ATTEMPTS'') (positiveInteger ''MEMPOOL_MAX_RETRY_ATTEMPTS'')) (\<lambda>retries.
    bindSum (bindSum (requireEnv src ''BUNDLE_MAX_OPERATIONS'') (positiveInteger ''BUNDLE_MAX_OPERATIONS'')) (\<lambda>maxOps.
    bindSum (positiveInteger ''TRANSACTION_EXPIRATION_OFFSET''
      (case loadOptionalEnv src ''TRANSACTION_EXPIRATION_OFFSET'' of None \<Rightarrow> ''1000'' | Some v \<Rightarrow> v)) (\<lambda>offset.
    bindSum (parseBootSyncStartLedger (loadOptionalEnv src ''BOOT_SYNC_START_LEDGER_BLOCK'')) (\<lambda>boot.
    Inr \<lparr>DATABASE_URL = databaseUrl, PORT = port, PLATFORM_MODE = mode, SERVICE_DOMAIN = domain, AUTH_SECRET = secret,
      PROVIDER_BASE_URL = (case loadOptionalEnv src ''PROVIDER_BASE_URL'' of None \<Rightarrow> ''http://localhost:'' @ port | Some v \<Rightarrow> v),
      CHALLENGE_TTL_SECONDS = challengeTtl, SESSION_TTL_SECONDS = sessionTtl,
      NETWORK_CONFIG = fst network, NETWORK = snd network, NETWORK_FEE_TEXT = fee, BASE_RESERVE = reserve,
      SLOT_CAPACITY = capacity, EXPENSIVE_OP_WEIGHT = expensive, CHEAP_OP_WEIGHT = cheap,
      EXECUTOR_INTERVAL_MS = executorMs, VERIFIER_INTERVAL_MS = verifierMs, TTL_CHECK_INTERVAL_MS = ttlMs,
      STARTUP_MAX_BUNDLE_AGE_MS = age, MAX_RETRY_ATTEMPTS = retries, MAX_OPERATIONS = maxOps,
      EXPIRATION_OFFSET = offset,
      EVENT_WATCHER_INTERVAL_MS = toNumberText (case denoEnv src ''EVENT_WATCHER_INTERVAL_MS'' of None \<Rightarrow> ''30000'' | Some v \<Rightarrow> v),
      BOOT_SYNC_START = boot\<rparr>))))))))))))))))))))))"

section \<open>The service secret\<close>

text \<open>\<open>random\<close> is the secret the runtime would generate.\<close>

definition authSecret :: "PlatformConfig \<Rightarrow> string \<Rightarrow> exn + string" where
  "authSecret cfg random =
    (if AUTH_SECRET cfg = [] \<and> PLATFORM_MODE cfg = ''production''
     then Inl (JsError ''SERVICE_AUTH_SECRET must be set in production. A random secret would invalidate all JWTs on restart.'')
     else Inr (if AUTH_SECRET cfg = [] then random else AUTH_SECRET cfg))"

text \<open>The seed of the key that signs wallet challenges: the bytes of the secret and a suffix, folded into 32 bytes.\<close>

fun foldSeed :: "nat \<Rightarrow> byte list \<Rightarrow> byte list \<Rightarrow> byte list" where
  "foldSeed i [] seed = seed"
| "foldSeed i (b # bs) seed = foldSeed (Suc i) bs (seed[i mod 32 := seed ! (i mod 32) XOR b])"

definition providerSeed :: "string \<Rightarrow> byte list" where
  "providerSeed secret = foldSeed 0 (textEncode (secret @ '':auth-challenge-keypair'')) (replicate 32 0)"

section \<open>What loading guarantees\<close>

lemma integerOf_int: "isInteger n \<Longrightarrow> n = Finite (of_int (integerOf n))"
proof -
  assume "isInteger n"
  then obtain x where x: "n = Finite x" "snd (quotient_of x) = 1" by (auto simp: isInteger_def split: number.splits)
  obtain a b where ab: "quotient_of x = (a, b)" by fastforce
  with x have "x = of_int a" using quotient_of_div [OF ab] by simp
  with x show ?thesis by (simp add: integerOf_def)
qed

lemma positiveInteger_Inr:
  assumes "positiveInteger key raw = Inr n"
  shows "\<exists>k\<ge>1. n = Finite (of_int k)"
proof -
  have n: "isInteger n" "\<not> numberLess n (Finite 1)" using assms by (auto simp: positiveInteger_def Let_def split: if_splits)
  from integerOf_int [OF n(1)] obtain k where k: "n = Finite (of_int k)" by blast
  with n(2) have "1 \<le> k" by (simp add: numberLess_def)
  with k show ?thesis by blast
qed

lemma nonNegative_integer:
  assumes "isInteger n" and "\<not> numberLess n (Finite 0)"
  shows "0 \<le> integerOf n"
proof -
  have "\<not> numberLess (Finite (of_int (integerOf n))) (Finite 0)" using assms integerOf_int [OF assms(1)] by simp
  then show ?thesis by (simp add: numberLess_def)
qed

lemma baseReserve_Inr: "baseReserve src = Inr r \<Longrightarrow> 0 \<le> r"
  by (auto simp: baseReserve_def Let_def nonNegative_integer split: if_splits)

lemma parseBootSyncStartLedger_Inr: "parseBootSyncStartLedger raw = Inr (Some l) \<Longrightarrow> 0 \<le> l"
  by (auto simp: parseBootSyncStartLedger_def Let_def nonNegative_integer split: if_splits option.splits)

lemma startupAge_Inr:
  assumes "startupAge src = Inr n"
  shows "\<exists>x\<ge>0. n = Finite x"
proof -
  have "isFinite n" "\<not> numberLess n (Finite 0)" using assms by (auto simp: startupAge_def Let_def split: if_splits)
  then show ?thesis by (cases n) (simp_all add: isFinite_def numberLess_def)
qed

lemma requireBaseFee_Inr: "requireBaseFee src key = Inr fee \<Longrightarrow> toNumberText fee \<noteq> NaN \<and> \<not> numberLess (toNumberText fee) (Finite 0)"
  by (auto simp: requireBaseFee_def bindSum_Inr split: if_splits)

text \<open>The variables of the tests of this theory.\<close>

definition variables0 :: "(string \<times> string) list" where
  "variables0 = [(''DATABASE_URL'', ''pg''), (''PORT'', ''3000''), (''MODE'', ''production''), (''SERVICE_DOMAIN'', ''d''),
     (''SERVICE_AUTH_SECRET'', ''secret''), (''CHALLENGE_TTL'', ''900''), (''SESSION_TTL'', ''21600''),
     (''NETWORK'', ''local''), (''NETWORK_FEE'', ''1000000000''), (''MEMPOOL_SLOT_CAPACITY'', ''100''),
     (''MEMPOOL_EXPENSIVE_OP_WEIGHT'', ''10''), (''MEMPOOL_CHEAP_OP_WEIGHT'', ''1''),
     (''MEMPOOL_EXECUTOR_INTERVAL_MS'', ''5000''), (''MEMPOOL_VERIFIER_INTERVAL_MS'', ''10000''),
     (''MEMPOOL_TTL_CHECK_INTERVAL_MS'', ''60000''), (''MEMPOOL_MAX_RETRY_ATTEMPTS'', ''3''),
     (''BUNDLE_MAX_OPERATIONS'', ''20''), (''BOOT_SYNC_START_LEDGER_BLOCK'', '' ALL '')]"

definition sources0 :: EnvSources where
  "sources0 = \<lparr>dotenv = map_of variables0, denoEnv = (\<lambda>_. None)\<rparr>"

text \<open>A pinned ledger number is read back as it was written.\<close>

lemma boot_ledger_roundtrip: "parseBootSyncStartLedger (Some (natToString n)) = Inr (Some (int n))"
proof -
  have d: "list_all isDigitChar (natToString n)" by (rule list_all_digit_natToString)
  obtain c r where s: "natToString n = c # r" by (cases "natToString n") auto
  with d have c: "isDigitChar c" by simp
  then have "toLowerCase (natToString n) \<noteq> ''all''"
    using s by (auto simp: toLowerCase_def Let_def isDigitChar_def)
  moreover have "quotient_of (of_nat n) = (int n, 1)" by (simp add: of_nat_rat quotient_of_Fract normalize_def)
  ultimately show ?thesis
    by (simp add: parseBootSyncStartLedger_def trim_digits [OF d] toNumberText_natToString isInteger_def numberLess_def integerOf_def)
qed

lemma requireEnv0: "map_of variables0 k = Some v \<Longrightarrow> requireEnv sources0 k = Inr v"
  by (simp add: requireEnv_def sources0_def)

lemma loads0: "\<exists>cfg. loadConfig sources0 ''T'' (\<lambda>_ _. None) = Inr cfg \<and> NETWORK cfg = ''Standalone Network ; February 2017'' \<and>
    MAX_OPERATIONS cfg = Finite 20"
proof -
  note vars = requireEnv0 variables0_def
  have digits: "toNumberText ''1000000000'' = Finite 1000000000" "toNumberText ''5000000'' = Finite 5000000"
    "toNumberText ''0'' = Finite 0" "toNumberText ''3'' = Finite 3" "toNumberText ''20'' = Finite 20" "toNumberText ''1000'' = Finite 1000"
    by (simp_all add: toNumberText_digits isDigitChar_def digitValue_def Let_def)
  have boot: "parseBootSyncStartLedger (Some '' ALL '') = Inr None" by code_simp
  have opt: "loadOptionalEnv sources0 = map_of variables0" by (auto simp: loadOptionalEnv_def sources0_def split: option.splits)
  show ?thesis
    by (simp add: loadConfig_def vars requireNumber_def requireBaseFee_def baseReserve_def startupAge_def positiveInteger_def
        selectNetwork_def opt digits boot Let_def numberLess_def isInteger_def isFinite_def)
qed

text \<open>C30: A configuration that loads has a retry limit, a bundle limit and an expiration offset that are positive
  integers, a start-up age and a reserve that are not negative, a first ledger, if any, that is not negative, and
  speaks plain HTTP to the network only when the network is the local one.\<close>

theorem loaded_config_is_valid:
  assumes "loadConfig src testnetId newServer = Inr cfg"
  shows "(\<exists>k\<ge>1. MAX_RETRY_ATTEMPTS cfg = Finite (of_int k)) \<and> (\<exists>k\<ge>1. MAX_OPERATIONS cfg = Finite (of_int k)) \<and>
    (\<exists>k\<ge>1. EXPIRATION_OFFSET cfg = Finite (of_int k)) \<and> (\<exists>x\<ge>0. STARTUP_MAX_BUNDLE_AGE_MS cfg = Finite x) \<and>
    0 \<le> BASE_RESERVE cfg \<and> pred_option ((\<le>) 0) (BOOT_SYNC_START cfg) \<and>
    toNumberText (NETWORK_FEE_TEXT cfg) \<noteq> NaN \<and> \<not> numberLess (toNumberText (NETWORK_FEE_TEXT cfg)) (Finite 0) \<and>
    (allowHttp (NETWORK_CONFIG cfg) \<longleftrightarrow> requireEnv src ''NETWORK'' = Inr ''local'')"
  using assms unfolding loadConfig_def
  apply (elim bindSum_InrE)
  apply (drule positiveInteger_Inr startupAge_Inr baseReserve_Inr requireBaseFee_Inr)+
  apply (auto simp: parseBootSyncStartLedger_Inr pred_option_def selectNetwork_def Let_def split: if_splits)
  done

theorem loaded_config_is_valid_witness:
  "\<exists>cfg. loadConfig sources0 ''T'' (\<lambda>_ _. None) = Inr cfg \<and> (\<exists>k\<ge>1. MAX_OPERATIONS cfg = Finite (of_int k)) \<and>
    allowHttp (NETWORK_CONFIG cfg)"
proof -
  obtain cfg where cfg: "loadConfig sources0 ''T'' (\<lambda>_ _. None) = Inr cfg" using loads0 by blast
  from loaded_config_is_valid [OF cfg] have "(\<exists>k\<ge>1. MAX_OPERATIONS cfg = Finite (of_int k)) \<and> allowHttp (NETWORK_CONFIG cfg)"
    by (simp add: requireEnv0 variables0_def)
  with cfg show ?thesis by blast
qed

definition platformConfig0 :: PlatformConfig where
  "platformConfig0 = \<lparr>DATABASE_URL = ''pg'', PORT = ''3000'', PLATFORM_MODE = ''production'', SERVICE_DOMAIN = ''d'',
     AUTH_SECRET = ''secret'', PROVIDER_BASE_URL = ''http://localhost:3000'', CHALLENGE_TTL_SECONDS = Finite 900,
     SESSION_TTL_SECONDS = Finite 21600,
     NETWORK_CONFIG = \<lparr>networkPassphrase = ''T'', rpcUrl = ''r'', horizonUrl = ''h'', friendbotUrl = None, allowHttp = False\<rparr>,
     NETWORK = ''T'', NETWORK_FEE_TEXT = ''100'', BASE_RESERVE = 5000000, SLOT_CAPACITY = Finite 100,
     EXPENSIVE_OP_WEIGHT = Finite 10, CHEAP_OP_WEIGHT = Finite 1, EXECUTOR_INTERVAL_MS = Finite 5000,
     VERIFIER_INTERVAL_MS = Finite 10000, TTL_CHECK_INTERVAL_MS = Finite 60000, STARTUP_MAX_BUNDLE_AGE_MS = Finite 0,
     MAX_RETRY_ATTEMPTS = Finite 3, MAX_OPERATIONS = Finite 20, EXPIRATION_OFFSET = Finite 1000,
     EVENT_WATCHER_INTERVAL_MS = Finite 30000, BOOT_SYNC_START = None\<rparr>"

text \<open>The fee is checked as a number but read as an integer: a fee of 1.5 loads, and no execution can use it.\<close>

lemma fractional_fee_is_accepted:
  "requireBaseFee \<lparr>dotenv = (\<lambda>_. Some ''1.5''), denoEnv = (\<lambda>_. None)\<rparr> ''NETWORK_FEE'' = Inr ''1.5'' \<and> parseInteger ''1.5'' = None"
proof -
  have "toNumberText ''1.5'' = Finite (3/2)" by code_simp
  then show ?thesis by (simp add: requireBaseFee_def requireEnv_def numberLess_def parseInteger_def digitValue_def Let_def)
qed

text \<open>The capacity of a slot is not checked: any text loads.\<close>

lemma capacity_is_unchecked: "requireNumber (sources0\<lparr>dotenv := (\<lambda>_. Some ''lots'')\<rparr>) ''MEMPOOL_SLOT_CAPACITY'' = Inr NaN"
proof -
  have "toNumberText ''lots'' = NaN" by code_simp
  then show ?thesis by (simp add: requireNumber_def requireEnv_def)
qed

text \<open>Two bytes of the secret that fall on the same position of the seed can be exchanged: different secrets give the
  same signing key.\<close>

lemma seeds_collide:
  "providerSeed (''b'' @ replicate 31 CHR ''a'' @ ''aaaa'') = providerSeed (''a'' @ replicate 31 CHR ''a'' @ ''baaa'')"
  by code_simp

text \<open>Without a secret the tokens are signed with a random one, but the seed is a constant.\<close>

lemma blank_secret:
  "AUTH_SECRET cfg = [] \<Longrightarrow> PLATFORM_MODE cfg \<noteq> ''production'' \<Longrightarrow>
    authSecret cfg random = Inr random \<and> providerSeed (AUTH_SECRET cfg) = providerSeed []"
  by (simp add: authSecret_def)

end
