(* ===== verification/Mempool.thy ===== *)
theory Mempool
  imports Fixtures
begin

text \<open>
  The emission helpers of \<^verbatim>\<open>core/service/events/emit-helpers.ts\<close> and the mempool of
  \<^verbatim>\<open>core/service/mempool/mempool.process.ts\<close>: hydration of bundles from the database, admission to
  slots with displacement, the TTL sweep, purging, re-adding after a failure, start-up and the
  statistics.  The slots of the \<^verbatim>\<open>Mempool\<close> singleton are the field \<open>w_slots\<close> of the world.
\<close>

section \<open>Emitting events\<close>

definition busEmit :: "ProviderEvent \<Rightarrow> unit action" where
  "busEmit e = modify (w_bus_update (\<lambda>es. es @ [e]))"

definition emitTo :: "env \<Rightarrow> EventPayload \<Rightarrow> EventScope option \<Rightarrow> unit action" where
  "emitTo env payload scope =
    (case scope of
       None \<Rightarrow> ret ()
     | Some sc \<Rightarrow> andThen (dateNow env) (\<lambda>t.
         busEmit \<lparr>pe_ts = t, pe_scope = sc, pe_payload = payload\<rparr>))"

definition emitForPp :: "env \<Rightarrow> string \<Rightarrow> EventPayload \<Rightarrow> unit action" where
  "emitForPp env ppPublicKey payload =
    (if ppPublicKey = [] then ret ()
     else tryCatch (andThen (resolveScopeForPp env ppPublicKey) (emitTo env payload))
            (\<lambda>_. ret ()))"

text \<open>A JavaScript \<^verbatim>\<open>Set\<close> filled from a list: first occurrences, in order.\<close>

definition distinctFirst :: "'a list \<Rightarrow> 'a list" where
  "distinctFirst xs = rev (remdups (rev xs))"

definition emitForBundles :: "env \<Rightarrow> string list \<Rightarrow> EventPayload \<Rightarrow> unit action" where
  "emitForBundles env bundleIds payload =
    (if bundleIds = [] then ret ()
     else tryCatch
       (andThen (dbQuery env (\<lambda>w. map ob_ppPublicKey
                   (filter (\<lambda>r. ob_id r \<in> set bundleIds) (w_bundles w)))) (\<lambda>rows.
        let distinct = distinctFirst [pk. Some pk \<leftarrow> rows, pk \<noteq> []]
        in forM distinct (\<lambda>pk. andThen (resolveScopeForPp env pk) (emitTo env payload))))
       (\<lambda>_. ret ()))"

section \<open>Hydration\<close>

definition parseOperationsFromBundle :: "env \<Rightarrow> string list \<Rightarrow> MoonlightOperation list action" where
  "parseOperationsFromBundle env operationsMLXDR =
    mapM (\<lambda>xdr. liftSum (fromMLXDR env xdr)) operationsMLXDR"

definition lookupSubmitter :: "env \<Rightarrow> string option \<Rightarrow> (string option \<times> string list) action" where
  "lookupSubmitter env pubkey =
    (case pubkey of
       None \<Rightarrow> ret (None, [])
     | Some pk \<Rightarrow>
        if pk = [] then ret (None, [])
        else andThen (accounts_findById env pk) (\<lambda>account.
          case account of
            None \<Rightarrow> ret (None, [])
          | Some a \<Rightarrow> andThen (entities_findById env (a_entityId a)) (\<lambda>entity.
              case entity of
                None \<Rightarrow> ret (None, [])
              | Some e \<Rightarrow>
                  ret (e_name e, case e_jurisdictions e of None \<Rightarrow> [] | Some js \<Rightarrow> js))))"

definition slotBundleOf ::
    "env \<Rightarrow> OperationsBundle \<Rightarrow> ClassifiedOperations \<Rightarrow> int \<Rightarrow> string option \<Rightarrow> string list \<Rightarrow>
      SlotBundle" where
  "slotBundleOf env bundle classified now entityName jurisdictions =
    \<lparr>sb_bundleId = ob_id bundle,
     sb_channelContractId = orEmpty (ob_channelContractId bundle),
     sb_operationsMLXDR = ob_operationsMLXDR bundle,
     sb_operations = classified,
     sb_fee = ob_fee bundle,
     sb_weight = calculateBundleWeight classified (MEMPOOL_WEIGHT_CONFIG env),
     sb_ttl = ob_ttl bundle,
     sb_createdAt = createdAt bundle,
     sb_priorityScore =
       calculatePriorityScore now (ob_fee bundle) (ob_ttl bundle) (createdAt bundle),
     sb_retryCount = ob_retryCount bundle,
     sb_lastFailureReason = ob_lastFailureReason bundle,
     sb_ppPublicKey = orEmpty (ob_ppPublicKey bundle),
     sb_entityName = entityName,
     sb_jurisdictions = jurisdictions,
     sb_amount = aggregateBundleAmount classified\<rparr>"

definition createSlotBundleFromEntity :: "env \<Rightarrow> OperationsBundle \<Rightarrow> SlotBundle action" where
  "createSlotBundleFromEntity env bundle =
    andThen (parseOperationsFromBundle env (ob_operationsMLXDR bundle)) (\<lambda>operations.
    let classified = classifyOperations operations in
    andThen (dateNow env) (\<lambda>now.
    andThen (lookupSubmitter env (createdBy bundle)) (\<lambda>(name, jurisdictions).
    ret (slotBundleOf env bundle classified now name jurisdictions))))"

text \<open>A \<^verbatim>\<open>PROCESSING\<close> bundle that is linked to a transaction is left to the verifier.\<close>

fun resubmittable :: "env \<Rightarrow> OperationsBundle list \<Rightarrow> OperationsBundle list action" where
  "resubmittable env [] = ret []"
| "resubmittable env (bundle # bundles) =
    (if ob_status bundle = B_PROCESSING
     then andThen (findByBundleId env (ob_id bundle)) (\<lambda>links.
       if length links > 0 then resubmittable env bundles
       else andThen (resubmittable env bundles) (\<lambda>rest. ret (bundle # rest)))
     else andThen (resubmittable env bundles) (\<lambda>rest. ret (bundle # rest)))"

definition loadPendingBundlesFromDB :: "env \<Rightarrow> SlotBundle list action" where
  "loadPendingBundlesFromDB env =
    andThen (findPendingOrProcessing env) (\<lambda>bundles.
    andThen (resubmittable env bundles) (\<lambda>todo.
    mapM (createSlotBundleFromEntity env) todo))"

section \<open>Purging\<close>

definition purgeSlot :: "(SlotBundle \<Rightarrow> bool) \<Rightarrow> Slot \<Rightarrow> Slot" where
  "purgeSlot P slot = Slot_removeAll slot (map sb_bundleId (filter P (Slot_getBundles slot)))"

definition purgeSlots :: "(SlotBundle \<Rightarrow> bool) \<Rightarrow> Slot list \<Rightarrow> Slot list" where
  "purgeSlots P slots = filter (\<lambda>s. \<not> Slot_isEmpty s) (map (purgeSlot P) slots)"

definition purgeBundles :: "string list \<Rightarrow> nat action" where
  "purgeBundles bundleIds =
    (if length bundleIds = 0 then ret 0
     else
       let hit = (\<lambda>b. sb_bundleId b \<in> set bundleIds) in
       andThen (gets w_slots) (\<lambda>slots.
       andThen (modify (w_slots_update (\<lambda>_. purgeSlots hit slots))) (\<lambda>_.
       ret (sum_list (map (\<lambda>s. length (filter hit (Slot_getBundles s))) slots)))))"

section \<open>Adding bundles\<close>

definition addedPayload :: "SlotBundle \<Rightarrow> bool \<Rightarrow> EventPayload" where
  "addedPayload b isNew =
    MempoolBundleAdded (sb_bundleId b) (sb_weight b) (sb_channelContractId b) isNew (sb_entityName b)
      (sb_jurisdictions b) (sb_amount b)"

definition expiredPayload :: "SlotBundle \<Rightarrow> EventPayload" where
  "expiredPayload b = MempoolBundleExpired (sb_bundleId b) (sb_channelContractId b)"

definition markExpired :: "env \<Rightarrow> SlotBundle \<Rightarrow> unit action" where
  "markExpired env b =
    andThen (bundles_update env (sb_bundleId b) (\<lambda>r. r\<lparr>ob_status := B_EXPIRED\<rparr>)) (\<lambda>_.
    emitForPp env (sb_ppPublicKey b) (expiredPayload b))"

definition tryExistingSlots :: "SlotBundle \<Rightarrow> Slot list \<Rightarrow> SlotBundle option \<times> Slot list" where
  "tryExistingSlots bundle slots =
    cascade Slot_add (\<lambda>s. sl_channelContractId s = sb_channelContractId bundle) bundle slots"

definition placeBundle :: "env \<Rightarrow> SlotBundle \<Rightarrow> unit action" where
  "placeBundle env bundleData =
    andThen (gets w_slots) (\<lambda>slots.
    case tryExistingSlots bundleData slots of
      (None, slots') \<Rightarrow>
        andThen (modify (w_slots_update (\<lambda>_. slots'))) (\<lambda>_.
        emitForPp env (sb_ppPublicKey bundleData) (addedPayload bundleData False))
    | (Some bundleToAdd, slots') \<Rightarrow>
        andThen (modify (w_slots_update (\<lambda>_. slots'))) (\<lambda>_.
        case Slot_add (newSlot (MEMPOOL_SLOT_CAPACITY env) (sb_channelContractId bundleData))
               bundleToAdd of
          (None, fresh) \<Rightarrow>
            andThen (modify (w_slots_update (\<lambda>ss. ss @ [fresh]))) (\<lambda>_.
            emitForPp env (sb_ppPublicKey bundleData) (addedPayload bundleData True))
        | (Some _, _) \<Rightarrow> throw (SLOT_FULL (sb_weight bundleData) (MEMPOOL_SLOT_CAPACITY env))))"

definition addBundle :: "env \<Rightarrow> SlotBundle \<Rightarrow> unit action" where
  "addBundle env bundleData =
    andThen (dateNow env) (\<lambda>now.
    if isBundleExpired now bundleData then markExpired env bundleData
    else
      andThen (placeBundle env bundleData) (\<lambda>_.
      tryCatch
        (andThen (updateStatusIfActive env (sb_bundleId bundleData) B_PROCESSING
                    [B_PENDING, B_PROCESSING]) (\<lambda>updated.
         if updated then ret ()
         else andThen (purgeBundles [sb_bundleId bundleData]) (\<lambda>_. ret ())))
        (\<lambda>error. andThen (purgeBundles [sb_bundleId bundleData]) (\<lambda>_. throw error))))"

definition reAddBundles :: "env \<Rightarrow> SlotBundle list \<Rightarrow> unit action" where
  "reAddBundles env bundles =
    forM bundles (\<lambda>bundle. tryCatch (addBundle env bundle) (\<lambda>_. ret ()))"

section \<open>The TTL sweep\<close>

definition expireBundles :: "env \<Rightarrow> unit action" where
  "expireBundles env =
    andThen (dateNow env) (\<lambda>now.
    andThen (gets w_slots) (\<lambda>slots.
    let expired = concat (map (\<lambda>s. filter (isBundleExpired now) (Slot_getBundles s)) (rev slots)) in
    andThen (modify (w_slots_update (\<lambda>_. purgeSlots (isBundleExpired now) slots))) (\<lambda>_.
    forM expired (markExpired env))))"

section \<open>Start-up\<close>

definition STARTUP_EXPIRY_BATCH_LIMIT :: nat where
  "STARTUP_EXPIRY_BATCH_LIMIT = 10000"

text \<open>The \<^verbatim>\<open>do ... while\<close> loop of the start-up expiry, with fuel.\<close>

fun startupExpiry :: "nat \<Rightarrow> env \<Rightarrow> int \<Rightarrow> nat \<Rightarrow> nat action" where
  "startupExpiry 0 env cutoff totalExpired = throw OutOfFuel"
| "startupExpiry (Suc fuel) env cutoff totalExpired =
    andThen (expireOlderThan env cutoff [B_PENDING, B_PROCESSING] (Some STARTUP_EXPIRY_BATCH_LIMIT))
      (\<lambda>batch.
        if length batch \<ge> STARTUP_EXPIRY_BATCH_LIMIT
        then startupExpiry fuel env cutoff (totalExpired + length batch)
        else ret (totalExpired + length batch))"

definition expireStaleAtStartup :: "env \<Rightarrow> unit action" where
  "expireStaleAtStartup env =
    (if MEMPOOL_STARTUP_MAX_BUNDLE_AGE_MS env > 0
     then andThen (dateNow env) (\<lambda>now.
       andThen (gets (\<lambda>w. Suc (length (w_bundles w)))) (\<lambda>fuel.
       andThen (startupExpiry fuel env (now - MEMPOOL_STARTUP_MAX_BUNDLE_AGE_MS env) 0) (\<lambda>_. ret ())))
     else ret ())"

definition mempool_initialize :: "env \<Rightarrow> unit action" where
  "mempool_initialize env =
    andThen (expireStaleAtStartup env) (\<lambda>_.
    andThen (loadPendingBundlesFromDB env) (\<lambda>bundles.
    forM bundles (addBundle env)))"

section \<open>Queue and statistics\<close>

definition getNextSlot :: "Slot option action" where
  "getNextSlot = gets (\<lambda>w. case w_slots w of [] \<Rightarrow> None | s # _ \<Rightarrow> Some s)"

definition removeFirstSlot :: "Slot option action" where
  "removeFirstSlot =
    andThen (gets w_slots) (\<lambda>slots.
    case slots of
      [] \<Rightarrow> ret None
    | s # ss \<Rightarrow> andThen (modify (w_slots_update (\<lambda>_. ss))) (\<lambda>_. ret (Some s)))"

record MempoolStats =
  ms_totalSlots :: nat
  ms_totalBundles :: nat
  ms_totalWeight :: int
  ms_averageBundlesPerSlot :: rat

definition getTotalBundles :: "Slot list \<Rightarrow> nat" where
  "getTotalBundles slots = foldl (\<lambda>acc slot. acc + Slot_getBundleCount slot) 0 slots"

definition getStats :: "Slot list \<Rightarrow> MempoolStats" where
  "getStats slots =
    (let totalBundles = getTotalBundles slots;
         totalWeight = foldl (\<lambda>acc slot. acc + Slot_getTotalWeight slot) 0 slots;
         totalSlots = length slots
     in \<lparr>ms_totalSlots = totalSlots, ms_totalBundles = totalBundles, ms_totalWeight = totalWeight,
         ms_averageBundlesPerSlot =
           (if totalSlots > 0 then of_nat totalBundles / of_nat totalSlots else 0)\<rparr>)"

fun statsLoop :: "string list \<Rightarrow> Slot list \<Rightarrow> nat \<Rightarrow> nat \<Rightarrow> nat \<times> nat" where
  "statsLoop allowed [] queueDepth slotCount = (queueDepth, slotCount)"
| "statsLoop allowed (slot # slots) queueDepth slotCount =
    (if sl_channelContractId slot \<notin> set allowed then statsLoop allowed slots queueDepth slotCount
     else statsLoop allowed slots (queueDepth + Slot_getBundleCount slot) (slotCount + 1))"

definition getStatsForChannels :: "Slot list \<Rightarrow> string list \<Rightarrow> nat \<times> nat" where
  "getStatsForChannels slots channelContractIds =
    (if length channelContractIds = 0 then (0, 0) else statsLoop channelContractIds slots 0 0)"

section \<open>Guarantees of the mempool\<close>

context side_tables
begin

lemma guar_busEmit: "guar R (busEmit e)"
  by (simp add: busEmit_def guar_def R_bus)

lemma guar_emitTo: "guar R (emitTo env p s)"
  unfolding emitTo_def by (intro world_rules guar_busEmit)

lemma guar_emitForPp: "guar R (emitForPp env pk p)"
  unfolding emitForPp_def by (intro world_rules repo_rules guar_emitTo)

lemma guar_emitForBundles: "guar R (emitForBundles env ids p)"
  unfolding emitForBundles_def by (intro world_rules repo_rules guar_emitTo)

lemma guar_lookupSubmitter: "guar R (lookupSubmitter env pk)"
  unfolding lookupSubmitter_def by (intro world_rules repo_rules)

lemma guar_createSlotBundleFromEntity: "guar R (createSlotBundleFromEntity env b)"
  unfolding createSlotBundleFromEntity_def parseOperationsFromBundle_def
  by (intro world_rules guar_lookupSubmitter)

lemma guar_resubmittable: "guar R (resubmittable env bs)"
proof (induction bs)
  case Nil
  show ?case unfolding resubmittable.simps by (rule guar_ret)
next
  case (Cons b bs)
  then show ?case unfolding resubmittable.simps by (intro world_rules repo_rules)
qed

lemma guar_loadPendingBundlesFromDB: "guar R (loadPendingBundlesFromDB env)"
  unfolding loadPendingBundlesFromDB_def
  by (intro world_rules repo_rules guar_resubmittable guar_createSlotBundleFromEntity)

lemmas emit_rules = guar_emitTo guar_emitForPp guar_emitForBundles guar_lookupSubmitter
  guar_createSlotBundleFromEntity guar_resubmittable guar_loadPendingBundlesFromDB

end

text \<open>A relation kept by the four effects of the mempool (placing a bundle, purging, and the two
  statements on the bundles table) is kept by all its operations.\<close>

locale mempool_client = side_tables R for R :: "world \<Rightarrow> world \<Rightarrow> bool" +
  assumes R_place: "guar R (placeBundle env b)"
    and R_purge: "R w (w_slots_update (\<lambda>_. purgeSlots P (w_slots w)) w)"
    and R_activate: "guar R (updateStatusIfActive env i B_PROCESSING [B_PENDING, B_PROCESSING])"
    and R_expire: "guar R (bundles_update env i (\<lambda>r. r\<lparr>ob_status := B_EXPIRED\<rparr>))"
    and R_expireOld: "guar R (expireOlderThan env t sts lmt)"
begin

lemma guar_markExpired: "guar R (markExpired env b)"
  unfolding markExpired_def by (intro world_rules emit_rules R_expire)

lemma guar_purgeBundles: "guar R (purgeBundles ids)"
  by (rule guarI) (simp add: purgeBundles_def andThen_apply R_purge R_refl Let_def)

lemma guar_addBundle: "guar R (addBundle env b)"
  unfolding addBundle_def
  by (intro world_rules guar_markExpired guar_purgeBundles R_place R_activate)

lemma guar_reAddBundles: "guar R (reAddBundles env bs)"
  unfolding reAddBundles_def by (intro world_rules guar_addBundle)

lemma guar_sweep:
  "guar R (andThen (gets w_slots) (\<lambda>slots.
     andThen (modify (w_slots_update (\<lambda>_. purgeSlots P slots))) (\<lambda>_.
       forM (f slots) (markExpired env))))"
proof (rule guarI)
  fix w :: world
  have "guar R (forM (f (w_slots w)) (markExpired env))"
    by (intro world_rules guar_markExpired)
  then have "R (w_slots_update (\<lambda>_. purgeSlots P (w_slots w)) w)
      (snd (forM (f (w_slots w)) (markExpired env) (w_slots_update (\<lambda>_. purgeSlots P (w_slots w)) w)))"
    by (simp add: guar_def)
  with R_purge [of w P] show "R w (snd (andThen (gets w_slots) (\<lambda>slots.
     andThen (modify (w_slots_update (\<lambda>_. purgeSlots P slots))) (\<lambda>_.
       forM (f slots) (markExpired env))) w))"
    by (simp add: andThen_apply R_trans)
qed

lemma guar_expireBundles: "guar R (expireBundles env)"
  unfolding expireBundles_def Let_def by (intro world_rules guar_sweep)

lemma guar_startupExpiry: "guar R (startupExpiry k env c n)"
proof (induction k arbitrary: n)
  case 0
  show ?case unfolding startupExpiry.simps by (rule guar_throw)
next
  case (Suc k)
  then show ?case unfolding startupExpiry.simps by (intro world_rules R_expireOld)
qed

lemma guar_mempool_initialize: "guar R (mempool_initialize env)"
  unfolding mempool_initialize_def expireStaleAtStartup_def
  by (intro world_rules guar_startupExpiry emit_rules guar_addBundle)

lemmas mempool_rules = guar_markExpired guar_purgeBundles guar_addBundle guar_reAddBundles
  guar_expireBundles guar_mempool_initialize

end

subsection \<open>Terminal statuses and submissions\<close>

lemma terminalKept_slots: "terminalKept w (w_slots_update f w)"
  by (simp add: terminalKept_same)

lemma guar_tk_placeBundle: "guar terminalKept (placeBundle env b)"
  unfolding placeBundle_def
  by (intro terminal_kept.world_rules terminal_kept.emit_rules guar_modify terminalKept_slots)

interpretation terminal_mempool: mempool_client terminalKept
  by unfold_locales
    (simp_all add: guar_tk_placeBundle terminalKept_slots guar_tk_updateStatusIfActive
      guar_tk_bundles_update keepsTerminal_def guar_tk_expireOlderThan)

lemma guar_submitted_placeBundle: "guar submittedKept (placeBundle env b)"
  unfolding placeBundle_def
  by (intro submitted_kept.world_rules submitted_kept.emit_rules guar_modify)
    (simp_all add: submittedKept_def)

interpretation submitted_mempool: mempool_client submittedKept
  by unfold_locales (simp_all add: guar_submitted_placeBundle guar_submitted_bundles,
      simp add: submittedKept_def)

subsection \<open>Well-formed slots\<close>

definition slotOk :: "Slot \<Rightarrow> bool" where
  "slotOk s \<longleftrightarrow> slotInv s \<and> slotChannelOk s \<and> sl_bundles s \<noteq> []"

definition mempoolInv :: "world \<Rightarrow> bool" where
  "mempoolInv w \<longleftrightarrow> (\<forall>s\<in>set (w_slots w). slotOk s)"

definition mempoolKept :: "world \<Rightarrow> world \<Rightarrow> bool" where
  "mempoolKept w w' \<longleftrightarrow> (mempoolInv w \<longrightarrow> mempoolInv w')"

interpretation mempool_kept: side_tables mempoolKept
proof unfold_locales
  show "mempoolKept s t \<Longrightarrow> mempoolKept t u \<Longrightarrow> mempoolKept s u" for s t u
    by (simp add: mempoolKept_def)
qed (simp_all add: mempoolKept_def mempoolInv_def)

lemma Slot_add_nonempty: "sl_bundles s \<noteq> [] \<Longrightarrow> sl_bundles (snd (Slot_add s b)) \<noteq> []"
  by (cases rule: Slot_add_cases [of s b]) simp_all

interpretation full_slot: priority_container Slot_add sl_bundles sb_priorityScore
    sl_channelContractId "\<lambda>s. slotInv s \<and> sl_bundles s \<noteq> []"
  by unfold_locales (simp_all add: Slot_add_slotInv Slot_add_nonempty Slot_add_mset Slot_add_lowest)

lemma tryExistingSlots_ok:
  assumes "tryExistingSlots b ss = (r, ss')" and "\<forall>s\<in>set ss. slotOk s"
  shows "\<forall>s\<in>set ss'. slotOk s"
    and "\<And>x. r = Some x \<Longrightarrow> sb_channelContractId x = sb_channelContractId b"
proof -
  note c = assms(1) [unfolded tryExistingSlots_def]
  let ?Q = "\<lambda>q y. sb_channelContractId y = sl_channelContractId q"
  have "\<forall>s\<in>set ss'. slotInv s \<and> sl_bundles s \<noteq> []"
    using full_slot.cascade_invar [OF c] assms(2) by (simp add: slotOk_def)
  moreover have "\<forall>s\<in>set ss'. \<forall>y\<in>set (sl_bundles s). ?Q s y"
    using slot.cascade_items [OF c, of ?Q] assms(2) by (simp add: slotOk_def slotChannelOk_def)
  ultimately show "\<forall>s\<in>set ss'. slotOk s" by (simp add: slotOk_def slotChannelOk_def)
  show "sb_channelContractId x = sb_channelContractId b" if "r = Some x" for x
    using slot.cascade_returned [of _ b ss x ss', where T = "\<lambda>y. sb_channelContractId y = sb_channelContractId b"]
      c that assms(2) by (auto simp: slotOk_def slotChannelOk_def)
qed

lemma Slot_add_fresh_ok:
  assumes "Slot_add (newSlot c ch) b = (None, s)" and "sb_channelContractId b = ch"
  shows "slotOk s"
proof -
  have "slotInv s" using Slot_add_slotInv [of "newSlot c ch" b] assms(1) by simp
  moreover have "mset (sl_bundles s) = {#b#}" using Slot_add_mset [of "newSlot c ch" b] assms(1) by simp
  then have "set (sl_bundles s) = {b}" by (metis set_mset_mset set_mset_single)
  moreover have "sl_channelContractId s = ch"
    using Slot_add_frame(1) [of "newSlot c ch" b] assms(1) by simp
  ultimately show ?thesis using assms(2) by (auto simp: slotOk_def slotChannelOk_def)
qed


text \<open>\<open>placeBundle\<close> seen as a state change: the slots it leaves, on each of its ways out.\<close>

fun placed :: "env \<Rightarrow> SlotBundle \<Rightarrow> Slot list \<Rightarrow> bool \<times> Slot list" where
  "placed env b ss =
    (case tryExistingSlots b ss of
       (None, ss') \<Rightarrow> (True, ss')
     | (Some x, ss') \<Rightarrow>
        (case Slot_add (newSlot (MEMPOOL_SLOT_CAPACITY env) (sb_channelContractId b)) x of
           (None, s) \<Rightarrow> (True, ss' @ [s])
         | (Some _, _) \<Rightarrow> (False, ss')))"

lemma emitForPp_slots: "w_slots (snd (emitForPp env pk p w)) = w_slots w"
  using guarD [OF slots_kept.guar_emitForPp [of env pk p], of w] by (cases "emitForPp env pk p w") (simp add: slotsKept_def)

lemma emitForBundles_Inr: "\<exists>w'. emitForBundles env ids p w = (Inr (), w')"
  by (auto simp: emitForBundles_def tryCatch_apply split: prod.splits sum.splits)

lemma emitForPp_Inr: "\<exists>w'. emitForPp env pk p w = (Inr (), w')"
  by (auto simp: emitForPp_def tryCatch_apply split: prod.splits sum.splits)

lemma placeBundle_slots: "w_slots (snd (placeBundle env b w)) = snd (placed env b (w_slots w))"
  by (simp add: placeBundle_def andThen_apply emitForPp_slots split: prod.split option.split)

lemma placeBundle_placed:
  assumes "fst (placed env b (w_slots w))"
  shows "\<exists>w'. placeBundle env b w = (Inr (), w')"
proof -
  obtain r ss' where t: "tryExistingSlots b (w_slots w) = (r, ss')"
    by (cases "tryExistingSlots b (w_slots w)")
  show ?thesis
  proof (cases r)
    case None
    with t show ?thesis by (simp add: placeBundle_def andThen_apply emitForPp_Inr)
  next
    case (Some x)
    obtain o1 s where a:
      "Slot_add (newSlot (MEMPOOL_SLOT_CAPACITY env) (sb_channelContractId b)) x = (o1, s)"
      by (cases "Slot_add (newSlot (MEMPOOL_SLOT_CAPACITY env) (sb_channelContractId b)) x")
    with assms t Some have "o1 = None" by (cases o1) auto
    with t Some a show ?thesis by (simp add: placeBundle_def andThen_apply emitForPp_Inr)
  qed
qed

lemma placeBundle_full:
  assumes "\<not> fst (placed env b (w_slots w))"
  shows "placeBundle env b w =
    (Inl (SLOT_FULL (sb_weight b) (MEMPOOL_SLOT_CAPACITY env)),
     w\<lparr>w_slots := snd (placed env b (w_slots w))\<rparr>)"
proof -
  obtain r ss' where t: "tryExistingSlots b (w_slots w) = (r, ss')"
    by (cases "tryExistingSlots b (w_slots w)")
  with assms obtain x where x: "r = Some x" by (cases r) auto
  obtain o1 s where a:
    "Slot_add (newSlot (MEMPOOL_SLOT_CAPACITY env) (sb_channelContractId b)) x = (o1, s)"
    by (cases "Slot_add (newSlot (MEMPOOL_SLOT_CAPACITY env) (sb_channelContractId b)) x")
  with assms t x obtain y where "o1 = Some y" by (cases o1) auto
  with t x a show ?thesis by (simp add: placeBundle_def andThen_apply)
qed

lemma placed_ok:
  assumes "\<forall>s\<in>set ss. slotOk s"
  shows "\<forall>s\<in>set (snd (placed env b ss)). slotOk s"
proof -
  obtain r ss' where t: "tryExistingSlots b ss = (r, ss')" by (cases "tryExistingSlots b ss")
  note ok = tryExistingSlots_ok [OF t assms]
  show ?thesis
  proof (cases r)
    case None
    with t ok(1) show ?thesis by simp
  next
    case (Some x)
    obtain o1 s where a: "Slot_add (newSlot (MEMPOOL_SLOT_CAPACITY env) (sb_channelContractId b)) x = (o1, s)"
      by (cases "Slot_add (newSlot (MEMPOOL_SLOT_CAPACITY env) (sb_channelContractId b)) x")
    with t Some ok Slot_add_fresh_ok [of _ _ x s] show ?thesis by (cases o1) auto
  qed
qed

lemma guar_mk_placeBundle: "guar mempoolKept (placeBundle env b)"
  by (rule guarI) (simp add: mempoolKept_def mempoolInv_def placeBundle_slots placed_ok del: placed.simps)

subsection \<open>Purging\<close>

lemma removeFirstBy_append:
  "\<forall>x\<in>set xs. \<not> P x \<Longrightarrow> P y \<Longrightarrow> removeFirstBy P (xs @ y # ys) = Some (y, xs @ ys)"
  by (induction xs) auto

lemma removeAll_hits:
  assumes "\<forall>x\<in>set (sl_bundles s). \<forall>y\<in>set (sl_bundles s). sb_bundleId x = sb_bundleId y \<longrightarrow> P x = P y"
  shows "sl_bundles (Slot_removeAll s (map sb_bundleId (filter P (sl_bundles s)))) =
    filter (\<lambda>b. \<not> P b) (sl_bundles s)"
  using assms
proof (induction "filter P (sl_bundles s)" arbitrary: s)
  case Nil
  from Nil.hyps have none: "filter P (sl_bundles s) = []" by (rule sym)
  then have "filter (\<lambda>b. \<not> P b) (sl_bundles s) = sl_bundles s"
    by (simp add: filter_id_conv filter_empty_conv)
  with none show ?case by simp
next
  case (Cons y hits)
  from Cons.hyps(2) [symmetric] obtain us vs where
    split: "sl_bundles s = us @ y # vs" "\<forall>u\<in>set us. \<not> P u" "P y" "hits = filter P vs"
    by (auto simp: filter_eq_Cons_iff)
  define t where "t = snd (Slot_removeBundle s (sb_bundleId y))"
  have "sb_bundleId u \<noteq> sb_bundleId y" if "u \<in> set us" for u
  proof
    assume "sb_bundleId u = sb_bundleId y"
    moreover have "u \<in> set (sl_bundles s)" "y \<in> set (sl_bundles s)" using that split(1) by auto
    ultimately have "P u = P y" using Cons.prems by blast
    with split(2,3) that show False by simp
  qed
  then have t: "sl_bundles t = us @ vs"
    using split(1) removeFirstBy_append [of us "\<lambda>b. sb_bundleId b = sb_bundleId y" y vs]
    by (simp add: t_def Slot_removeBundle_bundles)
  have "filter P us = []" using split(2) by (simp add: filter_empty_conv)
  then have hits: "filter P (sl_bundles t) = hits" using t split(4) by simp
  have agree: "\<forall>x\<in>set (sl_bundles t). \<forall>y\<in>set (sl_bundles t).
      sb_bundleId x = sb_bundleId y \<longrightarrow> P x = P y"
  proof -
    have "set (sl_bundles t) \<subseteq> set (sl_bundles s)" unfolding t split(1) by auto
    then show ?thesis using Cons.prems by blast
  qed
  have "sl_bundles (Slot_removeAll t (map sb_bundleId (filter P (sl_bundles t)))) =
      filter (\<lambda>b. \<not> P b) (sl_bundles t)"
    by (rule Cons.hyps(1) [OF hits [symmetric] agree])
  moreover have "map sb_bundleId (filter P (sl_bundles s)) = sb_bundleId y # map sb_bundleId hits"
    using Cons.hyps(2) [symmetric] by simp
  moreover have "filter (\<lambda>b. \<not> P b) (sl_bundles t) = filter (\<lambda>b. \<not> P b) (sl_bundles s)"
    using t split(1,3) by simp
  ultimately show ?case using hits by (simp add: t_def)
qed

lemma removeAll_subset: "set (sl_bundles (Slot_removeAll s ids)) \<subseteq> set (sl_bundles s)"
proof (induction ids arbitrary: s)
  case Nil
  then show ?case by simp
next
  case (Cons i ids)
  have "set (sl_bundles (snd (Slot_removeBundle s i))) \<subseteq> set (sl_bundles s)"
  proof (cases "removeFirstBy (\<lambda>b. sb_bundleId b = i) (sl_bundles s)")
    case None
    then show ?thesis by (simp add: Slot_removeBundle_bundles)
  next
    case (Some p)
    obtain y ys where p: "p = (y, ys)" by (cases p)
    have "mset (sl_bundles s) = add_mset y (mset ys)"
      using removeFirstBy_Some [OF Some [unfolded p]] by simp
    then have "set (sl_bundles s) = insert y (set ys)"
      by (metis set_mset_add_mset_insert set_mset_mset)
    with Some p show ?thesis by (auto simp: Slot_removeBundle_bundles)
  qed
  with Cons show ?case by fastforce
qed

lemma purgeSlot_ok:
  "slotInv s \<Longrightarrow> slotChannelOk s \<Longrightarrow> slotInv (purgeSlot P s) \<and> slotChannelOk (purgeSlot P s)"
  using removeAll_subset [of s "map sb_bundleId (filter P (Slot_getBundles s))"]
  by (auto simp: purgeSlot_def Slot_removeAll_slotInv slotChannelOk_def)

lemma purgeSlots_ok:
  "\<forall>s\<in>set ss. slotOk s \<Longrightarrow> \<forall>s\<in>set (purgeSlots P ss). slotOk s"
  using purgeSlot_ok [of _ P] by (auto simp: purgeSlots_def slotOk_def Slot_isEmpty_def)

lemma slotsKept_mempoolKept: "slotsKept w w' \<Longrightarrow> mempoolKept w w'"
  by (simp add: slotsKept_def mempoolKept_def mempoolInv_def)

lemma guar_mk_bundles:
  "guar mempoolKept (bundles_update env i f)" "guar mempoolKept (updateIfStatusIn env i f a)"
  "guar mempoolKept (updateStatusIfActive env i st a)"
  "guar mempoolKept (expireOlderThan env c sts lmt)" "guar mempoolKept (bundles_create env r)"
  by (rule guar_mono [OF slotsKept_mempoolKept], assumption, rule guar_slots_bundles)+

interpretation mempool_wf: mempool_client mempoolKept
proof unfold_locales
  show "mempoolKept w (w_slots_update (\<lambda>_. purgeSlots P (w_slots w)) w)" for w P
    by (simp add: mempoolKept_def mempoolInv_def purgeSlots_ok)
qed (simp_all add: guar_mk_placeBundle guar_mk_bundles)

section \<open>Runs without database faults\<close>

definition bundlesKept :: "world \<Rightarrow> world \<Rightarrow> bool" where
  "bundlesKept w w' \<longleftrightarrow> w_bundles w' = w_bundles w"

interpretation bundles_kept: side_tables bundlesKept
  by unfold_locales (simp_all add: bundlesKept_def)

definition allBundles :: "world \<Rightarrow> SlotBundle multiset" where
  "allBundles w = (\<Sum>s\<leftarrow>w_slots w. mset (sl_bundles s))"

lemma guar_bk_placeBundle: "guar bundlesKept (placeBundle env b)"
  unfolding placeBundle_def
  by (intro bundles_kept.world_rules bundles_kept.emit_rules guar_modify)
    (simp_all add: bundlesKept_def)

lemma placed_mset:
  assumes "fst (placed env b ss)"
  shows "(\<Sum>s\<leftarrow>snd (placed env b ss). mset (sl_bundles s)) =
    add_mset b (\<Sum>s\<leftarrow>ss. mset (sl_bundles s))"
proof -
  obtain r ss' where t: "tryExistingSlots b ss = (r, ss')" by (cases "tryExistingSlots b ss")
  note m = slot.cascade_mset [OF t [unfolded tryExistingSlots_def]]
  show ?thesis
  proof (cases r)
    case None
    with t m show ?thesis by simp
  next
    case (Some x)
    obtain o1 s where a:
      "Slot_add (newSlot (MEMPOOL_SLOT_CAPACITY env) (sb_channelContractId b)) x = (o1, s)"
      by (cases "Slot_add (newSlot (MEMPOOL_SLOT_CAPACITY env) (sb_channelContractId b)) x")
    with assms t Some have o1: "o1 = None" by (cases o1) auto
    have "mset (sl_bundles s) = {#x#}"
      using Slot_add_mset [of "newSlot (MEMPOOL_SLOT_CAPACITY env) (sb_channelContractId b)" x] a o1
      by simp
    with t m Some a o1 show ?thesis by simp
  qed
qed

lemma placed_fits:
  assumes "\<forall>s\<in>set ss. \<forall>x\<in>set (sl_bundles s). sb_weight x \<le> MEMPOOL_SLOT_CAPACITY env"
    and "sb_weight b \<le> MEMPOOL_SLOT_CAPACITY env"
  shows "fst (placed env b ss)"
proof -
  obtain r ss' where t: "tryExistingSlots b ss = (r, ss')" by (cases "tryExistingSlots b ss")
  show ?thesis
  proof (cases r)
    case None
    with t show ?thesis by simp
  next
    case (Some x)
    have "sb_weight x \<le> MEMPOOL_SLOT_CAPACITY env"
      using slot.cascade_returned [of _ b ss x ss', where T = "\<lambda>y. sb_weight y \<le> MEMPOOL_SLOT_CAPACITY env"]
        t [unfolded tryExistingSlots_def] Some assms by simp
    with t Some show ?thesis by (simp add: Slot_add_def)
  qed
qed

lemma bundleRow_id: "bundleRow w i = Some r \<Longrightarrow> ob_id r = i"
  by (auto simp: bundleRow_def find_Some_iff)

lemma updateStatusIfActive_run:
  assumes "noFaults env" and "bundleRow w i = Some r" and "deletedAt r = None"
    and "ob_status r \<in> set active"
  shows "\<exists>w'. updateStatusIfActive env i st active w = (Inr True, w') \<and>
    (\<exists>r'. bundleRow w' i = Some r' \<and> ob_status r' = st \<and> deletedAt r' = None) \<and>
    w_slots w' = w_slots w \<and> (\<forall>j. j \<noteq> i \<longrightarrow> bundleRow w' j = bundleRow w j)"
proof -
  let ?hit = "\<lambda>r. ob_id r = i \<and> deletedAt r = None \<and> ob_status r \<in> set active"
  let ?g = "\<lambda>r. if ?hit r then r\<lparr>ob_status := st, updatedAt := clock env (w_tick w)\<rparr> else r"
  define w' where "w' = advance (w\<lparr>w_bundles := map ?g (w_bundles w)\<rparr>)"
  have r: "r \<in> set (w_bundles w)" "ob_id r = i"
    using assms(2) by (auto simp: bundleRow_def find_Some_iff)
  then have ne: "filter ?hit (w_bundles w) \<noteq> []"
    using assms(3,4) by (force simp: filter_empty_conv)
  have run: "updateStatusIfActive env i st active w = (Inr True, w')"
    using ne assms(1) by (simp add: updateStatusIfActive_def dbExec_def Let_def w'_def)
  have row: "bundleRow w' j = map_option ?g (bundleRow w j)" for j
    by (rule bundleRow_map) (simp_all add: w'_def)
  have "\<exists>r'. bundleRow w' i = Some r' \<and> ob_status r' = st \<and> deletedAt r' = None"
    using assms(2-4) r(2) by (simp add: row)
  moreover have "bundleRow w' j = bundleRow w j" if "j \<noteq> i" for j
    using that bundleRow_id [of w j] by (cases "bundleRow w j") (auto simp: row)
  ultimately show ?thesis using run by (simp add: w'_def)
qed

lemma bundles_update_run:
  assumes "noFaults env" and "\<And>r. ob_id (f r) = ob_id r"
  shows "\<exists>rs w'. bundles_update env i f w = (Inr rs, w') \<and> w_slots w' = w_slots w \<and>
    (\<forall>j. bundleRow w' j = map_option (\<lambda>r. if ob_id r = i
       then (f r)\<lparr>updatedAt := clock env (w_tick w)\<rparr> else r) (bundleRow w j))"
proof -
  let ?g = "\<lambda>r. if ob_id r = i then (f r)\<lparr>updatedAt := clock env (w_tick w)\<rparr> else r"
  define w' where "w' = advance (w_bundles_update (map ?g) w)"
  have "bundles_update env i f w =
      (Inr (map (\<lambda>r. (f r)\<lparr>updatedAt := clock env (w_tick w)\<rparr>) (filter (\<lambda>r. ob_id r = i) (w_bundles w))), w')"
    using assms(1) by (simp add: bundles_update_def base_update_def dbExec_def w'_def)
  moreover have "bundleRow w' j = map_option ?g (bundleRow w j)" for j
    by (rule bundleRow_map) (simp_all add: w'_def assms(2))
  ultimately show ?thesis by (simp add: w'_def)
qed

lemma statusOf_emit: "w_bundles w' = w_bundles w \<Longrightarrow> statusOf w' i = statusOf w i"
  by (simp add: statusOf_def bundleRow_def)

lemma markExpired_run:
  assumes "noFaults env"
  shows "\<exists>w'. markExpired env b w = (Inr (), w') \<and> w_slots w' = w_slots w \<and>
    (\<forall>j. statusOf w' j = (if j = sb_bundleId b then map_option (\<lambda>_. B_EXPIRED) (statusOf w j)
      else statusOf w j))"
proof -
  obtain rs u where u: "bundles_update env (sb_bundleId b) (\<lambda>r. r\<lparr>ob_status := B_EXPIRED\<rparr>) w = (Inr rs, u)"
    "w_slots u = w_slots w"
    "\<forall>j. bundleRow u j = map_option (\<lambda>r. if ob_id r = sb_bundleId b
       then (r\<lparr>ob_status := B_EXPIRED\<rparr>)\<lparr>updatedAt := clock env (w_tick w)\<rparr> else r) (bundleRow w j)"
    using bundles_update_run [OF assms, of "\<lambda>r. r\<lparr>ob_status := B_EXPIRED\<rparr>" "sb_bundleId b" w] by auto
  obtain w' where w': "emitForPp env (sb_ppPublicKey b) (expiredPayload b) u = (Inr (), w')"
    using emitForPp_Inr by blast
  have "w_bundles w' = w_bundles u"
    using guarD [OF bundles_kept.guar_emitForPp w'] by (simp add: bundlesKept_def)
  then have row: "bundleRow w' j = bundleRow u j" for j by (rule bundleRow_cong)
  have "statusOf w' j = (if j = sb_bundleId b then map_option (\<lambda>_. B_EXPIRED) (statusOf w j)
      else statusOf w j)" for j
  proof (cases "bundleRow w j")
    case None
    then show ?thesis by (auto simp: statusOf_def row u(3))
  next
    case (Some r)
    then have "ob_id r = j" by (rule bundleRow_id)
    with Some show ?thesis by (auto simp: statusOf_def row u(3))
  qed
  moreover have "w_slots w' = w_slots w"
    using guarD [OF slots_kept.guar_emitForPp w'] u(2) by (simp add: slotsKept_def)
  ultimately show ?thesis
    using u(1) w' by (simp add: markExpired_def andThen_apply)
qed

lemma forM_markExpired_run:
  assumes "noFaults env"
  shows "\<exists>w'. forM bs (markExpired env) w = (Inr (), w') \<and> w_slots w' = w_slots w \<and>
    (\<forall>j. statusOf w' j = (if j \<in> sb_bundleId ` set bs then map_option (\<lambda>_. B_EXPIRED) (statusOf w j)
      else statusOf w j))"
proof (induction bs arbitrary: w)
  case Nil
  then show ?case by simp
next
  case (Cons b bs)
  obtain u where u: "markExpired env b w = (Inr (), u)" "w_slots u = w_slots w"
    "\<forall>j. statusOf u j = (if j = sb_bundleId b then map_option (\<lambda>_. B_EXPIRED) (statusOf w j)
      else statusOf w j)"
    using markExpired_run [OF assms, of b w] by blast
  obtain w' where w': "forM bs (markExpired env) u = (Inr (), w')" "w_slots w' = w_slots u"
    "\<forall>j. statusOf w' j = (if j \<in> sb_bundleId ` set bs then map_option (\<lambda>_. B_EXPIRED) (statusOf u j)
      else statusOf u j)"
    using Cons.IH [of u] by blast
  from u w' show ?case by (simp add: andThen_apply option.map_comp comp_def)
qed

subsection \<open>What purging removes\<close>

lemma sum_list_nonempty_slots:
  "(\<Sum>s\<leftarrow>filter (\<lambda>s. \<not> Slot_isEmpty s) ss. mset (sl_bundles s)) = (\<Sum>s\<leftarrow>ss. mset (sl_bundles s))"
  by (induction ss) (auto simp: Slot_isEmpty_def)

lemma purgeSlots_mset:
  assumes "\<forall>s\<in>set ss. \<forall>x\<in>set (sl_bundles s). \<forall>y\<in>set (sl_bundles s).
    sb_bundleId x = sb_bundleId y \<longrightarrow> P x = P y"
  shows "(\<Sum>s\<leftarrow>purgeSlots P ss. mset (sl_bundles s)) =
    filter_mset (\<lambda>b. \<not> P b) (\<Sum>s\<leftarrow>ss. mset (sl_bundles s))"
proof -
  have "(\<Sum>s\<leftarrow>map (purgeSlot P) ss. mset (sl_bundles s)) =
      filter_mset (\<lambda>b. \<not> P b) (\<Sum>s\<leftarrow>ss. mset (sl_bundles s))"
    using assms
  proof (induction ss)
    case Nil
    then show ?case by simp
  next
    case (Cons s ss)
    have "sl_bundles (purgeSlot P s) = filter (\<lambda>b. \<not> P b) (sl_bundles s)"
      unfolding purgeSlot_def Slot_getBundles_def
      by (rule removeAll_hits, rule bspec [OF Cons.prems]) simp
    moreover have "(\<Sum>s\<leftarrow>map (purgeSlot P) ss. mset (sl_bundles s)) =
        filter_mset (\<lambda>b. \<not> P b) (\<Sum>s\<leftarrow>ss. mset (sl_bundles s))"
      by (rule Cons.IH, rule ballI, rule bspec [OF Cons.prems]) simp
    ultimately show ?case by simp
  qed
  then show ?thesis unfolding purgeSlots_def sum_list_nonempty_slots .
qed

lemma allBundles_update [simp]: "allBundles (w_slots_update f w) = (\<Sum>s\<leftarrow>f (w_slots w). mset (sl_bundles s))"
  by (simp add: allBundles_def)

lemma set_allBundles: "b \<in># allBundles w \<longleftrightarrow> (\<exists>s\<in>set (w_slots w). b \<in> set (sl_bundles s))"
proof -
  have "b \<in># (\<Sum>s\<leftarrow>ss. mset (sl_bundles s)) \<longleftrightarrow> (\<exists>s\<in>set ss. b \<in> set (sl_bundles s))" for ss
    by (induction ss) auto
  then show ?thesis by (simp add: allBundles_def)
qed

lemma purgeBundles_run:
  "\<exists>n w'. purgeBundles ids w = (Inr n, w') \<and> w_bundles w' = w_bundles w \<and>
    allBundles w' = filter_mset (\<lambda>b. sb_bundleId b \<notin> set ids) (allBundles w)"
proof (cases "ids = []")
  case True
  then show ?thesis by (simp add: purgeBundles_def)
next
  case False
  let ?P = "\<lambda>b. sb_bundleId b \<in> set ids"
  have "(\<Sum>s\<leftarrow>purgeSlots ?P (w_slots w). mset (sl_bundles s)) =
      filter_mset (\<lambda>b. \<not> ?P b) (allBundles w)"
    unfolding allBundles_def by (rule purgeSlots_mset) simp
  with False show ?thesis by (simp add: purgeBundles_def andThen_apply Let_def allBundles_def)
qed

subsection \<open>What admission does\<close>

lemma placeBundle_run:
  assumes "fst (placed env b (w_slots w))"
  shows "\<exists>w'. placeBundle env b w = (Inr (), w') \<and> w_bundles w' = w_bundles w \<and>
    allBundles w' = add_mset b (allBundles w)"
proof -
  obtain w' where w': "placeBundle env b w = (Inr (), w')"
    using placeBundle_placed [OF assms] by blast
  have "w_bundles w' = w_bundles w"
    using guarD [OF guar_bk_placeBundle w'] by (simp add: bundlesKept_def)
  moreover have "w_slots w' = snd (placed env b (w_slots w))"
    using placeBundle_slots [of env b w] w' by simp
  then have "allBundles w' = add_mset b (allBundles w)"
    using placed_mset [OF assms] by (simp add: allBundles_def)
  ultimately show ?thesis using w' by blast
qed

lemma addBundle_active_run:
  assumes "noFaults env" and "clock env (w_tick w) < sb_ttl b"
    and "fst (placed env b (w_slots w))"
    and "bundleRow w (sb_bundleId b) = Some r" and "deletedAt r = None"
    and "ob_status r \<in> {B_PENDING, B_PROCESSING}"
  shows "\<exists>w'. addBundle env b w = (Inr (), w') \<and>
    allBundles w' = add_mset b (allBundles w) \<and>
    (\<exists>r'. bundleRow w' (sb_bundleId b) = Some r' \<and> ob_status r' = B_PROCESSING \<and> deletedAt r' = None) \<and>
    (\<forall>j. j \<noteq> sb_bundleId b \<longrightarrow> bundleRow w' j = bundleRow w j)"
proof -
  obtain u where u: "placeBundle env b w = (Inr (), u)" "w_bundles u = w_bundles w"
    "allBundles u = add_mset b (allBundles w)"
    using placeBundle_run [OF assms(3)] by blast
  have row: "bundleRow u (sb_bundleId b) = Some r"
    using assms(4) bundleRow_cong [OF u(2)] by simp
  obtain w' where w':
    "updateStatusIfActive env (sb_bundleId b) B_PROCESSING [B_PENDING, B_PROCESSING] u = (Inr True, w')"
    "\<exists>r'. bundleRow w' (sb_bundleId b) = Some r' \<and> ob_status r' = B_PROCESSING \<and> deletedAt r' = None"
    "w_slots w' = w_slots u" "\<forall>j. j \<noteq> sb_bundleId b \<longrightarrow> bundleRow w' j = bundleRow u j"
    using updateStatusIfActive_run [OF assms(1) row assms(5), of "[B_PENDING, B_PROCESSING]" B_PROCESSING]
      assms(6) by auto
  have "addBundle env b w = (Inr (), w')"
    using assms(2) u(1) w'(1)
    by (simp add: addBundle_def andThen_apply tryCatch_apply isBundleExpired_def)
  moreover have "allBundles w' = add_mset b (allBundles w)"
    using w'(3) u(3) by (simp add: allBundles_def)
  moreover have "bundleRow u j = bundleRow w j" for j by (rule bundleRow_cong [OF u(2)])
  ultimately show ?thesis using w'(2,4) by metis
qed

lemma updateStatusIfActive_miss:
  assumes "noFaults env" and "bundleRow w i = Some r" and "terminal (ob_status r)"
    and "\<forall>s\<in>set active. \<not> terminal s" and "distinct (map ob_id (w_bundles w))"
  shows "updateStatusIfActive env i st active w = (Inr False, advance w)"
proof -
  let ?hit = "\<lambda>r. ob_id r = i \<and> deletedAt r = None \<and> ob_status r \<in> set active"
  have r: "r \<in> set (w_bundles w)" "ob_id r = i"
    using assms(2) by (auto simp: bundleRow_def find_Some_iff)
  have nohit: "\<not> ?hit x" if "x \<in> set (w_bundles w)" for x
  proof
    assume h: "?hit x"
    with r that assms(5) have "x = r" by (auto simp: distinct_map dest: inj_onD)
    with h assms(3,4) show False by auto
  qed
  then have "filter ?hit (w_bundles w) = []" by (simp add: filter_empty_conv)
  moreover have "map (\<lambda>r. if ?hit r then r\<lparr>ob_status := st, updatedAt := clock env (w_tick w)\<rparr> else r)
      (w_bundles w) = w_bundles w"
    by (rule map_idI) (metis nohit)
  ultimately show ?thesis
    using assms(1) by (simp add: updateStatusIfActive_def dbExec_def Let_def)
qed

lemma addBundle_terminal_run:
  assumes "noFaults env" and "clock env (w_tick w) < sb_ttl b"
    and "fst (placed env b (w_slots w))"
    and "bundleRow w (sb_bundleId b) = Some r" and "terminal (ob_status r)"
    and "distinct (map ob_id (w_bundles w))"
  shows "\<exists>w'. addBundle env b w = (Inr (), w') \<and> w_bundles w' = w_bundles w \<and>
    allBundles w' = filter_mset (\<lambda>x. sb_bundleId x \<noteq> sb_bundleId b) (allBundles w)"
proof -
  obtain u where u: "placeBundle env b w = (Inr (), u)" "w_bundles u = w_bundles w"
    "allBundles u = add_mset b (allBundles w)"
    using placeBundle_run [OF assms(3)] by blast
  have row: "bundleRow u (sb_bundleId b) = Some r"
    using assms(4) bundleRow_cong [OF u(2)] by simp
  have miss: "updateStatusIfActive env (sb_bundleId b) B_PROCESSING [B_PENDING, B_PROCESSING] u =
      (Inr False, advance u)"
    using updateStatusIfActive_miss [OF assms(1) row assms(5)] assms(6) u(2) by simp
  obtain n w' where w': "purgeBundles [sb_bundleId b] (advance u) = (Inr n, w')"
    "w_bundles w' = w_bundles u"
    "allBundles w' = filter_mset (\<lambda>x. sb_bundleId x \<notin> set [sb_bundleId b]) (allBundles (advance u))"
    using purgeBundles_run [of "[sb_bundleId b]" "advance u"] by auto
  have "allBundles (advance u) = allBundles u" by (simp add: allBundles_def)
  then have "allBundles w' = filter_mset (\<lambda>x. sb_bundleId x \<noteq> sb_bundleId b) (allBundles w)"
    using w'(3) u(3) by simp
  moreover have "addBundle env b w = (Inr (), w')"
    using assms(2) u(1) miss w'(1)
    by (simp add: addBundle_def andThen_apply tryCatch_apply isBundleExpired_def)
  ultimately show ?thesis using w'(2) u(2) by simp
qed

subsection \<open>What the sweep does\<close>

text \<open>The bundles the sweep collects are the expired ones, whatever the order.\<close>

lemma sweep_collected:
  "set (concat (map (\<lambda>s. filter P (Slot_getBundles s)) (rev (w_slots w)))) =
    {b. b \<in># allBundles w \<and> P b}"
  by (auto simp: set_allBundles Slot_getBundles_def)

lemma expireBundles_run:
  assumes "noFaults env"
    and "\<forall>s\<in>set (w_slots w). distinct (map sb_bundleId (sl_bundles s))"
  shows "\<exists>w'. expireBundles env w = (Inr (), w') \<and>
    allBundles w' = filter_mset (\<lambda>b. \<not> isBundleExpired (clock env (w_tick w)) b) (allBundles w) \<and>
    (\<forall>j. statusOf w' j =
      (if \<exists>b. b \<in># allBundles w \<and> isBundleExpired (clock env (w_tick w)) b \<and> sb_bundleId b = j
       then map_option (\<lambda>_. B_EXPIRED) (statusOf w j) else statusOf w j))"
proof -
  let ?P = "isBundleExpired (clock env (w_tick w))"
  define u where "u = w_slots_update (\<lambda>_. purgeSlots ?P (w_slots w)) w"
  define bs where "bs = concat (map (\<lambda>s. filter ?P (Slot_getBundles s)) (rev (w_slots w)))"
  obtain w' where w': "forM bs (markExpired env) u = (Inr (), w')" "w_slots w' = w_slots u"
    "\<forall>j. statusOf w' j = (if j \<in> sb_bundleId ` set bs then map_option (\<lambda>_. B_EXPIRED) (statusOf u j)
      else statusOf u j)"
    using forM_markExpired_run [OF assms(1), of bs u] by blast
  have run: "expireBundles env w = (Inr (), w')"
    using w'(1) by (simp add: expireBundles_def andThen_apply Let_def bs_def u_def)
  have agree: "\<forall>s\<in>set (w_slots w). \<forall>x\<in>set (sl_bundles s). \<forall>y\<in>set (sl_bundles s).
      sb_bundleId x = sb_bundleId y \<longrightarrow> ?P x = ?P y"
    using assms(2) by (metis distinct_map inj_onD)
  have "allBundles w' = (\<Sum>s\<leftarrow>purgeSlots ?P (w_slots w). mset (sl_bundles s))"
    using w'(2) by (simp add: allBundles_def u_def)
  also have "\<dots> = filter_mset (\<lambda>b. \<not> ?P b) (allBundles w)"
    unfolding allBundles_def by (rule purgeSlots_mset [OF agree])
  finally have slots: "allBundles w' = filter_mset (\<lambda>b. \<not> ?P b) (allBundles w)" .
  have "statusOf u j = statusOf w j" for j
    by (rule statusOf_emit) (simp add: u_def)
  moreover have "j \<in> sb_bundleId ` set bs \<longleftrightarrow>
      (\<exists>b. b \<in># allBundles w \<and> ?P b \<and> sb_bundleId b = j)" for j
    unfolding bs_def sweep_collected by auto
  ultimately have "\<forall>j. statusOf w' j =
      (if \<exists>b. b \<in># allBundles w \<and> ?P b \<and> sb_bundleId b = j
       then map_option (\<lambda>_. B_EXPIRED) (statusOf w j) else statusOf w j)"
    using w'(3) by presburger
  with run slots show ?thesis by blast
qed

subsection \<open>What start-up expiry does\<close>

definition staleCount :: "int \<Rightarrow> BundleStatus list \<Rightarrow> world \<Rightarrow> nat" where
  "staleCount c sts w = length (filter (staleRow c sts) (w_bundles w))"

lemma length_filter_map_less:
  assumes "\<And>x. x \<in> set xs \<Longrightarrow> P (g x) \<Longrightarrow> P x" and "x \<in> set xs" and "P x" and "\<not> P (g x)"
  shows "length (filter P (map g xs)) < length (filter P xs)"
proof -
  have le: "length (filter P (map g ys)) \<le> length (filter P ys)"
    if "\<And>x. x \<in> set ys \<Longrightarrow> P (g x) \<Longrightarrow> P x" for ys
    using that by (induction ys) (auto simp: le_SucI)
  from assms show ?thesis
  proof (induction xs)
    case Nil
    then show ?case by simp
  next
    case (Cons y ys)
    show ?case
    proof (cases "y = x")
      case True
      with Cons.prems le [of ys] show ?thesis by simp
    next
      case False
      then have "length (filter P (map g ys)) < length (filter P ys)"
        using Cons.IH Cons.prems by simp
      with Cons.prems(1) [of y] show ?thesis by auto
    qed
  qed
qed

lemma length_selected_le:
  assumes "length (filter (\<lambda>r. key r \<in> set (map key (take n (sort_key k (filter P xs))))) xs) < n"
  shows "\<forall>x\<in>set (filter P xs). key x \<in> set (map key (take n (sort_key k (filter P xs))))"
proof -
  let ?T = "take n (sort_key k (filter P xs))"
  let ?Q = "\<lambda>r. key r \<in> set (map key ?T)"
  have "mset ?T \<subseteq># mset (filter P xs)"
    by (metis mset_sort append_take_drop_id mset_append mset_subset_eq_add_left sort_key_simps(1) mset_sort)
  then have "mset ?T \<subseteq># mset xs"
    by (metis mset_filter multiset_filter_subset subset_mset.order_trans)
  then have "filter_mset ?Q (mset ?T) \<subseteq># filter_mset ?Q (mset xs)"
    by (rule multiset_filter_mono)
  moreover have "filter_mset ?Q (mset ?T) = mset ?T"
    by (simp add: filter_mset_eq_conv)
  ultimately have "mset ?T \<subseteq># mset (filter ?Q xs)" by simp
  then have "length ?T \<le> length (filter ?Q xs)" by (metis size_mset size_mset_mono)
  with assms have "length ?T < n" by linarith
  then have "?T = sort_key k (filter P xs)" by simp
  then show ?thesis by simp
qed

lemma expireOlderThan_run:
  fixes w :: world
  assumes "noFaults env" and "B_EXPIRED \<notin> set sts" and "0 < n"
  obtains batch w' where "expireOlderThan env c sts (Some n) w = (Inr batch, w')"
    and "length batch < n \<Longrightarrow> staleCount c sts w' = 0"
    and "\<not> length batch < n \<Longrightarrow> staleCount c sts w' < staleCount c sts w"
    and "\<And>r. r \<in> set (w_bundles w) \<Longrightarrow>
      (\<forall>q\<in>set (w_bundles w). ob_id q = ob_id r \<longrightarrow> \<not> staleRow c sts q) \<Longrightarrow> r \<in> set (w_bundles w')"
    and "\<And>r'. r' \<in> set (w_bundles w') \<Longrightarrow>
      (\<exists>r\<in>set (w_bundles w). ob_id r' = ob_id r \<and> (r' = r \<or> ob_status r' = B_EXPIRED))"
proof -
  let ?S = "staleRow c sts"
  define T where "T = take n (sort_key createdAt (filter ?S (w_bundles w)))"
  let ?Q = "\<lambda>r. ob_id r \<in> set (map ob_id T)"
  let ?g = "\<lambda>r. if ?Q r then r\<lparr>ob_status := B_EXPIRED, updatedAt := clock env (w_tick w)\<rparr> else r"
  define batch where "batch = map ob_id (filter ?Q (w_bundles w))"
  define w' where "w' = advance (w\<lparr>w_bundles := map ?g (w_bundles w)\<rparr>)"
  have run: "expireOlderThan env c sts (Some n) w = (Inr batch, w')"
    using assms(1) by (simp add: expireOlderThan_def dbExec_def Let_def batch_def w'_def T_def)
  have rows: "w_bundles w' = map ?g (w_bundles w)" by (simp add: w'_def)
  have T_stale: "r \<in> set (w_bundles w) \<and> ?S r" if "r \<in> set T" for r
    using set_take_subset [of n "sort_key createdAt (filter ?S (w_bundles w))"] that
    by (auto simp: T_def)
  have g_stale: "?S (?g r) \<Longrightarrow> ?S r" "?Q r \<Longrightarrow> \<not> ?S (?g r)" for r
    using assms(2) by (auto simp: staleRow_def split: if_splits)
  show ?thesis
  proof (rule that [OF run])
    assume "length batch < n"
    then have "length (filter ?Q (w_bundles w)) < n" by (simp add: batch_def)
    then have "\<forall>x\<in>set (filter ?S (w_bundles w)). ?Q x"
      unfolding T_def by (rule length_selected_le)
    then have "\<not> ?S (?g r)" if "r \<in> set (w_bundles w)" for r
      using g_stale [of r] that by fastforce
    then show "staleCount c sts w' = 0"
      unfolding staleCount_def rows by (simp add: filter_empty_conv)
  next
    assume "\<not> length batch < n"
    with assms(3) have "T \<noteq> []" by (auto simp: batch_def)
    then obtain r where r: "r \<in> set T" by (cases T) auto
    have "length (filter ?S (map ?g (w_bundles w))) < length (filter ?S (w_bundles w))"
    proof (rule length_filter_map_less)
      show "r \<in> set (w_bundles w)" "?S r" using T_stale [OF r] by simp_all
      show "\<not> ?S (?g r)" by (rule g_stale(2)) (use r in simp)
      show "?S (?g x) \<Longrightarrow> ?S x" for x by (rule g_stale(1))
    qed
    then show "staleCount c sts w' < staleCount c sts w" by (simp add: staleCount_def rows)
  next
    fix r assume r: "r \<in> set (w_bundles w)"
      and no: "\<forall>q\<in>set (w_bundles w). ob_id q = ob_id r \<longrightarrow> \<not> ?S q"
    have "\<not> ?Q r"
    proof
      assume "?Q r"
      then obtain q where "q \<in> set T" "ob_id q = ob_id r" by auto
      with T_stale [of q] no show False by blast
    qed
    with r show "r \<in> set (w_bundles w')" unfolding rows by force
  next
    fix r' assume "r' \<in> set (w_bundles w')"
    then obtain r where r: "r \<in> set (w_bundles w)" "r' = ?g r" unfolding rows by auto
    then have "ob_id r' = ob_id r \<and> (r' = r \<or> ob_status r' = B_EXPIRED)" by simp
    with r(1) show "\<exists>r\<in>set (w_bundles w). ob_id r' = ob_id r \<and> (r' = r \<or> ob_status r' = B_EXPIRED)"
      by blast
  qed
qed

lemma startupExpiry_run:
  fixes w :: world
  assumes "noFaults env" and "staleCount c [B_PENDING, B_PROCESSING] w < fuel"
  shows "\<exists>n w'. startupExpiry fuel env c k w = (Inr n, w') \<and>
    staleCount c [B_PENDING, B_PROCESSING] w' = 0"
  using assms(2)
proof (induction fuel arbitrary: k w)
  case 0
  then show ?case by simp
next
  case (Suc fuel)
  let ?A = "[B_PENDING, B_PROCESSING]"
  have lim: "B_EXPIRED \<notin> set ?A" "0 < STARTUP_EXPIRY_BATCH_LIMIT"
    by (simp_all add: STARTUP_EXPIRY_BATCH_LIMIT_def)
  obtain batch u where u: "expireOlderThan env c ?A (Some STARTUP_EXPIRY_BATCH_LIMIT) w = (Inr batch, u)"
    "length batch < STARTUP_EXPIRY_BATCH_LIMIT \<Longrightarrow> staleCount c ?A u = 0"
    "\<not> length batch < STARTUP_EXPIRY_BATCH_LIMIT \<Longrightarrow> staleCount c ?A u < staleCount c ?A w"
    by (rule expireOlderThan_run [OF assms(1) lim, of c w]) blast
  show ?case
  proof (cases "length batch < STARTUP_EXPIRY_BATCH_LIMIT")
    case True
    with u show ?thesis by (simp add: andThen_apply)
  next
    case False
    with u(3) Suc.prems have "staleCount c ?A u < fuel" by simp
    from Suc.IH [OF this, of "k + length batch"] False u(1) show ?thesis
      by (simp add: andThen_apply)
  qed
qed

lemma expireStaleAtStartup_run:
  fixes w :: world
  assumes "noFaults env" and "MEMPOOL_STARTUP_MAX_BUNDLE_AGE_MS env > 0"
  shows "\<exists>w'. expireStaleAtStartup env w = (Inr (), w') \<and>
    (\<forall>r\<in>set (w_bundles w'). deletedAt r = None \<longrightarrow> ob_status r \<in> {B_PENDING, B_PROCESSING} \<longrightarrow>
      clock env (w_tick w) - MEMPOOL_STARTUP_MAX_BUNDLE_AGE_MS env \<le> createdAt r)"
proof -
  let ?c = "clock env (w_tick w) - MEMPOOL_STARTUP_MAX_BUNDLE_AGE_MS env"
  have "staleCount ?c [B_PENDING, B_PROCESSING] w < Suc (length (w_bundles w))"
    by (simp add: staleCount_def le_imp_less_Suc)
  from startupExpiry_run [OF assms(1) this, of 0] obtain n w' where
    w': "startupExpiry (Suc (length (w_bundles w))) env ?c 0 w = (Inr n, w')"
    "staleCount ?c [B_PENDING, B_PROCESSING] w' = 0" by blast
  have "\<not> staleRow ?c [B_PENDING, B_PROCESSING] r" if "r \<in> set (w_bundles w')" for r
    using w'(2) that by (simp add: staleCount_def filter_empty_conv)
  then have "\<forall>r\<in>set (w_bundles w'). deletedAt r = None \<longrightarrow> ob_status r \<in> {B_PENDING, B_PROCESSING} \<longrightarrow>
      ?c \<le> createdAt r"
    unfolding staleRow_def by (metis empty_iff insert_iff linorder_not_less list.set)
  with w'(1) assms(2) show ?thesis by (simp add: expireStaleAtStartup_def andThen_apply del: startupExpiry.simps)
qed

subsection \<open>What is loaded at start-up\<close>

lemma mapM_Inr:
  "mapM f xs s = (Inr ys, t) \<Longrightarrow> list_all2 (\<lambda>x y. \<exists>u v. f x u = (Inr y, v)) xs ys"
proof (induction xs arbitrary: s ys)
  case Nil
  then show ?case by simp
next
  case (Cons x xs)
  from Cons.prems obtain y u zs where "f x s = (Inr y, u)" "mapM f xs u = (Inr zs, t)" "ys = y # zs"
    by (auto elim!: andThen_InrE)
  with Cons.IH show ?case by auto
qed

definition hasLiveLink :: "world \<Rightarrow> string \<Rightarrow> bool" where
  "hasLiveLink w i \<longleftrightarrow> list_ex (\<lambda>l. bt_bundleId l = i \<and> deletedAt l = None) (w_links w)"

lemma resubmittable_Inr:
  assumes "resubmittable env bs w = (Inr out, w')"
  shows "out = filter (\<lambda>b. \<not> (ob_status b = B_PROCESSING \<and> hasLiveLink w (ob_id b))) bs \<and>
    w_links w' = w_links w \<and> w_bundles w' = w_bundles w"
  using assms
proof (induction bs arbitrary: w out)
  case Nil
  then show ?case by simp
next
  case (Cons b bs)
  show ?case
  proof (cases "ob_status b = B_PROCESSING")
    case False
    with Cons.prems obtain rest where "resubmittable env bs w = (Inr rest, w')" "out = b # rest"
      by (auto elim!: andThen_InrE)
    with Cons.IH [of w rest] False show ?thesis by simp
  next
    case True
    define ls where "ls = filter (\<lambda>r. bt_bundleId r = ob_id b \<and> deletedAt r = None) (w_links w)"
    have live: "hasLiveLink w (ob_id b) \<longleftrightarrow> ls \<noteq> []"
      by (auto simp: hasLiveLink_def ls_def list_ex_iff filter_empty_conv)
    have adv: "hasLiveLink (advance w) j = hasLiveLink w j" for j by (simp add: hasLiveLink_def)
    have find: "findByBundleId env (ob_id b) w = (Inr ls, advance w)"
      using True Cons.prems
      by (auto simp: findByBundleId_def dbQuery_apply ls_def andThen_apply split: if_splits)
    show ?thesis
    proof (cases "ls = []")
      case False
      with Cons.prems True find have "resubmittable env bs (advance w) = (Inr out, w')"
        by (simp add: andThen_apply)
      with Cons.IH [of "advance w" out] True live False adv show ?thesis by simp
    next
      case nolinks: True
      with Cons.prems True find obtain rest where
        "resubmittable env bs (advance w) = (Inr rest, w')" "out = b # rest"
        by (auto simp: andThen_apply split: prod.splits sum.splits)
      with Cons.IH [of "advance w" rest] True live nolinks adv show ?thesis by simp
    qed
  qed
qed

lemma createSlotBundleFromEntity_Inr:
  assumes "createSlotBundleFromEntity env r w = (Inr b, w')"
  shows "sb_bundleId b = ob_id r" and "sb_fee b = ob_fee r" and "sb_ttl b = ob_ttl r"
    and "sb_channelContractId b = orEmpty (ob_channelContractId r)"
  using assms
  by (auto simp: createSlotBundleFromEntity_def slotBundleOf_def Let_def elim!: andThen_InrE)

lemma loadPending_Inr:
  assumes "loadPendingBundlesFromDB env w = (Inr bs, w')"
  shows "map sb_bundleId bs = map ob_id (filter (\<lambda>r. deletedAt r = None \<and>
    (ob_status r = B_PENDING \<or> ob_status r = B_PROCESSING \<and> \<not> hasLiveLink w (ob_id r))) (w_bundles w))"
proof -
  from assms obtain rows u todo v where
    rows: "findPendingOrProcessing env w = (Inr rows, u)"
    and todo: "resubmittable env rows u = (Inr todo, v)"
    and hyd: "mapM (createSlotBundleFromEntity env) todo v = (Inr bs, w')"
    unfolding loadPendingBundlesFromDB_def by (auto elim!: andThen_InrE)
  have u: "u = advance w" and r: "rows = filter (\<lambda>r. deletedAt r = None \<and>
      (ob_status r = B_PENDING \<or> ob_status r = B_PROCESSING)) (w_bundles w)"
    using rows by (auto simp: findPendingOrProcessing_def dbQuery_apply split: if_splits)
  have live: "hasLiveLink u j = hasLiveLink w j" for j by (simp add: hasLiveLink_def u)
  have "todo = filter (\<lambda>b. \<not> (ob_status b = B_PROCESSING \<and> hasLiveLink w (ob_id b))) rows"
    using resubmittable_Inr [OF todo] live by simp
  then have "todo = filter (\<lambda>r. deletedAt r = None \<and>
    (ob_status r = B_PENDING \<or> ob_status r = B_PROCESSING \<and> \<not> hasLiveLink w (ob_id r))) (w_bundles w)"
    unfolding r filter_filter by (auto intro!: filter_cong)
  moreover have "list_all2 (\<lambda>r b. sb_bundleId b = ob_id r) todo bs"
    using mapM_Inr [OF hyd] by (rule list_all2_mono) (auto dest: createSlotBundleFromEntity_Inr)
  then have "map sb_bundleId bs = map ob_id todo"
    by (induction rule: list_all2_induct) auto
  ultimately show ?thesis by simp
qed

subsection \<open>Re-adding after a failure\<close>

definition slotsFit :: "env \<Rightarrow> world \<Rightarrow> bool" where
  "slotsFit env w \<longleftrightarrow> (\<forall>s\<in>set (w_slots w). \<forall>x\<in>set (sl_bundles s). sb_weight x \<le> MEMPOOL_SLOT_CAPACITY env)"

lemma slotsFit_allBundles: "slotsFit env w \<longleftrightarrow> (\<forall>x. x \<in># allBundles w \<longrightarrow> sb_weight x \<le> MEMPOOL_SLOT_CAPACITY env)"
  unfolding slotsFit_def set_allBundles by blast

definition activeIn :: "world \<Rightarrow> string \<Rightarrow> bool" where
  "activeIn w i \<longleftrightarrow> (\<exists>r. bundleRow w i = Some r \<and> deletedAt r = None \<and> ob_status r \<in> {B_PENDING, B_PROCESSING})"

lemma addBundle_fits_run:
  assumes "noFaults env" and "clock env (w_tick w) < sb_ttl b" and "activeIn w (sb_bundleId b)"
    and "slotsFit env w" and "sb_weight b \<le> MEMPOOL_SLOT_CAPACITY env"
  shows "\<exists>w'. addBundle env b w = (Inr (), w') \<and> allBundles w' = add_mset b (allBundles w) \<and>
    statusOf w' (sb_bundleId b) = Some B_PROCESSING \<and>
    (\<forall>i. activeIn w i \<longrightarrow> activeIn w' i) \<and> slotsFit env w' \<and>
    (\<forall>j. j \<noteq> sb_bundleId b \<longrightarrow> bundleRow w' j = bundleRow w j)"
proof -
  from assms(3) obtain r where r: "bundleRow w (sb_bundleId b) = Some r" "deletedAt r = None"
    "ob_status r \<in> {B_PENDING, B_PROCESSING}" by (auto simp: activeIn_def)
  have "fst (placed env b (w_slots w))"
    using placed_fits [of "w_slots w" env b] assms(4,5) by (simp add: slotsFit_def)
  then obtain w' r' where w': "addBundle env b w = (Inr (), w')"
    "allBundles w' = add_mset b (allBundles w)"
    "bundleRow w' (sb_bundleId b) = Some r'" "ob_status r' = B_PROCESSING" "deletedAt r' = None"
    "\<forall>j. j \<noteq> sb_bundleId b \<longrightarrow> bundleRow w' j = bundleRow w j"
    using addBundle_active_run [OF assms(1,2) _ r] by blast
  have "activeIn w' i" if "activeIn w i" for i
    using that w'(3-6) by (cases "i = sb_bundleId b") (auto simp: activeIn_def)
  moreover have "slotsFit env w'"
    using assms(4,5) w'(2) by (auto simp: slotsFit_allBundles)
  ultimately show ?thesis using w' by (auto simp: statusOf_def)
qed

lemma reAddBundles_run:
  fixes w :: world
  assumes "noFaults env" and "\<forall>b\<in>set bs. (\<forall>n. clock env n < sb_ttl b) \<and> activeIn w (sb_bundleId b) \<and>
      sb_weight b \<le> MEMPOOL_SLOT_CAPACITY env"
    and "slotsFit env w"
  shows "\<exists>w'. reAddBundles env bs w = (Inr (), w') \<and> allBundles w' = mset bs + allBundles w \<and>
    (\<forall>i. activeIn w i \<longrightarrow> activeIn w' i) \<and>
    (\<forall>j. j \<notin> sb_bundleId ` set bs \<longrightarrow> bundleRow w' j = bundleRow w j)"
  using assms(2,3)
proof (induction bs arbitrary: w)
  case Nil
  then show ?case by (simp add: reAddBundles_def)
next
  case (Cons b bs)
  obtain u where u: "addBundle env b w = (Inr (), u)" "allBundles u = add_mset b (allBundles w)"
    "\<forall>i. activeIn w i \<longrightarrow> activeIn u i" "slotsFit env u"
    "\<forall>j. j \<noteq> sb_bundleId b \<longrightarrow> bundleRow u j = bundleRow w j"
    using addBundle_fits_run [OF assms(1), of w b] Cons.prems by auto
  have "\<forall>b\<in>set bs. (\<forall>n. clock env n < sb_ttl b) \<and> activeIn u (sb_bundleId b) \<and>
      sb_weight b \<le> MEMPOOL_SLOT_CAPACITY env"
    using Cons.prems(1) u(3) by simp
  from Cons.IH [OF this u(4)] obtain w' where
    "reAddBundles env bs u = (Inr (), w')" "allBundles w' = mset bs + allBundles u"
    "\<forall>i. activeIn u i \<longrightarrow> activeIn w' i"
    "\<forall>j. j \<notin> sb_bundleId ` set bs \<longrightarrow> bundleRow w' j = bundleRow u j" by blast
  with u show ?case by (simp add: reAddBundles_def andThen_apply tryCatch_apply)
qed

section \<open>Properties\<close>

text \<open>C26: Adding a bundle whose row is active and that fits a slot succeeds: the mempool holds exactly
  one bundle more, whatever displacement took place, the row is \<^verbatim>\<open>PROCESSING\<close>, and no other row
  changed.\<close>

theorem add_bundle_admits:
  assumes "noFaults env" and "clock env (w_tick w) < sb_ttl b" and "activeIn w (sb_bundleId b)"
    and "slotsFit env w" and "sb_weight b \<le> MEMPOOL_SLOT_CAPACITY env"
  shows "\<exists>w'. addBundle env b w = (Inr (), w') \<and> allBundles w' = add_mset b (allBundles w) \<and>
    statusOf w' (sb_bundleId b) = Some B_PROCESSING \<and>
    (\<forall>j. j \<noteq> sb_bundleId b \<longrightarrow> bundleRow w' j = bundleRow w j)"
  using addBundle_fits_run [OF assms] by blast

theorem add_bundle_admits_witness:
  "\<exists>w'. addBundle env0 (bundle0 ''b2'' 5 6 9000)
      (world0\<lparr>w_bundles := [row0 ''b1'' B_PROCESSING, row0 ''b2'' B_PENDING],
              w_slots := [slot0 [bundle0 ''b1'' 1 6 9000]]\<rparr>) = (Inr (), w') \<and>
    allBundles w' = {#bundle0 ''b2'' 5 6 9000, bundle0 ''b1'' 1 6 9000#} \<and>
    statusOf w' ''b2'' = Some B_PROCESSING"
  using add_bundle_admits [of env0 "world0\<lparr>w_bundles := [row0 ''b1'' B_PROCESSING, row0 ''b2'' B_PENDING],
              w_slots := [slot0 [bundle0 ''b1'' 1 6 9000]]\<rparr>" "bundle0 ''b2'' 5 6 9000"]
  by (auto simp: fixture_defs activeIn_def bundleRow_def slotsFit_def allBundles_def)

text \<open>A bundle whose row was meanwhile moved to a terminal status is not kept: the status-gated
  update fails, every entry of that id leaves the slots, and the table is untouched.\<close>

theorem add_bundle_drops_terminal:
  assumes "noFaults env" and "clock env (w_tick w) < sb_ttl b"
    and "slotsFit env w" and "sb_weight b \<le> MEMPOOL_SLOT_CAPACITY env"
    and "bundleRow w (sb_bundleId b) = Some r" and "terminal (ob_status r)"
    and "distinct (map ob_id (w_bundles w))"
  shows "\<exists>w'. addBundle env b w = (Inr (), w') \<and> w_bundles w' = w_bundles w \<and>
    allBundles w' = filter_mset (\<lambda>x. sb_bundleId x \<noteq> sb_bundleId b) (allBundles w)"
proof -
  have "fst (placed env b (w_slots w))"
    using placed_fits [of "w_slots w" env b] assms(3,4) by (simp add: slotsFit_def)
  then show ?thesis by (rule addBundle_terminal_run [OF assms(1,2) _ assms(5-7)])
qed

theorem add_bundle_drops_terminal_witness:
  "\<exists>w'. addBundle env0 (bundle0 ''b1'' 5 6 9000) (world0\<lparr>w_bundles := [row0 ''b1'' B_EXPIRED]\<rparr>) = (Inr (), w') \<and>
    allBundles w' = {#}"
  using add_bundle_drops_terminal [of env0 "world0\<lparr>w_bundles := [row0 ''b1'' B_EXPIRED]\<rparr>"
      "bundle0 ''b1'' 5 6 9000" "row0 ''b1'' B_EXPIRED"]
  by (auto simp: fixture_defs bundleRow_def slotsFit_def allBundles_def)

text \<open>The TTL sweep removes from the slots exactly the bundles past their time to live and marks
  exactly their rows \<^verbatim>\<open>EXPIRED\<close>; every other bundle and every other status stays.\<close>

theorem sweep_is_exact:
  assumes "noFaults env" and "\<forall>s\<in>set (w_slots w). distinct (map sb_bundleId (sl_bundles s))"
  shows "\<exists>w'. expireBundles env w = (Inr (), w') \<and>
    allBundles w' = filter_mset (\<lambda>b. \<not> isBundleExpired (clock env (w_tick w)) b) (allBundles w) \<and>
    (\<forall>j. statusOf w' j =
      (if \<exists>b. b \<in># allBundles w \<and> isBundleExpired (clock env (w_tick w)) b \<and> sb_bundleId b = j
       then map_option (\<lambda>_. B_EXPIRED) (statusOf w j) else statusOf w j))"
  by (rule expireBundles_run [OF assms])

theorem sweep_is_exact_witness:
  "\<exists>w'. expireBundles env0 (world0\<lparr>w_bundles := [row0 ''b1'' B_PROCESSING, row0 ''b2'' B_PROCESSING],
      w_slots := [slot0 [bundle0 ''b1'' 2 3 9000, bundle0 ''b2'' 1 3 1000]]\<rparr>) = (Inr (), w') \<and>
    allBundles w' = {#bundle0 ''b1'' 2 3 9000#}"
  using sweep_is_exact [of env0 "world0\<lparr>w_bundles := [row0 ''b1'' B_PROCESSING, row0 ''b2'' B_PROCESSING],
      w_slots := [slot0 [bundle0 ''b1'' 2 3 9000, bundle0 ''b2'' 1 3 1000]]\<rparr>"]
  by (auto simp: fixture_defs isBundleExpired_def allBundles_def)

text \<open>Purging a list of ids removes every bundle with one of them and no other, does not touch the
  table, and reports how many it removed.\<close>

theorem purge_is_exact:
  "\<exists>w'. purgeBundles ids w =
      (Inr (size (filter_mset (\<lambda>b. sb_bundleId b \<in> set ids) (allBundles w))), w') \<and>
    w_bundles w' = w_bundles w \<and>
    allBundles w' = filter_mset (\<lambda>b. sb_bundleId b \<notin> set ids) (allBundles w)"
proof -
  let ?hit = "\<lambda>b. sb_bundleId b \<in> set ids"
  have "sum_list (map (\<lambda>s. length (filter ?hit (Slot_getBundles s))) ss) =
      size (filter_mset ?hit (\<Sum>s\<leftarrow>ss. mset (sl_bundles s)))" for ss
    by (induction ss) (simp_all add: Slot_getBundles_def flip: size_mset)
  moreover obtain n w' where "purgeBundles ids w = (Inr n, w')" "w_bundles w' = w_bundles w"
    "allBundles w' = filter_mset (\<lambda>b. sb_bundleId b \<notin> set ids) (allBundles w)"
    using purgeBundles_run [of ids w] by blast
  ultimately show ?thesis
    by (cases "ids = []") (auto simp: purgeBundles_def andThen_apply Let_def allBundles_def)
qed

text \<open>C27: The batched expiry at start-up ends for every number of stale rows, without running out of
  fuel, and afterwards no active row is older than the configured age.\<close>

theorem startup_expiry_completes:
  fixes w :: world
  assumes "noFaults env" and "MEMPOOL_STARTUP_MAX_BUNDLE_AGE_MS env > 0"
  shows "\<exists>w'. expireStaleAtStartup env w = (Inr (), w') \<and>
    (\<forall>r\<in>set (w_bundles w'). deletedAt r = None \<longrightarrow> ob_status r \<in> {B_PENDING, B_PROCESSING} \<longrightarrow>
      clock env (w_tick w) - MEMPOOL_STARTUP_MAX_BUNDLE_AGE_MS env \<le> createdAt r)"
  by (rule expireStaleAtStartup_run [OF assms])

theorem startup_expiry_completes_witness:
  "\<exists>w'. expireStaleAtStartup env0 (world0\<lparr>w_bundles := [(row0 ''b1'' B_PENDING)\<lparr>createdAt := 7\<rparr>]\<rparr>) = (Inr (), w') \<and>
    filter (\<lambda>r. deletedAt r = None \<and> ob_status r \<in> {B_PENDING, B_PROCESSING} \<and> createdAt r < 500) (w_bundles w') = []"
  using startup_expiry_completes [of env0 "world0\<lparr>w_bundles := [(row0 ''b1'' B_PENDING)\<lparr>createdAt := 7\<rparr>]\<rparr>"]
  by (force simp: noFaults_def filter_empty_conv)

text \<open>Hydration never reloads a bundle that may already be on chain: what is loaded at start-up is,
  in table order, the \<^verbatim>\<open>PENDING\<close> rows and those \<^verbatim>\<open>PROCESSING\<close> rows that no live link ties to a
  transaction.\<close>

theorem hydration_guard:
  assumes "loadPendingBundlesFromDB env w = (Inr bs, w')"
  shows "map sb_bundleId bs = map ob_id (filter (\<lambda>r. deletedAt r = None \<and>
    (ob_status r = B_PENDING \<or> ob_status r = B_PROCESSING \<and> \<not> hasLiveLink w (ob_id r))) (w_bundles w))"
  by (rule loadPending_Inr [OF assms])

theorem hydration_guard_witness:
  "\<exists>bs w'. loadPendingBundlesFromDB env0 (world0\<lparr>w_bundles := [row0 ''b1'' B_PROCESSING, row0 ''b2'' B_PENDING],
      w_links := [BaseColumns.extend base0 \<lparr>bt_bundleId = ''b1'', bt_transactionId = ''t''\<rparr>]\<rparr>) = (Inr bs, w') \<and>
    map sb_bundleId bs = [''b2'']"
proof -
  let ?w = "world0\<lparr>w_bundles := [row0 ''b1'' B_PROCESSING, row0 ''b2'' B_PENDING],
      w_links := [BaseColumns.extend base0 \<lparr>bt_bundleId = ''b1'', bt_transactionId = ''t''\<rparr>]\<rparr>"
  obtain bs w' where run: "loadPendingBundlesFromDB env0 ?w = (Inr bs, w')"
    by (simp add: loadPendingBundlesFromDB_def findPendingOrProcessing_def findByBundleId_def
        createSlotBundleFromEntity_def parseOperationsFromBundle_def lookupSubmitter_def
        accounts_findById_def entities_findById_def base_findById_def dbQuery_apply andThen_apply Let_def
        fixture_defs)
  from hydration_guard [OF run] run show ?thesis by (auto simp: fixture_defs hasLiveLink_def)
qed

text \<open>Re-adding the bundles of a failed slot puts every one of them back: the mempool grows by
  exactly those bundles and their rows stay active.\<close>

theorem re_add_conserves:
  fixes w :: world
  assumes "noFaults env" and "\<forall>b\<in>set bs. (\<forall>n. clock env n < sb_ttl b) \<and> activeIn w (sb_bundleId b) \<and>
      sb_weight b \<le> MEMPOOL_SLOT_CAPACITY env"
    and "slotsFit env w"
  shows "\<exists>w'. reAddBundles env bs w = (Inr (), w') \<and> allBundles w' = mset bs + allBundles w \<and>
    (\<forall>b\<in>set bs. activeIn w' (sb_bundleId b))"
  using reAddBundles_run [OF assms] assms(2) by blast

theorem re_add_conserves_witness:
  "\<exists>w'. reAddBundles env0 [bundle0 ''b1'' 2 6 9000, bundle0 ''b2'' 1 6 9000]
      (world0\<lparr>w_bundles := [row0 ''b1'' B_PENDING, row0 ''b2'' B_PENDING]\<rparr>) = (Inr (), w') \<and>
    allBundles w' = {#bundle0 ''b1'' 2 6 9000, bundle0 ''b2'' 1 6 9000#}"
  using re_add_conserves [of env0 "[bundle0 ''b1'' 2 6 9000, bundle0 ''b2'' 1 6 9000]"
      "world0\<lparr>w_bundles := [row0 ''b1'' B_PENDING, row0 ''b2'' B_PENDING]\<rparr>"]
  by (auto simp: fixture_defs activeIn_def bundleRow_def slotsFit_def allBundles_def)

text \<open>The statistics are those of the slots: as many bundles and as much weight as the well-formed
  slots hold, and restricted to a set of channels the totals of the slots of those channels.\<close>

theorem stats_are_totals:
  assumes "mempoolInv w"
  shows "ms_totalBundles (getStats (w_slots w)) = size (allBundles w) \<and>
    ms_totalWeight (getStats (w_slots w)) = (\<Sum>b\<in>#allBundles w. sb_weight b) \<and>
    getStatsForChannels (w_slots w) chs =
      (size (filter_mset (\<lambda>b. sb_channelContractId b \<in> set chs) (allBundles w)),
       length (filter (\<lambda>s. sl_channelContractId s \<in> set chs) (w_slots w)))"
proof -
  have count: "foldl (\<lambda>acc s. acc + Slot_getBundleCount s) n ss = n + size (\<Sum>s\<leftarrow>ss. mset (sl_bundles s))" for n ss
    by (induction ss arbitrary: n) (simp_all add: Slot_getBundleCount_def)
  have weight: "foldl (\<lambda>acc s. acc + Slot_getTotalWeight s) k ss =
      k + (\<Sum>b\<in>#(\<Sum>s\<leftarrow>ss. mset (sl_bundles s)). sb_weight b)"
    if "\<forall>s\<in>set ss. slotOk s" for k ss
    using that
    by (induction ss arbitrary: k)
      (simp_all add: Slot_getTotalWeight_def slotOk_def slotInv_def sum_mset_sum_list flip: mset_map)
  have loop: "statsLoop chs ss q n =
      (q + size (filter_mset (\<lambda>b. sb_channelContractId b \<in> set chs) (\<Sum>s\<leftarrow>ss. mset (sl_bundles s))),
       n + length (filter (\<lambda>s. sl_channelContractId s \<in> set chs) ss))"
    if "\<forall>s\<in>set ss. slotOk s" for ss q n
    using that
  proof (induction ss arbitrary: q n)
    case Nil
    then show ?case by simp
  next
    case (Cons s ss)
    have "filter (\<lambda>b. sb_channelContractId b \<in> set chs) (sl_bundles s) =
        (if sl_channelContractId s \<in> set chs then sl_bundles s else [])"
      using Cons.prems by (auto simp: slotOk_def slotChannelOk_def filter_id_conv filter_empty_conv)
    moreover have "\<forall>s\<in>set ss. slotOk s" using Cons.prems by simp
    ultimately show ?case using Cons.IH by (simp add: Slot_getBundleCount_def flip: mset_filter)
  qed
  from assms have ok: "\<forall>s\<in>set (w_slots w). slotOk s" by (simp add: mempoolInv_def)
  show ?thesis
    using count [of 0 "w_slots w"] weight [OF ok, of 0] loop [OF ok, of 0 0]
    by (simp add: getStats_def getTotalBundles_def Let_def allBundles_def getStatsForChannels_def)
qed

theorem stats_are_totals_witness:
  "ms_totalBundles (getStats [slot0 [bundle0 ''b1'' 2 6 9000, bundle0 ''b2'' 1 4 9000]]) = 2 \<and>
   getStatsForChannels [slot0 [bundle0 ''b1'' 2 6 9000, bundle0 ''b2'' 1 4 9000]] [''C1''] = (2, 1)"
  using stats_are_totals [of "world0\<lparr>w_slots := [slot0 [bundle0 ''b1'' 2 6 9000, bundle0 ''b2'' 1 4 9000]]\<rparr>" "[''C1'']"]
  by (simp add: fixture_defs mempoolInv_def slotOk_def slotInv_def slotChannelOk_def allBundles_def)

end
