(* ===== verification/Channels.thy ===== *)
theory Channels
  imports Mempool
begin

text \<open>
  Channel clients and their resolution: the client cache of \<^verbatim>\<open>core/channel-client/index.ts\<close> (kept in
  \<open>w_channelCache\<close>, oldest entry first), the resolver of \<^verbatim>\<open>executor/channel-resolver.ts\<close> that loads
  a payment provider, checks its membership and unlocks its key, and \<^verbatim>\<open>withTimeout\<close> of
  \<^verbatim>\<open>utils/async\<close>.
\<close>

section \<open>The client cache\<close>

definition MAX_CACHE_SIZE :: nat where
  "MAX_CACHE_SIZE = 100"

text \<open>The pure step on the cache: the client returned and the cache after.  A JavaScript \<^verbatim>\<open>Map\<close>
  iterates in insertion order, so the first entry is the oldest.\<close>

definition cacheStep ::
    "string \<Rightarrow> string \<Rightarrow> string \<Rightarrow> (string \<times> PrivacyChannel) list \<Rightarrow>
      PrivacyChannel \<times> (string \<times> PrivacyChannel) list" where
  "cacheStep channelContractId channelAuthId assetContractId cache =
    (case map_of cache channelContractId of
       Some cached \<Rightarrow> (cached, cache)
     | None \<Rightarrow>
        (let evicted = (if length cache \<ge> MAX_CACHE_SIZE then tl cache else cache);
             client = \<lparr>pc_channelId = channelContractId, pc_authId = channelAuthId,
                       pc_assetId = assetContractId\<rparr>
         in (client, evicted @ [(channelContractId, client)])))"

definition getChannelClient :: "string \<Rightarrow> string \<Rightarrow> string \<Rightarrow> PrivacyChannel action" where
  "getChannelClient channelContractId channelAuthId assetContractId = (\<lambda>w.
    case cacheStep channelContractId channelAuthId assetContractId (w_channelCache w) of
      (client, cache) \<Rightarrow> (Inr client, w_channelCache_update (\<lambda>_. cache) w))"

definition clearChannelCache :: "unit action" where
  "clearChannelCache = modify (w_channelCache_update (\<lambda>_. []))"

section \<open>The resolver\<close>

record ChannelContext =
  cx_ppSecretKey :: string
  cx_channelClient :: PrivacyChannel
  cx_source :: string
  cx_fee :: int
  cx_timeout :: int

definition findChannel :: "CouncilConfig \<Rightarrow> string \<Rightarrow> CouncilChannel option" where
  "findChannel config channelContractId =
    (case cfg_channels config of
       None \<Rightarrow> None
     | Some chs \<Rightarrow> find (\<lambda>ch. cc_channelContractId ch = channelContractId) chs)"

definition orElse :: "'a option \<Rightarrow> 'a \<Rightarrow> 'a" where
  "orElse x d = (case x of None \<Rightarrow> d | Some v \<Rightarrow> v)"

fun scanMemberships ::
    "env \<Rightarrow> string \<Rightarrow> PaymentProvider list \<Rightarrow> (PrivacyChannel \<times> string) action" where
  "scanMemberships env channelContractId [] =
    throw (JsError ''resolveChannelClient: no active membership references channel'')"
| "scanMemberships env channelContractId (pp # pps) =
    andThen (getActiveForPp env (pp_publicKey pp)) (\<lambda>membership.
    case Option.bind membership (\<lambda>m. if orEmpty (cm_configJson m) = [] then None else Some m) of
      None \<Rightarrow> scanMemberships env channelContractId pps
    | Some m \<Rightarrow>
       (case parseConfigJson env (orEmpty (cm_configJson m)) of
          None \<Rightarrow> scanMemberships env channelContractId pps
        | Some config \<Rightarrow>
           (case findChannel config channelContractId of
              None \<Rightarrow> scanMemberships env channelContractId pps
            | Some channel \<Rightarrow>
               (let channelAuthId = orElse (cfg_channelAuthId config) (cm_channelAuthId m) in
                andThen (getChannelClient channelContractId channelAuthId
                           (orEmpty (cc_assetContractId channel))) (\<lambda>client.
                ret (client, channelAuthId))))))"

definition resolveChannelClient :: "env \<Rightarrow> string \<Rightarrow> (PrivacyChannel \<times> string) action" where
  "resolveChannelClient env channelContractId =
    andThen (listActive env) (\<lambda>pps. scanMemberships env channelContractId pps)"

definition resolveChannelContext :: "env \<Rightarrow> string \<Rightarrow> string \<Rightarrow> ChannelContext action" where
  "resolveChannelContext env channelContractId ppPublicKey =
    (if ppPublicKey = [] then throw (JsError ''resolveChannelContext: ppPublicKey is required'')
     else
      andThen (findByPublicKey env ppPublicKey) (\<lambda>pp.
      case Option.bind pp (\<lambda>p. if pp_isActive p then Some p else None) of
        None \<Rightarrow> throw (JsError ''resolveChannelContext: PP not found or inactive'')
      | Some p \<Rightarrow>
      andThen (getActiveForPp env ppPublicKey) (\<lambda>membership.
      case Option.bind membership (\<lambda>m. if orEmpty (cm_configJson m) = [] then None else Some m) of
        None \<Rightarrow> throw (JsError ''resolveChannelContext: PP has no active membership'')
      | Some m \<Rightarrow>
      case parseConfigJson env (orEmpty (cm_configJson m)) of
        None \<Rightarrow> throw (JsError ''resolveChannelContext: PP has malformed configJson'')
      | Some config \<Rightarrow>
      case findChannel config channelContractId of
        None \<Rightarrow> throw (JsError ''resolveChannelContext: PP is not a member of channel'')
      | Some channel \<Rightarrow>
      let channelAuthId = orElse (cfg_channelAuthId config) (cm_channelAuthId m) in
      andThen (liftSum (decryptSk env (pp_encryptedSk p) (SERVICE_AUTH_SECRET env))) (\<lambda>sk.
      if take 1 sk \<noteq> ''S'' then throw (JsError ''Decrypted secret key does not start with S'')
      else
      andThen (liftSum (keypairPublicKey env sk)) (\<lambda>publicKey.
      andThen (getChannelClient channelContractId channelAuthId
                 (orEmpty (cc_assetContractId channel))) (\<lambda>client.
      ret \<lparr>cx_ppSecretKey = sk, cx_channelClient = client, cx_source = publicKey,
           cx_fee = NETWORK_FEE env, cx_timeout = 30\<rparr>))))))"

section \<open>Deadlines\<close>

text \<open>\<^verbatim>\<open>Promise.race\<close> of a promise and a timer; the timer wins when \<open>rpcTimeout\<close> says so.\<close>

definition withTimeout :: "env \<Rightarrow> string \<Rightarrow> 'a action \<Rightarrow> 'a action" where
  "withTimeout env opName m = (\<lambda>w.
    if rpcTimeout env (w_tick w) then (Inl (TimeoutError opName), advance w) else m w)"

text \<open>The \<^verbatim>\<open>catch\<close> that admission attaches to each of its deadlines.\<close>

definition rpcUnavailable :: "string \<Rightarrow> 'a action \<Rightarrow> 'a action" where
  "rpcUnavailable channelContractId m = tryCatch m (\<lambda>error.
    case error of
      TimeoutError _ \<Rightarrow> throw (CHANNEL_RPC_UNAVAILABLE channelContractId)
    | _ \<Rightarrow> throw error)"

text \<open>\<^verbatim>\<open>channelRegistry?.isDisabled\<close>: no registry, no restriction.\<close>

definition channelDisabled :: "world \<Rightarrow> string \<Rightarrow> bool" where
  "channelDisabled w channelContractId =
    (case w_registry w of None \<Rightarrow> False | Some r \<Rightarrow> isDisabled r channelContractId)"

section \<open>Guarantees\<close>

context cache_guarantee
begin

lemma guar_getChannelClient: "guar R (getChannelClient c a s)"
  by (rule guarI) (simp add: getChannelClient_def R_cache split: prod.split)

lemma guar_resolveChannelContext: "guar R (resolveChannelContext env c pk)"
  unfolding resolveChannelContext_def
  by (intro world_rules guar_reads guar_getChannelClient)

lemma guar_scanMemberships: "guar R (scanMemberships env c pps)"
proof (induction pps)
  case Nil
  show ?case unfolding scanMemberships.simps by (rule guar_throw)
next
  case (Cons pp pps)
  then show ?case unfolding scanMemberships.simps
    by (intro world_rules guar_reads guar_getChannelClient)
qed

lemma guar_resolveChannelClient: "guar R (resolveChannelClient env c)"
  unfolding resolveChannelClient_def by (intro world_rules guar_reads guar_scanMemberships)

lemma guar_withTimeout: "guar R m \<Longrightarrow> guar R (withTimeout env n m)"
  by (simp add: guar_def withTimeout_def R_advance)

lemma guar_rpcUnavailable: "guar R m \<Longrightarrow> guar R (rpcUnavailable c m)"
  unfolding rpcUnavailable_def
  by (intro guar_tryCatch) (auto split: exn.split intro: guar_throw)

lemmas channel_rules = guar_getChannelClient guar_resolveChannelContext guar_resolveChannelClient
  guar_withTimeout guar_rpcUnavailable

end

section \<open>Facts\<close>

text \<open>The cache never outgrows its bound and has one entry per channel; the client it gives out is
  for the channel asked for.\<close>

definition cacheOk :: "(string \<times> PrivacyChannel) list \<Rightarrow> bool" where
  "cacheOk cache \<longleftrightarrow> length cache \<le> MAX_CACHE_SIZE \<and> distinct (map fst cache) \<and>
    (\<forall>(k, c)\<in>set cache. pc_channelId c = k)"

lemma map_of_None_notin: "map_of xs k = None \<longleftrightarrow> k \<notin> fst ` set xs"
  by (induction xs) auto

lemma cacheStep_ok:
  assumes "cacheOk cache" and "cacheStep ch au as cache = (client, cache')"
  shows "cacheOk cache'" and "pc_channelId client = ch" and "map_of cache' ch = Some client"
proof -
  have dist: "distinct (map fst cache)" and len: "length cache \<le> MAX_CACHE_SIZE"
    and keys: "\<forall>(k, c)\<in>set cache. pc_channelId c = k"
    using assms(1) by (simp_all add: cacheOk_def)
  have "cacheOk cache' \<and> pc_channelId client = ch \<and> map_of cache' ch = Some client"
  proof (cases "map_of cache ch")
    case (Some c)
    then have "(ch, c) \<in> set cache" by (rule map_of_SomeD)
    then have "pc_channelId c = ch" using keys by fastforce
    with Some assms show ?thesis by (simp add: cacheStep_def)
  next
    case None
    define ev where "ev = (if length cache \<ge> MAX_CACHE_SIZE then tl cache else cache)"
    have sub: "set ev \<subseteq> set cache" by (cases cache) (auto simp: ev_def split: if_splits)
    have "length ev < MAX_CACHE_SIZE" using len by (auto simp: ev_def MAX_CACHE_SIZE_def)
    moreover have "distinct (map fst ev)" using dist by (auto simp: ev_def map_tl distinct_tl)
    moreover have fresh: "ch \<notin> fst ` set ev" using None sub by (auto simp: map_of_None_notin)
    moreover have "map_of ev ch = None" using fresh by (simp add: map_of_None_notin)
    ultimately show ?thesis
      using None assms(2) keys sub
      by (fastforce simp: cacheStep_def Let_def ev_def [symmetric] cacheOk_def map_add_def)
  qed
  then show "cacheOk cache'" "pc_channelId client = ch" "map_of cache' ch = Some client" by auto
qed

lemma resolveChannelContext_Inr:
  assumes "resolveChannelContext env ch pk w = (Inr cx, w')"
  obtains pp m config channel where
    "find (\<lambda>r. pp_publicKey r = pk) (w_pps w) = Some pp" and "pp_isActive pp"
    and "find (\<lambda>r. cm_ppPublicKey r = pk \<and> cm_status r = M_ACTIVE \<and> deletedAt r = None)
           (w_memberships w) = Some m"
    and "parseConfigJson env (orEmpty (cm_configJson m)) = Some config"
    and "findChannel config ch = Some channel"
    and "decryptSk env (pp_encryptedSk pp) (SERVICE_AUTH_SECRET env) = Inr (cx_ppSecretKey cx)"
    and "keypairPublicKey env (cx_ppSecretKey cx) = Inr (cx_source cx)"
  using assms
  by (auto simp: resolveChannelContext_def findByPublicKey_def getActiveForPp_def dbQuery_apply
      andThen_apply Let_def bind_eq_Some_conv
      split: if_splits option.splits sum.splits prod.splits)

text \<open>The cache of channel clients stays within its bound with one entry per channel, and the client
  handed out is the cached one for the channel that was asked for.\<close>

theorem channel_cache_sound:
  assumes "cacheOk (w_channelCache w)" and "getChannelClient ch au as w = (r, w')"
  shows "cacheOk (w_channelCache w') \<and>
    (\<exists>client. r = Inr client \<and> pc_channelId client = ch \<and> map_of (w_channelCache w') ch = Some client)"
proof -
  obtain client cache where c: "cacheStep ch au as (w_channelCache w) = (client, cache)"
    by (cases "cacheStep ch au as (w_channelCache w)")
  with assms(2) have "r = Inr client" "w_channelCache w' = cache" by (auto simp: getChannelClient_def)
  with cacheStep_ok [OF assms(1) c] show ?thesis by simp
qed

theorem channel_cache_sound_witness:
  "cacheOk (w_channelCache (snd (getChannelClient ''C1'' ''a'' ''x'' world0)))"
  using channel_cache_sound [of world0 "''C1''" "''a''" "''x''" "fst (getChannelClient ''C1'' ''a'' ''x'' world0)"
      "snd (getChannelClient ''C1'' ''a'' ''x'' world0)"]
  by (simp add: cacheOk_def)

text \<open>The cache is keyed by the channel alone: after a council moves a channel to another auth
  contract, the client built for the old one is still handed out.\<close>

theorem channel_cache_is_stale:
  "fst (andThen (getChannelClient ''C1'' ''old'' ''x'') (\<lambda>_. getChannelClient ''C1'' ''new'' ''x'') world0) =
   Inr \<lparr>pc_channelId = ''C1'', pc_authId = ''old'', pc_assetId = ''x''\<rparr>"
  by (simp add: getChannelClient_def cacheStep_def andThen_apply Let_def MAX_CACHE_SIZE_def)

end
