(* ===== verification/Watcher.thy ===== *)
theory Watcher
  imports Channels JsValues
begin

text \<open>
  The event watcher, \<^verbatim>\<open>core/service/event-watcher\<close>: parsing and batched fetching of contract events
  (\<^verbatim>\<open>event-watcher.service.ts\<close>), the start ledger and the retention test, the poll with its live and its
  backfill cursor (\<^verbatim>\<open>event-watcher.process.ts\<close>), and the wiring of \<^verbatim>\<open>index.ts\<close>: the event handler, the
  membership transitions and the convergence by query at start-up.

  The council's HTTP interface and the RPC are parameters of \<open>env\<close>; \<open>fetchCouncil\<close> and
  \<open>fetchMembership\<close> give the HTTP status with the decoded body.  The timer of the polling loop is the
  label \<open>Poll\<close> of theory Lifecycle.
\<close>

section \<open>Contract events\<close>

definition objectMembers :: "string list" where
  "objectMembers = [''constructor'', ''__proto__'', ''hasOwnProperty'', ''isPrototypeOf'',
     ''propertyIsEnumerable'', ''toLocaleString'', ''toString'', ''valueOf'', ''__defineGetter__'',
     ''__defineSetter__'', ''__lookupGetter__'', ''__lookupSetter__'']"

definition KNOWN_TOPICS :: "string \<Rightarrow> ChannelAuthEventType option" where
  "KNOWN_TOPICS t =
    (if t = ''contract_initialized'' then Some contract_initialized
     else if t = ''provider_added'' then Some provider_added
     else if t = ''provider_removed'' then Some provider_removed
     else if t = ''channel_state_changed'' then Some channel_state_changed
     else if t \<in> set objectMembers then Some (inherited_name t)
     else None)"

definition MAX_CONTRACT_IDS_PER_FILTER :: nat where
  "MAX_CONTRACT_IDS_PER_FILTER = 5"

definition MAX_FILTERS_PER_CALL :: nat where
  "MAX_FILTERS_PER_CALL = 5"

function chunk :: "'a list \<Rightarrow> nat \<Rightarrow> 'a list list" where
  "chunk items sz =
    (if items = [] \<or> sz = 0 then [] else take sz items # chunk (drop sz items) sz)"
  by pat_completeness auto
termination by (relation "measure (\<lambda>(items, sz). length items)") auto

declare chunk.simps [simp del]

definition buildEventFilterBatches :: "string list \<Rightarrow> string list list list" where
  "buildEventFilterBatches contractIds =
    chunk (chunk contractIds MAX_CONTRACT_IDS_PER_FILTER) MAX_FILTERS_PER_CALL"

fun decodeAddress :: "ScVal \<Rightarrow> exn + string" where
  "decodeAddress (ScAddress a) = Inr a"
| "decodeAddress v = Inl TypeError"

fun decodeTopicSymbol :: "ScVal \<Rightarrow> string option" where
  "decodeTopicSymbol (ScSymbol s) = Some s"
| "decodeTopicSymbol v = None"

fun scTruthy :: "ScVal \<Rightarrow> bool" where
  "scTruthy (ScBool b) = b"
| "scTruthy (ScSymbol s) = (s \<noteq> [])"
| "scTruthy (ScAddress a) = True"
| "scTruthy (ScOther b) = b"

definition parseTopics :: "RawEvent \<Rightarrow> ScVal list \<Rightarrow> exn + ChannelAuthEvent option" where
  "parseTopics rawEvent topics =
    (let topicSymbol = orEmpty (decodeTopicSymbol (topics ! 0)) in
     case (if topicSymbol = [] then None else KNOWN_TOPICS topicSymbol) of
       None \<Rightarrow> Inr None
     | Some eventType \<Rightarrow>
        (let contractId = orEmpty (re_contractId rawEvent) in
         if contractId = [] then Inr None
         else if eventType = channel_state_changed then
           (if length topics < 3 then Inr None
            else case decodeAddress (topics ! 1) of
              Inl e \<Rightarrow> Inl e
            | Inr channel \<Rightarrow>
               (case decodeAddress (topics ! 2) of
                  Inl e \<Rightarrow> Inl e
                | Inr asset \<Rightarrow>
                    Inr (Some \<lparr>ev_type = eventType, ev_address = channel, ev_ledger = re_ledger rawEvent,
                      ev_contractId = contractId, ev_channel = Some channel, ev_asset = Some asset,
                      ev_enabled = Some (scTruthy (re_value rawEvent))\<rparr>)))
         else case decodeAddress (topics ! 1) of
             Inl e \<Rightarrow> Inl e
           | Inr address \<Rightarrow>
               Inr (Some \<lparr>ev_type = eventType, ev_address = address, ev_ledger = re_ledger rawEvent,
                 ev_contractId = contractId, ev_channel = None, ev_asset = None, ev_enabled = None\<rparr>)))"

definition parseRawEvent :: "RawEvent \<Rightarrow> exn + ChannelAuthEvent option" where
  "parseRawEvent rawEvent =
    (case re_topic rawEvent of
       None \<Rightarrow> Inr None
     | Some topics \<Rightarrow> if length topics < 2 then Inr None else parseTopics rawEvent topics)"

definition parseEvents :: "RawEvent list \<Rightarrow> ChannelAuthEvent list action" where
  "parseEvents rawEvents =
    andThen (mapM (\<lambda>e. liftSum (parseRawEvent e)) rawEvents) (\<lambda>os. ret [e. Some e \<leftarrow> os])"

text \<open>The loop over the calls; the ledger starts at infinity, here \<open>None\<close>.\<close>

definition minLedger :: "int option \<Rightarrow> int \<Rightarrow> int option" where
  "minLedger latest l = Some (case latest of None \<Rightarrow> l | Some k \<Rightarrow> min k l)"

fun fetchBatches ::
    "env \<Rightarrow> int \<Rightarrow> string list list list \<Rightarrow> ChannelAuthEvent list \<Rightarrow> int option \<Rightarrow>
      (ChannelAuthEvent list \<times> int option) action" where
  "fetchBatches env startLedger [] parsed latest = ret (parsed, latest)"
| "fetchBatches env startLedger (filters # callBatches) parsed latest =
    andThen (external (\<lambda>n. rpcGetEvents env n startLedger filters)) (\<lambda>response.
    andThen (parseEvents (er_events response)) (\<lambda>events.
    fetchBatches env startLedger callBatches (parsed @ events)
      (minLedger latest (er_latestLedger response))))"

definition fetchChannelAuthEvents ::
    "env \<Rightarrow> string list \<Rightarrow> int \<Rightarrow> (ChannelAuthEvent list \<times> int) action" where
  "fetchChannelAuthEvents env contractIds startLedger =
    (if length contractIds = 0 then ret ([], startLedger - 1)
     else andThen (fetchBatches env startLedger (buildEventFilterBatches contractIds) [] None) (\<lambda>res.
       case res of (parsed, latest) \<Rightarrow>
         (case latest of
            None \<Rightarrow> throw OutOfFuel
          | Some l \<Rightarrow> ret (sort_key ev_ledger parsed, l))))"

section \<open>Start ledger and retention\<close>

definition resolveBootStartLedger :: "env \<Rightarrow> int action" where
  "resolveBootStartLedger env =
    andThen (external (rpcOldestLedger env)) (\<lambda>oldestLedger.
    ret (case BOOT_SYNC_START_LEDGER_BLOCK env of
           None \<Rightarrow> oldestLedger
         | Some startLedgerBlock \<Rightarrow> max startLedgerBlock oldestLedger))"

definition isOutOfRetentionError :: "env \<Rightarrow> exn \<Rightarrow> bool" where
  "isOutOfRetentionError env error =
    (let msg = toLowerCase (retentionText env error) in
     includesText msg ''startledger'' \<or>
     includesText msg ''ledger'' \<and>
       (includesText msg ''retention'' \<or> includesText msg ''oldest'' \<or> includesText msg ''before'' \<or>
        includesText msg ''out of range'' \<or> includesText msg ''not within''))"

section \<open>The watcher object\<close>

definition newEventWatcher :: "string list \<Rightarrow> EventWatcher" where
  "newEventWatcher contractIds =
    \<lparr>ew_isRunning = False, ew_liveLedger = None, ew_backfillLedger = None, ew_backfillCeiling = None,
     ew_contractIds = foldl setAdd [] contractIds, ew_lastPollOkAt = None, ew_lastPollError = None\<rparr>"

definition addContract :: "string \<Rightarrow> EventWatcher \<Rightarrow> EventWatcher" where
  "addContract contractId this = this\<lparr>ew_contractIds := setAdd (ew_contractIds this) contractId\<rparr>"

definition removeContract :: "string \<Rightarrow> EventWatcher \<Rightarrow> EventWatcher" where
  "removeContract contractId this = this\<lparr>ew_contractIds := setDelete (ew_contractIds this) contractId\<rparr>"

definition watcher_start :: "EventWatcher \<Rightarrow> EventWatcher" where
  "watcher_start this = this\<lparr>ew_isRunning := True\<rparr>"

definition watcher_stop :: "EventWatcher \<Rightarrow> EventWatcher" where
  "watcher_stop this = this\<lparr>ew_isRunning := False\<rparr>"

definition healthy :: "EventWatcher \<Rightarrow> bool" where
  "healthy this =
    (case ew_lastPollError this of
       None \<Rightarrow> True
     | Some (failedAt, _) \<Rightarrow>
        (case ew_lastPollOkAt this of None \<Rightarrow> False | Some okAt \<Rightarrow> okAt \<ge> failedAt))"

text \<open>\<^verbatim>\<open>this\<close> in the methods that run in the background, and assignments to its fields.\<close>

definition this :: "world \<Rightarrow> EventWatcher" where
  "this w = (case w_watcher w of None \<Rightarrow> newEventWatcher [] | Some x \<Rightarrow> x)"

definition assign :: "(EventWatcher \<Rightarrow> EventWatcher) \<Rightarrow> unit action" where
  "assign f = modify (w_watcher_update (map_option f))"

section \<open>Membership transitions\<close>

definition watchCouncilContract :: "string \<Rightarrow> unit action" where
  "watchCouncilContract channelAuthId = modify (\<lambda>w.
    if w_watcher w = None then w
    else w_registry_update (map_option (\<lambda>r. addChannel r channelAuthId))
           (w_watcher_update (map_option (addContract channelAuthId)) w))"

definition fetchCouncilConfig :: "env \<Rightarrow> string \<Rightarrow> string \<Rightarrow> CouncilConfigData option action" where
  "fetchCouncilConfig env councilUrl channelAuthId =
    tryCatch
      (andThen (external (\<lambda>n. fetchCouncil env n councilUrl channelAuthId)) (\<lambda>res.
       ret (if 200 \<le> fst res \<and> fst res < 300 then snd res else None)))
      (\<lambda>_. ret None)"

definition reconcile :: "CouncilConfigData \<Rightarrow> unit action" where
  "reconcile data = modify (w_registry_update (map_option (\<lambda>r. reconcileChannelStatuses r data)))"

definition activateMembership :: "env \<Rightarrow> string \<Rightarrow> string \<Rightarrow> unit action" where
  "activateMembership env ppPublicKey channelAuthId =
    tryCatch
     (andThen (getCurrentForPp env ppPublicKey) (\<lambda>current.
      case current of
        None \<Rightarrow> ret ()
      | Some membership \<Rightarrow>
         if cm_status membership = M_ACTIVE then ret ()
         else if cm_channelAuthId membership \<noteq> channelAuthId then ret ()
         else andThen (fetchCouncilConfig env (cm_councilUrl membership) channelAuthId) (\<lambda>data.
           andThen (case data of None \<Rightarrow> ret () | Some d \<Rightarrow> reconcile d) (\<lambda>_.
           andThen (memberships_update env (cm_id membership) (\<lambda>r. r\<lparr>cm_status := M_ACTIVE,
               cm_configJson := map_option (stringifyCouncil env) data,
               cm_councilName := (case Option.bind data cd_name of
                  Some n \<Rightarrow> Some n | None \<Rightarrow> cm_councilName membership)\<rparr>)) (\<lambda>_.
           ret ())))))
     (\<lambda>_. ret ())"

fun councilInUse :: "env \<Rightarrow> string \<Rightarrow> PaymentProvider list \<Rightarrow> bool action" where
  "councilInUse env channelAuthId [] = ret False"
| "councilInUse env channelAuthId (pp # pps) =
    andThen (getActiveForPp env (pp_publicKey pp)) (\<lambda>membership.
    if map_option cm_channelAuthId membership = Some channelAuthId then ret True
    else councilInUse env channelAuthId pps)"

definition unwatchCouncilContractIfUnused :: "env \<Rightarrow> string \<Rightarrow> unit action" where
  "unwatchCouncilContractIfUnused env channelAuthId =
    andThen (gets w_watcher) (\<lambda>watcher.
    if watcher = None then ret ()
    else andThen (listAll env) (\<lambda>pps.
      andThen (councilInUse env channelAuthId pps) (\<lambda>used.
      if used then ret () else assign (removeContract channelAuthId))))"

definition deactivateMembership :: "env \<Rightarrow> string \<Rightarrow> string \<Rightarrow> unit action" where
  "deactivateMembership env ppPublicKey channelAuthId =
    tryCatch
     (andThen (getCurrentForPp env ppPublicKey) (\<lambda>current.
      case current of
        None \<Rightarrow> ret ()
      | Some membership \<Rightarrow>
         if cm_status membership \<noteq> M_ACTIVE then ret ()
         else if cm_channelAuthId membership \<noteq> channelAuthId then ret ()
         else andThen (memberships_update env (cm_id membership) (\<lambda>r. r\<lparr>cm_status := M_REJECTED\<rparr>)) (\<lambda>_.
           unwatchCouncilContractIfUnused env channelAuthId)))
     (\<lambda>_. ret ())"

section \<open>The event handler\<close>

definition registryEvent :: "ChannelAuthEvent \<Rightarrow> unit action" where
  "registryEvent event = modify (w_registry_update (map_option (\<lambda>r. handleEvent r event)))"

definition onEvent :: "env \<Rightarrow> ChannelAuthEvent \<Rightarrow> unit action" where
  "onEvent env event =
    (let channelAuthId = ev_contractId event; address = ev_address event in
     if ev_type event = channel_state_changed then registryEvent event
     else andThen (gets w_registeredProviders) (\<lambda>registeredProviders.
       let registered = (address \<in> set registeredProviders) in
       if registered \<or> ev_type event = contract_initialized
       then andThen (registryEvent event) (\<lambda>_.
         if ev_type event = provider_added \<and> registered
         then andThen (activateMembership env address channelAuthId) (\<lambda>_.
              emitForPp env address (ChannelProviderAdded channelAuthId))
         else if ev_type event = provider_removed \<and> registered
         then andThen (deactivateMembership env address channelAuthId) (\<lambda>_.
              emitForPp env address (ChannelProviderRemoved channelAuthId))
         else ret ())
       else ret ()))"

definition dispatch :: "env \<Rightarrow> ChannelAuthEvent \<Rightarrow> unit action" where
  "dispatch env event = tryCatch (onEvent env event) (\<lambda>_. ret ())"

section \<open>The poll\<close>

definition resolveCursors :: "env \<Rightarrow> unit action" where
  "resolveCursors env =
    andThen (gets this) (\<lambda>watcher.
    if ew_liveLedger watcher \<noteq> None then ret ()
    else andThen (external (rpcLatestLedger env)) (\<lambda>tip.
      andThen (resolveBootStartLedger env) (\<lambda>backfillStart.
      assign (\<lambda>x. x\<lparr>ew_liveLedger := Some tip, ew_backfillCeiling := Some tip,
                  ew_backfillLedger := (if backfillStart \<ge> tip then None else Some backfillStart)\<rparr>))))"

definition liveRead :: "env \<Rightarrow> unit action" where
  "liveRead env =
    andThen (gets this) (\<lambda>watcher.
    andThen (fetchChannelAuthEvents env (ew_contractIds watcher)
               (case ew_liveLedger watcher of None \<Rightarrow> 0 | Some l \<Rightarrow> l)) (\<lambda>res.
    andThen (forM (fst res) (dispatch env)) (\<lambda>_.
    andThen (dateNow env) (\<lambda>now.
    assign (\<lambda>x. x\<lparr>ew_liveLedger := Some (snd res + 1), ew_lastPollOkAt := Some now\<rparr>)))))"

definition pollError :: "env \<Rightarrow> exn \<Rightarrow> unit action" where
  "pollError env error =
    (if isOutOfRetentionError env error then assign (\<lambda>x. x\<lparr>ew_liveLedger := None\<rparr>)
     else andThen (dateNow env) (\<lambda>now.
       assign (\<lambda>x. x\<lparr>ew_lastPollError := Some (now, errorMessage env error)\<rparr>)))"

definition completedAt :: "int \<Rightarrow> int \<Rightarrow> int option" where
  "completedAt ceil ledger = (if ledger \<ge> ceil then None else Some ledger)"

definition backfillRead :: "env \<Rightarrow> int \<Rightarrow> int \<Rightarrow> unit action" where
  "backfillRead env ledger ceil =
    andThen (gets this) (\<lambda>watcher.
    andThen (fetchChannelAuthEvents env (ew_contractIds watcher) ledger) (\<lambda>res.
    andThen (forM (fst res) (\<lambda>event.
      if ev_ledger event < ceil then dispatch env event else ret ())) (\<lambda>_.
    assign (\<lambda>x. x\<lparr>ew_backfillLedger := completedAt ceil (snd res + 1)\<rparr>))))"

definition backfillError :: "env \<Rightarrow> int \<Rightarrow> exn \<Rightarrow> unit action" where
  "backfillError env ceil error =
    (if isOutOfRetentionError env error
     then tryCatch
       (andThen (resolveBootStartLedger env) (\<lambda>ledger.
        assign (\<lambda>x. x\<lparr>ew_backfillLedger := completedAt ceil ledger\<rparr>)))
       (\<lambda>_. ret ())
     else ret ())"

definition pollBackfill :: "env \<Rightarrow> unit action" where
  "pollBackfill env =
    andThen (gets this) (\<lambda>watcher.
    case (ew_backfillLedger watcher, ew_backfillCeiling watcher) of
      (Some ledger, Some ceil) \<Rightarrow>
        if ledger \<ge> ceil then assign (\<lambda>x. x\<lparr>ew_backfillLedger := None\<rparr>)
        else tryCatch (backfillRead env ledger ceil) (backfillError env ceil)
    | _ \<Rightarrow> ret ())"

definition poll :: "env \<Rightarrow> unit action" where
  "poll env =
    andThen
      (tryCatch (andThen (resolveCursors env) (\<lambda>_. andThen (liveRead env) (\<lambda>_. ret True)))
        (\<lambda>error. andThen (pollError env error) (\<lambda>_. ret False)))
      (\<lambda>ok. if ok then pollBackfill env else ret ())"

text \<open>The timer: a poll happens while the watcher runs.\<close>

definition scheduleNext :: "env \<Rightarrow> unit action" where
  "scheduleNext env =
    andThen (gets w_watcher) (\<lambda>watcher.
    case watcher of None \<Rightarrow> ret () | Some x \<Rightarrow> if ew_isRunning x then poll env else ret ())"

section \<open>Start-up\<close>

definition initFromDb :: "env \<Rightarrow> unit action" where
  "initFromDb env =
    tryCatch
     (andThen (listAll env) (\<lambda>pps.
      andThen (modify (w_registeredProviders_update (\<lambda>ps. foldl setAdd ps (map pp_publicKey pps)))) (\<lambda>_.
      forM pps (\<lambda>pp.
        andThen (getCurrentForPp env (pp_publicKey pp)) (\<lambda>membership.
        case membership of
          None \<Rightarrow> ret ()
        | Some m \<Rightarrow> if cm_status m = M_ACTIVE \<and> cm_channelAuthId m \<noteq> []
                    then watchCouncilContract (cm_channelAuthId m) else ret ())))))
     (\<lambda>_. ret ())"

fun convergeChannels :: "env \<Rightarrow> string list \<Rightarrow> PaymentProvider list \<Rightarrow> unit action" where
  "convergeChannels env seen [] = ret ()"
| "convergeChannels env seen (pp # pps) =
    andThen (getActiveForPp env (pp_publicKey pp)) (\<lambda>membership.
    case Option.bind membership (\<lambda>m. if cm_channelAuthId m = [] then None else Some m) of
      None \<Rightarrow> convergeChannels env seen pps
    | Some m \<Rightarrow>
       (let key = cm_councilUrl m @ ''|'' @ cm_channelAuthId m in
        if key \<in> set seen then convergeChannels env seen pps
        else andThen (fetchCouncilConfig env (cm_councilUrl m) (cm_channelAuthId m)) (\<lambda>data.
          andThen (case data of None \<Rightarrow> ret () | Some d \<Rightarrow> reconcile d) (\<lambda>_.
          convergeChannels env (key # seen) pps))))"

definition convergeChannelStatusesOnBoot :: "env \<Rightarrow> unit action" where
  "convergeChannelStatusesOnBoot env =
    tryCatch (andThen (listAll env) (convergeChannels env [])) (\<lambda>_. ret ())"

datatype MembershipStatus = MV_ACTIVE | MV_PENDING | MV_NOT_FOUND | MV_UNKNOWN

definition stripSlashes :: "string \<Rightarrow> string" where
  "stripSlashes url = rev (dropWhile (\<lambda>c. c = CHR ''/'') (rev url))"

definition fetchMembershipStatus :: "env \<Rightarrow> string \<Rightarrow> string \<Rightarrow> string \<Rightarrow> MembershipStatus action" where
  "fetchMembershipStatus env councilUrl channelAuthId publicKey =
    tryCatch
      (andThen (external (\<lambda>n. fetchMembership env n (stripSlashes councilUrl) channelAuthId publicKey)) (\<lambda>res.
       ret (if fst res = 200 then MV_ACTIVE else if fst res = 202 then MV_PENDING
            else if fst res = 404 then MV_NOT_FOUND else MV_UNKNOWN)))
      (\<lambda>_. ret MV_UNKNOWN)"

text \<open>A failing read ends the loop with the keys demoted so far.\<close>

definition attempt :: "'a action \<Rightarrow> (exn + 'a) action" where
  "attempt m = (\<lambda>w. case m w of (r, w') \<Rightarrow> (Inr r, w'))"

fun convergeMemberships :: "env \<Rightarrow> PaymentProvider list \<Rightarrow> string list \<Rightarrow> string list action" where
  "convergeMemberships env [] demoted = ret demoted"
| "convergeMemberships env (pp # pps) demoted =
    andThen (attempt (getActiveForPp env (pp_publicKey pp))) (\<lambda>res.
    case res of
      Inl _ \<Rightarrow> ret demoted
    | Inr membership \<Rightarrow>
    (case Option.bind membership (\<lambda>m. if cm_channelAuthId m = [] then None else Some m) of
       None \<Rightarrow> convergeMemberships env pps demoted
     | Some m \<Rightarrow>
        andThen (fetchMembershipStatus env (cm_councilUrl m) (cm_channelAuthId m) (pp_publicKey pp)) (\<lambda>status.
        if status = MV_NOT_FOUND
        then andThen (deactivateMembership env (pp_publicKey pp) (cm_channelAuthId m)) (\<lambda>_.
             convergeMemberships env pps (demoted @ [pp_publicKey pp]))
        else convergeMemberships env pps demoted)))"

definition convergeMembershipStatusesOnBoot :: "env \<Rightarrow> string list action" where
  "convergeMembershipStatusesOnBoot env =
    andThen (attempt (listAll env)) (\<lambda>res.
    case res of Inl _ \<Rightarrow> ret [] | Inr pps \<Rightarrow> convergeMemberships env pps [])"

definition startEventWatcher :: "env \<Rightarrow> unit action" where
  "startEventWatcher env =
    andThen (modify (w_registry_update (\<lambda>r. if r = None then Some (newChannelRegistry []) else r))) (\<lambda>_.
    andThen (modify (w_watcher_update (\<lambda>_. Some (newEventWatcher [])))) (\<lambda>_.
    andThen (initFromDb env) (\<lambda>_.
    andThen (assign watcher_start) (\<lambda>_.
    andThen (convergeChannelStatusesOnBoot env) (\<lambda>_.
    andThen (convergeMembershipStatusesOnBoot env) (\<lambda>_. ret ()))))))"

definition stopEventWatcher :: "unit action" where
  "stopEventWatcher = modify (w_watcher_update (\<lambda>_. None))"

definition addProviderAddress :: "string \<Rightarrow> unit action" where
  "addProviderAddress publicKey = modify (w_registeredProviders_update (\<lambda>ps. setAdd ps publicKey))"

definition removeProviderAddress :: "string \<Rightarrow> unit action" where
  "removeProviderAddress publicKey = modify (w_registeredProviders_update (\<lambda>ps. setDelete ps publicKey))"

definition addCouncilWatcher :: "string \<Rightarrow> unit action" where
  "addCouncilWatcher channelAuthId = watchCouncilContract channelAuthId"

section \<open>Guarantees\<close>

text \<open>What an event may change beyond the side tables: the registry and the set of watched contracts.\<close>

locale event_client = side_tables R for R :: "world \<Rightarrow> world \<Rightarrow> bool" +
  assumes R_registry: "R w (w_registry_update f8 w)"
    and R_contracts: "R w (w_watcher_update (map_option (ew_contractIds_update f9)) w)"
begin

lemma R_addContract: "R w (w_watcher_update (map_option (addContract c)) w)"
proof -
  have "addContract c = ew_contractIds_update (\<lambda>xs. setAdd xs c)"
    by (rule ext) (simp add: addContract_def)
  then show ?thesis using R_contracts by simp
qed

lemma guar_removeContract: "guar R (assign (removeContract c))"
proof -
  have "removeContract c = ew_contractIds_update (\<lambda>xs. setDelete xs c)"
    by (rule ext) (simp add: removeContract_def)
  then show ?thesis unfolding assign_def using R_contracts by (intro guar_modify) simp
qed

lemma guar_watchCouncilContract: "guar R (watchCouncilContract c)"
  unfolding watchCouncilContract_def
proof (intro guar_modify)
  fix w
  have "R w (w_registry_update (map_option (\<lambda>r. addChannel r c)) (w_watcher_update (map_option (addContract c)) w))"
    using R_addContract R_registry by (rule R_trans)
  then show "R w (if w_watcher w = None then w else w_registry_update (map_option (\<lambda>r. addChannel r c))
      (w_watcher_update (map_option (addContract c)) w))"
    by (simp add: R_refl)
qed

lemma guar_reconcile: "guar R (reconcile d)"
  unfolding reconcile_def by (intro guar_modify R_registry)

lemma guar_registryEvent: "guar R (registryEvent e)"
  unfolding registryEvent_def by (intro guar_modify R_registry)

lemma guar_fetchCouncilConfig: "guar R (fetchCouncilConfig env u a)"
  unfolding fetchCouncilConfig_def by (intro world_rules)

lemma guar_activateMembership: "guar R (activateMembership env pk a)"
  unfolding activateMembership_def
  by (intro world_rules repo_rules guar_fetchCouncilConfig guar_reconcile)

lemma guar_councilInUse: "guar R (councilInUse env a pps)"
proof (induction pps)
  case Nil
  show ?case unfolding councilInUse.simps by (rule guar_ret)
next
  case (Cons pp pps)
  then show ?case unfolding councilInUse.simps by (intro world_rules guar_reads)
qed

lemma guar_deactivateMembership: "guar R (deactivateMembership env pk a)"
  unfolding deactivateMembership_def unwatchCouncilContractIfUnused_def
  by (intro world_rules repo_rules guar_councilInUse guar_removeContract)

lemma guar_dispatch: "guar R (dispatch env e)"
  unfolding dispatch_def onEvent_def
  by (intro world_rules emit_rules guar_registryEvent guar_activateMembership guar_deactivateMembership)

lemma guar_parseEvents: "guar R (parseEvents es)"
  unfolding parseEvents_def by (intro world_rules)

lemma guar_fetchBatches: "guar R (fetchBatches env s bs p l)"
proof (induction bs arbitrary: p l)
  case Nil
  show ?case unfolding fetchBatches.simps by (rule guar_ret)
next
  case (Cons b bs)
  then show ?case unfolding fetchBatches.simps by (intro world_rules guar_parseEvents)
qed

lemma guar_fetchChannelAuthEvents: "guar R (fetchChannelAuthEvents env ids s)"
  unfolding fetchChannelAuthEvents_def by (intro world_rules guar_fetchBatches)

lemma guar_resolveBootStartLedger: "guar R (resolveBootStartLedger env)"
  unfolding resolveBootStartLedger_def by (intro world_rules)

lemmas event_rules = guar_watchCouncilContract guar_reconcile guar_fetchCouncilConfig
  guar_activateMembership guar_deactivateMembership guar_dispatch guar_fetchChannelAuthEvents
  guar_resolveBootStartLedger

end

text \<open>A relation that looks at nothing the watcher owns is kept by the poll and by the start-up.\<close>

locale watcher_client = event_client R for R :: "world \<Rightarrow> world \<Rightarrow> bool" +
  assumes R_watcher: "R w (w_watcher_update g1 w)"
    and R_providers: "R w (w_registeredProviders_update g2 w)"
begin

lemma guar_assign: "guar R (assign f)"
  unfolding assign_def by (intro guar_modify R_watcher)

lemma guar_poll: "guar R (poll env)"
  unfolding poll_def resolveCursors_def liveRead_def pollError_def pollBackfill_def backfillRead_def
    backfillError_def
  by (intro world_rules event_rules guar_assign)

lemma guar_scheduleNext: "guar R (scheduleNext env)"
  unfolding scheduleNext_def by (intro world_rules guar_poll)

lemma guar_attempt: "guar R m \<Longrightarrow> guar R (attempt m)"
  by (auto simp: guar_def attempt_def split: prod.split) (metis snd_conv)

lemma guar_initFromDb: "guar R (initFromDb env)"
  unfolding initFromDb_def
  by (intro world_rules repo_rules event_rules guar_modify R_providers)

lemma guar_convergeChannels: "guar R (convergeChannels env seen pps)"
proof (induction pps arbitrary: seen)
  case Nil
  show ?case unfolding convergeChannels.simps by (rule guar_ret)
next
  case (Cons pp pps)
  then show ?case unfolding convergeChannels.simps
    by (intro world_rules repo_rules event_rules)
qed

lemma guar_convergeMemberships: "guar R (convergeMemberships env pps ds)"
proof (induction pps arbitrary: ds)
  case Nil
  show ?case unfolding convergeMemberships.simps by (rule guar_ret)
next
  case (Cons pp pps)
  then show ?case unfolding convergeMemberships.simps fetchMembershipStatus_def
    by (intro world_rules repo_rules event_rules guar_attempt)
qed

lemma guar_startEventWatcher: "guar R (startEventWatcher env)"
  unfolding startEventWatcher_def convergeChannelStatusesOnBoot_def convergeMembershipStatusesOnBoot_def
  by (intro world_rules repo_rules guar_modify R_registry R_watcher guar_initFromDb guar_assign
      guar_convergeChannels guar_convergeMemberships guar_attempt)

lemma guar_stopEventWatcher: "guar R stopEventWatcher"
  unfolding stopEventWatcher_def by (intro guar_modify R_watcher)

end

section \<open>Fetching\<close>

lemma chunk_spec:
  assumes "0 < n"
  shows "concat (chunk xs n) = xs \<and> list_all (\<lambda>c. c \<noteq> [] \<and> length c \<le> n) (chunk xs n)"
  using assms
proof (induction xs n rule: chunk.induct)
  case (1 xs n)
  then show ?case by (subst (1 2) chunk.simps) auto
qed

lemma chunk_nonempty: "0 < n \<Longrightarrow> xs \<noteq> [] \<Longrightarrow> chunk xs n \<noteq> []"
  by (subst chunk.simps) simp

text \<open>The answers the calls get, the ledger and the events they give together.\<close>

fun answersTo :: "env \<Rightarrow> nat \<Rightarrow> int \<Rightarrow> string list list list \<Rightarrow> (exn + EventsResponse) list" where
  "answersTo env n start [] = []"
| "answersTo env n start (b # bs) = rpcGetEvents env n start b # answersTo env (Suc n) start bs"

definition parsedOf :: "EventsResponse list \<Rightarrow> ChannelAuthEvent list" where
  "parsedOf rs = [e. r \<leftarrow> rs, raw \<leftarrow> er_events r, Inr (Some e) \<leftarrow> [parseRawEvent raw]]"

lemma parsedOf_simps [simp]:
  "parsedOf [] = []"
  "parsedOf (r # rs) = [e. raw \<leftarrow> er_events r, Inr (Some e) \<leftarrow> [parseRawEvent raw]] @ parsedOf rs"
  by (simp_all add: parsedOf_def)

lemma parseEvents_Inr:
  assumes "parseEvents raws w = (Inr es, w')"
  shows "es = [e. raw \<leftarrow> raws, Inr (Some e) \<leftarrow> [parseRawEvent raw]] \<and> w' = w"
proof -
  have "mapM (\<lambda>e. liftSum (parseRawEvent e)) raws w = (Inr os, u) \<Longrightarrow>
      [e. Some e \<leftarrow> os] = [e. raw \<leftarrow> raws, Inr (Some e) \<leftarrow> [parseRawEvent raw]] \<and> u = w" for os u
  proof (induction raws arbitrary: os)
    case (Cons raw raws)
    then show ?case by (auto simp: elim!: andThen_InrE split: option.split)
  qed simp
  with assms show ?thesis unfolding parseEvents_def by (auto elim!: andThen_InrE)
qed

lemma fetchBatches_Inr:
  assumes "fetchBatches env start bs p l w = (Inr (es, l'), w')"
  shows "\<exists>rs. answersTo env (w_tick w) start bs = map Inr rs \<and> es = p @ parsedOf rs \<and>
    l' = foldl minLedger l (map er_latestLedger rs)"
  using assms
proof (induction bs arbitrary: p l w)
  case Nil
  then show ?case by simp
next
  case (Cons b bs)
  then obtain r ps u where r: "rpcGetEvents env (w_tick w) start b = Inr r"
    and ps: "parseEvents (er_events r) (advance w) = (Inr ps, u)"
    and rest: "fetchBatches env start bs (p @ ps) (minLedger l (er_latestLedger r)) u = (Inr (es, l'), w')"
    by (auto simp: external_apply elim!: andThen_InrE)
  have u: "u = advance w" using parseEvents_Inr [OF ps] by simp
  from Cons.IH [OF rest [unfolded u]] obtain rs where rs: "answersTo env (Suc (w_tick w)) start bs = map Inr rs"
    "es = (p @ ps) @ parsedOf rs" "l' = foldl minLedger (minLedger l (er_latestLedger r)) (map er_latestLedger rs)"
    by auto
  with r parseEvents_Inr [OF ps] show ?case by (intro exI [of _ "r # rs"]) simp
qed

lemma minLedger_simps [simp]: "minLedger None l = Some l" "minLedger (Some k) l = Some (min k l)"
  by (simp_all add: minLedger_def)

lemma foldl_minLedger: "foldl minLedger (Some k) ls = Some (Min (insert k (set ls)))"
proof (induction ls arbitrary: k)
  case (Cons l ls)
  have "foldl minLedger (Some k) (l # ls) = Some (Min (insert (min k l) (set ls)))"
    using Cons [of "min k l"] by simp
  also have "Min (insert (min k l) (set ls)) = Min (insert k (set (l # ls)))"
    by (cases "ls = []") (simp_all add: min.assoc)
  finally show ?case .
qed simp

lemma fetch_Inr:
  assumes "fetchChannelAuthEvents env ids start w = (Inr (es, l), w')" and "ids \<noteq> []"
  shows "\<exists>rs. answersTo env (w_tick w) start (buildEventFilterBatches ids) = map Inr rs \<and>
    es = sort_key ev_ledger (parsedOf rs) \<and> rs \<noteq> [] \<and> l = Min (set (map er_latestLedger rs))"
proof -
  from assms obtain ps k where f: "fetchBatches env start (buildEventFilterBatches ids) [] None w = (Inr (ps, Some k), w')"
    and es: "es = sort_key ev_ledger ps" "l = k"
    by (auto simp: fetchChannelAuthEvents_def elim!: andThen_InrE split: prod.splits option.splits)
  from fetchBatches_Inr [OF f] obtain rs where
    rs: "answersTo env (w_tick w) start (buildEventFilterBatches ids) = map Inr rs" "ps = parsedOf rs"
      "Some k = foldl minLedger None (map er_latestLedger rs)" by auto
  then have "rs \<noteq> []" by auto
  moreover from this rs(3) have "k = Min (set (map er_latestLedger rs))"
    by (cases rs) (simp_all add: foldl_minLedger)
  ultimately show ?thesis using rs es by auto
qed

section \<open>The cursors\<close>

definition backfillOk :: "EventWatcher \<Rightarrow> bool" where
  "backfillOk x \<longleftrightarrow> (case ew_backfillLedger x of None \<Rightarrow> True
     | Some l \<Rightarrow> (case ew_backfillCeiling x of None \<Rightarrow> False | Some c \<Rightarrow> l < c))"

text \<open>An event touches neither cursor nor the health signal.\<close>

definition cursorsOf :: "EventWatcher option \<Rightarrow> EventWatcher option" where
  "cursorsOf = map_option (ew_contractIds_update (\<lambda>_. []))"

definition cursorsKept :: "world \<Rightarrow> world \<Rightarrow> bool" where
  "cursorsKept w w' \<longleftrightarrow> cursorsOf (w_watcher w') = cursorsOf (w_watcher w)"

interpretation cursors: event_client cursorsKept
proof unfold_locales
  show "cursorsKept s t \<Longrightarrow> cursorsKept t u \<Longrightarrow> cursorsKept s u" for s t u by (simp add: cursorsKept_def)
  show "cursorsKept w (w_watcher_update (map_option (ew_contractIds_update f)) w)" for w f
    by (simp add: cursorsKept_def cursorsOf_def option.map_comp comp_def)
qed (simp_all add: cursorsKept_def)

lemma cursorsKeptD:
  assumes "cursorsKept w w'" and "w_watcher w = Some x"
  obtains ids where "w_watcher w' = Some (x\<lparr>ew_contractIds := ids\<rparr>)"
proof -
  from assms obtain y where y: "w_watcher w' = Some y" "y\<lparr>ew_contractIds := []\<rparr> = x\<lparr>ew_contractIds := []\<rparr>"
    by (auto simp: cursorsKept_def cursorsOf_def)
  from arg_cong [OF y(2), of "ew_contractIds_update (\<lambda>_. ew_contractIds y)"]
  have "y = x\<lparr>ew_contractIds := ew_contractIds y\<rparr>" by simp
  with y(1) that show ?thesis by metis
qed

lemma dispatch_Inr: "\<exists>u. dispatch env e w = (Inr (), u)"
  by (cases "onEvent env e w") (auto simp: dispatch_def tryCatch_apply split: sum.split)

lemma forM_Inr:
  assumes "\<And>x w. \<exists>u. f x w = (Inr (), u)"
  shows "\<exists>u. forM xs f w = (Inr (), u)"
proof (induction xs arbitrary: w)
  case (Cons x xs)
  obtain v where "f x w = (Inr (), v)" using assms by blast
  with Cons [of v] show ?case by (auto simp: andThen_apply)
qed simp

text \<open>The backfill cursor stays below its ceiling.\<close>

definition watcherOk :: "(EventWatcher \<Rightarrow> bool) \<Rightarrow> world \<Rightarrow> bool" where
  "watcherOk P w \<longleftrightarrow> (case w_watcher w of None \<Rightarrow> True | Some x \<Rightarrow> P x)"

definition watcherKept :: "(EventWatcher \<Rightarrow> bool) \<Rightarrow> world \<Rightarrow> world \<Rightarrow> bool" where
  "watcherKept P w w' \<longleftrightarrow> (watcherOk P w \<longrightarrow> watcherOk P w')"

definition belowCeiling :: "int \<Rightarrow> EventWatcher \<Rightarrow> bool" where
  "belowCeiling c x \<longleftrightarrow> ew_backfillCeiling x = Some c \<and> backfillOk x"

lemma backfillOk_cong:
  "ew_backfillLedger y = ew_backfillLedger x \<Longrightarrow> ew_backfillCeiling y = ew_backfillCeiling x \<Longrightarrow>
    backfillOk y = backfillOk x"
  by (simp add: backfillOk_def split: option.split)

lemma backfillOk_simps [simp]:
  "backfillOk (x\<lparr>ew_backfillLedger := None\<rparr>)"
  "backfillOk (ew_contractIds_update f x) = backfillOk x"
  "backfillOk (x\<lparr>ew_liveLedger := l\<rparr>) = backfillOk x"
  "backfillOk (x\<lparr>ew_lastPollOkAt := t\<rparr>) = backfillOk x"
  "backfillOk (x\<lparr>ew_lastPollError := e\<rparr>) = backfillOk x"
  by (simp add: backfillOk_def) (rule backfillOk_cong, simp_all)+

lemma watcherKept_refl: "w_watcher w' = w_watcher w \<Longrightarrow> watcherKept P w w'"
  by (simp add: watcherKept_def watcherOk_def)

lemma watcherKept_map:
  "(\<And>x. P x \<Longrightarrow> P (f x)) \<Longrightarrow> watcherKept P w (w_watcher_update (map_option f) w)"
  by (auto simp: watcherKept_def watcherOk_def split: option.splits)

lemma watcherKept_trans: "watcherKept P s t \<Longrightarrow> watcherKept P t u \<Longrightarrow> watcherKept P s u"
  by (simp add: watcherKept_def)

lemma guar_assign_kept: "(\<And>x. P x \<Longrightarrow> P (f x)) \<Longrightarrow> guar (watcherKept P) (assign f)"
  unfolding assign_def by (intro guar_modify watcherKept_map)

interpretation backfill_ok: event_client "watcherKept backfillOk"
proof unfold_locales
  show "watcherKept backfillOk w (w_watcher_update (map_option (ew_contractIds_update f)) w)" for w f
    by (rule watcherKept_map) simp
qed (simp_all add: watcherKept_refl, rule watcherKept_trans)

interpretation below: event_client "watcherKept (belowCeiling c)" for c
proof unfold_locales
  show "watcherKept (belowCeiling c) w (w_watcher_update (map_option (ew_contractIds_update f)) w)" for w f
    by (rule watcherKept_map) (simp add: belowCeiling_def)
qed (simp_all add: watcherKept_refl, rule watcherKept_trans)

lemma belowCeiling_completedAt:
  "belowCeiling c x \<Longrightarrow> belowCeiling c (x\<lparr>ew_backfillLedger := completedAt c l\<rparr>)"
  by (simp add: belowCeiling_def backfillOk_def completedAt_def)

lemma below_backfill:
  "guar (watcherKept (belowCeiling c)) (tryCatch (backfillRead env l c) (backfillError env c))"
  unfolding backfillRead_def backfillError_def
  by (intro below.world_rules below.event_rules guar_assign_kept belowCeiling_completedAt)

lemma pollBackfill_ok: "guar (watcherKept backfillOk) (pollBackfill env)"
proof (rule guarI)
  fix w
  show "watcherKept backfillOk w (snd (pollBackfill env w))"
  proof (cases "w_watcher w")
    case None
    then show ?thesis
      by (simp add: pollBackfill_def andThen_apply this_def newEventWatcher_def watcherKept_refl)
  next
    case (Some x)
    show ?thesis
    proof (cases "\<exists>l c. ew_backfillLedger x = Some l \<and> ew_backfillCeiling x = Some c \<and> l < c")
      case True
      then obtain l c where lc: "ew_backfillLedger x = Some l" "ew_backfillCeiling x = Some c" "l < c" by blast
      then have "pollBackfill env w = tryCatch (backfillRead env l c) (backfillError env c) w"
        using Some by (simp add: pollBackfill_def andThen_apply this_def)
      moreover have "watcherOk (belowCeiling c) w"
        using Some lc by (simp add: watcherOk_def belowCeiling_def backfillOk_def)
      moreover have "watcherKept (belowCeiling c) w (snd (tryCatch (backfillRead env l c) (backfillError env c) w))"
        using below_backfill by (simp add: guar_def)
      ultimately show ?thesis
        by (simp add: watcherKept_def watcherOk_def belowCeiling_def split: option.splits)
    next
      case False
      have "backfillOk (x\<lparr>ew_backfillLedger := None\<rparr>)" by (simp add: backfillOk_def)
      with False Some show ?thesis
        by (auto simp: pollBackfill_def andThen_apply this_def assign_def watcherKept_def watcherOk_def
            split: option.splits)
    qed
  qed
qed

lemma poll_backfillOk: "guar (watcherKept backfillOk) (poll env)"
proof -
  have "guar (watcherKept backfillOk) (resolveCursors env)"
    unfolding resolveCursors_def
    by (intro backfill_ok.world_rules backfill_ok.event_rules guar_assign_kept) (simp add: backfillOk_def)
  moreover have "guar (watcherKept backfillOk) (liveRead env)"
    unfolding liveRead_def
    by (intro backfill_ok.world_rules backfill_ok.event_rules guar_assign_kept) simp
  moreover have "guar (watcherKept backfillOk) (pollError env e)" for e
    unfolding pollError_def
    by (intro backfill_ok.world_rules guar_assign_kept) simp_all
  ultimately show ?thesis
    unfolding poll_def by (intro backfill_ok.world_rules pollBackfill_ok)
qed

text \<open>Backfilling never touches the live cursor or the health signal.\<close>

definition liveOf :: "EventWatcher \<Rightarrow> EventWatcher" where
  "liveOf x = x\<lparr>ew_contractIds := [], ew_backfillLedger := None\<rparr>"

lemma liveOf_simps [simp]:
  "liveOf (ew_contractIds_update f x) = liveOf x" "liveOf (x\<lparr>ew_backfillLedger := l\<rparr>) = liveOf x"
  by (simp_all add: liveOf_def)

definition liveKept :: "world \<Rightarrow> world \<Rightarrow> bool" where
  "liveKept w w' \<longleftrightarrow> map_option liveOf (w_watcher w') = map_option liveOf (w_watcher w)"

interpretation live: event_client liveKept
proof unfold_locales
  show "liveKept w (w_watcher_update (map_option (ew_contractIds_update f)) w)" for w f
    by (simp add: liveKept_def option.map_comp comp_def)
qed (simp_all add: liveKept_def)

lemma pollBackfill_live: "guar liveKept (pollBackfill env)"
proof -
  have a: "guar liveKept (assign (\<lambda>x. x\<lparr>ew_backfillLedger := l\<rparr>))" for l
    unfolding assign_def
    by (intro guar_modify) (simp add: liveKept_def option.map_comp comp_def)
  have "guar liveKept (backfillRead env l c)" "guar liveKept (backfillError env c e)" for l c e
    unfolding backfillRead_def backfillError_def by (intro live.world_rules live.event_rules a)+
  then show ?thesis
    unfolding pollBackfill_def by (intro live.world_rules a)
qed

lemma pollBackfill_Inr: "\<exists>u. pollBackfill env w = (Inr (), u)"
proof -
  have "\<exists>u. backfillError env c e v = (Inr (), u)" for c e v
    by (cases "resolveBootStartLedger env v")
      (auto simp: backfillError_def tryCatch_apply andThen_apply assign_def split: sum.split)
  then have "\<exists>u. tryCatch (backfillRead env l c) (backfillError env c) w = (Inr (), u)" for l c
    by (cases "backfillRead env l c w") (auto simp: tryCatch_apply split: sum.split)
  then show ?thesis
    by (auto simp: pollBackfill_def andThen_apply assign_def split: option.split)
qed

section \<open>Properties\<close>

lemma resolveCursors_set: "w_watcher w = Some x \<Longrightarrow> ew_liveLedger x = Some l \<Longrightarrow> resolveCursors env w = (Inr (), w)"
  by (simp add: resolveCursors_def andThen_apply this_def)

lemma poll_Inr: "\<exists>u. poll env w = (Inr (), u)"
proof -
  have "\<exists>b v. tryCatch (andThen (resolveCursors env) (\<lambda>_. andThen (liveRead env) (\<lambda>_. ret True)))
      (\<lambda>error. andThen (pollError env error) (\<lambda>_. ret False)) w = (Inr b, v)"
    by (cases "andThen (resolveCursors env) (\<lambda>_. andThen (liveRead env) (\<lambda>_. ret True)) w")
      (auto simp: tryCatch_apply andThen_apply pollError_def assign_def split: sum.split)
  then obtain b v where bv: "tryCatch (andThen (resolveCursors env) (\<lambda>_. andThen (liveRead env) (\<lambda>_. ret True)))
      (\<lambda>error. andThen (pollError env error) (\<lambda>_. ret False)) w = (Inr b, v)" by blast
  obtain u where "pollBackfill env v = (Inr (), u)" using pollBackfill_Inr by blast
  with bv show ?thesis by (cases b) (simp_all add: poll_def andThen_apply)
qed

text \<open>The calls of one read cover exactly the watched contracts, within the limits of the RPC on contracts
  per filter and filters per call, and no filter is empty.\<close>

theorem batches_respect_limits:
  "concat (concat (buildEventFilterBatches ids)) = ids \<and>
   list_all (\<lambda>call. call \<noteq> [] \<and> length call \<le> MAX_FILTERS_PER_CALL \<and>
     list_all (\<lambda>f. f \<noteq> [] \<and> length f \<le> MAX_CONTRACT_IDS_PER_FILTER) call) (buildEventFilterBatches ids)"
proof -
  have inner: "concat (chunk ids 5) = ids" "list_all (\<lambda>c. c \<noteq> [] \<and> length c \<le> 5) (chunk ids 5)"
    using chunk_spec [of 5 ids] by simp_all
  have outer: "concat (chunk (chunk ids 5) 5) = chunk ids 5"
    "list_all (\<lambda>c. c \<noteq> [] \<and> length c \<le> 5) (chunk (chunk ids 5) 5)"
    using chunk_spec [of 5 "chunk ids 5"] by simp_all
  have "f \<in> set call \<Longrightarrow> call \<in> set (chunk (chunk ids 5) 5) \<Longrightarrow> f \<in> set (chunk ids 5)" for f call
    using arg_cong [OF outer(1), of set] by auto
  with inner outer show ?thesis
    by (simp add: buildEventFilterBatches_def MAX_CONTRACT_IDS_PER_FILTER_def MAX_FILTERS_PER_CALL_def
        list_all_iff)
qed

text \<open>C35: A read that succeeds returns exactly the known events of all its answers, ordered by ledger, and the
  smallest of the latest ledgers the answers report: the cursor never passes a ledger that one of the calls
  has not seen.\<close>

theorem fetch_is_complete:
  assumes "fetchChannelAuthEvents env ids start w = (Inr (es, latest), w')" and "ids \<noteq> []"
  shows "\<exists>rs. answersTo env (w_tick w) start (buildEventFilterBatches ids) = map Inr rs \<and>
    mset es = mset (parsedOf rs) \<and> sorted (map ev_ledger es) \<and>
    latest \<in> set (map er_latestLedger rs) \<and> list_all (\<lambda>r. latest \<le> er_latestLedger r) rs"
proof -
  from fetch_Inr [OF assms] obtain rs where rs: "answersTo env (w_tick w) start (buildEventFilterBatches ids) = map Inr rs"
    "es = sort_key ev_ledger (parsedOf rs)" "rs \<noteq> []" "latest = Min (set (map er_latestLedger rs))" by blast
  from rs(3) have "latest \<in> set (map er_latestLedger rs)" unfolding rs(4) by (intro Min_in) auto
  moreover have "list_all (\<lambda>r. latest \<le> er_latestLedger r) rs" unfolding rs(4) by (auto simp: list_all_iff)
  ultimately show ?thesis using rs(1,2) by (intro exI [of _ rs]) simp
qed

text \<open>C34: When the live read succeeds, the poll ends with the live cursor one past the ledger read and with a
  fresh health signal, whatever the historical backfill met.\<close>

theorem live_follows_tip:
  assumes "w_watcher w = Some x" and "ew_liveLedger x = Some l"
    and "fetchChannelAuthEvents env (ew_contractIds x) l w = (Inr (es, latest), v)"
  shows "\<exists>u y t. poll env w = (Inr (), u) \<and> w_watcher u = Some y \<and> ew_liveLedger y = Some (latest + 1) \<and>
    ew_lastPollOkAt y = Some (clock env t) \<and> ew_lastPollError y = ew_lastPollError x"
proof -
  have "\<exists>v'. forM es (dispatch env) v = (Inr (), v')" by (intro forM_Inr dispatch_Inr)
  then obtain v' where v': "forM es (dispatch env) v = (Inr (), v')" by blast
  have "cursorsKept w v"
    using cursors.guar_fetchChannelAuthEvents assms(3) by (rule guarD)
  moreover have "guar cursorsKept (forM es (dispatch env))"
    by (intro cursors.world_rules cursors.guar_dispatch)
  then have "cursorsKept v v'" using v' by (rule guarD)
  ultimately have "cursorsKept w v'" by (simp add: cursorsKept_def)
  then obtain ids where ids: "w_watcher v' = Some (x\<lparr>ew_contractIds := ids\<rparr>)" using assms(1) by (rule cursorsKeptD)
  define y where "y = x\<lparr>ew_contractIds := ids, ew_liveLedger := Some (latest + 1),
      ew_lastPollOkAt := Some (clock env (w_tick v'))\<rparr>"
  define r where "r = v'\<lparr>w_watcher := Some y\<rparr>"
  have live: "liveRead env w = (Inr (), r)"
    using assms v' ids by (simp add: liveRead_def andThen_apply this_def assign_def r_def y_def)
  obtain u where u: "pollBackfill env r = (Inr (), u)" using pollBackfill_Inr by blast
  have "liveKept r u" using pollBackfill_live u by (rule guarD)
  then obtain z where z: "w_watcher u = Some z" "liveOf z = liveOf y"
    by (auto simp: liveKept_def r_def)
  have "ew_liveLedger z = ew_liveLedger y" "ew_lastPollOkAt z = ew_lastPollOkAt y" "ew_lastPollError z = ew_lastPollError y"
    using arg_cong [OF z(2), of ew_liveLedger] arg_cong [OF z(2), of ew_lastPollOkAt]
      arg_cong [OF z(2), of ew_lastPollError] by (simp_all add: liveOf_def)
  moreover have "poll env w = (Inr (), u)"
    using assms(1,2) live u by (simp add: poll_def tryCatch_apply andThen_apply resolveCursors_set)
  ultimately show ?thesis using z(1) by (auto simp: y_def)
qed

text \<open>A poll never fails, whatever the RPC, the council and the database answer, and it keeps the backfill
  cursor strictly below its ceiling.\<close>

theorem poll_is_safe:
  assumes "watcherOk backfillOk w"
  shows "\<exists>u. poll env w = (Inr (), u) \<and> watcherOk backfillOk u"
proof -
  obtain u where u: "poll env w = (Inr (), u)" using poll_Inr by blast
  with poll_backfillOk have "watcherKept backfillOk w u" by (rule guarD)
  with u assms show ?thesis by (simp add: watcherKept_def)
qed

text \<open>Each successful read moves the backfill: the cursor goes strictly forward to the ledger after the one
  read, and the backfill is complete as soon as that reaches the ceiling.\<close>

theorem backfill_progresses:
  assumes "w_watcher w = Some x" and "ew_backfillLedger x = Some l" and "ew_backfillCeiling x = Some c"
    and "l < c" and "fetchChannelAuthEvents env (ew_contractIds x) l w = (Inr (es, latest), v)"
    and "l \<le> latest"
  shows "\<exists>u y. pollBackfill env w = (Inr (), u) \<and> w_watcher u = Some y \<and>
    (if c \<le> latest + 1 then ew_backfillLedger y = None
     else ew_backfillLedger y = Some (latest + 1) \<and> l < latest + 1)"
proof -
  let ?f = "\<lambda>event. if ev_ledger event < c then dispatch env event else ret ()"
  have "\<exists>v'. forM es ?f v = (Inr (), v')" by (intro forM_Inr) (simp add: dispatch_Inr)
  then obtain v' where v': "forM es ?f v = (Inr (), v')" by blast
  have "cursorsKept w v"
    using cursors.guar_fetchChannelAuthEvents assms(5) by (rule guarD)
  moreover have "guar cursorsKept (forM es ?f)"
    by (intro cursors.world_rules cursors.guar_dispatch)
  then have "cursorsKept v v'" using v' by (rule guarD)
  ultimately have "cursorsKept w v'" by (simp add: cursorsKept_def)
  then obtain ids where ids: "w_watcher v' = Some (x\<lparr>ew_contractIds := ids\<rparr>)" using assms(1) by (rule cursorsKeptD)
  have "pollBackfill env w = (Inr (), v'\<lparr>w_watcher := Some (x\<lparr>ew_contractIds := ids,
      ew_backfillLedger := completedAt c (latest + 1)\<rparr>)\<rparr>)"
    using assms v' ids
    by (simp add: pollBackfill_def backfillRead_def tryCatch_apply andThen_apply this_def assign_def)
  then show ?thesis using assms(6) by (simp add: completedAt_def)
qed

section \<open>Concrete polls\<close>

definition event0 :: "string \<Rightarrow> int \<Rightarrow> RawEvent" where
  "event0 topic l = \<lparr>re_topic = Some [ScSymbol topic, ScAddress ''P1''], re_value = ScBool True, re_ledger = l,
     re_contractId = Some ''auth''\<rparr>"

definition stateEvent0 :: "bool \<Rightarrow> int \<Rightarrow> RawEvent" where
  "stateEvent0 enabled l = \<lparr>re_topic = Some [ScSymbol ''channel_state_changed'', ScAddress ''C1'', ScAddress ''asset''],
     re_value = ScBool enabled, re_ledger = l, re_contractId = Some ''auth''\<rparr>"

text \<open>An RPC that answers with the events of a fixed history from the start ledger on.\<close>

definition history :: "RawEvent list \<Rightarrow> env" where
  "history raws = env0\<lparr>rpcGetEvents := (\<lambda>_ start _.
     Inr \<lparr>er_latestLedger = 20, er_events = filter (\<lambda>e. start \<le> re_ledger e) raws\<rparr>)\<rparr>"

definition watched0 :: world where
  "watched0 = world0\<lparr>w_watcher := Some (newEventWatcher [''auth'']\<lparr>ew_isRunning := True, ew_liveLedger := Some 15,
     ew_backfillLedger := Some 5, ew_backfillCeiling := Some 15\<rparr>), w_registeredProviders := [''P1'']\<rparr>"

lemma watched0_watcher: "w_watcher watched0 = Some (newEventWatcher [''auth'']\<lparr>ew_isRunning := True, ew_liveLedger := Some 15,
     ew_backfillLedger := Some 5, ew_backfillCeiling := Some 15\<rparr>)"
  by (simp add: watched0_def)

lemma fetch_is_complete_witness:
  "\<exists>rs. answersTo (history [event0 ''provider_added'' 17]) 0 15 (buildEventFilterBatches [''auth'']) = map Inr rs \<and>
    mset [\<lparr>ev_type = provider_added, ev_address = ''P1'', ev_ledger = 17, ev_contractId = ''auth'',
      ev_channel = None, ev_asset = None, ev_enabled = None\<rparr>] = mset (parsedOf rs) \<and>
    20 \<in> set (map er_latestLedger rs)"
proof -
  have "fetchChannelAuthEvents (history [event0 ''provider_added'' 17]) [''auth''] 15 watched0 =
    (Inr ([\<lparr>ev_type = provider_added, ev_address = ''P1'', ev_ledger = 17, ev_contractId = ''auth'',
      ev_channel = None, ev_asset = None, ev_enabled = None\<rparr>], 20), advance watched0)"
    by code_simp
  from fetch_is_complete [OF this] show ?thesis
    by (auto simp: watched0_def)
qed

lemma live_follows_tip_witness:
  "\<exists>u y. poll (history [event0 ''provider_added'' 17]) watched0 = (Inr (), u) \<and> w_watcher u = Some y \<and>
     ew_liveLedger y = Some 21"
proof -
  have "ew_liveLedger (newEventWatcher [''auth'']\<lparr>ew_isRunning := True, ew_liveLedger := Some 15,
     ew_backfillLedger := Some 5, ew_backfillCeiling := Some 15\<rparr>) = Some 15" by simp
  moreover have "fetchChannelAuthEvents (history [event0 ''provider_added'' 17]) (ew_contractIds (newEventWatcher [''auth'']\<lparr>ew_isRunning := True, ew_liveLedger := Some 15,
     ew_backfillLedger := Some 5, ew_backfillCeiling := Some 15\<rparr>)) 15 watched0 =
    (Inr ([\<lparr>ev_type = provider_added, ev_address = ''P1'', ev_ledger = 17, ev_contractId = ''auth'',
      ev_channel = None, ev_asset = None, ev_enabled = None\<rparr>], 20), advance watched0)"
    by code_simp
  ultimately show ?thesis using live_follows_tip [OF watched0_watcher] by fastforce
qed

lemma poll_is_safe_witness:
  "\<exists>u. poll (history [event0 ''provider_added'' 17]) watched0 = (Inr (), u) \<and> watcherOk backfillOk u"
  by (rule poll_is_safe) code_simp

lemma backfill_progresses_witness:
  "\<exists>u y. pollBackfill (history [event0 ''provider_added'' 7]) watched0 = (Inr (), u) \<and> w_watcher u = Some y \<and>
     ew_backfillLedger y = None"
proof -
  have "fetchChannelAuthEvents (history [event0 ''provider_added'' 7]) (ew_contractIds (newEventWatcher [''auth'']\<lparr>ew_isRunning := True, ew_liveLedger := Some 15,
     ew_backfillLedger := Some 5, ew_backfillCeiling := Some 15\<rparr>)) 5 watched0 =
    (Inr ([\<lparr>ev_type = provider_added, ev_address = ''P1'', ev_ledger = 7, ev_contractId = ''auth'',
      ev_channel = None, ev_asset = None, ev_enabled = None\<rparr>], 20), advance watched0)"
    by code_simp
  from backfill_progresses [OF watched0_watcher _ _ _ this] show ?thesis by auto
qed

text \<open>The live read sees a channel re-enabled at ledger 17; the backfill of the same poll then replays the
  older disable of ledger 7 and leaves the channel closed to deposits.\<close>

theorem backfill_overrides_live:
  "\<not> channelDisabled (snd (liveRead (history [stateEvent0 False 7, stateEvent0 True 17]) watched0)) ''C1'' \<and>
   channelDisabled (snd (poll (history [stateEvent0 False 7, stateEvent0 True 17]) watched0)) ''C1''"
  by (intro conjI) code_simp+

text \<open>A membership that becomes active while the council cannot be reached loses its configuration, and no
  later event repairs it: the provider has no channel any more.\<close>

definition pendingMember0 :: world where
  "pendingMember0 = watched0\<lparr>w_memberships := map (\<lambda>m. m\<lparr>cm_status := M_PENDING\<rparr>) (w_memberships watched0)\<rparr>"

definition unreachableCouncil :: env where
  "unreachableCouncil = (history [event0 ''provider_added'' 17])\<lparr>fetchCouncil := (\<lambda>_ _ _. Inl TypeError)\<rparr>"

theorem activation_wipes_config:
  "map (\<lambda>m. (cm_status m, cm_configJson m)) (w_memberships pendingMember0) = [(M_PENDING, Some ''cfg'')] \<and>
   map (\<lambda>m. (cm_status m, cm_configJson m)) (w_memberships (snd (poll unreachableCouncil pendingMember0))) =
     [(M_ACTIVE, None)] \<and>
   map (\<lambda>m. (cm_status m, cm_configJson m))
     (w_memberships (snd (activateMembership env0 ''P1'' ''auth'' (snd (poll unreachableCouncil pendingMember0))))) =
     [(M_ACTIVE, None)]"
  by (intro conjI) code_simp+

section \<open>Convergence of memberships\<close>

text \<open>A council that never answers 404.\<close>

definition never404 :: "env \<Rightarrow> bool" where
  "never404 env \<longleftrightarrow> (\<forall>n u a p b. fetchMembership env n u a p \<noteq> Inr (404, b))"

lemma never404_status:
  assumes "never404 env"
  shows "\<exists>s. fetchMembershipStatus env u a p w = (Inr s, advance w) \<and> s \<noteq> MV_NOT_FOUND"
proof (cases "fetchMembership env (w_tick w) (stripSlashes u) a p")
  case (Inr r)
  then have "fst r \<noteq> 404" using assms by (cases r) (auto simp: never404_def)
  with Inr show ?thesis
    by (simp add: fetchMembershipStatus_def tryCatch_apply andThen_apply external_apply)
qed (simp add: fetchMembershipStatus_def tryCatch_apply andThen_apply external_apply)

definition onlyTicks :: "world \<Rightarrow> world \<Rightarrow> bool" where
  "onlyTicks w w' \<longleftrightarrow> (\<exists>t. w' = w\<lparr>w_tick := t\<rparr>)"

interpretation ticks: world_guarantee onlyTicks
proof unfold_locales
  show "onlyTicks s s" for s by (auto simp: onlyTicks_def intro: exI [of _ "w_tick s"])
qed (auto simp: onlyTicks_def advance_def)

lemma guar_attempt_ticks: "guar onlyTicks m \<Longrightarrow> guar onlyTicks (attempt m)"
  by (auto simp: guar_def attempt_def split: prod.split) (metis snd_conv)

lemma convergeMemberships_ticks: "never404 env \<Longrightarrow> guar onlyTicks (convergeMemberships env pps ds)"
proof (induction pps arbitrary: ds)
  case Nil
  show ?case unfolding convergeMemberships.simps by (rule ticks.guar_ret)
next
  case (Cons pp pps)
  have status: "guar onlyTicks (fetchMembershipStatus env u a p)" for u a p
    unfolding fetchMembershipStatus_def by (intro ticks.world_rules)
  have inner: "guar onlyTicks (andThen (fetchMembershipStatus env u a p)
      (\<lambda>status. if status = MV_NOT_FOUND then X else Y))" if "guar onlyTicks Y" for u a p X and Y :: "string list action"
  proof (rule ticks.guar_andThen_result [OF status])
    fix w s v
    assume "fetchMembershipStatus env u a p w = (Inr s, v)"
    with never404_status [OF Cons.prems, of u a p w] have "s \<noteq> MV_NOT_FOUND" by auto
    with that show "guar onlyTicks (if s = MV_NOT_FOUND then X else Y)" by simp
  qed
  show ?case unfolding convergeMemberships.simps
    by (intro inner ticks.guar_ret ticks.guar_andThen [OF guar_attempt_ticks [OF ticks.guar_reads(19)]]
        ticks.guar_sum ticks.guar_option Cons)
qed

text \<open>Only a definite 404 of the council demotes a membership: network errors, time-outs and any other status
  leave the whole stored state as it was.\<close>

theorem only_404_demotes:
  assumes "never404 env"
  shows "\<exists>t. snd (convergeMembershipStatusesOnBoot env w) = w\<lparr>w_tick := t\<rparr>"
proof -
  have "guar onlyTicks (convergeMembershipStatusesOnBoot env)"
    unfolding convergeMembershipStatusesOnBoot_def
    by (intro ticks.world_rules ticks.guar_reads guar_attempt_ticks convergeMemberships_ticks assms)
  then show ?thesis by (auto simp: guar_def onlyTicks_def)
qed

definition failingCouncil :: env where
  "failingCouncil = env0\<lparr>fetchMembership := (\<lambda>n _ _ _. if n = 0 then Inl TypeError else Inr (503, None))\<rparr>"

lemma only_404_demotes_witness:
  "\<exists>t. snd (convergeMembershipStatusesOnBoot failingCouncil watched0) = watched0\<lparr>w_tick := t\<rparr>"
  by (rule only_404_demotes) (simp add: never404_def failingCouncil_def)

text \<open>After a restart only the active memberships are watched again: a join that is still pending waits for an
  event that nobody reads any more.\<close>

theorem restart_forgets_pending_join:
  "map_option ew_contractIds (w_watcher pendingMember0) = Some [''auth''] \<and>
   map_option ew_contractIds (w_watcher (snd (startEventWatcher env0 pendingMember0))) = Some [] \<and>
   map cm_status (w_memberships (snd (startEventWatcher env0 pendingMember0))) = [M_PENDING]"
  by (intro conjI) code_simp+

end
