(* ===== verification/Http.thy ===== *)
theory Http
  imports Watcher
begin

text \<open>
  What the HTTP handlers share: responses and the middleware \<^verbatim>\<open>http/middleware/require-pp-ownership.ts\<close>.
\<close>

section \<open>Members\<close>

text \<open>\<^verbatim>\<open>v.k\<close> with its exception.\<close>

definition getMember :: "json \<Rightarrow> string \<Rightarrow> exn + json" where
  "getMember v k = (if nullish v then Inl TypeError else Inr (member v k))"

section \<open>Responses\<close>

record 'd Response =
  r_status :: nat
  r_message :: string
  r_data :: "'d option"

definition respond :: "nat \<Rightarrow> string \<Rightarrow> 'd Response action" where
  "respond st msg = ret \<lparr>r_status = st, r_message = msg, r_data = None\<rparr>"

definition respondWith :: "nat \<Rightarrow> string \<Rightarrow> 'd \<Rightarrow> 'd Response action" where
  "respondWith st msg d = ret \<lparr>r_status = st, r_message = msg, r_data = Some d\<rparr>"

section \<open>Ownership\<close>

definition findByPublicKeyAndOwner :: "env \<Rightarrow> string \<Rightarrow> string \<Rightarrow> PaymentProvider option action" where
  "findByPublicKeyAndOwner env publicKey ownerPublicKey = dbQuery env (\<lambda>w.
    find (\<lambda>r. pp_publicKey r = publicKey \<and> pp_ownerPublicKey r = Some ownerPublicKey) (w_pps w))"

text \<open>The route parameter and the subject of the session are optional; \<open>next\<close> is the handler behind the
  middleware.\<close>

definition requirePpOwnership ::
    "env \<Rightarrow> string option \<Rightarrow> string option \<Rightarrow> (PaymentProvider \<Rightarrow> 'd Response action) \<Rightarrow> 'd Response action" where
  "requirePpOwnership env ppParam sub next =
    (let ppPublicKey = orEmpty ppParam; subject = orEmpty sub in
     if ppPublicKey = [] then respond 400 ''ppPublicKey is required in URL path''
     else if subject = [] then respond 401 ''Authentication required''
     else andThen (findByPublicKeyAndOwner env ppPublicKey subject) (\<lambda>pp.
       case pp of None \<Rightarrow> respond 404 ''Provider not found'' | Some r \<Rightarrow> next r))"

definition requirePpExists ::
    "env \<Rightarrow> string option \<Rightarrow> (PaymentProvider \<Rightarrow> 'd Response action) \<Rightarrow> 'd Response action" where
  "requirePpExists env ppParam next =
    (let ppPublicKey = orEmpty ppParam in
     if ppPublicKey = [] then respond 400 ''ppPublicKey is required in URL path''
     else andThen (findByPublicKey env ppPublicKey) (\<lambda>pp.
       case pp of None \<Rightarrow> respond 404 ''Provider not found'' | Some r \<Rightarrow> next r))"

lemma respond_apply [run_simps, simp]:
  "respond st msg w = (Inr \<lparr>r_status = st, r_message = msg, r_data = None\<rparr>, w)"
  "respondWith st msg d w = (Inr \<lparr>r_status = st, r_message = msg, r_data = Some d\<rparr>, w)"
  by (simp_all add: respond_def respondWith_def)

context world_guarantee
begin

lemma guar_respond: "guar R (respond st msg)" "guar R (respondWith st msg d)"
  by (simp_all add: respond_def respondWith_def guar_ret)

lemma guar_requirePpOwnership: "(\<And>pp. guar R (next pp)) \<Longrightarrow> guar R (requirePpOwnership env p sub next)"
  unfolding requirePpOwnership_def findByPublicKeyAndOwner_def Let_def
  by (intro world_rules guar_respond)

end

end
