(* ===== verification/Auth.thy ===== *)
theory Auth
  imports Http
begin

text \<open>
  Authentication, \<^verbatim>\<open>core/service/auth\<close>: the one-time challenges of operators (\<^verbatim>\<open>dashboard-auth.ts\<close>) and of entity
  submissions (\<^verbatim>\<open>entity-auth.ts\<close>), the signature formats, the session manager, and the wallet handshake
  with its pipeline \<^verbatim>\<open>http/v1/stellar/auth\<close>.

  \<open>AuthApi\<close> holds the constants of \<^verbatim>\<open>config/env.ts\<close> and what comes from outside: randomness, hashing and
  signature checks, the transaction codec, tokens, and the calendar day of a date.  \<open>nonceOf\<close> is the text of
  \<^verbatim>\<open>btoa\<close> over 32 random bytes, \<open>fromBase64\<close> the lenient decoding of \<^verbatim>\<open>Buffer\<close>.
\<close>

section \<open>Data\<close>

record ManageData =
  md_type :: string
  md_name :: string
  md_source :: "string option"
  md_value :: "string option"

record ChallengeTx =
  ct_sequence :: string
  ct_timeBounds :: "(int option \<times> int option) option"
  ct_operations :: "ManageData list"
  ct_signatures :: "string list"
  ct_hash :: string

record AuthApi =
  challengeTtlMs :: int
  entityChallengeTtlMs :: int
  CHALLENGE_TTL :: int
  SESSION_TTL :: int
  SERVICE_DOMAIN :: string
  nonceOf :: "nat \<Rightarrow> string"
  uuidOf :: "nat \<Rightarrow> string"
  fromBase64 :: "string \<Rightarrow> string"
  sha256 :: "string \<Rightarrow> string"
  validKey :: "string \<Rightarrow> bool"
  verifySignature :: "string \<Rightarrow> string \<Rightarrow> string \<Rightarrow> exn + bool"
  serverVerifies :: "string \<Rightarrow> string \<Rightarrow> exn + bool"
  isEd25519PublicKey :: "string \<Rightarrow> bool"
  buildChallenge :: "string \<Rightarrow> string \<Rightarrow> int \<Rightarrow> int \<Rightarrow> exn + (string \<times> string)"
  newTransaction :: "string \<Rightarrow> exn + ChallengeTx"
  fromXDR :: "string \<Rightarrow> exn + ChallengeTx option"
  toDateString :: "int \<Rightarrow> string"
  createJwt :: "nat \<Rightarrow> string \<Rightarrow> string \<Rightarrow> exn + string"
  jwtSubject :: "string \<Rightarrow> string option"
  fetchSigners :: "nat \<Rightarrow> string \<Rightarrow> string \<Rightarrow> exn + (int \<times> (string \<times> int) list)"

section \<open>Signatures\<close>

text \<open>\<^verbatim>\<open>Buffer.from(s, "hex")\<close>: pairs of digits up to the first that is not one.\<close>

fun fromHex :: "string \<Rightarrow> string" where
  "fromHex (a # b # s) =
    (case (hexValue a, hexValue b) of
       (Some x, Some y) \<Rightarrow> char_of (16 * x + y) # fromHex s
     | _ \<Rightarrow> [])"
| "fromHex s = []"

definition isHexText :: "string \<Rightarrow> bool" where
  "isHexText s \<longleftrightarrow> s \<noteq> [] \<and> list_all (\<lambda>c. hexValue c \<noteq> None) s"

definition sigBufferOf :: "AuthApi \<Rightarrow> string \<Rightarrow> string" where
  "sigBufferOf api signature = (if isHexText signature then fromHex signature else fromBase64 api signature)"

text \<open>\<^verbatim>\<open>writeUInt32BE\<close>\<close>

definition bigEndian32 :: "nat \<Rightarrow> string" where
  "bigEndian32 n = [char_of (n div 16777216 mod 256), char_of (n div 65536 mod 256), char_of (n div 256 mod 256),
     char_of (n mod 256)]"

definition sep43Payload :: "string \<Rightarrow> string" where
  "sep43Payload nonce = [char_of (0 :: nat), char_of (0 :: nat)] @ bigEndian32 (length nonce) @ nonce"

definition sep53Payload :: "string \<Rightarrow> string" where
  "sep53Payload nonce = ''Stellar Signed Message:'' @ [char_of (10 :: nat)] @ nonce"

definition signedPayloads :: "AuthApi \<Rightarrow> string \<Rightarrow> string list" where
  "signedPayloads api nonce = [sha256 api (sep43Payload nonce), sha256 api (sep53Payload nonce), fromBase64 api nonce]"

fun verifyAny :: "AuthApi \<Rightarrow> string \<Rightarrow> string \<Rightarrow> string list \<Rightarrow> bool" where
  "verifyAny api publicKey sig [] = False"
| "verifyAny api publicKey sig (payload # payloads) =
    (case verifySignature api publicKey payload sig of
       Inl _ \<Rightarrow> False
     | Inr ok \<Rightarrow> ok \<or> verifyAny api publicKey sig payloads)"

definition verifyStellarSignature :: "AuthApi \<Rightarrow> string \<Rightarrow> string \<Rightarrow> string \<Rightarrow> bool" where
  "verifyStellarSignature api publicKey nonce signature \<longleftrightarrow>
    validKey api publicKey \<and> verifyAny api publicKey (sigBufferOf api signature) (signedPayloads api nonce)"

section \<open>Challenges of operators\<close>

definition MAX_PENDING_CHALLENGES :: nat where
  "MAX_PENDING_CHALLENGES = 1000"

definition cleanupChallenges ::
    "int \<Rightarrow> int \<Rightarrow> (string \<times> PendingChallenge) list \<Rightarrow> (string \<times> PendingChallenge) list" where
  "cleanupChallenges now ttl cs = filter (\<lambda>(_, c). \<not> now - pch_createdAt c > ttl) cs"

definition mapDelete :: "('k \<times> 'v) list \<Rightarrow> 'k \<Rightarrow> ('k \<times> 'v) list" where
  "mapDelete kvs k = filter (\<lambda>(k', _). k' \<noteq> k) kvs"

definition createDashboardChallenge :: "env \<Rightarrow> AuthApi \<Rightarrow> string \<Rightarrow> string action" where
  "createDashboardChallenge env api publicKey =
    andThen (dateNow env) (\<lambda>now.
    andThen (modify (w_dashboardChallenges_update (cleanupChallenges now (challengeTtlMs api)))) (\<lambda>_.
    andThen (gets w_dashboardChallenges) (\<lambda>pendingChallenges.
    if length pendingChallenges \<ge> MAX_PENDING_CHALLENGES
    then throw (JsError ''Too many pending challenges. Try again later.'')
    else andThen (external (\<lambda>n. Inr (nonceOf api n))) (\<lambda>nonce.
      andThen (dateNow env) (\<lambda>createdAt.
      andThen (modify (w_dashboardChallenges_update (\<lambda>cs. mapSet cs nonce
        \<lparr>pch_nonce = nonce, pch_publicKey = publicKey, pch_createdAt = createdAt\<rparr>))) (\<lambda>_.
      ret nonce))))))"

record DashboardAuthConfig =
  providerPublicKey :: string
  horizonUrl :: "string option"

definition isAuthorizedSigner :: "AuthApi \<Rightarrow> string \<Rightarrow> string \<Rightarrow> string option \<Rightarrow> bool action" where
  "isAuthorizedSigner api signerKey accountId horizon =
    (if signerKey = accountId then ret True
     else if orEmpty horizon = [] then ret False
     else tryCatch
       (andThen (external (\<lambda>n. fetchSigners api n (stripSlashes (orEmpty horizon)) accountId)) (\<lambda>res.
        ret (200 \<le> fst res \<and> fst res < 300 \<and> list_ex (\<lambda>(k, weight). k = signerKey \<and> weight > 0) (snd res))))
       (\<lambda>_. ret False))"

definition hexByte :: "char \<Rightarrow> string" where
  "hexByte c = (let n = (of_char c :: nat);
       d = (\<lambda>k. if k < 10 then char_of (48 + k) else char_of (87 + k)) in [d (n div 16), d (n mod 16)])"

definition hashedSessionId :: "AuthApi \<Rightarrow> string \<Rightarrow> string" where
  "hashedSessionId api nonce = concat (map hexByte (take 16 (sha256 api nonce)))"

definition verifyDashboardChallenge ::
    "env \<Rightarrow> AuthApi \<Rightarrow> string \<Rightarrow> string \<Rightarrow> string \<Rightarrow> DashboardAuthConfig \<Rightarrow> string action" where
  "verifyDashboardChallenge env api nonce signature publicKey config =
    andThen (gets (\<lambda>w. map_of (w_dashboardChallenges w) nonce)) (\<lambda>found.
    case found of
      None \<Rightarrow> throw (JsError ''Challenge not found or expired'')
    | Some challenge \<Rightarrow>
       andThen (dateNow env) (\<lambda>now.
       if now - pch_createdAt challenge > challengeTtlMs api
       then andThen (modify (w_dashboardChallenges_update (\<lambda>cs. mapDelete cs nonce))) (\<lambda>_.
         throw (JsError ''Challenge expired''))
       else if pch_publicKey challenge \<noteq> publicKey then throw (JsError ''Public key mismatch'')
       else andThen (modify (w_dashboardChallenges_update (\<lambda>cs. mapDelete cs nonce))) (\<lambda>_.
         if \<not> verifyStellarSignature api publicKey nonce signature then throw (JsError ''Invalid signature'')
         else andThen (isAuthorizedSigner api publicKey (providerPublicKey config) (horizonUrl config)) (\<lambda>isAuth.
           if \<not> isAuth then throw (JsError ''Signer is not authorized on the provider account'')
           else external (\<lambda>n. createJwt api n publicKey (hashedSessionId api nonce))))))"

section \<open>Challenges of entity submissions\<close>

definition MAX_PENDING_ENTITY_CHALLENGES :: nat where
  "MAX_PENDING_ENTITY_CHALLENGES = 1000"

definition createEntityChallenge :: "env \<Rightarrow> AuthApi \<Rightarrow> string \<Rightarrow> string action" where
  "createEntityChallenge env api publicKey =
    andThen (dateNow env) (\<lambda>now.
    andThen (modify (w_entityChallenges_update (cleanupChallenges now (entityChallengeTtlMs api)))) (\<lambda>_.
    andThen (gets w_entityChallenges) (\<lambda>pending.
    if length pending \<ge> MAX_PENDING_ENTITY_CHALLENGES
    then throw (JsError ''Too many pending challenges. Try again later.'')
    else andThen (external (\<lambda>n. Inr (nonceOf api n))) (\<lambda>nonce.
      andThen (dateNow env) (\<lambda>createdAt.
      andThen (modify (w_entityChallenges_update (\<lambda>cs. mapSet cs nonce
        \<lparr>pch_nonce = nonce, pch_publicKey = publicKey, pch_createdAt = createdAt\<rparr>))) (\<lambda>_.
      ret nonce))))))"

definition verifyEntityChallenge :: "env \<Rightarrow> AuthApi \<Rightarrow> string \<Rightarrow> string \<Rightarrow> string \<Rightarrow> bool action" where
  "verifyEntityChallenge env api publicKey nonce signature =
    andThen (gets (\<lambda>w. map_of (w_entityChallenges w) nonce)) (\<lambda>found.
    case found of
      None \<Rightarrow> ret False
    | Some challenge \<Rightarrow>
       andThen (dateNow env) (\<lambda>now.
       if now - pch_createdAt challenge > entityChallengeTtlMs api
       then andThen (modify (w_entityChallenges_update (\<lambda>cs. mapDelete cs nonce))) (\<lambda>_. ret False)
       else if pch_publicKey challenge \<noteq> publicKey then ret False
       else andThen (modify (w_entityChallenges_update (\<lambda>cs. mapDelete cs nonce))) (\<lambda>_.
         ret (verifyStellarSignature api publicKey nonce signature))))"

section \<open>The session manager\<close>

definition addSession :: "string \<Rightarrow> string \<Rightarrow> string \<Rightarrow> int \<Rightarrow> unit action" where
  "addSession txHash clientAccount requestId expiresAt = modify (w_sessionManager_update (\<lambda>ss. mapSet ss txHash
    \<lparr>ms_txHash = txHash, ms_clientAccount = Some clientAccount, ms_requestId = requestId, ms_expiresAt = expiresAt,
     ms_status = MS_PENDING\<rparr>))"

definition getSession :: "env \<Rightarrow> string \<Rightarrow> MemorySession option action" where
  "getSession env txHash =
    andThen (dateNow env) (\<lambda>now.
    andThen (gets (\<lambda>w. map_of (w_sessionManager w) txHash)) (\<lambda>session.
    case session of
      Some s \<Rightarrow> if now < ms_expiresAt s then ret (Some s)
                else andThen (modify (w_sessionManager_update (\<lambda>ss. mapDelete ss txHash))) (\<lambda>_. ret None)
    | None \<Rightarrow> andThen (modify (w_sessionManager_update (\<lambda>ss. mapDelete ss txHash))) (\<lambda>_. ret None)))"

definition updateSession :: "env \<Rightarrow> MemorySession \<Rightarrow> unit action" where
  "updateSession env session =
    andThen (getSession env (ms_txHash session)) (\<lambda>found.
    if found = None then throw (JsError (''Session with id '' @ ms_txHash session @ '' not found or expired''))
    else modify (w_sessionManager_update (\<lambda>ss. mapSet ss (ms_txHash session) session)))"

definition sessions_cleanupExpired :: "env \<Rightarrow> unit action" where
  "sessions_cleanupExpired env =
    andThen (dateNow env) (\<lambda>now.
    modify (w_sessionManager_update (filter (\<lambda>(_, s). \<not> ms_expiresAt s < now))))"

section \<open>Repositories\<close>

text \<open>The hash of a challenge transaction is unique.\<close>

definition challenges_create :: "env \<Rightarrow> Challenge \<Rightarrow> Challenge action" where
  "challenges_create env row = dbExec env (\<lambda>_ w.
    if list_ex (\<lambda>r. c_id r = c_id row \<or> c_txHash r = c_txHash row) (w_challenges w) then (Inl DbError, w)
    else (Inr row, w_challenges_update (\<lambda>rs. rs @ [row]) w))"

definition challenges_update :: "env \<Rightarrow> string \<Rightarrow> (Challenge \<Rightarrow> Challenge) \<Rightarrow> Challenge list action" where
  "challenges_update env = base_update env w_challenges w_challenges_update c_id"

definition findOneByTxHash :: "env \<Rightarrow> string \<Rightarrow> Challenge option action" where
  "findOneByTxHash env txHash = dbQuery env (\<lambda>w. find (\<lambda>r. c_txHash r = txHash) (w_challenges w))"

definition challenges_findByAccountId :: "env \<Rightarrow> string \<Rightarrow> Challenge list action" where
  "challenges_findByAccountId env accountId =
    dbQuery env (\<lambda>w. filter (\<lambda>r. c_accountId r = accountId \<and> deletedAt r = None) (w_challenges w))"

definition challenges_findExpired :: "env \<Rightarrow> Challenge list action" where
  "challenges_findExpired env =
    andThen (dateNow env) (\<lambda>now.
    dbQuery env (\<lambda>w. filter (\<lambda>r. c_ttl r < now \<and> deletedAt r = None) (w_challenges w)))"

definition sessions_create :: "env \<Rightarrow> Session \<Rightarrow> Session action" where
  "sessions_create env = base_create env w_sessions w_sessions_update s_id"

definition sessions_findByUserId :: "env \<Rightarrow> string \<Rightarrow> Session list action" where
  "sessions_findByUserId env userId =
    dbQuery env (\<lambda>w. filter (\<lambda>r. s_accountId r = userId \<and> deletedAt r = None) (w_sessions w))"

definition findByJwtToken :: "env \<Rightarrow> string \<Rightarrow> Session option action" where
  "findByJwtToken env jwtToken =
    dbQuery env (\<lambda>w. find (\<lambda>r. s_jwtToken r = Some jwtToken \<and> deletedAt r = None) (w_sessions w))"

definition sessions_findActive :: "env \<Rightarrow> Session list action" where
  "sessions_findActive env =
    dbQuery env (\<lambda>w. filter (\<lambda>r. s_status r = S_ACTIVE \<and> deletedAt r = None) (w_sessions w))"

definition accounts_create :: "env \<Rightarrow> Account \<Rightarrow> Account action" where
  "accounts_create env = base_create env w_accounts w_accounts_update a_id"

definition accounts_findByEntityId :: "env \<Rightarrow> string \<Rightarrow> Account list action" where
  "accounts_findByEntityId env entityId =
    dbQuery env (\<lambda>w. filter (\<lambda>r. a_entityId r = entityId \<and> deletedAt r = None) (w_accounts w))"

definition accounts_findByType :: "env \<Rightarrow> AccountType \<Rightarrow> Account list action" where
  "accounts_findByType env type =
    dbQuery env (\<lambda>w. filter (\<lambda>r. a_type r = type \<and> deletedAt r = None) (w_accounts w))"

definition entities_create :: "env \<Rightarrow> Entity \<Rightarrow> Entity action" where
  "entities_create env = base_create env w_entities w_entities_update e_id"

definition entities_update :: "env \<Rightarrow> string \<Rightarrow> (Entity \<Rightarrow> Entity) \<Rightarrow> Entity list action" where
  "entities_update env = base_update env w_entities w_entities_update e_id"

section \<open>Creating a wallet challenge\<close>

definition failWith :: "PlatformErrorShape \<Rightarrow> 'a action \<Rightarrow> 'a action" where
  "failWith e m = tryCatch m (\<lambda>_. throw (PlatformError e))"

record ChallengeData =
  chd_txHash :: string
  chd_clientAccount :: string
  chd_xdr :: string
  chd_nonce :: string
  chd_dateCreated :: int
  chd_requestId :: string
  chd_expiresAt :: int

definition getChallengeTransaction ::
    "env \<Rightarrow> AuthApi \<Rightarrow> string \<Rightarrow> (string \<times> string \<times> string \<times> int \<times> int) action" where
  "getChallengeTransaction env api clientAccount =
    andThen (external (\<lambda>n. Inr (nonceOf api n))) (\<lambda>nonce.
    andThen (dateNow env) (\<lambda>ms.
    let now = ms div 1000; maxTime = now + CHALLENGE_TTL api in
    andThen (liftSum (buildChallenge api clientAccount nonce now maxTime)) (\<lambda>built.
    ret (fst built, snd built, nonce, now, maxTime))))"

definition P_CreateChallenge :: "env \<Rightarrow> AuthApi \<Rightarrow> string option \<Rightarrow> string \<Rightarrow> ChallengeData action" where
  "P_CreateChallenge env api account requestId =
    (case account of
       None \<Rightarrow> throw (PlatformError Err_MISSING_CLIENT_ACCOUNT_create)
     | Some clientAccount \<Rightarrow> failWith Err_FAILED_TO_CREATE_CHALLENGE
        (andThen (getChallengeTransaction env api clientAccount) (\<lambda>res.
         case res of (xdr, txHash, nonce, minTime, maxTime) \<Rightarrow>
         ret \<lparr>chd_txHash = txHash, chd_clientAccount = clientAccount, chd_xdr = xdr, chd_nonce = nonce,
              chd_dateCreated = minTime * 1000, chd_requestId = requestId, chd_expiresAt = maxTime * 1000\<rparr>)))"

definition newUserAccount :: "env \<Rightarrow> AuthApi \<Rightarrow> string \<Rightarrow> Account action" where
  "newUserAccount env api clientAccount =
    andThen (dateNow env) (\<lambda>now.
    andThen (gets (\<lambda>w. uuidOf api (w_tick w))) (\<lambda>uuid.
    andThen (entities_create env \<lparr>createdAt = now, updatedAt = now, createdBy = None, updatedBy = None,
       deletedAt = None, e_id = uuid, e_name = None, e_jurisdictions = None\<rparr>) (\<lambda>entity.
    andThen (dateNow env) (\<lambda>now'.
    accounts_create env \<lparr>createdAt = now', updatedAt = now', createdBy = None, updatedBy = None,
       deletedAt = None, a_id = clientAccount, a_type = A_USER, a_entityId = e_id entity\<rparr>))))"

definition P_CreateChallengeDB :: "env \<Rightarrow> AuthApi \<Rightarrow> ChallengeData \<Rightarrow> ChallengeData action" where
  "P_CreateChallengeDB env api challengeData = failWith Err_FAILED_TO_STORE_CHALLENGE_IN_DATABASE
    (andThen (accounts_findById env (chd_clientAccount challengeData)) (\<lambda>found.
     andThen (case found of Some a \<Rightarrow> ret a | None \<Rightarrow> newUserAccount env api (chd_clientAccount challengeData)) (\<lambda>account.
     andThen (dateNow env) (\<lambda>now.
     andThen (gets (\<lambda>w. uuidOf api (w_tick w))) (\<lambda>uuid.
     andThen (challenges_create env \<lparr>createdAt = now, updatedAt = now, createdBy = None, updatedBy = None,
        deletedAt = None, c_id = uuid, c_accountId = a_id account, c_status = C_UNVERIFIED,
        c_ttl = chd_expiresAt challengeData, c_txHash = chd_txHash challengeData,
        c_txXDR = chd_xdr challengeData\<rparr>) (\<lambda>_.
     ret challengeData))))))"

definition P_CreateChallengeMemory :: "env \<Rightarrow> ChallengeData \<Rightarrow> ChallengeData action" where
  "P_CreateChallengeMemory env challengeData = failWith Err_FAILED_TO_CACHE_CHALLENGE_IN_LIVE_SESSIONS
    (andThen (getSession env (chd_txHash challengeData)) (\<lambda>existing.
     andThen (assertM (PlatformError (Err_SESSION_ALREADY_EXISTS (chd_txHash challengeData))) (existing = None)) (\<lambda>_.
     andThen (addSession (chd_txHash challengeData) (chd_clientAccount challengeData)
        (chd_requestId challengeData) (chd_expiresAt challengeData)) (\<lambda>_.
     ret challengeData))))"

text \<open>\<^verbatim>\<open>GET /stellar/auth\<close>: the steps of the pipeline.\<close>

definition getAuth :: "env \<Rightarrow> AuthApi \<Rightarrow> string option \<Rightarrow> string \<Rightarrow> (string \<times> string) action" where
  "getAuth env api account requestId =
    andThen (P_CreateChallenge env api account requestId) (\<lambda>d.
    andThen (P_CreateChallengeDB env api d) (\<lambda>d.
    andThen (P_CreateChallengeMemory env d) (\<lambda>d.
    ret (chd_txHash d, chd_xdr d))))"

section \<open>Verifying a wallet challenge\<close>

definition isPlatformError :: "exn \<Rightarrow> bool" where
  "isPlatformError e = (case e of PlatformError shape \<Rightarrow> True | _ \<Rightarrow> False)"

definition timeOf :: "int option \<Rightarrow> int" where
  "timeOf t = (case t of None \<Rightarrow> 0 | Some n \<Rightarrow> n)"

text \<open>The loop over the signatures; a check that throws ends it.\<close>

fun signedBy :: "(string \<Rightarrow> exn + bool) \<Rightarrow> (string \<Rightarrow> exn + bool) \<Rightarrow> string list \<Rightarrow> bool \<Rightarrow> bool \<Rightarrow> exn + (bool \<times> bool)" where
  "signedBy byServer byClient [] server client = Inr (server, client)"
| "signedBy byServer byClient (sig # sigs) server client =
    (case byServer sig of
       Inl e \<Rightarrow> Inl e
     | Inr s \<Rightarrow>
        (case byClient sig of
           Inl e \<Rightarrow> Inl e
         | Inr c \<Rightarrow> signedBy byServer byClient sigs (s \<or> server) (c \<or> client)))"

text \<open>\<^verbatim>\<open>isDefined(tx.operations && tx.operations.length > 0)\<close> holds for every list of operations; reading the
  first operation of an empty list throws.\<close>

definition firstOperation :: "ChallengeTx \<Rightarrow> exn + ManageData" where
  "firstOperation tx = (case ct_operations tx of [] \<Rightarrow> Inl TypeError | op # _ \<Rightarrow> Inr op)"

definition checkChallenge :: "env \<Rightarrow> AuthApi \<Rightarrow> string \<Rightarrow> unit action" where
  "checkChallenge env api signedChallenge =
    andThen (liftSum (newTransaction api signedChallenge)) (\<lambda>tx.
    andThen (assertM (PlatformError (Err_INVALID_SEQUENCE_NUMBER (ct_sequence tx))) (ct_sequence tx = ''0'')) (\<lambda>_.
    andThen (liftSum (case ct_timeBounds tx of
        None \<Rightarrow> Inl (PlatformError Err_MISSING_TIME_BOUNDS) | Some b \<Rightarrow> Inr b)) (\<lambda>bounds.
    andThen (liftSum (firstOperation tx)) (\<lambda>firstOp.
    andThen (assertM (PlatformError (Err_WRONG_OPERATION_TYPE ''manageData'' (md_type firstOp))) (md_type firstOp = ''manageData'')) (\<lambda>_.
    andThen (assertM (PlatformError (Err_OPERATION_KEY_MISMATCH (SERVICE_DOMAIN api @ '' auth'') (md_name firstOp)))
      (startsWith (md_name firstOp) (SERVICE_DOMAIN api @ '' auth''))) (\<lambda>_.
    andThen (dateNow env) (\<lambda>ms.
    andThen (assertM (PlatformError (Err_CHALLENGE_TOO_EARLY (ms div 1000) (timeOf (fst bounds)))) (ms div 1000 \<ge> timeOf (fst bounds))) (\<lambda>_.
    andThen (assertM (PlatformError (Err_CHALLENGE_EXPIRED (ms div 1000) (timeOf (snd bounds)))) (ms div 1000 \<le> timeOf (snd bounds))) (\<lambda>_.
    andThen (liftSum (case md_source firstOp of
        None \<Rightarrow> Inl (PlatformError Err_MISSING_CLIENT_ACCOUNT_verify)
      | Some k \<Rightarrow> if isEd25519PublicKey api k then Inr k else Inl (PlatformError Err_MISSING_CLIENT_ACCOUNT_verify))) (\<lambda>client.
    andThen (assertM (JsError ''Invalid public key'') (validKey api client)) (\<lambda>_.
    andThen (liftSum (signedBy (serverVerifies api (ct_hash tx)) (verifySignature api client (ct_hash tx))
        (ct_signatures tx) False False)) (\<lambda>signed.
    andThen (assertM (PlatformError Err_MISSING_SERVER_SIGNATURE) (fst signed)) (\<lambda>_.
    assertM (PlatformError Err_MISSING_CLIENT_SIGNATURE) (snd signed))))))))))))))"

definition P_VerifyChallenge :: "env \<Rightarrow> AuthApi \<Rightarrow> string \<Rightarrow> unit action" where
  "P_VerifyChallenge env api signedChallenge =
    tryCatch (checkChallenge env api signedChallenge)
      (\<lambda>e. if isPlatformError e then throw e else throw (PlatformError Err_CHALLENGE_VERIFICATION_FAILED))"

definition extractOperationFromChallengeTx :: "ChallengeTx \<Rightarrow> exn + (string \<times> string)" where
  "extractOperationFromChallengeTx tx =
    (case ct_operations tx of
       [] \<Rightarrow> Inl (PlatformError Err_MISSING_NONCE_OPERATION)
     | op # _ \<Rightarrow>
        if md_type op \<noteq> ''manageData'' then Inl (PlatformError (Err_WRONG_OPERATION_TYPE ''manageData'' (md_type op)))
        else case md_source op of
          None \<Rightarrow> Inl (PlatformError Err_MISSING_CLIENT_ACCOUNT_verify)
        | Some clientAccount \<Rightarrow>
           (case md_value op of
              None \<Rightarrow> Inl (PlatformError Err_MISSING_NONCE)
            | Some nonce \<Rightarrow> Inr (nonce, clientAccount)))"

definition extractChallengeTtl :: "ChallengeTx \<Rightarrow> int" where
  "extractChallengeTtl tx = timeOf (Option.bind (ct_timeBounds tx) snd) * 1000"

definition P_CompareChallenge :: "env \<Rightarrow> AuthApi \<Rightarrow> string \<Rightarrow> unit action" where
  "P_CompareChallenge env api signedChallenge =
    andThen (liftSum (newTransaction api signedChallenge)) (\<lambda>tx.
    andThen (findOneByTxHash env (ct_hash tx)) (\<lambda>found.
    andThen (liftSum (case found of None \<Rightarrow> Inl (PlatformError (Err_CHALLENGE_NOT_FOUND (ct_hash tx))) | Some c \<Rightarrow> Inr c)) (\<lambda>localChallenge.
    andThen (liftSum (fromXDR api (c_txXDR localChallenge))) (\<lambda>parsed.
    andThen (liftSum (case parsed of None \<Rightarrow> Inl (PlatformError Err_CHALLENGE_IS_NOT_TRANSACTION) | Some t \<Rightarrow> Inr t)) (\<lambda>localTx.
    andThen (liftSum (extractOperationFromChallengeTx localTx)) (\<lambda>localOp.
    andThen (liftSum (extractOperationFromChallengeTx tx)) (\<lambda>incoming.
    andThen (assertM (PlatformError Err_NONCE_MISMATCH) (fst localOp = fst incoming)) (\<lambda>_.
    andThen (assertM (PlatformError Err_CLIENT_ACCOUNT_MISMATCH) (snd localOp = snd incoming)) (\<lambda>_.
    assertM (PlatformError Err_CHALLENGE_TTL_MISMATCH)
      (toDateString api (c_ttl localChallenge) = toDateString api (extractChallengeTtl tx)))))))))))"

definition P_GenerateChallengeJWT :: "AuthApi \<Rightarrow> string \<Rightarrow> string action" where
  "P_GenerateChallengeJWT api signedChallenge =
    andThen (liftSum (newTransaction api signedChallenge)) (\<lambda>tx.
    andThen (liftSum (firstOperation tx)) (\<lambda>op.
    case md_source op of
      None \<Rightarrow> throw (PlatformError Err_MISSING_CLIENT_ACCOUNT_create)
    | Some clientAccount \<Rightarrow> external (\<lambda>n. createJwt api n clientAccount (ct_hash tx))))"

definition P_UpdateChallengeSession :: "env \<Rightarrow> AuthApi \<Rightarrow> string \<Rightarrow> string \<Rightarrow> unit action" where
  "P_UpdateChallengeSession env api signedChallenge jwt =
    andThen (liftSum (newTransaction api signedChallenge)) (\<lambda>tx.
    let key = ct_hash tx in
    andThen (getSession env key) (\<lambda>memorySession.
    andThen (case memorySession of
        None \<Rightarrow> ret ()
      | Some s \<Rightarrow> andThen (dateNow env) (\<lambda>now.
          tryCatch (updateSession env \<lparr>ms_txHash = ms_txHash s, ms_clientAccount = None,
            ms_requestId = ms_requestId s, ms_expiresAt = now + SESSION_TTL api * 1000, ms_status = MS_ACTIVE\<rparr>)
            (\<lambda>_. ret ()))) (\<lambda>_.
    andThen (liftSum (case ct_operations tx of
        [] \<Rightarrow> Inl (PlatformError (Err_CHALLENGE_HAS_NO_OPERATIONS key)) | op # _ \<Rightarrow> Inr op)) (\<lambda>op.
    andThen (liftSum (case md_source op of
        None \<Rightarrow> Inl (PlatformError Err_MISSING_CLIENT_ACCOUNT_store) | Some k \<Rightarrow> Inr k)) (\<lambda>txClientAccount.
    andThen (accounts_findById env txClientAccount) (\<lambda>account.
    case account of
      None \<Rightarrow> ret ()
    | Some a \<Rightarrow> andThen (dateNow env) (\<lambda>now.
        andThen (sessions_create env \<lparr>createdAt = now, updatedAt = now, createdBy = None, updatedBy = None,
           deletedAt = None, s_id = key, s_status = S_ACTIVE, s_jwtToken = Some jwt, s_accountId = a_id a\<rparr>) (\<lambda>_.
        ret ()))))))))"

definition P_UpdateChallengeDB :: "env \<Rightarrow> AuthApi \<Rightarrow> string \<Rightarrow> unit action" where
  "P_UpdateChallengeDB env api signedChallenge =
    andThen (liftSum (newTransaction api signedChallenge)) (\<lambda>tx.
    andThen (findOneByTxHash env (ct_hash tx)) (\<lambda>found.
    case found of
      None \<Rightarrow> throw (PlatformError (Err_CHALLENGE_NOT_FOUND_IN_DATABASE (ct_hash tx)))
    | Some challenge \<Rightarrow>
       andThen (challenges_update env (c_id challenge) (\<lambda>_. challenge\<lparr>c_status := C_VERIFIED\<rparr>)) (\<lambda>_. ret ())))"

definition P_AttachEntityStatus ::
    "env \<Rightarrow> AuthApi \<Rightarrow> string \<Rightarrow> string \<Rightarrow> (EntityStatus \<times> string option) action" where
  "P_AttachEntityStatus env api jwt ppPublicKey =
    (let accountPubkey = orEmpty (jwtSubject api jwt) in
     if accountPubkey = [] then ret (E_UNVERIFIED, None)
     else andThen (findByPublicKey env ppPublicKey) (\<lambda>found.
       case found of
         None \<Rightarrow> ret (E_UNVERIFIED, None)
       | Some pp \<Rightarrow>
          andThen (findByPpAndAccount env ppPublicKey accountPubkey) (\<lambda>approval.
          let entityStatus = (case approval of None \<Rightarrow> E_UNVERIFIED | Some a \<Rightarrow> pa_status a) in
          andThen (if approval = None \<or> map_option pa_status approval = Some E_UNVERIFIED
             then andThen (gets (\<lambda>w. uuidOf api (w_tick w))) (\<lambda>uuid.
               tryCatch (recordInteraction env uuid ppPublicKey accountPubkey) (\<lambda>_. ret ()))
             else ret ()) (\<lambda>_.
          ret (entityStatus, pp_kycSubmissionUrl pp)))))"

record AuthResult =
  ar_jwt :: string
  ar_entityStatus :: EntityStatus
  ar_kycSubmissionUrl :: "string option"

text \<open>\<^verbatim>\<open>POST /stellar/auth\<close>: the steps of the pipeline.\<close>

definition postAuth :: "env \<Rightarrow> AuthApi \<Rightarrow> string \<Rightarrow> string \<Rightarrow> AuthResult action" where
  "postAuth env api signedChallenge ppPublicKey =
    andThen (P_VerifyChallenge env api signedChallenge) (\<lambda>_.
    andThen (P_CompareChallenge env api signedChallenge) (\<lambda>_.
    andThen (P_GenerateChallengeJWT api signedChallenge) (\<lambda>jwt.
    andThen (P_UpdateChallengeSession env api signedChallenge jwt) (\<lambda>_.
    andThen (P_UpdateChallengeDB env api signedChallenge) (\<lambda>_.
    andThen (P_AttachEntityStatus env api jwt ppPublicKey) (\<lambda>res.
    ret \<lparr>ar_jwt = jwt, ar_entityStatus = fst res, ar_kycSubmissionUrl = snd res\<rparr>))))))"

section \<open>One-time challenges\<close>

lemma map_of_mapDelete: "map_of (mapDelete kvs k) n = (if n = k then None else map_of kvs n)"
  by (induction kvs) (auto simp: mapDelete_def)

text \<open>A sequence of verifications, with the decision of each.\<close>

fun runAttempts ::
    "(string \<times> string \<times> string \<Rightarrow> world \<Rightarrow> bool \<times> world) \<Rightarrow> (string \<times> string \<times> string) list \<Rightarrow> world \<Rightarrow> bool list" where
  "runAttempts verify [] w = []"
| "runAttempts verify (r # rs) w = (case verify r w of (b, w') \<Rightarrow> b # runAttempts verify rs w')"

definition acceptances :: "string \<Rightarrow> (string \<times> string \<times> string) list \<Rightarrow> bool list \<Rightarrow> nat" where
  "acceptances nonce rs bs = length (filter (\<lambda>((_, n, _), b). b \<and> n = nonce) (zip rs bs))"

text \<open>What a store of pending challenges promises: a verification that accepts consumes its nonce, and none
  brings one back.\<close>

locale one_time_challenges =
  fixes store :: "world \<Rightarrow> (string \<times> PendingChallenge) list"
    and verify :: "string \<times> string \<times> string \<Rightarrow> world \<Rightarrow> bool \<times> world"
  assumes accepted_pending: "verify (pk, n, sig) w = (True, w') \<Longrightarrow> map_of (store w) n \<noteq> None"
    and accepted_consumed: "verify (pk, n, sig) w = (True, w') \<Longrightarrow> map_of (store w') n = None"
    and never_issues: "verify r w = (b, w') \<Longrightarrow> map_of (store w) n = None \<Longrightarrow> map_of (store w') n = None"
begin

lemma none_pending: "map_of (store w) nonce = None \<Longrightarrow> acceptances nonce rs (runAttempts verify rs w) = 0"
proof (induction rs arbitrary: w)
  case (Cons r rs)
  obtain pk n sig where r: "r = (pk, n, sig)" by (cases r)
  obtain b w' where v: "verify r w = (b, w')" by fastforce
  have "\<not> (b \<and> n = nonce)" using accepted_pending [of pk n sig w w'] v r Cons.prems by auto
  with Cons.IH [OF never_issues [OF v Cons.prems]] v r show ?case by (simp add: acceptances_def)
qed (simp add: acceptances_def)

lemma accepted_once: "acceptances nonce rs (runAttempts verify rs w) \<le> 1"
proof (induction rs arbitrary: w)
  case (Cons r rs)
  obtain pk n sig where r: "r = (pk, n, sig)" by (cases r)
  obtain b w' where v: "verify r w = (b, w')" by fastforce
  show ?case
  proof (cases "b \<and> n = nonce")
    case True
    then have "map_of (store w') nonce = None" using accepted_consumed v r by auto
    from none_pending [OF this, of rs] True v r show ?thesis by (simp add: acceptances_def)
  next
    case False
    with Cons [of w'] v r show ?thesis by (auto simp: acceptances_def)
  qed
qed (simp add: acceptances_def)

end

definition operatorAttempt ::
    "env \<Rightarrow> AuthApi \<Rightarrow> DashboardAuthConfig \<Rightarrow> string \<times> string \<times> string \<Rightarrow> world \<Rightarrow> bool \<times> world" where
  "operatorAttempt env api config = (\<lambda>(publicKey, nonce, signature) w.
    case verifyDashboardChallenge env api nonce signature publicKey config w of
      (Inl _, w') \<Rightarrow> (False, w') | (Inr _, w') \<Rightarrow> (True, w'))"

definition entityAttempt :: "env \<Rightarrow> AuthApi \<Rightarrow> string \<times> string \<times> string \<Rightarrow> world \<Rightarrow> bool \<times> world" where
  "entityAttempt env api = (\<lambda>(publicKey, nonce, signature) w.
    case verifyEntityChallenge env api publicKey nonce signature w of
      (Inl _, w') \<Rightarrow> (False, w') | (Inr ok, w') \<Rightarrow> (ok, w'))"

lemma isAuthorizedSigner_store: "w_dashboardChallenges (snd (isAuthorizedSigner api k a h w)) = w_dashboardChallenges w"
  by (auto simp: isAuthorizedSigner_def tryCatch_apply andThen_apply external_apply advance_def split: sum.split)

lemma verifyDashboard_store:
  "w_dashboardChallenges (snd (verifyDashboardChallenge env api nonce sig pk config w)) \<in>
    {w_dashboardChallenges w, mapDelete (w_dashboardChallenges w) nonce}"
proof -
  let ?d = "w_dashboardChallenges_update (\<lambda>cs. mapDelete cs nonce) w"
  show ?thesis
    using isAuthorizedSigner_store [of api pk "providerPublicKey config" "horizonUrl config" ?d]
    by (auto simp: verifyDashboardChallenge_def andThen_apply external_apply advance_def
        split: option.split prod.splits sum.splits)
qed

text \<open>A token is issued to an operator only for a pending challenge of the same key that has not expired,
  with a valid signature by that key, and the challenge is gone afterwards.\<close>

lemma verifyDashboard_Inr:
  assumes "verifyDashboardChallenge env api nonce sig pk config w = (Inr token, w')"
  shows "\<exists>c. map_of (w_dashboardChallenges w) nonce = Some c \<and> pch_publicKey c = pk \<and>
    clock env (w_tick w) - pch_createdAt c \<le> challengeTtlMs api \<and> verifyStellarSignature api pk nonce sig \<and>
    w_dashboardChallenges w' = mapDelete (w_dashboardChallenges w) nonce"
proof -
  let ?d = "w_dashboardChallenges_update (\<lambda>cs. mapDelete cs nonce) w"
  from assms obtain c where c: "map_of (w_dashboardChallenges w) nonce = Some c"
    by (auto simp: verifyDashboardChallenge_def andThen_apply split: option.splits)
  show ?thesis
    using assms c isAuthorizedSigner_store [of api pk "providerPublicKey config" "horizonUrl config" ?d]
    by (auto simp: verifyDashboardChallenge_def andThen_apply external_apply advance_def
        split: if_splits prod.splits sum.splits)
qed

interpretation operator: one_time_challenges w_dashboardChallenges "operatorAttempt env api config" for env api config
proof unfold_locales
  fix pk n sig w w'
  assume "operatorAttempt env api config (pk, n, sig) w = (True, w')"
  then obtain token where "verifyDashboardChallenge env api n sig pk config w = (Inr token, w')"
    by (auto simp: operatorAttempt_def split: prod.splits sum.splits)
  from verifyDashboard_Inr [OF this]
  show "map_of (w_dashboardChallenges w) n \<noteq> None" "map_of (w_dashboardChallenges w') n = None"
    by (auto simp: map_of_mapDelete)
next
  fix r w b w' n
  assume a: "operatorAttempt env api config r w = (b, w')" "map_of (w_dashboardChallenges w) n = None"
  obtain pk m sig where r: "r = (pk, m, sig)" by (cases r)
  have "w' = snd (verifyDashboardChallenge env api m sig pk config w)"
    using a(1) r by (auto simp: operatorAttempt_def split: prod.splits sum.splits)
  then show "map_of (w_dashboardChallenges w') n = None"
    using verifyDashboard_store [of env api m sig pk config w] a(2) by (auto simp: map_of_mapDelete)
qed

interpretation entity: one_time_challenges w_entityChallenges "entityAttempt env api" for env api
proof unfold_locales
qed (auto simp: entityAttempt_def verifyEntityChallenge_def andThen_apply map_of_mapDelete
      split: option.splits if_splits prod.splits)

section \<open>Properties of the challenges\<close>

text \<open>C8: Whatever is tried, in whatever order and with whatever keys and signatures, a nonce of the operators'
  challenges is accepted at most once, and so is one of the entity submissions.\<close>

theorem nonce_is_accepted_once:
  "acceptances nonce rs (runAttempts (operatorAttempt env api config) rs w) \<le> 1 \<and>
   acceptances nonce rs (runAttempts (entityAttempt env api) rs w) \<le> 1"
  using operator.accepted_once entity.accepted_once by blast

text \<open>A token is issued to an operator only for a pending challenge of the same key that has not expired,
  with a valid signature by that key, and the challenge is gone afterwards.\<close>

theorem operator_token_needs_proof:
  assumes "verifyDashboardChallenge env api nonce sig pk config w = (Inr token, w')"
  shows "\<exists>c. map_of (w_dashboardChallenges w) nonce = Some c \<and> pch_publicKey c = pk \<and>
    clock env (w_tick w) - pch_createdAt c \<le> challengeTtlMs api \<and> verifyStellarSignature api pk nonce sig \<and>
    map_of (w_dashboardChallenges w') nonce = None"
  using verifyDashboard_Inr [OF assms] by (auto simp: map_of_mapDelete)

lemma length_mapSet: "length (mapSet kvs k v) \<le> Suc (length kvs)"
  by (induction kvs k v rule: mapSet.induct) auto

lemma length_cleanup: "length (cleanupChallenges now ttl cs) \<le> length cs"
  by (simp add: cleanupChallenges_def)

text \<open>The stores of pending challenges are bounded.\<close>

theorem challenges_are_bounded:
  assumes "length (w_dashboardChallenges w) \<le> MAX_PENDING_CHALLENGES"
    and "length (w_entityChallenges w) \<le> MAX_PENDING_ENTITY_CHALLENGES"
  shows "length (w_dashboardChallenges (snd (createDashboardChallenge env api pk w))) \<le> MAX_PENDING_CHALLENGES \<and>
    length (w_entityChallenges (snd (createEntityChallenge env api pk w))) \<le> MAX_PENDING_ENTITY_CHALLENGES"
proof -
  have set: "length (mapSet cs k v) \<le> m" if "length cs < m" for cs :: "(string \<times> PendingChallenge) list" and k v m
    using length_mapSet [of cs k v] that by simp
  have clean: "length (cleanupChallenges now ttl cs) \<le> m" if "length cs \<le> m" for now ttl cs and m :: nat
    using length_cleanup [of now ttl cs] that by (rule order_trans)
  show ?thesis
    using assms
    by (auto simp: createDashboardChallenge_def createEntityChallenge_def andThen_apply external_apply advance_def
        not_le intro!: set clean le_antisym)
qed

section \<open>A concrete wallet\<close>

definition authTx0 :: ChallengeTx where
  "authTx0 = \<lparr>ct_sequence = ''0'', ct_timeBounds = Some (Some 0, Some 5),
     ct_operations = [\<lparr>md_type = ''manageData'', md_name = ''dom auth'', md_source = Some ''A1'', md_value = Some ''n''\<rparr>],
     ct_signatures = [''server'', ''A1''], ct_hash = ''h''\<rparr>"

definition authApi0 :: AuthApi where
  "authApi0 = \<lparr>challengeTtlMs = 300, entityChallengeTtlMs = 300, CHALLENGE_TTL = 4, SESSION_TTL = 60,
     SERVICE_DOMAIN = ''dom'', nonceOf = (\<lambda>n. ''n'' @ replicate n CHR ''i''), uuidOf = (\<lambda>n. ''u'' @ replicate n CHR ''i''),
     fromBase64 = id, sha256 = id, validKey = (\<lambda>k. k \<noteq> []), verifySignature = (\<lambda>k m s. Inr (s = k)),
     serverVerifies = (\<lambda>m s. Inr (s = ''server'')), isEd25519PublicKey = (\<lambda>k. k \<noteq> []),
     buildChallenge = (\<lambda>c n a b. Inr (''xdr'', ''h'')),
     newTransaction = (\<lambda>s. if s = ''signed'' then Inr authTx0 else Inl TypeError),
     fromXDR = (\<lambda>s. if s = ''xdr'' then Inr (Some authTx0) else Inl TypeError),
     toDateString = (\<lambda>ms. if ms < 86400000 then ''Thu'' else ''Fri''), createJwt = (\<lambda>n k i. Inr k),
     jwtSubject = Some, fetchSigners = (\<lambda>_ _ _. Inl TypeError)\<rparr>"

definition operator0 :: world where
  "operator0 = world0\<lparr>w_dashboardChallenges :=
     [(''n'', \<lparr>pch_nonce = ''n'', pch_publicKey = ''O1'', pch_createdAt = 900\<rparr>)]\<rparr>"

lemma signature0: "verifyStellarSignature authApi0 ''O1'' ''n'' ''O1''"
  by (simp add: verifyStellarSignature_def signedPayloads_def sigBufferOf_def isHexText_def hexValue_def authApi0_def)

lemma operator_token_needs_proof_witness:
  "\<exists>c. map_of (w_dashboardChallenges operator0) ''n'' = Some c \<and> pch_publicKey c = ''O1''"
proof -
  let ?v = "verifyDashboardChallenge env0 authApi0 ''n'' ''O1'' ''O1'' \<lparr>providerPublicKey = ''O1'', horizonUrl = None\<rparr>"
  have "challengeTtlMs authApi0 = 300" "createJwt authApi0 = (\<lambda>n k i. Inr k)" by (simp_all add: authApi0_def)
  then have "fst (?v operator0) = Inr ''O1''"
    by (simp add: verifyDashboardChallenge_def operator0_def andThen_apply isAuthorizedSigner_def external_apply signature0)
  then have "?v operator0 = (Inr ''O1'', snd (?v operator0))" by (metis prod.collapse)
  from operator_token_needs_proof [OF this] show ?thesis by blast
qed

lemma challenges_are_bounded_witness:
  "length (w_dashboardChallenges (snd (createDashboardChallenge env0 authApi0 ''O1'' world0))) \<le> MAX_PENDING_CHALLENGES"
  using challenges_are_bounded [of world0 env0 authApi0 "''O1''"] by simp

section \<open>The wallet handshake\<close>

lemma signedBy_Inr:
  assumes "signedBy s c sigs a b = Inr (x, y)"
  shows "(x \<longrightarrow> a \<or> (\<exists>sig\<in>set sigs. s sig = Inr True)) \<and> (y \<longrightarrow> b \<or> (\<exists>sig\<in>set sigs. c sig = Inr True))"
  using assms
proof (induction sigs arbitrary: a b)
  case (Cons sig sigs)
  then obtain p q where "s sig = Inr p" "c sig = Inr q" "signedBy s c sigs (p \<or> a) (q \<or> b) = Inr (x, y)"
    by (auto split: sum.splits)
  with Cons.IH [of "p \<or> a" "q \<or> b"] show ?case by auto
qed simp

lemma liftSum_Inr: "liftSum r w = (Inr x, w') \<longleftrightarrow> r = Inr x \<and> w' = w"
  by (auto simp: liftSum_def)

text \<open>What a transaction must be to authenticate a client.\<close>

definition provenChallenge :: "env \<Rightarrow> AuthApi \<Rightarrow> world \<Rightarrow> ChallengeTx \<Rightarrow> string \<Rightarrow> bool" where
  "provenChallenge env api w tx client \<longleftrightarrow>
    ct_sequence tx = ''0'' \<and>
    (\<exists>mn mx op ops. ct_timeBounds tx = Some (mn, mx) \<and> ct_operations tx = op # ops \<and>
      md_type op = ''manageData'' \<and> startsWith (md_name op) (SERVICE_DOMAIN api @ '' auth'') \<and>
      md_source op = Some client \<and>
      timeOf mn \<le> clock env (w_tick w) div 1000 \<and> clock env (w_tick w) div 1000 \<le> timeOf mx) \<and>
    (\<exists>sig\<in>set (ct_signatures tx). serverVerifies api (ct_hash tx) sig = Inr True) \<and>
    (\<exists>sig\<in>set (ct_signatures tx). verifySignature api client (ct_hash tx) sig = Inr True)"

lemma checkChallenge_Inr:
  assumes "checkChallenge env api sc w = (Inr u, w')"
  shows "w' = w \<and> (\<exists>tx client. newTransaction api sc = Inr tx \<and> provenChallenge env api w tx client)"
proof -
  from assms obtain tx mn mx op ops client and signed :: "bool \<times> bool" where t: "newTransaction api sc = Inr tx" "ct_sequence tx = ''0''"
    "ct_timeBounds tx = Some (mn, mx)" "ct_operations tx = op # ops" "md_type op = ''manageData''"
    "startsWith (md_name op) (SERVICE_DOMAIN api @ '' auth'')"
    "timeOf mn \<le> clock env (w_tick w) div 1000" "clock env (w_tick w) div 1000 \<le> timeOf mx"
    "md_source op = Some client"
    "signedBy (serverVerifies api (ct_hash tx)) (verifySignature api client (ct_hash tx)) (ct_signatures tx) False False = Inr signed"
    "fst signed" "snd signed" "w' = w"
    unfolding checkChallenge_def
    by (auto simp: liftSum_Inr assertM_Inr firstOperation_def elim!: andThen_InrE split: option.splits list.splits if_splits)
  have "signedBy (serverVerifies api (ct_hash tx)) (verifySignature api client (ct_hash tx)) (ct_signatures tx) False False =
      Inr (fst signed, snd signed)" using t(10) by simp
  from signedBy_Inr [OF this] t(11,12)
  have "(\<exists>sig\<in>set (ct_signatures tx). serverVerifies api (ct_hash tx) sig = Inr True) \<and>
    (\<exists>sig\<in>set (ct_signatures tx). verifySignature api client (ct_hash tx) sig = Inr True)" by simp
  with t show ?thesis unfolding provenChallenge_def by blast
qed

lemma verifyChallenge_Inr: "P_VerifyChallenge env api sc w = (Inr u, w') \<Longrightarrow> checkChallenge env api sc w = (Inr u, w')"
  by (auto simp: P_VerifyChallenge_def tryCatch_apply split: prod.splits sum.splits if_splits)

lemma compareChallenge_Inr:
  assumes "P_CompareChallenge env api sc w = (Inr u, w')" and "newTransaction api sc = Inr tx"
  shows "w' = advance w \<and> (\<exists>c. find (\<lambda>r. c_txHash r = ct_hash tx) (w_challenges w) = Some c)"
  using assms unfolding P_CompareChallenge_def
  by (auto simp: liftSum_Inr assertM_Inr findOneByTxHash_def dbQuery_apply elim!: andThen_InrE split: option.splits if_splits)

lemma generateJwt_Inr:
  assumes "P_GenerateChallengeJWT api sc w = (Inr jwt, w')" and "newTransaction api sc = Inr tx"
    and "ct_operations tx = op # ops" and "md_source op = Some client"
  shows "createJwt api (w_tick w) client (ct_hash tx) = Inr jwt \<and> w' = advance w"
  using assms unfolding P_GenerateChallengeJWT_def
  by (auto simp: liftSum_Inr firstOperation_def external_apply elim!: andThen_InrE)

text \<open>C6: A wallet gets a token only for a challenge this service stored, inside its time bounds and signed by the
  service and by the very client the token names.\<close>

theorem wallet_token_needs_proof:
  assumes "postAuth env api sc pp w = (Inr r, w')"
  shows "\<exists>tx client n. newTransaction api sc = Inr tx \<and> provenChallenge env api w tx client \<and>
    (\<exists>c. find (\<lambda>c. c_txHash c = ct_hash tx) (w_challenges w) = Some c) \<and>
    createJwt api n client (ct_hash tx) = Inr (ar_jwt r)"
proof -
  from assms obtain w1 w2 w3 jwt where v: "P_VerifyChallenge env api sc w = (Inr (), w1)"
    and c: "P_CompareChallenge env api sc w1 = (Inr (), w2)" and g: "P_GenerateChallengeJWT api sc w2 = (Inr jwt, w3)"
    and "ar_jwt r = jwt"
    by (auto simp: postAuth_def elim!: andThen_InrE)
  from checkChallenge_Inr [OF verifyChallenge_Inr [OF v]] obtain tx client where
    tx: "w1 = w" "newTransaction api sc = Inr tx" "provenChallenge env api w tx client" by blast
  then obtain op ops where op: "ct_operations tx = op # ops" "md_source op = Some client"
    by (auto simp: provenChallenge_def)
  from compareChallenge_Inr [OF c tx(2)] tx(1) obtain ch where "find (\<lambda>c. c_txHash c = ct_hash tx) (w_challenges w) = Some ch"
    by auto
  with generateJwt_Inr [OF g tx(2) op] tx \<open>ar_jwt r = jwt\<close> show ?thesis by blast
qed

section \<open>One session per challenge\<close>

lemma getSession_Inr: "getSession env k w = (Inr x, w') \<Longrightarrow>
    w_sessions w' = w_sessions w \<and> w_accounts w' = w_accounts w \<and> w_tick w' = w_tick w"
  by (auto simp: getSession_def andThen_apply split: option.splits if_splits)

definition sessionsGrow :: "world \<Rightarrow> world \<Rightarrow> bool" where
  "sessionsGrow w w' \<longleftrightarrow> set (w_sessions w) \<subseteq> set (w_sessions w') \<and> set (w_accounts w) \<subseteq> set (w_accounts w')"

interpretation grow: gate_guarantee sessionsGrow
  by unfold_locales (auto simp: sessionsGrow_def advance_def)

lemma grow_getSession: "guar sessionsGrow (getSession env k)"
  unfolding getSession_def by (intro grow.world_rules guar_modify) (simp_all add: sessionsGrow_def)

lemma grow_updateSession: "guar sessionsGrow (updateSession env s)"
  unfolding updateSession_def by (intro grow.world_rules guar_modify grow_getSession) (simp_all add: sessionsGrow_def)

lemma grow_challenges_update: "guar sessionsGrow (challenges_update env i f)"
  unfolding challenges_update_def base_update_def by (intro grow.guar_dbExec guarI) (simp add: sessionsGrow_def)

lemma grow_findOneByTxHash: "guar sessionsGrow (findOneByTxHash env h)"
  unfolding findOneByTxHash_def by (rule grow.guar_dbQuery)

lemma grow_sessions_create: "guar sessionsGrow (sessions_create env s)"
  unfolding sessions_create_def base_create_def by (intro grow.guar_dbExec guarI) (auto simp: sessionsGrow_def)

lemmas grow_rules = grow.world_rules grow.guar_reads grow_getSession grow_updateSession grow_challenges_update
  grow_findOneByTxHash grow_sessions_create grow.guar_recordInteraction

lemma grow_updateDB: "guar sessionsGrow (P_UpdateChallengeDB env api sc)"
  unfolding P_UpdateChallengeDB_def by (intro grow_rules)

lemma grow_attach: "guar sessionsGrow (P_AttachEntityStatus env api jwt pp)"
  unfolding P_AttachEntityStatus_def by (intro grow_rules)

lemma grow_updateSessionStep: "guar sessionsGrow (P_UpdateChallengeSession env api sc jwt)"
  unfolding P_UpdateChallengeSession_def by (intro grow_rules)

text \<open>The account of the first operation's source, as the repository finds it.\<close>

definition clientKnown :: "AuthApi \<Rightarrow> string \<Rightarrow> world \<Rightarrow> bool" where
  "clientKnown api sc w \<longleftrightarrow> (\<exists>tx op ops client a. newTransaction api sc = Inr tx \<and> ct_operations tx = op # ops \<and>
     md_source op = Some client \<and> a \<in> set (w_accounts w) \<and> a_id a = client \<and> deletedAt a = None)"

definition sessionStored :: "AuthApi \<Rightarrow> string \<Rightarrow> world \<Rightarrow> bool" where
  "sessionStored api sc w \<longleftrightarrow> (\<exists>tx s. newTransaction api sc = Inr tx \<and> s \<in> set (w_sessions w) \<and> s_id s = ct_hash tx)"

lemma accounts_findById_known:
  assumes "accounts_findById env client w = (Inr x, w')" and "a \<in> set (w_accounts w)" and "a_id a = client" and "deletedAt a = None"
  shows "x \<noteq> None"
  using assms
  by (cases x) (auto simp: accounts_findById_def base_findById_def dbQuery_apply find_None_iff find_None_iff2 split: if_splits)

definition rowsKept :: "world \<Rightarrow> world \<Rightarrow> bool" where
  "rowsKept w w' \<longleftrightarrow> w_sessions w' = w_sessions w \<and> w_accounts w' = w_accounts w"

interpretation rows: gate_guarantee rowsKept
  by unfold_locales (auto simp: rowsKept_def advance_def)

lemma rows_getSession: "guar rowsKept (getSession env k)"
  unfolding getSession_def by (intro rows.world_rules guar_modify) (simp_all add: rowsKept_def)

lemma rows_updateSession: "guar rowsKept (updateSession env s)"
  unfolding updateSession_def by (intro rows.world_rules guar_modify rows_getSession) (simp_all add: rowsKept_def)

lemma sessions_create_Inr:
  assumes "sessions_create env s w = (Inr x, w')"
  shows "(\<exists>t\<in>set (w_sessions w'). s_id t = s_id s) \<and> (\<forall>t\<in>set (w_sessions w). s_id t \<noteq> s_id s)"
  using assms
  by (auto simp: sessions_create_def base_create_def dbExec_def advance_def list_ex_iff split: if_splits)

lemma updateSessionStep_Inr:
  assumes "P_UpdateChallengeSession env api sc jwt w = (Inr u, w')" and "clientKnown api sc w"
  shows "sessionStored api sc w' \<and> \<not> sessionStored api sc w"
proof -
  from assms(2) obtain tx op ops client a where tx: "newTransaction api sc = Inr tx" "ct_operations tx = op # ops"
    "md_source op = Some client" and a: "a \<in> set (w_accounts w)" "a_id a = client" "deletedAt a = None"
    by (auto simp: clientKnown_def)
  define touch where "touch s = andThen (dateNow env) (\<lambda>now.
      tryCatch (updateSession env \<lparr>ms_txHash = ms_txHash s, ms_clientAccount = None,
        ms_requestId = ms_requestId s, ms_expiresAt = now + SESSION_TTL api * 1000, ms_status = MS_ACTIVE\<rparr>)
        (\<lambda>_. ret ()))" for s :: MemorySession
  from assms(1) tx obtain m w1 w2 acc w3 where g: "getSession env (ct_hash tx) w = (Inr m, w1)"
    and t: "(case m of None \<Rightarrow> ret () | Some s \<Rightarrow> touch s) w1 = (Inr (), w2)"
    and f: "accounts_findById env client w2 = (Inr acc, w3)"
    and c: "(case acc of None \<Rightarrow> ret () | Some a \<Rightarrow> andThen (dateNow env) (\<lambda>now.
        andThen (sessions_create env \<lparr>createdAt = now, updatedAt = now, createdBy = None, updatedBy = None,
           deletedAt = None, s_id = ct_hash tx, s_status = S_ACTIVE, s_jwtToken = Some jwt, s_accountId = a_id a\<rparr>) (\<lambda>_.
        ret ()))) w3 = (Inr u, w')"
    unfolding P_UpdateChallengeSession_def touch_def Let_def
    by (auto simp: liftSum_Inr elim!: andThen_InrE)
  have "rowsKept w w1" using rows_getSession g by (rule guarD)
  moreover have "guar rowsKept (case m of None \<Rightarrow> ret () | Some s \<Rightarrow> touch s)"
    unfolding touch_def by (intro rows.world_rules rows_updateSession)
  from guarD [OF this t] have "rowsKept w1 w2" .
  moreover have "rowsKept w2 w3" using rows.guar_reads(13) f by (rule guarD)
  ultimately have kept: "w_sessions w3 = w_sessions w" "w_accounts w2 = w_accounts w" by (simp_all add: rowsKept_def)
  then have "acc \<noteq> None" using accounts_findById_known [OF f] a by simp
  with c have "\<exists>s\<in>set (w_sessions w'). s_id s = ct_hash tx \<and> (\<forall>t\<in>set (w_sessions w3). s_id t \<noteq> ct_hash tx)"
    by (auto elim!: andThen_InrE dest!: sessions_create_Inr) blast
  with kept tx(1) show ?thesis by (auto simp: sessionStored_def)
qed

lemma sessionStored_mono: "sessionStored api sc w \<Longrightarrow> sessionsGrow w w' \<Longrightarrow> sessionStored api sc w'"
  by (auto simp: sessionStored_def sessionsGrow_def)

lemma clientKnown_mono: "clientKnown api sc w \<Longrightarrow> sessionsGrow w w' \<Longrightarrow> clientKnown api sc w'"
  unfolding clientKnown_def sessionsGrow_def by blast

lemma postAuth_session:
  assumes "postAuth env api sc pp w = (Inr r, w')" and "clientKnown api sc w"
  shows "\<not> sessionStored api sc w \<and> sessionStored api sc w' \<and> clientKnown api sc w'"
proof -
  from assms(1) obtain w1 w2 w3 w4 w5 jwt x where v: "P_VerifyChallenge env api sc w = (Inr (), w1)"
    and c: "P_CompareChallenge env api sc w1 = (Inr (), w2)" and g: "P_GenerateChallengeJWT api sc w2 = (Inr jwt, w3)"
    and s: "P_UpdateChallengeSession env api sc jwt w3 = (Inr (), w4)"
    and d: "P_UpdateChallengeDB env api sc w4 = (Inr (), w5)" and a: "P_AttachEntityStatus env api jwt pp w5 = (Inr x, w')"
    by (auto simp: postAuth_def elim!: andThen_InrE)
  from checkChallenge_Inr [OF verifyChallenge_Inr [OF v]] obtain tx client where
    tx: "w1 = w" "newTransaction api sc = Inr tx" "provenChallenge env api w tx client" by blast
  then obtain op ops where op: "ct_operations tx = op # ops" "md_source op = Some client"
    by (auto simp: provenChallenge_def)
  have w3: "w3 = advance (advance w)"
    using compareChallenge_Inr [OF c tx(2)] generateJwt_Inr [OF g tx(2) op] tx(1) by simp
  have "clientKnown api sc w3" using assms(2) by (simp add: w3 clientKnown_def)
  from updateSessionStep_Inr [OF s this] have st: "sessionStored api sc w4" "\<not> sessionStored api sc w3" by simp_all
  have "sessionsGrow w3 w4" using grow_updateSessionStep s by (rule guarD)
  moreover have "sessionsGrow w4 w5" using grow_updateDB d by (rule guarD)
  moreover have "sessionsGrow w5 w'" using grow_attach a by (rule guarD)
  ultimately have "sessionsGrow w4 w'" "sessionsGrow w3 w'" using grow.R_trans by blast+
  with st \<open>clientKnown api sc w3\<close> show ?thesis
    using sessionStored_mono clientKnown_mono by (auto simp: w3 sessionStored_def)
qed

text \<open>C11: A signed challenge opens one session: once it has succeeded for a stored account, every later attempt
  with it fails, as long as the session row is there.\<close>

theorem wallet_challenge_is_one_time:
  assumes "postAuth env api sc pp w = (Inr r, w')" and "clientKnown api sc w" and "sessionsGrow w' v"
  shows "\<exists>e v'. postAuth env' api sc pp' v = (Inl e, v')"
proof -
  obtain x v' where p: "postAuth env' api sc pp' v = (x, v')" by fastforce
  have "sessionStored api sc v" "clientKnown api sc v"
    using postAuth_session [OF assms(1,2)] assms(3) sessionStored_mono clientKnown_mono by blast+
  then have "x \<noteq> Inr r'" for r' using postAuth_session [of env' api sc pp' v r' v'] p by auto
  with p show ?thesis by (cases x) auto
qed

definition challenged0 :: world where
  "challenged0 = world0\<lparr>w_challenges := [BaseColumns.extend base0 \<lparr>c_id = ''c1'', c_accountId = ''A1'',
     c_status = C_UNVERIFIED, c_ttl = 5000, c_txHash = ''h'', c_txXDR = ''xdr''\<rparr>],
     w_sessionManager := [(''h'', \<lparr>ms_txHash = ''h'', ms_clientAccount = Some ''A1'', ms_requestId = ''req'',
        ms_expiresAt = 5000, ms_status = MS_PENDING\<rparr>)]\<rparr>"

lemma authenticated0: "\<exists>w'. postAuth env0 authApi0 ''signed'' ''P1'' challenged0 =
    (Inr \<lparr>ar_jwt = ''A1'', ar_entityStatus = E_APPROVED, ar_kycSubmissionUrl = None\<rparr>, w')"
proof -
  have "fst (postAuth env0 authApi0 ''signed'' ''P1'' challenged0) =
    Inr \<lparr>ar_jwt = ''A1'', ar_entityStatus = E_APPROVED, ar_kycSubmissionUrl = None\<rparr>"
    by code_simp
  then show ?thesis by (metis prod.collapse)
qed

lemma clientKnown0: "clientKnown authApi0 ''signed'' challenged0"
  by (simp add: clientKnown_def challenged0_def authApi0_def authTx0_def fixture_defs)

lemma wallet_token_needs_proof_witness:
  "\<exists>tx client. newTransaction authApi0 ''signed'' = Inr tx \<and> provenChallenge env0 authApi0 challenged0 tx client"
  using authenticated0 wallet_token_needs_proof by blast

lemma wallet_challenge_is_one_time_witness:
  "\<exists>w' e v'. postAuth env0 authApi0 ''signed'' ''P1'' challenged0 =
      (Inr \<lparr>ar_jwt = ''A1'', ar_entityStatus = E_APPROVED, ar_kycSubmissionUrl = None\<rparr>, w') \<and>
    postAuth env0 authApi0 ''signed'' ''P2'' w' = (Inl e, v')"
proof -
  obtain w' where w': "postAuth env0 authApi0 ''signed'' ''P1'' challenged0 =
      (Inr \<lparr>ar_jwt = ''A1'', ar_entityStatus = E_APPROVED, ar_kycSubmissionUrl = None\<rparr>, w')"
    using authenticated0 by blast
  from wallet_challenge_is_one_time [OF w' clientKnown0, of w' env0 "''P2''"] w' show ?thesis
    by (auto simp: sessionsGrow_def)
qed

text \<open>Two checks do less than they say: a challenge without operations is not reported as such, and the
  expiry is compared by calendar day.\<close>

definition emptyChallenge :: AuthApi where
  "emptyChallenge = authApi0\<lparr>newTransaction := (\<lambda>_. Inr (authTx0\<lparr>ct_operations := []\<rparr>))\<rparr>"

definition longerChallenge :: AuthApi where
  "longerChallenge = authApi0\<lparr>newTransaction := (\<lambda>_. Inr (authTx0\<lparr>ct_timeBounds := Some (Some 0, Some 80000)\<rparr>))\<rparr>"

theorem weak_challenge_checks:
  "fst (P_VerifyChallenge env0 emptyChallenge ''signed'' challenged0) = Inl (PlatformError Err_CHALLENGE_VERIFICATION_FAILED) \<and>
   fst (P_CompareChallenge env0 longerChallenge ''signed'' challenged0) = Inr ()"
  by (intro conjI) code_simp+

text \<open>The activation of a live session forgets the client account.\<close>

theorem activation_forgets_client:
  "map (\<lambda>(_, s). (ms_clientAccount s, ms_status s))
     (w_sessionManager (snd (P_UpdateChallengeSession env0 authApi0 ''signed'' ''jwt'' challenged0))) = [(None, MS_ACTIVE)]"
  by code_simp

section \<open>Guarantees\<close>

text \<open>A relation that looks at none of the tables of the authentication.\<close>

locale auth_client = gate_guarantee R for R :: "world \<Rightarrow> world \<Rightarrow> bool" +
  assumes R_dashboard: "R w (w_dashboardChallenges_update k1 w)"
    and R_entityChallenges: "R w (w_entityChallenges_update k2 w)"
    and R_sessionManager: "R w (w_sessionManager_update k3 w)"
    and R_challenges: "R w (w_challenges_update k4 w)"
    and R_sessions: "R w (w_sessions_update k5 w)"
    and R_accounts: "R w (w_accounts_update k6 w)"
    and R_entities: "R w (w_entities_update k7 w)"
begin

lemma guar_operatorAuth: "guar R (createDashboardChallenge env api pk)"
  "guar R (verifyDashboardChallenge env api n s pk config)"
  unfolding createDashboardChallenge_def verifyDashboardChallenge_def isAuthorizedSigner_def
  by (intro world_rules guar_modify R_dashboard)+

lemma guar_entityAuth: "guar R (createEntityChallenge env api pk)" "guar R (verifyEntityChallenge env api pk n s)"
  unfolding createEntityChallenge_def verifyEntityChallenge_def
  by (intro world_rules guar_modify R_entityChallenges)+

lemma guar_memory: "guar R (getSession env k)" "guar R (updateSession env s)" "guar R (addSession a b c d)"
  "guar R (sessions_cleanupExpired env)"
  unfolding getSession_def updateSession_def addSession_def sessions_cleanupExpired_def
  by (intro world_rules guar_modify R_sessionManager)+

lemma guar_authTables: "guar R (challenges_create env c)" "guar R (challenges_update env i f)"
  "guar R (sessions_create env s)" "guar R (accounts_create env a)" "guar R (entities_create env e)"
  "guar R (entities_update env i g)"
  unfolding challenges_create_def challenges_update_def sessions_create_def accounts_create_def entities_create_def
    entities_update_def base_create_def base_update_def
  by (rule guar_dbExec, rule guarI, simp add: R_refl R_challenges R_sessions R_accounts R_entities)+

lemma guar_findOneByTxHash: "guar R (findOneByTxHash env h)"
  unfolding findOneByTxHash_def by (rule guar_dbQuery)

lemma guar_getAuth: "guar R (getAuth env api a r)"
  unfolding getAuth_def P_CreateChallenge_def P_CreateChallengeDB_def P_CreateChallengeMemory_def newUserAccount_def
    getChallengeTransaction_def failWith_def Let_def
  by (intro world_rules guar_assertM guar_reads guar_memory guar_authTables)

lemma guar_postAuth: "guar R (postAuth env api sc pp)"
  unfolding postAuth_def P_VerifyChallenge_def checkChallenge_def P_CompareChallenge_def P_GenerateChallengeJWT_def
    P_UpdateChallengeSession_def P_UpdateChallengeDB_def P_AttachEntityStatus_def Let_def
  by (intro world_rules guar_assertM guar_reads guar_memory guar_authTables guar_findOneByTxHash
      guar_recordInteraction)

end

end
