(* ===== verification/Pay.thy ===== *)
theory Pay
  imports Auth
begin

text \<open>
  The payment back end, \<^verbatim>\<open>core/service/pay\<close> and \<^verbatim>\<open>http/v1/pay\<close>: KYC records, custodial accounts with their
  balances, sends, escrows held for receivers without KYC, and the claim of an escrow.

  A column of type \<^verbatim>\<open>bigint\<close> holds a signed 64-bit integer; a statement that would store anything else
  fails.  A statement inside \<^verbatim>\<open>drizzleClient.transaction\<close> takes effect only when the whole transaction commits.
  \<open>PayApi\<close> holds what the handlers take from outside: the key format, random values, tokens, the paging clauses
  the query builder makes of a number, and the conversion of values that are not strings to a text column
  (\<open>pgTextOf\<close>) or to a string (\<open>jsStringOf\<close>).
\<close>

section \<open>What the handlers call\<close>

record PayApi =
  isValidEd25519PublicKey :: "string \<Rightarrow> bool"
  payUUID :: "nat \<Rightarrow> string"
  randomKeypair :: "nat \<Rightarrow> string"
  passwordSalt :: "nat \<Rightarrow> byte list"
  generateJwt :: "nat \<Rightarrow> string \<Rightarrow> string \<Rightarrow> string \<Rightarrow> exn + string"
  bufferFromHex :: "json \<Rightarrow> exn + string"
  sqlLimit :: "number \<Rightarrow> exn + nat option"
  sqlOffset :: "number \<Rightarrow> exn + nat"
  pgTextOf :: "json \<Rightarrow> exn + string"
  jsStringOf :: "json \<Rightarrow> exn + string"

text \<open>The verified payload of the bearer token.\<close>

record PaySession =
  ps_sub :: string
  ps_type :: "string option"

definition columnText :: "PayApi \<Rightarrow> json \<Rightarrow> exn + string" where
  "columnText api v = (case v of JString s \<Rightarrow> Inr s | _ \<Rightarrow> pgTextOf api v)"

definition stringOf :: "PayApi \<Rightarrow> json \<Rightarrow> exn + string" where
  "stringOf api v = (case v of JString s \<Rightarrow> Inr s | _ \<Rightarrow> jsStringOf api v)"

definition int8 :: "int \<Rightarrow> bool" where
  "int8 n \<longleftrightarrow> - (2 ^ 63) \<le> n \<and> n < 2 ^ 63"

text \<open>\<^verbatim>\<open>drizzleClient.transaction\<close>: BEGIN, the statements, COMMIT; any failure leaves the tables as they were
  before BEGIN.\<close>

definition dbTransaction :: "env \<Rightarrow> 'a action \<Rightarrow> 'a action" where
  "dbTransaction env body = (\<lambda>w.
    case andThen (dbQuery env (\<lambda>_. ())) (\<lambda>_. andThen body (\<lambda>x. andThen (dbQuery env (\<lambda>_. ())) (\<lambda>_. ret x))) w of
      (Inl e, w') \<Rightarrow> (Inl e, w\<lparr>w_tick := w_tick w'\<rparr>)
    | (Inr x, w') \<Rightarrow> (Inr x, w'))"

section \<open>Repositories\<close>

definition kyc_findByAddress :: "env \<Rightarrow> string \<Rightarrow> PayKyc option action" where
  "kyc_findByAddress env address = dbQuery env (\<lambda>w.
    find (\<lambda>r. pk_address r = address \<and> deletedAt r = None) (w_payKyc w))"

text \<open>The address of a KYC record is unique, also among deleted records.\<close>

definition kyc_create :: "env \<Rightarrow> PayKyc \<Rightarrow> PayKyc action" where
  "kyc_create env row = dbExec env (\<lambda>_ w.
    if list_ex (\<lambda>r. pk_id r = pk_id row \<or> pk_address r = pk_address row) (w_payKyc w) then (Inl DbError, w)
    else (Inr row, w_payKyc_update (\<lambda>rs. rs @ [row]) w))"

definition kyc_update :: "env \<Rightarrow> string \<Rightarrow> (PayKyc \<Rightarrow> PayKyc) \<Rightarrow> PayKyc list action" where
  "kyc_update env = base_update env w_payKyc w_payKyc_update pk_id"

definition accounts_findByUsername :: "env \<Rightarrow> string \<Rightarrow> PayCustodialAccount option action" where
  "accounts_findByUsername env username = dbQuery env (\<lambda>w.
    find (\<lambda>r. pca_username r = username \<and> deletedAt r = None) (w_payAccounts w))"

definition payAccounts_findById :: "env \<Rightarrow> string \<Rightarrow> PayCustodialAccount option action" where
  "payAccounts_findById env = base_findById env w_payAccounts pca_id"

definition findByDepositAddress :: "env \<Rightarrow> string \<Rightarrow> PayCustodialAccount option action" where
  "findByDepositAddress env address = dbQuery env (\<lambda>w.
    find (\<lambda>r. pca_depositAddress r = address \<and> deletedAt r = None) (w_payAccounts w))"

definition payAccounts_create :: "env \<Rightarrow> PayCustodialAccount \<Rightarrow> PayCustodialAccount action" where
  "payAccounts_create env row = dbExec env (\<lambda>_ w.
    if list_ex (\<lambda>r. pca_id r = pca_id row \<or> pca_username r = pca_username row) (w_payAccounts w) \<or>
       \<not> int8 (pca_balance row)
    then (Inl DbError, w)
    else (Inr row, w_payAccounts_update (\<lambda>rs. rs @ [row]) w))"

text \<open>\<^verbatim>\<open>tx.update(payCustodialAccount).set({ balance })\<close>\<close>

definition setBalance :: "env \<Rightarrow> string \<Rightarrow> int \<Rightarrow> unit action" where
  "setBalance env i balance = dbExec env (\<lambda>now w.
    if list_ex (\<lambda>r. pca_id r = i) (w_payAccounts w) \<and> \<not> int8 balance then (Inl DbError, w)
    else (Inr (), w_payAccounts_update
      (map (\<lambda>r. if pca_id r = i then r\<lparr>pca_balance := balance, updatedAt := now\<rparr> else r)) w))"

definition payTransactions_create :: "env \<Rightarrow> PayTransaction \<Rightarrow> PayTransaction action" where
  "payTransactions_create env row = dbExec env (\<lambda>_ w.
    if list_ex (\<lambda>r. ptx_id r = ptx_id row) (w_payTransactions w) \<or> \<not> int8 (ptx_amount row) then (Inl DbError, w)
    else (Inr row, w_payTransactions_update (\<lambda>rs. rs @ [row]) w))"

definition payTxMatches :: "string \<Rightarrow> PayTransactionStatus option \<Rightarrow> PayTransaction \<Rightarrow> bool" where
  "payTxMatches accountId status r \<longleftrightarrow>
    ptx_accountId r = accountId \<and> deletedAt r = None \<and>
    (case status of None \<Rightarrow> True | Some s \<Rightarrow> ptx_status r = s)"

definition page :: "nat option \<Rightarrow> nat \<Rightarrow> 'a list \<Rightarrow> 'a list" where
  "page lmt off rows = (case lmt of None \<Rightarrow> drop off rows | Some n \<Rightarrow> take n (drop off rows))"

definition findByAccountId ::
    "env \<Rightarrow> PayApi \<Rightarrow> string \<Rightarrow> number \<Rightarrow> number \<Rightarrow> PayTransactionStatus option \<Rightarrow> PayTransaction list action" where
  "findByAccountId env api accountId limit offset status =
    andThen (liftSum (sqlLimit api limit)) (\<lambda>lmt.
    andThen (liftSum (sqlOffset api offset)) (\<lambda>off.
    dbQuery env (\<lambda>w. page lmt off (sort_key (\<lambda>r. - createdAt r)
      (filter (payTxMatches accountId status) (w_payTransactions w))))))"

definition countByAccountId :: "env \<Rightarrow> string \<Rightarrow> PayTransactionStatus option \<Rightarrow> nat action" where
  "countByAccountId env accountId status =
    dbQuery env (\<lambda>w. length (filter (payTxMatches accountId status) (w_payTransactions w)))"

definition escrows_create :: "env \<Rightarrow> PayEscrow \<Rightarrow> PayEscrow action" where
  "escrows_create env row = dbExec env (\<lambda>_ w.
    if list_ex (\<lambda>r. esc_id r = esc_id row) (w_payEscrows w) \<or> \<not> int8 (esc_amount row) then (Inl DbError, w)
    else (Inr row, w_payEscrows_update (\<lambda>rs. rs @ [row]) w))"

definition heldFor :: "string \<Rightarrow> PayEscrow \<Rightarrow> bool" where
  "heldFor address r \<longleftrightarrow> esc_heldForAddress r = address \<and> esc_status r = ES_HELD \<and> deletedAt r = None"

definition findHeldForAddress :: "env \<Rightarrow> string \<Rightarrow> PayEscrow list action" where
  "findHeldForAddress env address = dbQuery env (\<lambda>w.
    sort_key (\<lambda>r. - createdAt r) (filter (heldFor address) (w_payEscrows w)))"

definition findBySender :: "env \<Rightarrow> string \<Rightarrow> PayEscrow list action" where
  "findBySender env address = dbQuery env (\<lambda>w.
    sort_key (\<lambda>r. - createdAt r) (filter (\<lambda>r. esc_senderAddress r = address \<and> deletedAt r = None) (w_payEscrows w)))"

definition markClaimed :: "env \<Rightarrow> string \<Rightarrow> unit action" where
  "markClaimed env i = dbExec env (\<lambda>now w. (Inr (), w_payEscrows_update
    (map (\<lambda>r. if esc_id r = i then r\<lparr>esc_status := ES_CLAIMED, updatedAt := now\<rparr> else r)) w))"

section \<open>Escrow\<close>

definition createEscrow ::
    "env \<Rightarrow> PayApi \<Rightarrow> string \<Rightarrow> string \<Rightarrow> int \<Rightarrow> PayMode \<Rightarrow> string option \<Rightarrow> string list option \<Rightarrow> string action" where
  "createEscrow env api senderAddress receiverAddress amount mode bundleId utxoPublicKeys =
    andThen (gets (\<lambda>w. payUUID api (w_tick w))) (\<lambda>i.
    andThen (dateNow env) (\<lambda>now.
    andThen (escrows_create env \<lparr>createdAt = now, updatedAt = now, createdBy = None, updatedBy = None, deletedAt = None,
       esc_id = i, esc_heldForAddress = receiverAddress, esc_senderAddress = senderAddress, esc_amount = amount,
       esc_assetCode = ''XLM'', esc_status = ES_HELD, esc_utxoPublicKeys = map_option stringifyStrings utxoPublicKeys,
       esc_bundleId = bundleId, esc_claimBundleId = None, esc_mode = mode\<rparr>) (\<lambda>_.
    ret i)))"

definition creditCustodial :: "env \<Rightarrow> string \<Rightarrow> int \<Rightarrow> unit action" where
  "creditCustodial env address amount =
    andThen (dbQuery env (\<lambda>w. find (\<lambda>r. pca_depositAddress r = address) (w_payAccounts w))) (\<lambda>account.
    case account of None \<Rightarrow> ret () | Some a \<Rightarrow> setBalance env (pca_id a) (pca_balance a + amount))"

definition claimOne :: "env \<Rightarrow> PayApi \<Rightarrow> string \<Rightarrow> PayKyc \<Rightarrow> PayEscrow \<Rightarrow> unit action" where
  "claimOne env api address kyc escrow =
    andThen (if esc_mode escrow = Custodial then creditCustodial env address (esc_amount escrow) else ret ()) (\<lambda>_.
    andThen (markClaimed env (esc_id escrow)) (\<lambda>_.
    andThen (gets (\<lambda>w. payUUID api (w_tick w))) (\<lambda>i.
    andThen (dateNow env) (\<lambda>now.
    andThen (payTransactions_create env \<lparr>createdAt = now, updatedAt = now, createdBy = None, updatedBy = None,
       deletedAt = None, ptx_id = i, ptx_type = PT_RECEIVE, ptx_status = PS_COMPLETED, ptx_amount = esc_amount escrow,
       ptx_assetCode = esc_assetCode escrow, ptx_fromAddress = Some (esc_senderAddress escrow),
       ptx_toAddress = Some address, ptx_jurisdictionFrom = None, ptx_jurisdictionTo = pk_jurisdiction kyc,
       ptx_bundleId = None, ptx_accountId = address, ptx_mode = esc_mode escrow\<rparr>) (\<lambda>_. ret ())))))"

definition claimHeld :: "env \<Rightarrow> PayApi \<Rightarrow> string \<Rightarrow> PayKyc \<Rightarrow> (nat \<times> int) action" where
  "claimHeld env api address kyc =
    andThen (dbQuery env (\<lambda>w. filter (heldFor address) (w_payEscrows w))) (\<lambda>held.
    if held = [] then ret (0, 0)
    else andThen (forM held (claimOne env api address kyc)) (\<lambda>_.
      ret (length held, sum_list (map esc_amount held))))"

definition claimEscrowForAddress :: "env \<Rightarrow> PayApi \<Rightarrow> string \<Rightarrow> (nat \<times> int) action" where
  "claimEscrowForAddress env api address =
    andThen (kyc_findByAddress env address) (\<lambda>kyc.
    case Option.bind kyc (\<lambda>k. if pk_status k = K_VERIFIED then Some k else None) of
      None \<Rightarrow> throw (JsError ''KYC not verified for this address'')
    | Some k \<Rightarrow> dbTransaction env (claimHeld env api address k))"

definition getEscrowSummary :: "env \<Rightarrow> string \<Rightarrow> (nat \<times> int) action" where
  "getEscrowSummary env address =
    andThen (findHeldForAddress env address) (\<lambda>held. ret (length held, sum_list (map esc_amount held)))"

section \<open>Sends\<close>

record SendReceipt =
  sr_bundleId :: string
  sr_status :: string
  sr_escrowId :: "string option"

text \<open>The checks both endpoints make of the body: the refusal, or the receiver and the amount.\<close>

definition validateSend :: "PayApi \<Rightarrow> json \<Rightarrow> json \<Rightarrow> string + string \<times> int" where
  "validateSend api receiver amount =
    (if \<not> truthy receiver \<or> \<not> truthy amount then Inl ''to and amount are required''
     else case receiver of
       JString to \<Rightarrow>
         if \<not> isValidEd25519PublicKey api to then Inl ''to must be a valid Stellar public key (G...)''
         else (case amount of
           JString text \<Rightarrow>
             if \<not> allDigits text then Inl ''amount must be a valid positive integer string''
             else (case parseDigits 0 text of
                 None \<Rightarrow> Inl ''amount must be a valid positive integer string''
               | Some n \<Rightarrow> if n = 0 then Inl ''Amount must be positive'' else Inr (to, int n))
         | _ \<Rightarrow> Inl ''amount must be a valid positive integer string'')
     | _ \<Rightarrow> Inl ''to must be a valid Stellar public key (G...)'')"

definition sendRow ::
    "string \<Rightarrow> int \<Rightarrow> bool \<Rightarrow> int \<Rightarrow> string \<Rightarrow> string \<Rightarrow> string \<Rightarrow> PayMode \<Rightarrow> PayTransaction" where
  "sendRow i now verified amount source to accountId mode =
    \<lparr>createdAt = now, updatedAt = now, createdBy = None, updatedBy = None, deletedAt = None,
     ptx_id = i, ptx_type = PT_SEND, ptx_status = (if verified then PS_PENDING else PS_COMPLETED),
     ptx_amount = amount, ptx_assetCode = ''XLM'', ptx_fromAddress = Some source, ptx_toAddress = Some to,
     ptx_jurisdictionFrom = None, ptx_jurisdictionTo = None, ptx_bundleId = None, ptx_accountId = accountId,
     ptx_mode = mode\<rparr>"

text \<open>The body of the debit transaction: a refusal with its status, or the id of the new transaction and the
  deposit address.\<close>

definition debit ::
    "env \<Rightarrow> PayApi \<Rightarrow> string \<Rightarrow> string \<Rightarrow> int \<Rightarrow> bool \<Rightarrow> (nat \<times> string + string \<times> string) action" where
  "debit env api accountId to sendAmount verified =
    andThen (dbQuery env (\<lambda>w. find (\<lambda>r. pca_id r = accountId) (w_payAccounts w))) (\<lambda>account.
    case account of
      None \<Rightarrow> ret (Inl (404, ''Account not found''))
    | Some a \<Rightarrow>
       if pca_status a = PC_SUSPENDED then ret (Inl (403, ''Account suspended''))
       else if pca_balance a < sendAmount then ret (Inl (400, ''Insufficient balance''))
       else
        andThen (setBalance env accountId (pca_balance a - sendAmount)) (\<lambda>_.
        andThen (gets (\<lambda>w. payUUID api (w_tick w))) (\<lambda>txId.
        andThen (dateNow env) (\<lambda>now.
        andThen (payTransactions_create env
          (sendRow txId now verified sendAmount (pca_depositAddress a) to accountId Custodial)) (\<lambda>_.
        ret (Inr (txId, pca_depositAddress a)))))))"

definition receiverVerified :: "PayKyc option \<Rightarrow> bool" where
  "receiverVerified kyc \<longleftrightarrow> (case kyc of None \<Rightarrow> False | Some k \<Rightarrow> pk_status k = K_VERIFIED)"

definition sendResponse :: "bool \<Rightarrow> string \<Rightarrow> string option \<Rightarrow> SendReceipt Response action" where
  "sendResponse verified txId escrowId =
    respondWith 200 (if verified then ''Send initiated'' else ''Send initiated (held in escrow)'')
      \<lparr>sr_bundleId = txId, sr_status = (if verified then ''pending'' else ''escrowed''), sr_escrowId = escrowId\<rparr>"

definition custodialTransfer ::
    "env \<Rightarrow> PayApi \<Rightarrow> string \<Rightarrow> string \<Rightarrow> int \<Rightarrow> SendReceipt Response action" where
  "custodialTransfer env api accountId to sendAmount =
    andThen (kyc_findByAddress env to) (\<lambda>receiverKyc.
    let verified = receiverVerified receiverKyc in
    andThen (dbTransaction env (debit env api accountId to sendAmount verified)) (\<lambda>result.
    case result of
      Inl (st, msg) \<Rightarrow> respond st msg
    | Inr (txId, depositAddress) \<Rightarrow>
       andThen (if verified then ret None
                else andThen (createEscrow env api depositAddress to sendAmount Custodial (Some txId) None)
                  (\<lambda>i. ret (Some i))) (\<lambda>escrowId.
       sendResponse verified txId escrowId)))"

definition handlePostCustodialSend ::
    "env \<Rightarrow> PayApi \<Rightarrow> exn + json \<Rightarrow> PaySession \<Rightarrow> SendReceipt Response action" where
  "handlePostCustodialSend env api request session =
    tryCatch
     (andThen (liftSum request) (\<lambda>body.
      andThen (liftSum (getMember body ''to'')) (\<lambda>to.
      andThen (liftSum (getMember body ''amount'')) (\<lambda>amount.
      case validateSend api to amount of
        Inl msg \<Rightarrow> respond 400 msg
      | Inr (receiver, sendAmount) \<Rightarrow>
         if ps_type session \<noteq> Some ''custodial'' then respond 403 ''Custodial authentication required''
         else custodialTransfer env api (ps_sub session) receiver sendAmount))))
     (\<lambda>_. respond 400 ''Invalid request body'')"

definition selfTransfer ::
    "env \<Rightarrow> PayApi \<Rightarrow> string \<Rightarrow> string \<Rightarrow> int \<Rightarrow> SendReceipt Response action" where
  "selfTransfer env api accountId to sendAmount =
    andThen (kyc_findByAddress env to) (\<lambda>receiverKyc.
    let verified = receiverVerified receiverKyc in
    andThen (gets (\<lambda>w. payUUID api (w_tick w))) (\<lambda>txId.
    andThen (dateNow env) (\<lambda>now.
    andThen (payTransactions_create env (sendRow txId now verified sendAmount accountId to accountId SelfCustodial)) (\<lambda>_.
    andThen (if verified then ret None
             else andThen (createEscrow env api accountId to sendAmount SelfCustodial (Some txId) None)
               (\<lambda>i. ret (Some i))) (\<lambda>escrowId.
    sendResponse verified txId escrowId)))))"

definition handlePostSelfSend ::
    "env \<Rightarrow> PayApi \<Rightarrow> exn + json \<Rightarrow> PaySession \<Rightarrow> SendReceipt Response action" where
  "handlePostSelfSend env api request session =
    tryCatch
     (andThen (liftSum request) (\<lambda>body.
      andThen (liftSum (getMember body ''to'')) (\<lambda>to.
      andThen (liftSum (getMember body ''amount'')) (\<lambda>amount.
      case validateSend api to amount of
        Inl msg \<Rightarrow> respond 400 msg
      | Inr (receiver, sendAmount) \<Rightarrow>
         if ps_type session = Some ''custodial'' then respond 403 ''This endpoint is for self-custodial users only''
         else selfTransfer env api (ps_sub session) receiver sendAmount))))
     (\<lambda>_. respond 400 ''Invalid request body'')"

section \<open>Custodial accounts\<close>

record CustodialToken =
  ct_token :: string
  ct_depositAddress :: string

definition registerAccount ::
    "env \<Rightarrow> PayApi \<Rightarrow> string \<Rightarrow> json \<Rightarrow> CustodialToken Response action" where
  "registerAccount env api username password =
    andThen (liftSum (stringOf api password)) (\<lambda>passwordText.
    andThen (gets (\<lambda>w. hashPassword (subtle env) (passwordSalt api (w_tick w)) passwordText)) (\<lambda>passwordHashValue.
    andThen (gets (\<lambda>w. randomKeypair api (w_tick w))) (\<lambda>depositAddress.
    andThen (gets (\<lambda>w. payUUID api (w_tick w))) (\<lambda>accountId.
    andThen (dateNow env) (\<lambda>now.
    andThen (payAccounts_create env \<lparr>createdAt = now, updatedAt = now, createdBy = None, updatedBy = None,
       deletedAt = None, pca_id = accountId, pca_username = username, pca_passwordHash = passwordHashValue,
       pca_depositAddress = depositAddress, pca_balance = 0, pca_status = PC_ACTIVE\<rparr>) (\<lambda>_.
    andThen (gets (\<lambda>w. payUUID api (w_tick w))) (\<lambda>sessionId.
    andThen (external (\<lambda>n. generateJwt api n accountId sessionId ''custodial'')) (\<lambda>token.
    respondWith 200 ''Account created'' \<lparr>ct_token = token, ct_depositAddress = depositAddress\<rparr>))))))))"

definition handlePostCustodialRegister ::
    "env \<Rightarrow> PayApi \<Rightarrow> exn + json \<Rightarrow> CustodialToken Response action" where
  "handlePostCustodialRegister env api request =
    tryCatch
     (andThen (liftSum request) (\<lambda>body.
      andThen (liftSum (getMember body ''username'')) (\<lambda>username.
      andThen (liftSum (getMember body ''password'')) (\<lambda>password.
      if \<not> truthy username \<or> \<not> truthy password then respond 400 ''username and password are required''
      else let n = toNumber (lengthMember username) in
      if numberLess n (Finite 3) \<or> numberLess (Finite 50) n then respond 400 ''Username must be 3-50 characters''
      else if numberLess (toNumber (lengthMember password)) (Finite 8)
      then respond 400 ''Password must be at least 8 characters''
      else
       andThen (liftSum (columnText api username)) (\<lambda>name.
       andThen (accounts_findByUsername env name) (\<lambda>existing.
       if existing \<noteq> None then respond 400 ''Registration failed''
       else registerAccount env api name password))))))
     (\<lambda>_. respond 400 ''Invalid request body'')"

definition handlePostCustodialLogin :: "env \<Rightarrow> PayApi \<Rightarrow> exn + json \<Rightarrow> string Response action" where
  "handlePostCustodialLogin env api request =
    tryCatch
     (andThen (liftSum request) (\<lambda>body.
      andThen (liftSum (getMember body ''username'')) (\<lambda>username.
      andThen (liftSum (getMember body ''password'')) (\<lambda>password.
      if \<not> truthy username \<or> \<not> truthy password then respond 400 ''username and password are required''
      else
       andThen (liftSum (columnText api username)) (\<lambda>name.
       andThen (accounts_findByUsername env name) (\<lambda>found.
       case found of
         None \<Rightarrow> respond 401 ''Invalid credentials''
       | Some account \<Rightarrow>
       andThen (liftSum (stringOf api password)) (\<lambda>passwordText.
       if \<not> verifyPassword (subtle env) passwordText (pca_passwordHash account)
       then respond 401 ''Invalid credentials''
       else if pca_status account = PC_SUSPENDED then respond 401 ''Invalid credentials''
       else
        andThen (gets (\<lambda>w. payUUID api (w_tick w))) (\<lambda>sessionId.
        andThen (external (\<lambda>n. generateJwt api n (pca_id account) sessionId ''custodial'')) (\<lambda>token.
        respondWith 200 ''Login successful'' token)))))))))
     (\<lambda>_. respond 400 ''Invalid request body'')"

record AccountView =
  av_id :: string
  av_depositAddress :: string
  av_balance :: string
  av_status :: string

definition handleGetCustodialAccount :: "env \<Rightarrow> PaySession \<Rightarrow> AccountView Response action" where
  "handleGetCustodialAccount env session =
    tryCatch
     (andThen (payAccounts_findById env (ps_sub session)) (\<lambda>account.
      case account of
        None \<Rightarrow> respond 404 ''Account not found''
      | Some a \<Rightarrow> respondWith 200 ''Account retrieved''
          \<lparr>av_id = pca_id a, av_depositAddress = pca_depositAddress a, av_balance = intToString (pca_balance a),
           av_status = (case pca_status a of PC_ACTIVE \<Rightarrow> ''active'' | PC_SUSPENDED \<Rightarrow> ''suspended'')\<rparr>))
     (\<lambda>_. respond 500 ''Failed to retrieve account'')"

section \<open>KYC\<close>

text \<open>The ownership check of \<^verbatim>\<open>kyc/get.ts\<close> and \<^verbatim>\<open>escrow/summary.ts\<close>; \<^verbatim>\<open>kyc/post.ts\<close> makes it without the last
  branch, for every other type of session.\<close>

definition requireOwnAddress ::
    "env \<Rightarrow> bool \<Rightarrow> PaySession \<Rightarrow> json \<Rightarrow> 'd Response action \<Rightarrow> 'd Response action" where
  "requireOwnAddress env anyType session address next =
    (if ps_type session = Some ''custodial''
     then andThen (payAccounts_findById env (ps_sub session)) (\<lambda>account.
       case account of
         None \<Rightarrow> respond 403 ''Address does not belong to this account''
       | Some a \<Rightarrow> if JString (pca_depositAddress a) \<noteq> address then respond 403 ''Address does not belong to this account''
                   else next)
     else if anyType \<or> orEmpty (ps_type session) = [] \<or> ps_type session = Some ''sep10''
     then (if address \<noteq> JString (ps_sub session) then respond 403 ''Address does not match authenticated account''
           else next)
     else respond 403 ''Unknown session type'')"

record KycView =
  kv_status :: PayKycStatus
  kv_jurisdiction :: "string option"

definition handleGetKyc :: "env \<Rightarrow> PaySession \<Rightarrow> string option \<Rightarrow> KycView Response action" where
  "handleGetKyc env session param =
    tryCatch
     (let address = orEmpty param in
      if address = [] then respond 400 ''Address is required''
      else requireOwnAddress env False session (JString address)
       (andThen (kyc_findByAddress env address) (\<lambda>kyc.
        respondWith 200 ''KYC status retrieved''
          (case kyc of None \<Rightarrow> \<lparr>kv_status = K_NONE, kv_jurisdiction = None\<rparr>
                     | Some k \<Rightarrow> \<lparr>kv_status = pk_status k, kv_jurisdiction = pk_jurisdiction k\<rparr>))))
     (\<lambda>_. respond 500 ''Failed to retrieve KYC status'')"

definition submitKyc :: "env \<Rightarrow> PayApi \<Rightarrow> json \<Rightarrow> json \<Rightarrow> PayKycStatus Response action" where
  "submitKyc env api address jurisdiction =
    andThen (liftSum (columnText api address)) (\<lambda>addr.
    andThen (kyc_findByAddress env addr) (\<lambda>existing.
    andThen (liftSum (columnText api jurisdiction)) (\<lambda>j.
    andThen
     (case existing of
        Some k \<Rightarrow> andThen (kyc_update env (pk_id k) (\<lambda>r. r\<lparr>pk_jurisdiction := Some j, pk_status := K_PENDING\<rparr>)) (\<lambda>_. ret ())
      | None \<Rightarrow>
         andThen (gets (\<lambda>w. payUUID api (w_tick w))) (\<lambda>i.
         andThen (dateNow env) (\<lambda>now.
         andThen (kyc_create env \<lparr>createdAt = now, updatedAt = now, createdBy = None, updatedBy = None, deletedAt = None,
            pk_id = i, pk_address = addr, pk_status = K_PENDING, pk_jurisdiction = Some j, pk_verifiedAt = None\<rparr>) (\<lambda>_. ret ())))) (\<lambda>_.
     respondWith 200 ''KYC submitted'' K_PENDING))))"

definition handlePostKyc :: "env \<Rightarrow> PayApi \<Rightarrow> exn + json \<Rightarrow> PaySession \<Rightarrow> PayKycStatus Response action" where
  "handlePostKyc env api request session =
    tryCatch
     (andThen (liftSum request) (\<lambda>body.
      andThen (liftSum (getMember body ''address'')) (\<lambda>address.
      andThen (liftSum (getMember body ''jurisdiction'')) (\<lambda>jurisdiction.
      if \<not> truthy address \<or> \<not> truthy jurisdiction then respond 400 ''address and jurisdiction are required''
      else requireOwnAddress env True session address (submitKyc env api address jurisdiction)))))
     (\<lambda>_. respond 400 ''Invalid request body'')"

section \<open>Views\<close>

record EscrowSummary =
  es_count :: nat
  es_totalAmount :: string

definition handleGetEscrowSummary :: "env \<Rightarrow> PaySession \<Rightarrow> string option \<Rightarrow> EscrowSummary Response action" where
  "handleGetEscrowSummary env session param =
    tryCatch
     (let address = orEmpty param in
      if address = [] then respond 400 ''Address is required''
      else requireOwnAddress env False session (JString address)
       (andThen (getEscrowSummary env address) (\<lambda>(n, total).
        respondWith 200 ''Escrow summary retrieved'' \<lparr>es_count = n, es_totalAmount = intToString total\<rparr>)))
     (\<lambda>_. respond 500 ''Failed to retrieve escrow summary'')"

definition payStatusName :: "PayTransactionStatus \<Rightarrow> string" where
  "payStatusName s = (case s of PS_PENDING \<Rightarrow> ''PENDING'' | PS_COMPLETED \<Rightarrow> ''COMPLETED'' | PS_FAILED \<Rightarrow> ''FAILED''
     | PS_EXPIRED \<Rightarrow> ''EXPIRED'')"

definition payTypeName :: "PayTransactionType \<Rightarrow> string" where
  "payTypeName t = (case t of PT_DEPOSIT \<Rightarrow> ''DEPOSIT'' | PT_WITHDRAW \<Rightarrow> ''WITHDRAW'' | PT_SEND \<Rightarrow> ''SEND''
     | PT_RECEIVE \<Rightarrow> ''RECEIVE'')"

definition validStatuses :: "PayTransactionStatus list" where
  "validStatuses = [PS_PENDING, PS_COMPLETED, PS_FAILED, PS_EXPIRED]"

record PayTransactionView =
  pv_id :: string
  pv_type :: string
  pv_status :: string
  pv_amount :: string
  pv_assetCode :: string
  pv_from :: "string option"
  pv_to :: "string option"
  pv_jurisdictionFrom :: "string option"
  pv_jurisdictionTo :: "string option"
  pv_createdAt :: string
  pv_updatedAt :: string

definition payTransactionView :: "PayTransaction \<Rightarrow> PayTransactionView" where
  "payTransactionView tx =
    \<lparr>pv_id = ptx_id tx, pv_type = toLowerCase (payTypeName (ptx_type tx)),
     pv_status = toLowerCase (payStatusName (ptx_status tx)), pv_amount = intToString (ptx_amount tx),
     pv_assetCode = ptx_assetCode tx, pv_from = ptx_fromAddress tx, pv_to = ptx_toAddress tx,
     pv_jurisdictionFrom = ptx_jurisdictionFrom tx, pv_jurisdictionTo = ptx_jurisdictionTo tx,
     pv_createdAt = toISOString (createdAt tx), pv_updatedAt = toISOString (updatedAt tx)\<rparr>"

text \<open>\<^verbatim>\<open>params.get(k) || d\<close>\<close>

definition paramOr :: "string option \<Rightarrow> string \<Rightarrow> string" where
  "paramOr v d = (if orEmpty v = [] then d else orEmpty v)"

definition handleListTransactions ::
    "env \<Rightarrow> PayApi \<Rightarrow> PaySession \<Rightarrow> string option \<Rightarrow> string option \<Rightarrow> string option \<Rightarrow>
      (PayTransactionView list \<times> nat) Response action" where
  "handleListTransactions env api session limitParam offsetParam statusParam =
    tryCatch
     (let limit = numberMin (toNumberText (paramOr limitParam ''50'')) (Finite 100);
          offset = toNumberText (paramOr offsetParam ''0'');
          status = find (\<lambda>s. payStatusName s = orEmpty statusParam) validStatuses
      in if orEmpty statusParam \<noteq> [] \<and> status = None
         then respond 400 (''Invalid status. Must be one of: '' @ joinWith '', '' (map payStatusName validStatuses))
         else
          andThen (findByAccountId env api (ps_sub session) limit offset status) (\<lambda>transactions.
          andThen (countByAccountId env (ps_sub session) status) (\<lambda>total.
          respondWith 200 ''Transactions retrieved'' (map payTransactionView transactions, total))))
     (\<lambda>_. respond 500 ''Failed to retrieve transactions'')"

section \<open>Balances on the channel\<close>

definition MAX_UTXO_SLOTS :: nat where
  "MAX_UTXO_SLOTS = 300"

definition queryBalances :: "env \<Rightarrow> string list \<Rightarrow> PrivacyChannel \<Rightarrow> int list action" where
  "queryBalances env publicKeys channelClient =
    (if publicKeys = [] then ret [] else external (\<lambda>n. rpcUtxoBalances env n channelClient publicKeys))"

record BalanceView =
  bv_totalBalance :: string
  bv_utxoCount :: nat
  bv_freeSlots :: nat
  bv_utxos :: "(json \<times> string) list"

fun decodeKeys :: "PayApi \<Rightarrow> json list \<Rightarrow> exn + string list" where
  "decodeKeys api [] = Inr []"
| "decodeKeys api (v # vs) =
    (case bufferFromHex api v of
       Inl e \<Rightarrow> Inl e
     | Inr k \<Rightarrow> (case decodeKeys api vs of Inl e \<Rightarrow> Inl e | Inr ks \<Rightarrow> Inr (k # ks)))"

definition balanceResponse :: "json list \<Rightarrow> int list \<Rightarrow> BalanceView Response action" where
  "balanceResponse publicKeys balances =
    (if length balances < length publicKeys then throw TypeError
     else respondWith 200 ''Balance retrieved''
       \<lparr>bv_totalBalance = intToString (sum_list balances),
        bv_utxoCount = length (filter (\<lambda>b. b > 0) balances),
        bv_freeSlots = MAX_UTXO_SLOTS - length publicKeys,
        bv_utxos = zip publicKeys (map intToString balances)\<rparr>)"

definition handlePostSelfBalance ::
    "env \<Rightarrow> PayApi \<Rightarrow> exn + json \<Rightarrow> PaySession \<Rightarrow> BalanceView Response action" where
  "handlePostSelfBalance env api request session =
    (if ps_type session = Some ''custodial'' then respond 403 ''This endpoint is for self-custodial users only''
     else tryCatch
      (andThen (liftSum request) (\<lambda>body.
       andThen (liftSum (getMember body ''publicKeys'')) (\<lambda>publicKeys.
       andThen (liftSum (getMember body ''channelContractId'')) (\<lambda>channel.
       case nonEmptyString channel of
         None \<Rightarrow> respond 400 ''channelContractId is required''
       | Some channelContractId \<Rightarrow>
       (case publicKeys of
          JArray keys \<Rightarrow>
            if keys = [] then respond 400 ''publicKeys must be a non-empty array of hex strings''
            else if length keys > MAX_UTXO_SLOTS
            then respond 400 (''publicKeys array exceeds maximum of '' @ natToString MAX_UTXO_SLOTS)
            else
             andThen (liftSum (decodeKeys api keys)) (\<lambda>utxoPublicKeys.
             andThen (resolveChannelClient env channelContractId) (\<lambda>(client, _).
             andThen (queryBalances env utxoPublicKeys client) (\<lambda>balances.
             balanceResponse keys balances)))
        | _ \<Rightarrow> respond 400 ''publicKeys must be a non-empty array of hex strings'')))))
      (\<lambda>_. respond 500 ''Failed to query balance''))"

definition handlePostReport :: "PayApi \<Rightarrow> exn + json \<Rightarrow> string Response action" where
  "handlePostReport api request =
    tryCatch
     (andThen (liftSum request) (\<lambda>body.
      andThen (liftSum (getMember body ''description'')) (\<lambda>description.
      case nonEmptyString description of
        None \<Rightarrow> respond 400 ''description is required and must be a string''
      | Some _ \<Rightarrow> andThen (gets (\<lambda>w. payUUID api (w_tick w))) (respondWith 200 ''Report received''))))
     (\<lambda>_. respond 400 ''Invalid request body'')"

section \<open>Relations the handlers keep\<close>

lemma validateSend_Inr:
  "validateSend api receiver amount = Inr (to, n) \<Longrightarrow> 0 < n \<and> receiver = JString to \<and> isValidEd25519PublicKey api to"
  by (auto simp: validateSend_def split: if_splits json.splits option.splits)

text \<open>What a relation on worlds must allow for every payment handler to keep it.\<close>

locale pay_guarantee = cache_guarantee R for R :: "world \<Rightarrow> world \<Rightarrow> bool" +
  assumes R_tick: "R w (w\<lparr>w_tick := n\<rparr>)"
    and R_payKyc: "R w (w_payKyc_update p1 w)"
    and R_payTransactions: "R w (w_payTransactions_update p2 w)"
    and guar_newAccount: "pca_balance r = 0 \<Longrightarrow> guar R (payAccounts_create env r)"
    and guar_newEscrow: "0 < esc_amount e \<Longrightarrow> guar R (escrows_create env e)"
    and guar_debit: "0 < n' \<Longrightarrow> guar R (debit env api i to n' v)"
    and guar_claimHeld: "guar R (claimHeld env api address kyc)"
begin

lemma guar_payTables: "guar R (kyc_create env k)" "guar R (kyc_update env i f)" "guar R (payTransactions_create env t)"
  unfolding kyc_create_def kyc_update_def base_update_def payTransactions_create_def
  by (rule guar_dbExec, rule guarI, simp add: R_refl R_payKyc R_payTransactions)+

lemma guar_payReads: "guar R (kyc_findByAddress env a)" "guar R (accounts_findByUsername env u)"
  "guar R (payAccounts_findById env i)" "guar R (findHeldForAddress env a)" "guar R (countByAccountId env i st)"
  "guar R (findByAccountId env api i l off st)"
  unfolding kyc_findByAddress_def accounts_findByUsername_def payAccounts_findById_def base_findById_def
    findHeldForAddress_def countByAccountId_def findByAccountId_def
  by (intro world_rules)+

lemma guar_dbTransaction: "guar R m \<Longrightarrow> guar R (dbTransaction env m)"
proof (rule guarI)
  fix w
  assume "guar R m"
  then have "guar R (andThen (dbQuery env (\<lambda>_. ())) (\<lambda>_. andThen m (\<lambda>x. andThen (dbQuery env (\<lambda>_. ())) (\<lambda>_. ret x))))"
    by (intro world_rules)
  then show "R w (snd (dbTransaction env m w))"
    unfolding guar_def dbTransaction_def by (auto simp: R_tick split: prod.split sum.split dest: spec [of _ w])
qed

lemma guar_createEscrow: "0 < n \<Longrightarrow> guar R (createEscrow env api s r n mode b u)"
  unfolding createEscrow_def by (intro world_rules guar_newEscrow) simp

lemmas pay_rules = world_rules guar_respond guar_payTables guar_payReads guar_dbTransaction guar_createEscrow

lemma guar_custodialSend: "guar R (handlePostCustodialSend env api request session)"
proof -
  have "guar R (custodialTransfer env api i to n)" if "0 < n" for i to n
    unfolding custodialTransfer_def sendResponse_def using that by (intro pay_rules guar_debit)
  then show ?thesis unfolding handlePostCustodialSend_def by (intro pay_rules) (auto dest: validateSend_Inr)
qed

lemma guar_selfSend: "guar R (handlePostSelfSend env api request session)"
proof -
  have "guar R (selfTransfer env api i to n)" if "0 < n" for i to n
    unfolding selfTransfer_def sendResponse_def using that by (intro pay_rules)
  then show ?thesis unfolding handlePostSelfSend_def by (intro pay_rules) (auto dest: validateSend_Inr)
qed

lemma guar_claim: "guar R (claimEscrowForAddress env api address)"
  unfolding claimEscrowForAddress_def by (intro pay_rules guar_claimHeld)

lemma guar_custodial: "guar R (handlePostCustodialRegister env api request)"
  "guar R (handlePostCustodialLogin env api request)" "guar R (handleGetCustodialAccount env session)"
  unfolding handlePostCustodialRegister_def registerAccount_def handlePostCustodialLogin_def
    handleGetCustodialAccount_def
  by (intro pay_rules guar_newAccount; simp)+

lemma guar_kyc: "guar R (handlePostKyc env api request session)" "guar R (handleGetKyc env session p)"
  "guar R (handleGetEscrowSummary env session p)"
  unfolding handlePostKyc_def submitKyc_def handleGetKyc_def handleGetEscrowSummary_def getEscrowSummary_def
    requireOwnAddress_def
  by (intro pay_rules)+

lemma guar_jsonArray:
  "(\<And>xs. guar R (f xs)) \<Longrightarrow> guar R m \<Longrightarrow> guar R (case v of JArray xs \<Rightarrow> f xs | _ \<Rightarrow> m)"
  by (cases v) simp_all

lemma guar_payViews: "guar R (handleListTransactions env api session l off st)"
  "guar R (handlePostSelfBalance env api request session)" "guar R (handlePostReport api request)"
proof -
  have "guar R (balanceResponse ks bs)" for ks bs
    unfolding balanceResponse_def by (intro pay_rules)
  moreover have "guar R (queryBalances env ks c)" for ks c
    unfolding queryBalances_def by (intro pay_rules)
  ultimately show "guar R (handlePostSelfBalance env api request session)"
    unfolding handlePostSelfBalance_def by (intro pay_rules channel_rules guar_jsonArray)
  show "guar R (handleListTransactions env api session l off st)" "guar R (handlePostReport api request)"
    unfolding handleListTransactions_def handlePostReport_def by (intro pay_rules)+
qed

end

text \<open>A relation that does not look at the payment tables at all.\<close>

locale pay_tables = cache_guarantee R for R :: "world \<Rightarrow> world \<Rightarrow> bool" +
  assumes T_tick: "R w (w\<lparr>w_tick := n\<rparr>)"
    and T_payKyc: "R w (w_payKyc_update p1 w)"
    and T_payTransactions: "R w (w_payTransactions_update p2 w)"
    and T_payAccounts: "R w (w_payAccounts_update p3 w)"
    and T_payEscrows: "R w (w_payEscrows_update p4 w)"
begin

lemma guar_payWrites: "guar R (payAccounts_create env r)" "guar R (setBalance env i n)" "guar R (escrows_create env e)"
  "guar R (markClaimed env i)" "guar R (payTransactions_create env t)"
  unfolding payAccounts_create_def setBalance_def escrows_create_def markClaimed_def payTransactions_create_def
  by (rule guar_dbExec, rule guarI, simp add: R_refl T_payAccounts T_payEscrows T_payTransactions)+

lemma guar_payBodies: "guar R (debit env api i to n v)" "guar R (claimHeld env api address kyc)"
  unfolding debit_def claimHeld_def claimOne_def creditCustodial_def
  by (intro world_rules guar_payWrites)+

end

sublocale pay_tables \<subseteq> pay_guarantee
  by unfold_locales (simp_all add: T_tick T_payKyc T_payTransactions guar_payWrites guar_payBodies)

section \<open>No negative balance\<close>

definition payOk :: "world \<Rightarrow> bool" where
  "payOk w \<longleftrightarrow> (\<forall>a\<in>set (w_payAccounts w). 0 \<le> pca_balance a) \<and> (\<forall>e\<in>set (w_payEscrows w). 0 < esc_amount e)"

definition payKept :: "world \<Rightarrow> world \<Rightarrow> bool" where
  "payKept w w' \<longleftrightarrow> (payOk w \<longrightarrow> payOk w')"

lemma payKept_same:
  "w_payAccounts w' = w_payAccounts w \<Longrightarrow> w_payEscrows w' = w_payEscrows w \<Longrightarrow> payKept w w'"
  by (simp add: payKept_def payOk_def)

interpretation pay_kept: cache_guarantee payKept
proof unfold_locales
  show "payKept s t \<Longrightarrow> payKept t u \<Longrightarrow> payKept s u" for s t u by (simp add: payKept_def)
qed (simp_all add: payKept_same)

lemma pk_setBalance: "0 \<le> n \<Longrightarrow> guar payKept (setBalance env i n)"
  unfolding setBalance_def by (rule pay_kept.guar_dbExec, rule guarI) (auto simp: payKept_def payOk_def)

lemma pk_payTransactions_create: "guar payKept (payTransactions_create env r)"
  unfolding payTransactions_create_def by (rule pay_kept.guar_dbExec, rule guarI) (auto simp: payKept_def payOk_def)

lemma pk_markClaimed: "guar payKept (markClaimed env i)"
  unfolding markClaimed_def by (rule pay_kept.guar_dbExec, rule guarI) (auto simp: payKept_def payOk_def)

lemma pk_debit: "guar payKept (debit env api i to n v)" if "0 < n"
  unfolding debit_def
  by (intro pay_kept.world_rules pk_setBalance pk_payTransactions_create) simp

lemma pk_credit:
  assumes "0 < n"
  shows "guar payKept (creditCustodial env address n)"
proof (rule guarI)
  fix w :: world
  show "payKept w (snd (creditCustodial env address n w))"
  proof (cases "dbFault env (w_tick w) \<or> find (\<lambda>r. pca_depositAddress r = address) (w_payAccounts w) = None")
    case True
    then show ?thesis by (auto simp: creditCustodial_def andThen_apply dbQuery_apply payKept_same)
  next
    case False
    then obtain a where a: "find (\<lambda>r. pca_depositAddress r = address) (w_payAccounts w) = Some a" by auto
    then have "a \<in> set (w_payAccounts w)" by (auto simp: find_Some_iff)
    then have pos: "payOk w \<Longrightarrow> 0 \<le> pca_balance a + n" using assms by (auto simp: payOk_def)
    have "payKept (advance w) (snd (setBalance env (pca_id a) (pca_balance a + n) (advance w)))"
      if "payOk w" using guarD [OF pk_setBalance [OF pos [OF that]] surjective_pairing] .
    moreover have "payKept w (advance w)" by (simp add: payKept_same)
    ultimately show ?thesis
      using False a by (auto simp: creditCustodial_def andThen_apply dbQuery_apply payKept_def)
  qed
qed

lemma pk_claimOne: "0 < esc_amount e \<Longrightarrow> guar payKept (claimOne env api address kyc e)"
  unfolding claimOne_def
  by (intro pay_kept.world_rules pk_credit pk_markClaimed pk_payTransactions_create)

lemma pk_claimHeld: "guar payKept (claimHeld env api address kyc)"
proof (rule guarI)
  fix w :: world
  let ?held = "filter (heldFor address) (w_payEscrows w)"
  have "guar payKept (forM ?held (claimOne env api address kyc))" if "payOk w"
    using that by (intro pay_kept.guar_forM pk_claimOne) (auto simp: payOk_def)
  then have "payOk w \<Longrightarrow> payKept (advance w) (snd (forM ?held (claimOne env api address kyc) (advance w)))"
    by (simp add: guar_def)
  moreover have "payKept w (advance w)" by (simp add: payKept_same)
  ultimately show "payKept w (snd (claimHeld env api address kyc w))"
    unfolding claimHeld_def by (auto simp: andThen_apply dbQuery_apply payKept_def split: prod.split sum.split)
qed

interpretation money: pay_guarantee payKept
proof unfold_locales
  show "guar payKept (payAccounts_create env r)" if "pca_balance r = 0" for env r
    unfolding payAccounts_create_def using that
    by (intro pay_kept.guar_dbExec guarI) (auto simp: payKept_def payOk_def)
  show "guar payKept (escrows_create env e)" if "0 < esc_amount e" for env e
    unfolding escrows_create_def using that
    by (intro pay_kept.guar_dbExec guarI) (auto simp: payKept_def payOk_def)
qed (simp_all add: payKept_same pk_debit pk_claimHeld)

end
