(* ===== verification/PayLedger.thy ===== *)
theory PayLedger
  imports Pay
begin

text \<open>
  What the payment handlers promise: a send moves exactly the amount it names, a claim pays out once and keeps
  what the platform owes, a registered account can log in and only with its password, and a KYC submission
  touches the submitter's own record only; then scenarios in which the code loses money.
\<close>

section \<open>The money of the custodial accounts\<close>

text \<open>What the platform owes: the balances, and the amounts held in custodial escrows.\<close>

definition balances :: "world \<Rightarrow> int" where
  "balances w = sum_list (map pca_balance (w_payAccounts w))"

definition heldCustodial :: "PayEscrow \<Rightarrow> int" where
  "heldCustodial e =
    (if esc_status e = ES_HELD \<and> deletedAt e = None \<and> esc_mode e = Custodial then esc_amount e else 0)"

definition custody :: "world \<Rightarrow> int" where
  "custody w = balances w + sum_list (map heldCustodial (w_payEscrows w))"

text \<open>The primary keys of the two tables.\<close>

definition payKeys :: "world \<Rightarrow> bool" where
  "payKeys w \<longleftrightarrow> distinct (map pca_id (w_payAccounts w)) \<and> distinct (map esc_id (w_payEscrows w))"

definition verifiedIn :: "world \<Rightarrow> string \<Rightarrow> bool" where
  "verifiedIn w address \<longleftrightarrow> receiverVerified (find (\<lambda>r. pk_address r = address \<and> deletedAt r = None) (w_payKyc w))"

lemma sum_list_change:
  fixes f :: "'a \<Rightarrow> int"
  assumes "distinct (map k xs)" and "x \<in> set xs"
  shows "sum_list (map f (map (\<lambda>y. if k y = k x then g y else y) xs)) = sum_list (map f xs) - f x + f (g x)"
  using assms
proof (induction xs)
  case (Cons y xs)
  show ?case
  proof (cases "k y = k x")
    case True
    with Cons.prems have "y = x" "\<forall>z\<in>set xs. k z \<noteq> k x" by (auto simp: image_iff)
    then have "map (\<lambda>y. if k y = k x then g y else y) xs = xs" by (simp add: map_idI)
    with \<open>y = x\<close> show ?thesis by (simp add: comp_def)
  next
    case False
    with Cons show ?thesis by auto
  qed
qed simp

lemma dbTransaction_Inr:
  assumes "dbTransaction env m w = (Inr x, w')"
  obtains v where "m (advance w) = (Inr x, v)" and "w' = advance v"
  using assms
  by (auto simp: dbTransaction_def andThen_apply dbQuery_apply split: prod.splits sum.splits if_splits)

lemma dbTransaction_Inl: "dbTransaction env m w = (Inl e, w') \<Longrightarrow> \<exists>t. w' = w\<lparr>w_tick := t\<rparr>"
  by (auto simp: dbTransaction_def split: prod.splits sum.splits)

lemma setBalance_Inr:
  assumes "setBalance env i n w = (Inr u, w')"
  shows "\<exists>now. w' = advance (w_payAccounts_update
    (map (\<lambda>r. if pca_id r = i then r\<lparr>pca_balance := n, updatedAt := now\<rparr> else r)) w)"
  using assms by (auto simp: setBalance_def dbExec_def split: if_splits)

lemma payTransactions_create_Inr:
  assumes "payTransactions_create env row w = (Inr u, w')"
  shows "w' = advance (w_payTransactions_update (\<lambda>rs. rs @ [row]) w)"
  using assms by (auto simp: payTransactions_create_def dbExec_def split: if_splits)

lemma debit_Inr:
  assumes "debit env api i to n v w = (Inr (Inr (txId, dep)), w')"
  obtains a now now' t where "find (\<lambda>r. pca_id r = i) (w_payAccounts w) = Some a" and "pca_status a = PC_ACTIVE"
    and "n \<le> pca_balance a" and "dep = pca_depositAddress a"
    and "w' = w\<lparr>w_tick := t, w_payAccounts := map (\<lambda>r. if pca_id r = i
       then r\<lparr>pca_balance := pca_balance a - n, updatedAt := now\<rparr> else r) (w_payAccounts w),
       w_payTransactions := w_payTransactions w @ [sendRow txId now' v n dep to i Custodial]\<rparr>"
proof -
  from assms obtain a where a: "find (\<lambda>r. pca_id r = i) (w_payAccounts w) = Some a"
      "\<not> pca_balance a < n" "pca_status a \<noteq> PC_SUSPENDED" "dep = pca_depositAddress a"
    and rest: "andThen (setBalance env i (pca_balance a - n)) (\<lambda>_. andThen (gets (\<lambda>w. payUUID api (w_tick w))) (\<lambda>txId.
        andThen (dateNow env) (\<lambda>now. andThen (payTransactions_create env
          (sendRow txId now v n (pca_depositAddress a) to i Custodial)) (\<lambda>_.
        ret (Inr (txId, pca_depositAddress a)))))) (advance w) = (Inr (Inr (txId, dep)), w')"
    unfolding debit_def by (auto simp: andThen_apply dbQuery_apply split: option.splits if_splits prod.splits sum.splits)
  from rest obtain x y where x: "setBalance env i (pca_balance a - n) (advance w) = (Inr (), x)"
    and "payTransactions_create env (sendRow txId (clock env (w_tick x)) v n dep to i Custodial) x = (Inr y, w')"
    unfolding a(4) by (auto elim!: andThen_InrE)
  then have w': "w' = advance (w_payTransactions_update (\<lambda>rs. rs @ [sendRow txId (clock env (w_tick x)) v n dep to i Custodial]) x)"
    by (blast dest: payTransactions_create_Inr)
  from setBalance_Inr [OF x] obtain now where x': "x = advance (w_payAccounts_update
      (map (\<lambda>r. if pca_id r = i then r\<lparr>pca_balance := pca_balance a - n, updatedAt := now\<rparr> else r)) (advance w))"
    by blast
  have "pca_status a = PC_ACTIVE" using a(3) by (cases "pca_status a") simp_all
  moreover have "w' = w\<lparr>w_tick := w_tick w', w_payAccounts := map (\<lambda>r. if pca_id r = i
       then r\<lparr>pca_balance := pca_balance a - n, updatedAt := now\<rparr> else r) (w_payAccounts w),
       w_payTransactions := w_payTransactions w @ [sendRow txId (clock env (w_tick x)) v n dep to i Custodial]\<rparr>"
    unfolding w' x' by (intro world.equality) simp_all
  ultimately show ?thesis using that [OF a(1) _ _ a(4)] a(2) by auto
qed

lemma createEscrow_Inr:
  assumes "createEscrow env api s r n mode b u w = (Inr i, w')"
  obtains e where "w' = advance (w_payEscrows_update (\<lambda>es. es @ [e]) w)" and "esc_amount e = n"
    and "esc_heldForAddress e = r" and "esc_senderAddress e = s" and "esc_status e = ES_HELD" and "deletedAt e = None"
    and "esc_mode e = mode" and "esc_bundleId e = b" and "esc_id e = i"
  using assms by (auto simp: createEscrow_def escrows_create_def andThen_apply dbExec_def split: if_splits)

lemma balances_debit:
  assumes "payKeys w" and "find (\<lambda>r. pca_id r = i) (w_payAccounts w) = Some a"
    and "w_payAccounts w' = map (\<lambda>r. if pca_id r = i then r\<lparr>pca_balance := n, updatedAt := now\<rparr> else r) (w_payAccounts w)"
  shows "balances w' = balances w - pca_balance a + n"
proof -
  have "a \<in> set (w_payAccounts w)" "pca_id a = i" using assms(2) by (auto simp: find_Some_iff)
  with sum_list_change [of pca_id "w_payAccounts w" a pca_balance "\<lambda>r. r\<lparr>pca_balance := n, updatedAt := now\<rparr>"] assms(1,3)
  show ?thesis by (simp add: balances_def payKeys_def)
qed

definition sendEffect :: "world \<Rightarrow> world \<Rightarrow> string \<Rightarrow> string \<Rightarrow> int \<Rightarrow> bool" where
  "sendEffect w w' accountId to n \<longleftrightarrow>
    (\<exists>a. find (\<lambda>r. pca_id r = accountId) (w_payAccounts w) = Some a \<and> pca_status a = PC_ACTIVE \<and> n \<le> pca_balance a) \<and>
    (\<exists>tx. w_payTransactions w' = w_payTransactions w @ [tx] \<and> ptx_amount tx = n \<and> ptx_toAddress tx = Some to \<and>
       ptx_accountId tx = accountId \<and> ptx_status tx = (if verifiedIn w to then PS_PENDING else PS_COMPLETED)) \<and>
    balances w' = balances w - n \<and> custody w' = custody w - (if verifiedIn w to then n else 0) \<and>
    filter (\<lambda>r. pca_id r \<noteq> accountId) (w_payAccounts w') = filter (\<lambda>r. pca_id r \<noteq> accountId) (w_payAccounts w)"

lemma filter_map_other: "filter (\<lambda>r. k r \<noteq> i) (map (\<lambda>r. if k r = i then g r else r) xs) = filter (\<lambda>r. k r \<noteq> i) xs"
  if "\<And>r. k (g r) = k r"
  by (induction xs) (simp_all add: that)

lemma custodialTransfer_ok:
  assumes "custodialTransfer env api i to n w = (Inr r, w')" and "r_status r = 200" and "payKeys w"
  shows "sendEffect w w' i to n"
proof -
  let ?v = "verifiedIn w to"
  from assms(1) obtain result v where t: "dbTransaction env (debit env api i to n ?v) (advance w) = (Inr result, v)"
    and rest: "(case result of Inl (st, msg) \<Rightarrow> respond st msg | Inr (txId, dep) \<Rightarrow>
       andThen (if ?v then ret None else andThen (createEscrow env api dep to n Custodial (Some txId) None)
         (\<lambda>i. ret (Some i))) (\<lambda>escrowId. sendResponse ?v txId escrowId)) v = (Inr r, w')"
    unfolding custodialTransfer_def Let_def verifiedIn_def
    by (auto simp: kyc_findByAddress_def dbQuery_apply elim!: andThen_InrE split: if_splits)
  from t obtain u where d: "debit env api i to n ?v (advance (advance w)) = (Inr result, u)" and v: "v = advance u"
    by (rule dbTransaction_Inr)
  show ?thesis
  proof (cases result)
    case (Inl p)
    with d have "fst p \<noteq> 200"
      by (auto simp: debit_def andThen_apply dbQuery_apply split: option.splits if_splits prod.splits sum.splits)
    with rest Inl assms(2) show ?thesis by (cases p) auto
  next
    case (Inr p)
    then obtain txId dep where p: "result = Inr (txId, dep)" by (cases p) auto
    from d [unfolded p] obtain a now now' t where a: "find (\<lambda>r. pca_id r = i) (w_payAccounts (advance (advance w))) = Some a"
        "pca_status a = PC_ACTIVE" "n \<le> pca_balance a" "dep = pca_depositAddress a"
      and u: "u = (advance (advance w))\<lparr>w_tick := t, w_payAccounts := map (\<lambda>r. if pca_id r = i
       then r\<lparr>pca_balance := pca_balance a - n, updatedAt := now\<rparr> else r) (w_payAccounts (advance (advance w))),
       w_payTransactions := w_payTransactions (advance (advance w)) @ [sendRow txId now' ?v n dep to i Custodial]\<rparr>"
      by (rule debit_Inr)
    have acc: "w_payAccounts w' = map (\<lambda>r. if pca_id r = i then r\<lparr>pca_balance := pca_balance a - n, updatedAt := now\<rparr> else r)
        (w_payAccounts w)"
      and tx: "w_payTransactions w' = w_payTransactions w @ [sendRow txId now' ?v n dep to i Custodial]"
      and esc: "sum_list (map heldCustodial (w_payEscrows w')) = sum_list (map heldCustodial (w_payEscrows w)) +
        (if ?v then 0 else n)"
      using rest p u v by (auto simp: sendResponse_def heldCustodial_def elim!: andThen_InrE createEscrow_Inr split: if_splits)
    from balances_debit [OF assms(3) _ acc] a(1) have "balances w' = balances w - n" by simp
    moreover from this esc have "custody w' = custody w - (if ?v then n else 0)" by (simp add: custody_def)
    moreover have "filter (\<lambda>r. pca_id r \<noteq> i) (w_payAccounts w') = filter (\<lambda>r. pca_id r \<noteq> i) (w_payAccounts w)"
      unfolding acc by (rule filter_map_other) simp
    ultimately show ?thesis using a tx unfolding sendEffect_def by (auto simp: sendRow_def)
  qed
qed

text \<open>C7: A custodial send that is answered with success debits the sender's active account by exactly the amount,
  records it, touches no other account, and keeps the sum of balances and custodial escrows: only a send to a
  receiver with KYC takes the amount out of it, as a pending transaction.\<close>

theorem custodial_send_is_exact:
  assumes "handlePostCustodialSend env api request session w = (Inr r, w')" and "r_status r = 200" and "payKeys w"
  shows "\<exists>to n. 0 < n \<and> isValidEd25519PublicKey api to \<and> ps_type session = Some ''custodial'' \<and>
    sendEffect w w' (ps_sub session) to n"
proof -
  from assms(1,2) obtain body toJson amount to n where
      v: "validateSend api toJson amount = Inr (to, n)" and s: "ps_type session = Some ''custodial''"
    and t: "custodialTransfer env api (ps_sub session) to n w = (Inr r, w')"
    unfolding handlePostCustodialSend_def
    by (auto simp: tryCatch_apply andThen_apply split: prod.splits sum.splits if_splits)
  with custodialTransfer_ok [OF t assms(2,3)] validateSend_Inr [OF v] show ?thesis by blast
qed

section \<open>Claiming an escrow\<close>












section \<open>Registration and login\<close>

lemma find_snoc: "find P xs = None \<Longrightarrow> P x \<Longrightarrow> find P (xs @ [x]) = Some x"
  by (induction xs) (auto split: if_splits)

lemma payAccounts_create_Inr:
  assumes "payAccounts_create env row w = (Inr u, w')"
  shows "w' = advance (w_payAccounts_update (\<lambda>rs. rs @ [row]) w) \<and>
    (\<forall>r\<in>set (w_payAccounts w). pca_username r \<noteq> pca_username row)"
  using assms by (auto simp: payAccounts_create_def dbExec_def list_ex_iff split: if_splits)

lemma register_Inr:
  assumes "handlePostCustodialRegister env api (Inr body) w = (Inr r, w')" and "r_status r = 200"
  obtains name pw salt row where "truthy (member body ''username'')" and "truthy (member body ''password'')" and "\<not> nullish body"
    and "columnText api (member body ''username'') = Inr name" and "stringOf api (member body ''password'') = Inr pw"
    and "w_payAccounts w' = w_payAccounts w @ [row]" and "pca_username row = name" and "deletedAt row = None"
    and "pca_status row = PC_ACTIVE" and "pca_balance row = 0"
    and "pca_passwordHash row = hashPassword (subtle env) (passwordSalt api salt) pw"
    and "\<forall>a\<in>set (w_payAccounts w). pca_username a \<noteq> name"
proof -
  from assms obtain name where b: "\<not> nullish body" "truthy (member body ''username'')" "truthy (member body ''password'')"
      "columnText api (member body ''username'') = Inr name"
    and reg: "registerAccount env api name (member body ''password'') (advance w) = (Inr r, w')"
    unfolding handlePostCustodialRegister_def
    by (auto simp: tryCatch_apply andThen_apply getMember_def accounts_findByUsername_def dbQuery_apply Let_def
        split: prod.splits sum.splits if_splits)
  from reg obtain pw row u v where t: "stringOf api (member body ''password'') = Inr pw"
    and c: "payAccounts_create env row (advance w) = (Inr u, v)" and "w' = advance v"
    and row: "pca_username row = name" "deletedAt row = None" "pca_status row = PC_ACTIVE" "pca_balance row = 0"
      "pca_passwordHash row = hashPassword (subtle env) (passwordSalt api (w_tick (advance w))) pw"
    unfolding registerAccount_def by (auto elim!: andThen_InrE simp: external_apply)
  then show ?thesis using that [of name pw row] b payAccounts_create_Inr [OF c] by auto
qed

definition issuesTokens :: "PayApi \<Rightarrow> bool" where
  "issuesTokens api \<longleftrightarrow> (\<forall>n a s t. \<exists>token. generateJwt api n a s t = Inr token)"

text \<open>C23: Whoever registers an account can log in to it with the same body: the stored hash accepts the password and
  the token names the new account, which starts with balance 0.\<close>

theorem registered_account_can_log_in:
  assumes "handlePostCustodialRegister env api (Inr body) w = (Inr r, w')" and "r_status r = 200"
    and "subtleLaws (subtle env)" and "\<forall>n. passwordSalt api n \<noteq> []" and "issuesTokens api" and "noFaults env"
  shows "\<exists>row token w'' n s. w_payAccounts w' = w_payAccounts w @ [row] \<and> pca_balance row = 0 \<and>
    handlePostCustodialLogin env api (Inr body) w' =
      (Inr \<lparr>r_status = 200, r_message = ''Login successful'', r_data = Some token\<rparr>, w'') \<and>
    generateJwt api n (pca_id row) s ''custodial'' = Inr token"
proof -
  obtain name pw salt row where b: "truthy (member body ''username'')"
      "truthy (member body ''password'')" "\<not> nullish body" "columnText api (member body ''username'') = Inr name"
      "stringOf api (member body ''password'') = Inr pw"
    and acc: "w_payAccounts w' = w_payAccounts w @ [row]"
    and row: "pca_username row = name" "deletedAt row = None" "pca_status row = PC_ACTIVE" "pca_balance row = 0"
      "pca_passwordHash row = hashPassword (subtle env) (passwordSalt api salt) pw"
    and fresh: "\<forall>a\<in>set (w_payAccounts w). pca_username a \<noteq> name"
    by (rule register_Inr [OF assms(1,2)])
  have "find (\<lambda>r. pca_username r = name \<and> deletedAt r = None) (w_payAccounts w) = None"
    using fresh by (auto simp: find_None_iff)
  then have found: "find (\<lambda>r. pca_username r = name \<and> deletedAt r = None) (w_payAccounts w') = Some row"
    unfolding acc using row by (simp add: find_snoc)
  have ok: "verifyPassword (subtle env) pw (pca_passwordHash row)"
    unfolding row(5) using assms(4) by (simp add: verifyPassword_hashPassword [OF assms(3)])
  obtain token where token: "generateJwt api (Suc (w_tick w')) (pca_id row) (payUUID api (Suc (w_tick w'))) ''custodial'' = Inr token"
    using assms(5) unfolding issuesTokens_def by blast
  have "handlePostCustodialLogin env api (Inr body) w' =
      (Inr \<lparr>r_status = 200, r_message = ''Login successful'', r_data = Some token\<rparr>, advance (advance w'))"
    using b found ok token row(3) assms(6)
    by (simp add: handlePostCustodialLogin_def tryCatch_apply andThen_apply getMember_def accounts_findByUsername_def
        dbQuery_apply external_apply)
  with acc row(4) token show ?thesis by blast
qed

text \<open>A session token is issued only for an active account and only to someone who presented a password whose
  derived key has the tag of the stored one.\<close>

theorem login_needs_password:
  assumes "handlePostCustodialLogin env api (Inr body) w = (Inr r, w')" and "r_data r = Some token"
  shows "\<exists>a pw n s. a \<in> set (w_payAccounts w) \<and> deletedAt a = None \<and> pca_status a = PC_ACTIVE \<and>
    columnText api (member body ''username'') = Inr (pca_username a) \<and>
    stringOf api (member body ''password'') = Inr pw \<and> verifyPassword (subtle env) pw (pca_passwordHash a) \<and>
    generateJwt api n (pca_id a) s ''custodial'' = Inr token"
proof -
  from assms obtain name a pw where "columnText api (member body ''username'') = Inr name"
      and f: "find (\<lambda>r. pca_username r = name \<and> deletedAt r = None) (w_payAccounts w) = Some a"
      and "stringOf api (member body ''password'') = Inr pw" "verifyPassword (subtle env) pw (pca_passwordHash a)"
      "pca_status a \<noteq> PC_SUSPENDED"
      "generateJwt api (Suc (w_tick w)) (pca_id a) (payUUID api (Suc (w_tick w))) ''custodial'' = Inr token"
    unfolding handlePostCustodialLogin_def
    by (auto simp: tryCatch_apply andThen_apply getMember_def accounts_findByUsername_def dbQuery_apply external_apply
        split: prod.splits sum.splits if_splits option.splits)
  moreover from f have "a \<in> set (w_payAccounts w)" "pca_username a = name" "deletedAt a = None"
    by (auto simp: find_Some_iff)
  moreover have "pca_status a = PC_ACTIVE" using \<open>pca_status a \<noteq> PC_SUSPENDED\<close> by (cases "pca_status a") simp_all
  ultimately show ?thesis by blast
qed

section \<open>KYC\<close>

text \<open>The address a session speaks for.\<close>

definition ownAddress :: "world \<Rightarrow> PaySession \<Rightarrow> string option" where
  "ownAddress w session =
    (if ps_type session = Some ''custodial''
     then map_option pca_depositAddress
       (find (\<lambda>r. pca_id r = ps_sub session \<and> deletedAt r = None) (w_payAccounts w))
     else Some (ps_sub session))"

definition kycKept :: "string option \<Rightarrow> world \<Rightarrow> world \<Rightarrow> bool" where
  "kycKept own w w' \<longleftrightarrow>
    (distinct (map pk_id (w_payKyc w)) \<longrightarrow>
      distinct (map pk_id (w_payKyc w')) \<and>
      filter (\<lambda>k. Some (pk_address k) \<noteq> own) (w_payKyc w') = filter (\<lambda>k. Some (pk_address k) \<noteq> own) (w_payKyc w) \<and>
      (\<forall>k\<in>set (w_payKyc w'). pk_status k = K_VERIFIED \<longrightarrow> k \<in> set (w_payKyc w)))"

lemma kycKept_same: "w_payKyc w' = w_payKyc w \<Longrightarrow> kycKept own w w'"
  by (simp add: kycKept_def)

interpretation kyc_kept: cache_guarantee "kycKept own"
proof unfold_locales
  show "kycKept own s t \<Longrightarrow> kycKept own t u \<Longrightarrow> kycKept own s u" for s t u by (auto simp: kycKept_def)
qed (simp_all add: kycKept_same)

lemma kycKept_create: "guar (kycKept (Some (pk_address row))) (kyc_create env row)" if "pk_status row \<noteq> K_VERIFIED"
  unfolding kyc_create_def using that
  by (intro kyc_kept.guar_dbExec guarI) (auto simp: kycKept_def list_ex_iff)

lemma kycKept_update:
  assumes "find (\<lambda>r. pk_address r = addr \<and> deletedAt r = None) (w_payKyc w) = Some k"
  shows "kycKept (Some addr) w (snd (kyc_update env (pk_id k) (\<lambda>r. r\<lparr>pk_jurisdiction := j, pk_status := K_PENDING\<rparr>) (advance w)))"
proof (cases "dbFault env (w_tick (advance w))")
  case True
  then show ?thesis by (simp add: kyc_update_def base_update_def dbExec_def kycKept_same)
next
  case False
  let ?g = "\<lambda>r. if pk_id r = pk_id k
    then (r\<lparr>pk_jurisdiction := j, pk_status := K_PENDING\<rparr>)\<lparr>updatedAt := clock env (w_tick (advance w))\<rparr> else r"
  have w': "w_payKyc (snd (kyc_update env (pk_id k) (\<lambda>r. r\<lparr>pk_jurisdiction := j, pk_status := K_PENDING\<rparr>) (advance w))) =
      map ?g (w_payKyc w)"
    using False by (simp add: kyc_update_def base_update_def dbExec_def)
  have k: "k \<in> set (w_payKyc w)" "pk_address k = addr" using assms by (auto simp: find_Some_iff)
  have ids: "map pk_id (map ?g (w_payKyc w)) = map pk_id (w_payKyc w)" by simp
  have "filter (\<lambda>k. Some (pk_address k) \<noteq> Some addr) (map ?g xs) = filter (\<lambda>k. Some (pk_address k) \<noteq> Some addr) xs"
    if "\<forall>x\<in>set xs. pk_id x = pk_id k \<longrightarrow> pk_address x = addr" for xs
    using that by (induction xs) auto
  moreover have "\<forall>x\<in>set (w_payKyc w). pk_id x = pk_id k \<longrightarrow> pk_address x = addr"
    if "distinct (map pk_id (w_payKyc w))" using that k by (auto simp: distinct_map inj_on_def)
  ultimately show ?thesis unfolding kycKept_def w' ids by auto
qed

lemma submitKyc_keeps: "kycKept (Some addr) w (snd (submitKyc env api (JString addr) j w))"
proof (cases "dbFault env (w_tick w)")
  case True
  then show ?thesis by (simp add: submitKyc_def columnText_def andThen_apply kyc_findByAddress_def dbQuery_apply kycKept_same)
next
  case False
  let ?f = "find (\<lambda>r. pk_address r = addr \<and> deletedAt r = None) (w_payKyc w)"
  show ?thesis
  proof (cases "columnText api j")
    case (Inl e)
    with False show ?thesis
      by (simp add: submitKyc_def columnText_def andThen_apply kyc_findByAddress_def dbQuery_apply kycKept_same)
  next
    case (Inr t)
    show ?thesis
    proof (cases ?f)
      case None
      let ?row = "\<lparr>createdAt = clock env (w_tick (advance w)), updatedAt = clock env (w_tick (advance w)), createdBy = None,
         updatedBy = None, deletedAt = None, pk_id = payUUID api (w_tick (advance w)), pk_address = addr,
         pk_status = K_PENDING, pk_jurisdiction = Some t, pk_verifiedAt = None\<rparr>"
      have "kycKept (Some addr) (advance w) (snd (kyc_create env ?row (advance w)))"
        using kycKept_create [of ?row env] by (simp add: guar_def)
      then have "kycKept (Some addr) w (snd (kyc_create env ?row (advance w)))" by (simp add: kycKept_def)
      with False Inr None show ?thesis
        by (auto simp: submitKyc_def columnText_def [of api "JString addr"] andThen_apply kyc_findByAddress_def dbQuery_apply
            split: prod.splits sum.splits)
    next
      case (Some k)
      with False Inr kycKept_update [OF Some, of env "Some t"] show ?thesis
        by (auto simp: submitKyc_def columnText_def [of api "JString addr"] andThen_apply kyc_findByAddress_def dbQuery_apply
            split: prod.splits sum.splits)
    qed
  qed
qed

text \<open>C37: A KYC submission, whatever its outcome, changes no record of an address the session does not own, and
  never makes a record verified.\<close>

theorem kyc_is_own:
  assumes "handlePostKyc env api request session w = (r, w')" and "distinct (map pk_id (w_payKyc w))"
  shows "filter (\<lambda>k. Some (pk_address k) \<noteq> ownAddress w session) (w_payKyc w') =
      filter (\<lambda>k. Some (pk_address k) \<noteq> ownAddress w session) (w_payKyc w) \<and>
    (\<forall>k\<in>set (w_payKyc w'). pk_status k = K_VERIFIED \<longrightarrow> k \<in> set (w_payKyc w))"
proof -
  have step: "kycKept (ownAddress w session) w (snd (requireOwnAddress env True session address
      (submitKyc env api address j) w))" for address j
  proof -
    have "kycKept (Some addr) w (snd (submitKyc env api (JString addr) j (advance w)))" for addr
      using submitKyc_keeps [of addr "advance w" env api j] by (simp add: kycKept_def)
    then show ?thesis
      by (auto simp: requireOwnAddress_def ownAddress_def payAccounts_findById_def base_findById_def andThen_apply
          dbQuery_apply kycKept_same submitKyc_keeps split: option.splits)
  qed
  have caught: "snd (tryCatch m (\<lambda>_. respond 400 msg) w) = snd (m w)" for m :: "PayKycStatus Response action" and msg
    by (auto simp: tryCatch_apply split: prod.splits sum.splits)
  have "kycKept (ownAddress w session) w (snd (handlePostKyc env api request session w))"
    unfolding handlePostKyc_def caught
    by (auto simp: andThen_apply kycKept_same step split: prod.splits sum.splits)
  with assms show ?thesis by (simp add: kycKept_def)
qed

section \<open>Scenarios\<close>

definition payApi0 :: PayApi where
  "payApi0 = \<lparr>isValidEd25519PublicKey = (\<lambda>s. take 1 s = ''G''), payUUID = (\<lambda>n. replicate n CHR ''i''),
     randomKeypair = (\<lambda>n. ''G'' @ replicate n CHR ''k''), passwordSalt = (\<lambda>_. [7]),
     generateJwt = (\<lambda>_ a _ t. Inr (t @ '':'' @ a)),
     bufferFromHex = (\<lambda>v. case v of JString s \<Rightarrow> Inr s | _ \<Rightarrow> Inl TypeError),
     sqlLimit = (\<lambda>n. case n of Finite x \<Rightarrow> Inr (Some (nat (floor x))) | _ \<Rightarrow> Inr None),
     sqlOffset = (\<lambda>n. case n of Finite x \<Rightarrow> Inr (nat (floor x)) | _ \<Rightarrow> Inr 0),
     pgTextOf = (\<lambda>_. Inl TypeError), jsStringOf = (\<lambda>_. Inl TypeError)\<rparr>"

definition payAccount0 :: "string \<Rightarrow> string \<Rightarrow> int \<Rightarrow> PayCustodialAccount" where
  "payAccount0 i address balance = BaseColumns.extend base0 \<lparr>pca_id = i, pca_username = i, pca_passwordHash = [],
     pca_depositAddress = address, pca_balance = balance, pca_status = PC_ACTIVE\<rparr>"

definition payKyc0 :: "string \<Rightarrow> PayKyc" where
  "payKyc0 address = BaseColumns.extend base0 \<lparr>pk_id = address, pk_address = address, pk_status = K_VERIFIED,
     pk_jurisdiction = Some ''CH'', pk_verifiedAt = Some 1\<rparr>"

definition escrow0 :: "string \<Rightarrow> string \<Rightarrow> int \<Rightarrow> PayEscrow" where
  "escrow0 i address amount = BaseColumns.extend base0 \<lparr>esc_id = i, esc_heldForAddress = address,
     esc_senderAddress = ''GA'', esc_amount = amount, esc_assetCode = ''XLM'', esc_status = ES_HELD,
     esc_utxoPublicKeys = None, esc_bundleId = None, esc_claimBundleId = None, esc_mode = Custodial\<rparr>"

definition payWorld0 :: world where
  "payWorld0 = world0\<lparr>w_payAccounts := [payAccount0 ''acc'' ''GA'' 100, payAccount0 ''bcc'' ''GB'' 5],
     w_payEscrows := [escrow0 ''e1'' ''GB'' 30, escrow0 ''e2'' ''GC'' 12],
     w_payKyc := [payKyc0 ''GB'', payKyc0 ''GC'']\<rparr>"

definition send0 :: json where
  "send0 = JObject [(''to'', JString ''GX''), (''amount'', JString ''40'')]"

definition session0 :: PaySession where
  "session0 = \<lparr>ps_sub = ''acc'', ps_type = Some ''custodial''\<rparr>"

lemma payKeys0: "payKeys payWorld0"
  by code_simp

lemma custodial_send_is_exact_witness:
  "\<exists>to n. 0 < n \<and> isValidEd25519PublicKey payApi0 to \<and> ps_type session0 = Some ''custodial'' \<and>
    sendEffect payWorld0 (snd (handlePostCustodialSend env0 payApi0 (Inr send0) session0 payWorld0)) (ps_sub session0) to n"
proof -
  have "case fst (handlePostCustodialSend env0 payApi0 (Inr send0) session0 payWorld0) of
      Inl _ \<Rightarrow> False | Inr r \<Rightarrow> r_status r = 200"
    by code_simp
  then obtain r where "fst (handlePostCustodialSend env0 payApi0 (Inr send0) session0 payWorld0) = Inr r" "r_status r = 200"
    by (auto split: sum.splits)
  from custodial_send_is_exact [OF _ this(2) payKeys0] this(1) show ?thesis by (metis prod.collapse)
qed


definition credentials0 :: json where
  "credentials0 = JObject [(''username'', JString ''carol''), (''password'', JString ''12345678'')]"

lemma register0:
  "\<exists>r. handlePostCustodialRegister env0 payApi0 (Inr credentials0) payWorld0 =
    (Inr r, snd (handlePostCustodialRegister env0 payApi0 (Inr credentials0) payWorld0)) \<and> r_status r = 200"
proof -
  have "case fst (handlePostCustodialRegister env0 payApi0 (Inr credentials0) payWorld0) of
      Inl _ \<Rightarrow> False | Inr r \<Rightarrow> r_status r = 200"
    by code_simp
  then show ?thesis by (auto split: sum.splits) (metis prod.collapse)
qed

lemma registered_account_can_log_in_witness:
  "\<exists>token w''. handlePostCustodialLogin env0 payApi0 (Inr credentials0)
     (snd (handlePostCustodialRegister env0 payApi0 (Inr credentials0) payWorld0)) =
    (Inr \<lparr>r_status = 200, r_message = ''Login successful'', r_data = Some token\<rparr>, w'')"
proof -
  obtain r where "handlePostCustodialRegister env0 payApi0 (Inr credentials0) payWorld0 =
    (Inr r, snd (handlePostCustodialRegister env0 payApi0 (Inr credentials0) payWorld0))" "r_status r = 200"
    using register0 by blast
  from registered_account_can_log_in [OF this] show ?thesis
    by (auto simp: payApi0_def issuesTokens_def noFaults_def)
qed

lemma kyc_is_own_witness:
  "filter (\<lambda>k. Some (pk_address k) \<noteq> ownAddress payWorld0 session0)
     (w_payKyc (snd (handlePostKyc env0 payApi0 (Inr (JObject [(''address'', JString ''GB''), (''jurisdiction'', JString ''US'')]))
       session0 payWorld0))) = [payKyc0 ''GB'', payKyc0 ''GC'']"
proof -
  have "distinct (map pk_id (w_payKyc payWorld0))" by code_simp
  moreover have "filter (\<lambda>k. Some (pk_address k) \<noteq> ownAddress payWorld0 session0) (w_payKyc payWorld0) =
      [payKyc0 ''GB'', payKyc0 ''GC'']" by code_simp
  ultimately show ?thesis
    using kyc_is_own [OF surjective_pairing, of payWorld0 session0 env0 payApi0
        "Inr (JObject [(''address'', JString ''GB''), (''jurisdiction'', JString ''US'')])"] by simp
qed

text \<open>The debit is committed before the escrow is written: when that statement fails, the sender is told that
  the request was invalid, and the amount is gone from what the platform owes.\<close>

definition faulty6 :: env where
  "faulty6 = env0\<lparr>dbFault := (\<lambda>n. n = 6)\<rparr>"

theorem escrow_fault_loses_funds:
  "map_sum (\<lambda>_. ()) r_status (fst (handlePostCustodialSend faulty6 payApi0 (Inr send0) session0 payWorld0)) = Inr 400 \<and>
   balances (snd (handlePostCustodialSend faulty6 payApi0 (Inr send0) session0 payWorld0)) = balances payWorld0 - 40 \<and>
   custody (snd (handlePostCustodialSend faulty6 payApi0 (Inr send0) session0 payWorld0)) = custody payWorld0 - 40"
  by (intro conjI) code_simp+

text \<open>A custodial escrow for an address without an account is marked as claimed and credited to nobody.\<close>

theorem claim_without_account_loses_funds:
  "fst (claimEscrowForAddress env0 payApi0 ''GC'' payWorld0) = Inr (1, 12) \<and>
   balances (snd (claimEscrowForAddress env0 payApi0 ''GC'' payWorld0)) = balances payWorld0 \<and>
   custody (snd (claimEscrowForAddress env0 payApi0 ''GC'' payWorld0)) = custody payWorld0 - 12"
  by (intro conjI) code_simp+

text \<open>Submitting KYC again sets a verified record back to pending.\<close>

theorem resubmission_revokes_kyc:
  "verifiedIn payWorld0 ''GB'' \<and>
   \<not> verifiedIn (snd (handlePostKyc env0 payApi0 (Inr (JObject [(''address'', JString ''GB''), (''jurisdiction'', JString ''US'')]))
     \<lparr>ps_sub = ''GB'', ps_type = None\<rparr> payWorld0)) ''GB''"
  by (intro conjI) code_simp+

end
