(* ===== verification/Entities.thy ===== *)
theory Entities
  imports Auth
begin

text \<open>
  The public submission of an entity, \<^verbatim>\<open>http/v1/entities/post.ts\<close>: validation of the body, the sanitised name,
  the proof of key ownership, the identity record and the approval for one payment provider.

  Lengths of the schema are counted in UTF-16 code units over UTF-8 bytes; white space is that of the ASCII
  range.
\<close>

section \<open>The body\<close>

definition NAME_MAX_LEN :: nat where
  "NAME_MAX_LEN = 250"

record EntityBody =
  eb_pubkey :: string
  eb_name :: string
  eb_jurisdictions :: "string list"
  eb_nonce :: string
  eb_signature :: string

fun stringsOf :: "json list \<Rightarrow> string list option" where
  "stringsOf [] = Some []"
| "stringsOf (JString s # vs) = map_option (\<lambda>ss. s # ss) (stringsOf vs)"
| "stringsOf (_ # vs) = None"

definition jurisdictionsField :: "json \<Rightarrow> string list option" where
  "jurisdictionsField v = (case v of JUndefined \<Rightarrow> Some [] | JArray vs \<Rightarrow> stringsOf vs | _ \<Rightarrow> None)"

definition nameField :: "json \<Rightarrow> string option" where
  "nameField v =
    Option.bind (nonEmptyString v) (\<lambda>s. if utf16Length s \<le> NAME_MAX_LEN then Some s else None)"

definition bodySchema :: "json \<Rightarrow> EntityBody option" where
  "bodySchema raw =
    (case (nonEmptyString (member raw ''pubkey''), nameField (member raw ''name''),
           jurisdictionsField (member raw ''jurisdictions''),
           nonEmptyString (member (member raw ''signedChallenge'') ''nonce''),
           nonEmptyString (member (member raw ''signedChallenge'') ''signature'')) of
       (Some pubkey, Some name, Some js, Some nonce, Some signature) \<Rightarrow>
         Some \<lparr>eb_pubkey = pubkey, eb_name = name, eb_jurisdictions = js, eb_nonce = nonce, eb_signature = signature\<rparr>
     | _ \<Rightarrow> None)"

section \<open>The name\<close>

text \<open>\<^verbatim>\<open>replace(/<[^>]*>/g, "")\<close> and \<^verbatim>\<open>replace(/\s+/g, " ")\<close>\<close>

function stripTags :: "string \<Rightarrow> string" where
  "stripTags [] = []"
| "stripTags (c # s) =
    (if c = CHR ''<'' \<and> CHR ''>'' \<in> set s then stripTags (tl (dropWhile (\<lambda>d. d \<noteq> CHR ''>'') s))
     else c # stripTags s)"
  by pat_completeness auto
termination
proof (relation "measure length")
  fix c s
  have "length (tl (dropWhile (\<lambda>d. d \<noteq> CHR ''>'') s)) \<le> length s"
    using length_dropWhile_le [of "\<lambda>d. d \<noteq> CHR ''>''" s] by simp
  then show "(tl (dropWhile (\<lambda>d. d \<noteq> CHR ''>'') s), c # s) \<in> measure length" by simp
qed simp_all

function collapseSpace :: "string \<Rightarrow> string" where
  "collapseSpace [] = []"
| "collapseSpace (c # s) =
    (if isSpace c then CHR '' '' # collapseSpace (dropWhile isSpace s) else c # collapseSpace s)"
  by pat_completeness auto
termination
proof (relation "measure length")
  fix c s
  show "(dropWhile isSpace s, c # s) \<in> measure length"
    using length_dropWhile_le [of isSpace s] by simp
qed simp_all

definition sanitiseName :: "string \<Rightarrow> string" where
  "sanitiseName raw = trim (collapseSpace (stripTags raw))"

section \<open>The approval\<close>

definition approvals_create :: "env \<Rightarrow> PpEntityApproval \<Rightarrow> PpEntityApproval action" where
  "approvals_create env row = dbExec env (\<lambda>_ w.
    if list_ex (\<lambda>r. pa_id r = pa_id row \<or>
        pa_ppPublicKey r = pa_ppPublicKey row \<and> pa_accountPubkey r = pa_accountPubkey row) (w_approvals w)
    then (Inl DbError, w)
    else (Inr row, w_approvals_update (\<lambda>rs. rs @ [row]) w))"

definition approvals_update ::
    "env \<Rightarrow> string \<Rightarrow> (PpEntityApproval \<Rightarrow> PpEntityApproval) \<Rightarrow> PpEntityApproval list action" where
  "approvals_update env = base_update env w_approvals w_approvals_update pa_id"

record EntityView =
  ev_pubkey :: string
  ev_ppPublicKey :: string
  ev_entityId :: string
  ev_status :: EntityStatus

definition storeIdentity :: "env \<Rightarrow> AuthApi \<Rightarrow> string \<Rightarrow> string \<Rightarrow> string list \<Rightarrow> string action" where
  "storeIdentity env api pubkey name jurisdictions =
    andThen (accounts_findById env pubkey) (\<lambda>existingAccount.
    case existingAccount of
      Some a \<Rightarrow>
        andThen (entities_update env (a_entityId a) (\<lambda>r. r\<lparr>e_name := Some name, e_jurisdictions := Some jurisdictions\<rparr>)) (\<lambda>updated.
        ret (case updated of [] \<Rightarrow> a_entityId a | e # _ \<Rightarrow> e_id e))
    | None \<Rightarrow>
        andThen (dateNow env) (\<lambda>now.
        andThen (gets (\<lambda>w. uuidOf api (w_tick w))) (\<lambda>uuid.
        andThen (entities_create env \<lparr>createdAt = now, updatedAt = now, createdBy = None, updatedBy = None,
           deletedAt = None, e_id = uuid, e_name = Some name, e_jurisdictions = Some jurisdictions\<rparr>) (\<lambda>newEntity.
        andThen (dateNow env) (\<lambda>now'.
        andThen (accounts_create env \<lparr>createdAt = now', updatedAt = now', createdBy = None, updatedBy = None,
           deletedAt = None, a_id = pubkey, a_type = A_USER, a_entityId = e_id newEntity\<rparr>) (\<lambda>_.
        ret (e_id newEntity)))))))"

definition approveFor :: "env \<Rightarrow> AuthApi \<Rightarrow> string \<Rightarrow> string \<Rightarrow> string \<Rightarrow> EntityView Response action" where
  "approveFor env api ppPublicKey pubkey entityId =
    (let view = \<lparr>ev_pubkey = pubkey, ev_ppPublicKey = ppPublicKey, ev_entityId = entityId, ev_status = E_APPROVED\<rparr> in
     andThen (findByPpAndAccount env ppPublicKey pubkey) (\<lambda>existingApproval.
     case existingApproval of
       Some a \<Rightarrow>
         if pa_status a = E_APPROVED then respondWith 409 ''Entity already approved for this provider'' view
         else andThen (approvals_update env (pa_id a) (\<lambda>r. r\<lparr>pa_status := E_APPROVED\<rparr>)) (\<lambda>_.
           respondWith 200 ''Entity approval updated'' view)
     | None \<Rightarrow>
         andThen (dateNow env) (\<lambda>now.
         andThen (gets (\<lambda>w. uuidOf api (w_tick w))) (\<lambda>uuid.
         andThen (approvals_create env \<lparr>createdAt = now, updatedAt = now, createdBy = None, updatedBy = None,
            deletedAt = None, pa_id = uuid, pa_ppPublicKey = ppPublicKey, pa_accountPubkey = pubkey,
            pa_status = E_APPROVED\<rparr>) (\<lambda>_.
         respondWith 201 ''Entity approved'' view)))))"

definition handlePostEntity ::
    "env \<Rightarrow> AuthApi \<Rightarrow> string option \<Rightarrow> exn + json \<Rightarrow> EntityView Response action" where
  "handlePostEntity env api ppParam request =
    tryCatch
     (let ppPublicKey = orEmpty ppParam in
      if ppPublicKey = [] then respond 400 ''ppPublicKey path param is required''
      else andThen (liftSum request) (\<lambda>raw.
        case bodySchema raw of
          None \<Rightarrow> respond 400 ''Invalid body''
        | Some body \<Rightarrow>
           (let name = sanitiseName (eb_name body);
                jurisdictions = filter (\<lambda>j. length j > 0) (map trim (eb_jurisdictions body)) in
            if length name = 0 then respond 400 ''name must contain at least one non-tag character''
            else andThen (verifyEntityChallenge env api (eb_pubkey body) (eb_nonce body) (eb_signature body)) (\<lambda>sigOk.
              if \<not> sigOk then respond 401 ''Invalid or expired signed challenge''
              else andThen (storeIdentity env api (eb_pubkey body) name jurisdictions) (\<lambda>entityId.
                approveFor env api ppPublicKey (eb_pubkey body) entityId)))))
     (\<lambda>_. respond 500 ''Failed to create/update entity'')"

section \<open>Names\<close>

fun hasTag :: "string \<Rightarrow> bool" where
  "hasTag [] = False"
| "hasTag (c # s) = (c = CHR ''<'' \<and> CHR ''>'' \<in> set s \<or> hasTag s)"

lemma set_tl_dropWhile: "set (tl (dropWhile P s)) \<subseteq> set s"
  by (induction s) (auto split: if_splits)

lemma set_stripTags: "set (stripTags s) \<subseteq> set s"
proof (induction s rule: stripTags.induct)
  case (2 c s)
  with set_tl_dropWhile [of "\<lambda>d. d \<noteq> CHR ''>''" s] show ?case by auto
qed simp

lemma hasTag_stripTags: "\<not> hasTag (stripTags s)"
proof (induction s rule: stripTags.induct)
  case (2 c s)
  then show ?case using set_stripTags [of s] by auto
qed simp

lemma hasTag_dropWhile: "hasTag (dropWhile P s) \<Longrightarrow> hasTag s"
  by (induction s) (auto split: if_splits)

lemma hasTag_append: "hasTag xs \<Longrightarrow> hasTag (xs @ ys)"
  by (induction xs) auto

lemma set_collapseSpace: "x \<in> set (collapseSpace s) \<Longrightarrow> x = CHR '' '' \<or> x \<in> set s"
proof (induction s rule: collapseSpace.induct)
  case (2 c s)
  then show ?case by (auto split: if_splits dest: set_dropWhileD)
qed simp

lemma hasTag_collapseSpace: "hasTag (collapseSpace s) \<Longrightarrow> hasTag s"
proof (induction s rule: collapseSpace.induct)
  case (2 c s)
  then show ?case
    using set_collapseSpace [of "CHR ''>''" s] by (auto split: if_splits dest: hasTag_dropWhile)
qed simp

lemma hasTag_trim: "hasTag (trim s) \<Longrightarrow> hasTag s"
proof -
  assume "hasTag (trim s)"
  moreover have "\<exists>ys. dropWhile isSpace s = trim s @ ys"
  proof
    show "dropWhile isSpace s = trim s @ rev (takeWhile isSpace (rev (dropWhile isSpace s)))"
      unfolding trim_def by (metis rev_append rev_rev_ident takeWhile_dropWhile_id)
  qed
  ultimately show ?thesis using hasTag_append hasTag_dropWhile by metis
qed

lemma trim_edges: "trim s \<noteq> [] \<Longrightarrow> \<not> isSpace (hd (trim s)) \<and> \<not> isSpace (last (trim s))"
proof -
  assume ne: "trim s \<noteq> []"
  let ?t = "dropWhile isSpace s"
  from ne have "\<not> isSpace (last (trim s))"
    unfolding trim_def by (simp add: last_rev hd_dropWhile)
  moreover have "\<not> isSpace (hd (trim s))"
  proof -
    have e: "?t = trim s @ rev (takeWhile isSpace (rev ?t))"
      unfolding trim_def by (metis rev_append rev_rev_ident takeWhile_dropWhile_id)
    from e ne have "hd (trim s) = hd ?t" by (metis hd_append)
    moreover from e ne have "?t \<noteq> []" by (metis append_is_Nil_conv)
    ultimately show ?thesis using hd_dropWhile by metis
  qed
  ultimately show ?thesis by simp
qed

text \<open>A sanitised name holds no complete tag, in whatever way the tags were nested or overlapped, and neither
  starts nor ends with white space.\<close>

theorem sanitised_name_has_no_tag:
  "\<not> hasTag (sanitiseName raw) \<and>
   (sanitiseName raw = [] \<or> \<not> isSpace (hd (sanitiseName raw)) \<and> \<not> isSpace (last (sanitiseName raw)))"
  using hasTag_stripTags [of raw] hasTag_collapseSpace [of "stripTags raw"]
    hasTag_trim [of "collapseSpace (stripTags raw)"] trim_edges [of "collapseSpace (stripTags raw)"]
  unfolding sanitiseName_def by blast

text \<open>An opening that is never closed is kept, although the name is meant to hold no markup at all.\<close>

theorem unclosed_tag_survives:
  "sanitiseName ''<b>Bob</b> <img src=x onerror=alert(1)'' = ''Bob <img src=x onerror=alert(1)''"
  by code_simp

section \<open>Approvals\<close>

lemma tryCatch_respond_world: "snd (tryCatch m (\<lambda>_. respond st msg) w) = snd (m w)"
  by (cases "m w") (auto simp: tryCatch_apply split: sum.split)

definition approvalsSame :: "world \<Rightarrow> world \<Rightarrow> bool" where
  "approvalsSame w w' \<longleftrightarrow> w_approvals w' = w_approvals w"

interpretation approvals_same: world_guarantee approvalsSame
  by unfold_locales (simp_all add: approvalsSame_def)

lemma storeIdentity_approvals: "guar approvalsSame (storeIdentity env api pk name js)"
proof -
  have "guar approvalsSame (entities_update env i f)" "guar approvalsSame (entities_create env e)"
    "guar approvalsSame (accounts_create env a)" for i f e a
    unfolding entities_update_def entities_create_def accounts_create_def base_update_def base_create_def
    by (rule approvals_same.guar_dbExec, rule guarI, simp add: approvalsSame_def)+
  then show ?thesis
    unfolding storeIdentity_def by (intro approvals_same.world_rules approvals_same.guar_reads)
qed

lemma verifyEntityChallenge_result:
  assumes "verifyEntityChallenge env api pk nonce sig w = (x, w')"
  shows "w_approvals w' = w_approvals w \<and>
    (x = Inr True \<longrightarrow> (\<exists>c. map_of (w_entityChallenges w) nonce = Some c \<and> pch_publicKey c = pk \<and>
      clock env (w_tick w) - pch_createdAt c \<le> entityChallengeTtlMs api \<and> verifyStellarSignature api pk nonce sig))"
  using assms
  by (auto simp: verifyEntityChallenge_def andThen_apply split: option.splits if_splits)

lemma filter_update_pair:
  assumes "distinct (map pa_id rs)" and "a \<in> set rs" and "\<not> P a" and "\<not> P (g a)"
  shows "filter P (map (\<lambda>r. if pa_id r = pa_id a then g r else r) rs) = filter P rs"
  using assms
proof (induction rs)
  case (Cons r rs)
  show ?case
  proof (cases "r = a")
    case True
    then have "\<forall>x\<in>set rs. pa_id x \<noteq> pa_id a" using Cons.prems(1) by (auto simp: image_iff)
    then have "map (\<lambda>r. if pa_id r = pa_id a then g r else r) rs = rs" by (intro map_idI) auto
    with True Cons.prems(3,4) show ?thesis by simp
  next
    case False
    then have "a \<in> set rs" "pa_id r \<noteq> pa_id a" using Cons.prems(1,2) by (auto simp: image_iff)
    with Cons show ?thesis by simp
  qed
qed simp

lemma approveFor_writes:
  "w_approvals (snd (approveFor env api pp pk i w)) = w_approvals w \<or>
   (\<exists>row. w_approvals (snd (approveFor env api pp pk i w)) = w_approvals w @ [row] \<and>
      pa_ppPublicKey row = pp \<and> pa_accountPubkey row = pk) \<or>
   (\<exists>a t. a \<in> set (w_approvals w) \<and> pa_ppPublicKey a = pp \<and> pa_accountPubkey a = pk \<and>
      w_approvals (snd (approveFor env api pp pk i w)) =
        map (\<lambda>r. if pa_id r = pa_id a then r\<lparr>pa_status := E_APPROVED, updatedAt := t\<rparr> else r) (w_approvals w))"
proof (cases "dbFault env (w_tick w)")
  case True
  then show ?thesis by (simp add: approveFor_def Let_def findByPpAndAccount_def andThen_apply dbQuery_apply)
next
  case ok: False
  note run = approveFor_def Let_def findByPpAndAccount_def andThen_apply dbQuery_apply dbExec_def
  show ?thesis
  proof (cases "find (\<lambda>r. pa_ppPublicKey r = pp \<and> pa_accountPubkey r = pk \<and> deletedAt r = None) (w_approvals w)")
    case None
    with ok show ?thesis by (auto simp: run approvals_create_def)
  next
    case (Some a)
    then have a: "a \<in> set (w_approvals w)" "pa_ppPublicKey a = pp" "pa_accountPubkey a = pk" by (auto simp: find_Some_iff)
    have "w_approvals (snd (approveFor env api pp pk i w)) = w_approvals w \<or> (\<exists>t. w_approvals (snd (approveFor env api pp pk i w)) =
        map (\<lambda>r. if pa_id r = pa_id a then r\<lparr>pa_status := E_APPROVED, updatedAt := t\<rparr> else r) (w_approvals w))"
      using Some ok by (auto simp: run approvals_update_def base_update_def)
    with a show ?thesis by blast
  qed
qed

lemma approveFor_others:
  assumes "distinct (map pa_id (w_approvals w))"
  shows "filter (\<lambda>a. \<not> (pa_ppPublicKey a = pp \<and> pa_accountPubkey a = pk)) (w_approvals (snd (approveFor env api pp pk i w))) =
    filter (\<lambda>a. \<not> (pa_ppPublicKey a = pp \<and> pa_accountPubkey a = pk)) (w_approvals w)"
  using approveFor_writes [of env api pp pk i w]
proof (elim disjE exE conjE)
  fix a t
  assume a: "a \<in> set (w_approvals w)" "pa_ppPublicKey a = pp" "pa_accountPubkey a = pk"
    and e: "w_approvals (snd (approveFor env api pp pk i w)) =
        map (\<lambda>r. if pa_id r = pa_id a then r\<lparr>pa_status := E_APPROVED, updatedAt := t\<rparr> else r) (w_approvals w)"
  show ?thesis
    unfolding e by (rule filter_update_pair [OF assms a(1)]) (simp_all add: a)
qed simp_all

text \<open>C12: An approval is given to a key only after the key has signed a pending and unexpired challenge, and only
  for the provider of the request: the approvals of every other pair of provider and account stay.\<close>

theorem approval_needs_proof:
  assumes "handlePostEntity env api (Some pp) (Inr raw) w = (r, w')" and "distinct (map pa_id (w_approvals w))"
    and "w_approvals w' \<noteq> w_approvals w"
  shows "\<exists>body c. bodySchema raw = Some body \<and> map_of (w_entityChallenges w) (eb_nonce body) = Some c \<and>
    pch_publicKey c = eb_pubkey body \<and> clock env (w_tick w) - pch_createdAt c \<le> entityChallengeTtlMs api \<and>
    verifyStellarSignature api (eb_pubkey body) (eb_nonce body) (eb_signature body) \<and>
    filter (\<lambda>a. \<not> (pa_ppPublicKey a = pp \<and> pa_accountPubkey a = eb_pubkey body)) (w_approvals w') =
      filter (\<lambda>a. \<not> (pa_ppPublicKey a = pp \<and> pa_accountPubkey a = eb_pubkey body)) (w_approvals w)"
proof -
  have w': "w' = snd (handlePostEntity env api (Some pp) (Inr raw) w)" using assms(1) by simp
  note run = handlePostEntity_def tryCatch_respond_world Let_def andThen_apply liftSum_def orEmpty_def
  obtain body where body: "bodySchema raw = Some body"
    using w' assms(3) by (cases "bodySchema raw") (auto simp: run split: if_splits)
  obtain x v where v: "verifyEntityChallenge env api (eb_pubkey body) (eb_nonce body) (eb_signature body) w = (x, v)" by fastforce
  note vr = verifyEntityChallenge_result [OF v]
  have x: "x = Inr True"
    using w' assms(3) v vr body by (cases x) (auto simp: run split: if_splits)
  define js where "js = filter (\<lambda>j. length j > 0) (map trim (eb_jurisdictions body))"
  obtain y u where s: "storeIdentity env api (eb_pubkey body) (sanitiseName (eb_name body)) js v = (y, u)" by fastforce
  have u: "w_approvals u = w_approvals w" using guarD [OF storeIdentity_approvals s] vr by (simp add: approvalsSame_def)
  obtain i where "y = Inr i"
    using w' assms(3) v x body s u vr by (cases y) (auto simp: run js_def split: if_splits)
  then have "w' = snd (approveFor env api pp (eb_pubkey body) i u)"
    using w' assms(3) v x body s u vr by (auto simp: run js_def split: if_splits)
  with approveFor_others [of u pp "eb_pubkey body" env api i] assms(2) u vr x body show ?thesis by auto
qed

definition entityBody0 :: json where
  "entityBody0 = JObject [(''pubkey'', JString ''O2''), (''name'', JString ''<b>Bob</b>''),
     (''signedChallenge'', JObject [(''nonce'', JString ''n''), (''signature'', JString ''O2'')])]"

definition submitting0 :: "EntityStatus \<Rightarrow> world" where
  "submitting0 st = world0\<lparr>w_entityChallenges := [(''n'', \<lparr>pch_nonce = ''n'', pch_publicKey = ''O2'', pch_createdAt = 900\<rparr>)],
     w_approvals := [BaseColumns.extend base0 \<lparr>pa_id = ''y'', pa_ppPublicKey = ''P1'', pa_accountPubkey = ''O2'', pa_status = st\<rparr>]\<rparr>"

lemma signature2: "verifyStellarSignature authApi0 ''O2'' ''n'' ''O2''"
  by (simp add: verifyStellarSignature_def signedPayloads_def sigBufferOf_def isHexText_def hexValue_def authApi0_def)

lemma parsed0: "bodySchema entityBody0 = Some \<lparr>eb_pubkey = ''O2'', eb_name = ''<b>Bob</b>'', eb_jurisdictions = [],
    eb_nonce = ''n'', eb_signature = ''O2''\<rparr>" "sanitiseName ''<b>Bob</b>'' = ''Bob''"
  by code_simp+

lemma approved0:
  "map pa_status (w_approvals (snd (handlePostEntity env0 authApi0 (Some ''P1'') (Inr entityBody0) (submitting0 E_BLOCKED)))) =
     [E_APPROVED]"
proof -
  have "entityChallengeTtlMs authApi0 = 300" by (simp add: authApi0_def)
  then show ?thesis
    by (simp add: handlePostEntity_def tryCatch_respond_world orEmpty_def andThen_apply liftSum_def parsed0 signature2
        verifyEntityChallenge_def submitting0_def storeIdentity_def accounts_findById_def base_findById_def dbQuery_apply
        fixture_defs entities_create_def accounts_create_def base_create_def dbExec_def advance_def approveFor_def
        findByPpAndAccount_def approvals_update_def base_update_def Let_def)
qed

lemma approval_needs_proof_witness:
  "\<exists>body. bodySchema entityBody0 = Some body \<and>
     verifyStellarSignature authApi0 (eb_pubkey body) (eb_nonce body) (eb_signature body)"
proof -
  let ?w = "submitting0 E_BLOCKED"
  let ?p = "handlePostEntity env0 authApi0 (Some ''P1'') (Inr entityBody0) ?w"
  have "w_approvals (snd ?p) \<noteq> w_approvals ?w"
  proof
    assume "w_approvals (snd ?p) = w_approvals ?w"
    with approved0 show False by (simp add: submitting0_def fixture_defs)
  qed
  moreover have "distinct (map pa_id (w_approvals ?w))" by (simp add: submitting0_def fixture_defs)
  ultimately show ?thesis
    using approval_needs_proof [of env0 authApi0 "''P1''" entityBody0 ?w "fst ?p" "snd ?p"] by auto
qed

text \<open>A blocked entity lifts its own block: the public submission promotes every approval that is not yet
  approved.\<close>

theorem blocked_entity_approves_itself:
  "map pa_status (w_approvals (submitting0 E_BLOCKED)) = [E_BLOCKED] \<and>
   map pa_status (w_approvals (snd (handlePostEntity env0 authApi0 (Some ''P1'') (Inr entityBody0) (submitting0 E_BLOCKED)))) =
     [E_APPROVED]"
  using approved0 by (simp add: submitting0_def fixture_defs)

section \<open>Guarantees\<close>

context auth_client
begin

lemma guar_approvals_writes: "guar R (approvals_create env a)" "guar R (approvals_update env i f)"
  unfolding approvals_create_def approvals_update_def base_update_def
  by (rule guar_dbExec, rule guarI, simp add: R_refl R_approvals)+

lemma guar_handlePostEntity: "guar R (handlePostEntity env api p request)"
  unfolding handlePostEntity_def storeIdentity_def approveFor_def Let_def
  by (intro world_rules guar_respond guar_reads guar_entityAuth guar_authTables guar_approvals_writes)

end

end
