(* ===== verification/Providers.thy ===== *)
theory Providers
  imports Http
begin

text \<open>
  Payment providers and their council memberships: the rest of \<^verbatim>\<open>pp.repository.ts\<close> and
  \<^verbatim>\<open>council-membership.repository.ts\<close>, and the operator's handlers of \<^verbatim>\<open>http/v1/dashboard/pp.ts\<close> and
  \<^verbatim>\<open>http/v1/dashboard/council.ts\<close> with the guard against internal addresses.

  \<open>CouncilApi\<close> holds what the handlers take from outside: the mode, the runtime's URL parser, JSON printer
  and UUIDs, random bytes (call, draw, length), the driver's conversion of values to column types, and the HTTP
  answers of a council.  \<open>is_abort\<close> tells the \<^verbatim>\<open>AbortError\<close> of a timed-out request.
\<close>

section \<open>What the handlers call\<close>

record URL =
  url_protocol :: string
  url_hostname :: string
  url_origin :: string
  url_council :: "string option"

record HttpAnswer =
  ha_status :: int
  ha_contentLength :: "int option"
  ha_json :: "exn + json"

record CouncilApi =
  MODE :: string
  PROVIDER_BASE_URL :: string
  newURL :: "string \<Rightarrow> URL option"
  JSON_stringify :: "json \<Rightarrow> string"
  JSON_parse :: "string \<Rightarrow> json option"
  randomUUID :: "nat \<Rightarrow> string"
  randomBytes :: "nat \<Rightarrow> nat \<Rightarrow> nat \<Rightarrow> byte list"
  pgInteger :: "json \<Rightarrow> exn + int"
  pgText :: "json \<Rightarrow> exn + string"
  is_abort :: "exn \<Rightarrow> bool"
  httpGet :: "nat \<Rightarrow> string \<Rightarrow> exn + HttpAnswer"
  httpJoin :: "nat \<Rightarrow> string \<Rightarrow> json \<Rightarrow> exn + HttpAnswer"

definition isOk :: "int \<Rightarrow> bool" where
  "isOk st \<longleftrightarrow> 200 \<le> st \<and> st < 300"

section \<open>Repositories\<close>

text \<open>The public key of a provider is unique.\<close>

definition pps_create :: "env \<Rightarrow> PaymentProvider \<Rightarrow> PaymentProvider action" where
  "pps_create env row = dbExec env (\<lambda>_ w.
    if list_ex (\<lambda>r. pp_id r = pp_id row \<or> pp_publicKey r = pp_publicKey row) (w_pps w) then (Inl DbError, w)
    else (Inr row, w_pps_update (\<lambda>rs. rs @ [row]) w))"

definition activate :: "env \<Rightarrow> string \<Rightarrow> unit action" where
  "activate env i = dbExec env (\<lambda>now w. (Inr (),
    w_pps_update (map (\<lambda>r. if pp_id r = i then r\<lparr>pp_isActive := True, updatedAt := now\<rparr> else r)) w))"

definition deactivate :: "env \<Rightarrow> string \<Rightarrow> unit action" where
  "deactivate env i = dbExec env (\<lambda>now w. (Inr (),
    w_pps_update (map (\<lambda>r. if pp_id r = i then r\<lparr>pp_isActive := False, updatedAt := now\<rparr> else r)) w))"

definition hardDelete :: "env \<Rightarrow> string \<Rightarrow> unit action" where
  "hardDelete env i = dbExec env (\<lambda>_ w. (Inr (), w_pps_update (filter (\<lambda>r. pp_id r \<noteq> i)) w))"

definition listByOwner :: "env \<Rightarrow> string \<Rightarrow> PaymentProvider list action" where
  "listByOwner env ownerPublicKey = dbQuery env (\<lambda>w.
    sort_key createdAt (filter (\<lambda>r. pp_ownerPublicKey r = Some ownerPublicKey) (w_pps w)))"

definition memberships_create :: "env \<Rightarrow> CouncilMembership \<Rightarrow> CouncilMembership action" where
  "memberships_create env = base_create env w_memberships w_memberships_update cm_id"

definition memberships_delete :: "env \<Rightarrow> string \<Rightarrow> unit action" where
  "memberships_delete env = base_delete env w_memberships_update cm_id"

definition getPendingForPp :: "env \<Rightarrow> string \<Rightarrow> CouncilMembership option action" where
  "getPendingForPp env ppPublicKey = dbQuery env (\<lambda>w.
    find (\<lambda>r. cm_ppPublicKey r = ppPublicKey \<and> cm_status r = M_PENDING \<and> deletedAt r = None)
      (w_memberships w))"

definition getPending :: "env \<Rightarrow> CouncilMembership option action" where
  "getPending env = dbQuery env (\<lambda>w.
    find (\<lambda>r. cm_status r = M_PENDING \<and> deletedAt r = None) (w_memberships w))"

definition findByCouncilUrlAndPp :: "env \<Rightarrow> string \<Rightarrow> string \<Rightarrow> CouncilMembership option action" where
  "findByCouncilUrlAndPp env url ppPublicKey = dbQuery env (\<lambda>w.
    find (\<lambda>r. cm_councilUrl r = url \<and> cm_ppPublicKey r = ppPublicKey \<and> deletedAt r = None)
      (w_memberships w))"

definition findByJoinRequestId :: "env \<Rightarrow> string \<Rightarrow> CouncilMembership option action" where
  "findByJoinRequestId env joinRequestId = dbQuery env (\<lambda>w.
    find (\<lambda>r. cm_joinRequestId r = Some joinRequestId \<and> deletedAt r = None) (w_memberships w))"

definition listAllForPp :: "env \<Rightarrow> string \<Rightarrow> CouncilMembership list action" where
  "listAllForPp env ppPublicKey = dbQuery env (\<lambda>w.
    sort_key createdAt (filter (\<lambda>r. cm_ppPublicKey r = ppPublicKey \<and> deletedAt r = None) (w_memberships w)))"

section \<open>The guard against internal addresses\<close>

definition isHexChar :: "char \<Rightarrow> bool" where
  "isHexChar c \<longleftrightarrow> isDigitChar c \<or> (let n = (of_char c :: nat) in 97 \<le> n \<and> n \<le> 102 \<or> 65 \<le> n \<and> n \<le> 70)"

text \<open>\<^verbatim>\<open>/^0x[\da-f]+$/i\<close>\<close>

definition hexNumber :: "string \<Rightarrow> bool" where
  "hexNumber s \<longleftrightarrow> (startsWith s ''0x'' \<or> startsWith s ''0X'') \<and> drop 2 s \<noteq> [] \<and> list_all isHexChar (drop 2 s)"

text \<open>\<^verbatim>\<open>/^172\.(1[6-9]|2\d|3[01])\./\<close>\<close>

fun private172 :: "string \<Rightarrow> bool" where
  "private172 (c1 # c7 # c2 # d1 # t # u # d2 # rest) =
    ([c1, c7, c2, d1, d2] = ''172..'' \<and>
     (t = CHR ''1'' \<and> u \<in> set ''6789'' \<or> t = CHR ''2'' \<and> isDigitChar u \<or> t = CHR ''3'' \<and> u \<in> set ''01''))"
| "private172 s = False"

text \<open>\<^verbatim>\<open>/^::ffff:\d+\.\d+\.\d+\.\d+$/\<close>: the parts between the dots.\<close>

fun splitDots :: "string \<Rightarrow> string list" where
  "splitDots [] = [[]]"
| "splitDots (c # s) =
    (if c = CHR ''.'' then [] # splitDots s
     else case splitDots s of [] \<Rightarrow> [[c]] | p # ps \<Rightarrow> (c # p) # ps)"

definition mappedIPv4 :: "string \<Rightarrow> bool" where
  "mappedIPv4 s \<longleftrightarrow> startsWith s ''::ffff:'' \<and>
    (let parts = splitDots (drop 7 s) in length parts = 4 \<and> list_all allDigits parts)"

definition internalHost :: "string \<Rightarrow> bool" where
  "internalHost host \<longleftrightarrow>
    CHR ''.'' \<notin> set host \<or>
    allDigits host \<or> hexNumber host \<or>
    host = ''::1'' \<or> startsWith host ''::ffff:'' \<or> startsWith host ''fe80:'' \<or>
    host = ''0.0.0.0'' \<or>
    endsWith host ''.local'' \<or> endsWith host ''.internal'' \<or>
    host = ''169.254.169.254'' \<or>
    startsWith host ''127.'' \<or> startsWith host ''10.'' \<or> private172 host \<or> startsWith host ''192.168.'' \<or>
    mappedIPv4 host"

definition isInternalUrl :: "CouncilApi \<Rightarrow> URL \<Rightarrow> bool" where
  "isInternalUrl api url =
    (if MODE api = ''development'' then False
     else if url_protocol url \<noteq> ''http:'' \<and> url_protocol url \<noteq> ''https:'' then True
     else internalHost (filter (\<lambda>c. c \<noteq> CHR ''['' \<and> c \<noteq> CHR '']'') (toLowerCase (url_hostname url))))"

definition isHttp :: "URL \<Rightarrow> bool" where
  "isHttp url \<longleftrightarrow> url_protocol url = ''http:'' \<or> url_protocol url = ''https:''"

section \<open>Discovery\<close>

text \<open>The first match of \<^verbatim>\<open>/[#?&]council=([A-Z0-9]+)/\<close>.\<close>

fun matchCouncil :: "string \<Rightarrow> string option" where
  "matchCouncil [] = None"
| "matchCouncil (c # s) =
    (let i = takeWhile (\<lambda>d. isUpperChar d \<or> isDigitChar d) (drop 8 s) in
     if c \<in> set ''#?&'' \<and> startsWith s ''council='' \<and> i \<noteq> [] then Some i else matchCouncil s)"

record DiscoveredCouncil =
  dc_councilUrl :: string
  dc_council :: json
  dc_jurisdictions :: json
  dc_channels :: json
  dc_providers :: json

definition discoverAt :: "CouncilApi \<Rightarrow> string \<Rightarrow> string \<Rightarrow> DiscoveredCouncil Response action" where
  "discoverAt api baseUrl councilId =
    (let councilQs = (if councilId = [] then [] else ''?councilId='' @ encodeURIComponent councilId) in
     andThen (attempt (external (\<lambda>n. httpGet api n (baseUrl @ ''/api/v1/public/council'' @ councilQs)))) (\<lambda>r.
     case r of
       Inl err \<Rightarrow> if is_abort api err then respond 504 ''Council request timed out'' else throw err
     | Inr res \<Rightarrow>
        if (case ha_contentLength res of None \<Rightarrow> 0 | Some n \<Rightarrow> n) > 1048576
        then respond 502 ''Council response too large''
        else if \<not> isOk (ha_status res)
        then respond 502 (''Failed to reach council: HTTP '' @ intToString (ha_status res))
        else andThen (liftSum (ha_json res)) (\<lambda>answer.
          andThen (liftSum (getMember answer ''data'')) (\<lambda>data.
          let council = optMember data ''council'' in
          if \<not> truthy council then respond 502 ''Council not found at this URL''
          else if councilId \<noteq> [] \<and> member council ''channelAuthId'' \<noteq> JString councilId
          then respond 400 ''Council ID in URL does not match the council at this endpoint''
          else respondWith 200 ''Council discovered''
            \<lparr>dc_councilUrl = baseUrl, dc_council = council, dc_jurisdictions = member data ''jurisdictions'',
             dc_channels = member data ''channels'', dc_providers = member data ''providers''\<rparr>))))"

definition handleDiscoverCouncil :: "CouncilApi \<Rightarrow> exn + json \<Rightarrow> DiscoveredCouncil Response action" where
  "handleDiscoverCouncil api request =
    tryCatch
     (andThen (liftSum request) (\<lambda>body.
      andThen (liftSum (getMember body ''councilUrl'')) (\<lambda>u.
      case nonEmptyString u of
        None \<Rightarrow> respond 400 ''councilUrl is required''
      | Some councilUrl \<Rightarrow>
         (case newURL api councilUrl of
            None \<Rightarrow> respond 400 ''councilUrl must be a valid HTTP(S) URL''
          | Some parsed \<Rightarrow>
             if \<not> isHttp parsed then respond 400 ''councilUrl must be a valid HTTP(S) URL''
             else if isInternalUrl api parsed then respond 400 ''councilUrl must not target internal addresses''
             else let q = orEmpty (url_council parsed);
                      councilId = (if q = [] then orEmpty (matchCouncil councilUrl) else q) in
               discoverAt api (url_origin parsed) councilId))))
     (\<lambda>_. respond 500 ''Failed to discover council'')"

section \<open>Joining a council\<close>

definition textColumn :: "CouncilApi \<Rightarrow> json \<Rightarrow> exn + string" where
  "textColumn api v = (case v of JString s \<Rightarrow> Inr s | _ \<Rightarrow> pgText api v)"

definition nullableText :: "CouncilApi \<Rightarrow> json \<Rightarrow> exn + string option" where
  "nullableText api v = (if nullish v then Inr None else map_sum id Some (textColumn api v))"

definition claimedJurisdictionsOf :: "CouncilApi \<Rightarrow> json \<Rightarrow> string option" where
  "claimedJurisdictionsOf api body =
    (case optMember (optMember (member body ''signedEnvelope'') ''payload'') ''jurisdictions'' of
       JArray xs \<Rightarrow> if xs = [] then None else Some (JSON_stringify api (JArray xs))
     | _ \<Rightarrow> None)"

fun withProviderUrl :: "json \<Rightarrow> string \<Rightarrow> json" where
  "withProviderUrl (JObject kvs) url = JObject (kvs @ [(''providerUrl'', JString url)])"
| "withProviderUrl v url = JObject [(''providerUrl'', JString url)]"

record JoinResult =
  jr_joinRequestId :: json
  jr_status :: CouncilMembershipStatus

definition storeMembership ::
    "env \<Rightarrow> CouncilApi \<Rightarrow> json \<Rightarrow> string \<Rightarrow> string \<Rightarrow> string \<Rightarrow> json \<Rightarrow> JoinResult Response action" where
  "storeMembership env api body baseUrl councilId ppPublicKey responseData =
    andThen (liftSum (nullableText api (member body ''councilName''))) (\<lambda>councilName.
    andThen (liftSum (nullableText api (member body ''councilPublicKey''))) (\<lambda>councilPublicKey.
    andThen (liftSum (nullableText api (optMember responseData ''id''))) (\<lambda>joinRequestId.
    andThen (dateNow env) (\<lambda>now.
    andThen (gets (\<lambda>w. randomUUID api (w_tick w))) (\<lambda>uuid.
    andThen (memberships_create env
      \<lparr>createdAt = now, updatedAt = now, createdBy = None, updatedBy = None, deletedAt = None,
       cm_id = uuid, cm_councilUrl = baseUrl, cm_councilName = councilName,
       cm_councilPublicKey = orEmpty councilPublicKey, cm_channelAuthId = councilId,
       cm_status = M_PENDING, cm_configJson = None, cm_claimedJurisdictions = claimedJurisdictionsOf api body,
       cm_joinRequestId = joinRequestId, cm_ppPublicKey = ppPublicKey\<rparr>) (\<lambda>_.
    andThen (addCouncilWatcher councilId) (\<lambda>_.
    andThen (addProviderAddress ppPublicKey) (\<lambda>_.
    respondWith 200 ''Join request submitted''
      \<lparr>jr_joinRequestId = optMember responseData ''id'', jr_status = M_PENDING\<rparr>))))))))"

definition relayEnvelope ::
    "env \<Rightarrow> CouncilApi \<Rightarrow> json \<Rightarrow> string \<Rightarrow> string \<Rightarrow> string \<Rightarrow> JoinResult Response action" where
  "relayEnvelope env api body baseUrl councilId ppPublicKey =
    (let signedEnvelope = member body ''signedEnvelope'' in
     andThen (attempt (external (\<lambda>n. httpJoin api n (baseUrl @ ''/api/v1/public/provider/join-request'')
       (withProviderUrl signedEnvelope (PROVIDER_BASE_URL api))))) (\<lambda>r.
     case r of
       Inl err \<Rightarrow> if is_abort api err then respond 504 ''Council join request timed out'' else throw err
     | Inr res \<Rightarrow>
        if ha_status res = 409 then respond 409 ''A pending request already exists for this provider''
        else if \<not> isOk (ha_status res) then respond 502 ''Council rejected the request''
        else andThen (liftSum (ha_json res)) (\<lambda>answer.
          andThen (liftSum (getMember answer ''data'')) (\<lambda>responseData.
          storeMembership env api body baseUrl councilId ppPublicKey responseData))))"

fun statusText :: "CouncilMembershipStatus \<Rightarrow> string" where
  "statusText M_PENDING = ''pending''"
| "statusText M_ACTIVE = ''active''"
| "statusText M_REJECTED = ''rejected''"

definition joinAt :: "env \<Rightarrow> CouncilApi \<Rightarrow> json \<Rightarrow> string \<Rightarrow> string \<Rightarrow> JoinResult Response action" where
  "joinAt env api body baseUrl ppPublicKey =
    andThen (findByCouncilUrlAndPp env baseUrl ppPublicKey) (\<lambda>existing.
    case existing of
      Some m \<Rightarrow> respondWith 409 (''This PP is already '' @ statusText (cm_status m) @ '' for this council'')
        \<lparr>jr_joinRequestId = JUndefined, jr_status = cm_status m\<rparr>
    | None \<Rightarrow>
       (case nonEmptyString (member body ''councilId'') of
          None \<Rightarrow> respond 400 ''councilId is required''
        | Some councilId \<Rightarrow>
           (let signedEnvelope = member body ''signedEnvelope'' in
            if \<not> truthy signedEnvelope \<or> \<not> truthy (member signedEnvelope ''payload'') \<or>
               \<not> truthy (member signedEnvelope ''signature'') \<or> \<not> truthy (member signedEnvelope ''publicKey'')
            then respond 400 ''signedEnvelope is required (payload, signature, publicKey, timestamp)''
            else if member signedEnvelope ''publicKey'' \<noteq> JString ppPublicKey
            then respond 400 ''signedEnvelope publicKey does not match ppPublicKey''
            else relayEnvelope env api body baseUrl councilId ppPublicKey)))"

definition handleJoinCouncil ::
    "env \<Rightarrow> CouncilApi \<Rightarrow> exn + json \<Rightarrow> PaymentProvider \<Rightarrow> JoinResult Response action" where
  "handleJoinCouncil env api request pp =
    tryCatch
     (andThen (liftSum request) (\<lambda>body.
      andThen (liftSum (getMember body ''councilUrl'')) (\<lambda>u.
      case nonEmptyString u of
        None \<Rightarrow> respond 400 ''councilUrl is required''
      | Some councilUrl \<Rightarrow>
         (case newURL api councilUrl of
            None \<Rightarrow> respond 400 ''councilUrl must be a valid URL''
          | Some parsedUrl \<Rightarrow>
             if \<not> isHttp parsedUrl then respond 400 ''councilUrl must be a valid HTTP(S) URL''
             else if isInternalUrl api parsedUrl
             then respond 400 ''councilUrl must not target internal addresses''
             else joinAt env api body (stripSlashes councilUrl) (pp_publicKey pp)))))
     (\<lambda>_. respond 500 ''Failed to submit join request'')"

section \<open>The membership of a provider\<close>

record MembershipView =
  mv_id :: string
  mv_councilUrl :: string
  mv_councilName :: "string option"
  mv_councilPublicKey :: string
  mv_channelAuthId :: string
  mv_status :: CouncilMembershipStatus
  mv_config :: json
  mv_joinRequestId :: "string option"
  mv_ppPublicKey :: string
  mv_createdAt :: string

definition parseOrNull :: "CouncilApi \<Rightarrow> string option \<Rightarrow> json" where
  "parseOrNull api text =
    (let t = orEmpty text in
     if t = [] then JNull else case JSON_parse api t of None \<Rightarrow> JNull | Some v \<Rightarrow> v)"

definition handleGetMembership ::
    "env \<Rightarrow> CouncilApi \<Rightarrow> PaymentProvider \<Rightarrow> MembershipView Response action" where
  "handleGetMembership env api pp =
    tryCatch
     (andThen (getCurrentForPp env (pp_publicKey pp)) (\<lambda>membership.
      case membership of
        None \<Rightarrow> respond 200 ''No council membership''
      | Some m \<Rightarrow> respondWith 200 ''Council membership''
          \<lparr>mv_id = cm_id m, mv_councilUrl = cm_councilUrl m, mv_councilName = cm_councilName m,
           mv_councilPublicKey = cm_councilPublicKey m, mv_channelAuthId = cm_channelAuthId m,
           mv_status = cm_status m, mv_config = parseOrNull api (cm_configJson m),
           mv_joinRequestId = cm_joinRequestId m, mv_ppPublicKey = cm_ppPublicKey m,
           mv_createdAt = toISOString (createdAt m)\<rparr>))
     (\<lambda>_. respond 500 ''Failed to retrieve membership'')"

definition remoteMembership ::
    "env \<Rightarrow> CouncilMembership \<Rightarrow> string \<Rightarrow> (int option \<times> string option) action" where
  "remoteMembership env m ppPublicKey =
    andThen (attempt (external (\<lambda>n.
      fetchMembership env n (cm_councilUrl m) (cm_channelAuthId m) ppPublicKey))) (\<lambda>r.
    ret (case r of Inl _ \<Rightarrow> (None, None) | Inr (st, body) \<Rightarrow> (Some st, body)))"

text \<open>The configuration and the name to store: those of the council's answer, otherwise the ones already
  stored.\<close>

definition syncedConfig :: "env \<Rightarrow> CouncilMembership \<Rightarrow> (string option \<times> string option) action" where
  "syncedConfig env m =
    andThen (attempt (external (\<lambda>n. fetchCouncil env n (cm_councilUrl m) (cm_channelAuthId m)))) (\<lambda>r.
    ret (case r of
       Inr (st, Some d) \<Rightarrow>
         if isOk st then (Some (stringifyCouncil env d),
             case cd_name d of Some n \<Rightarrow> Some n | None \<Rightarrow> cm_councilName m)
         else (cm_configJson m, cm_councilName m)
     | _ \<Rightarrow> (cm_configJson m, cm_councilName m)))"

definition handleSyncMembership ::
    "env \<Rightarrow> PaymentProvider \<Rightarrow> CouncilMembershipStatus option Response action" where
  "handleSyncMembership env pp =
    tryCatch
     (andThen (getCurrentForPp env (pp_publicKey pp)) (\<lambda>current.
      case current of
        None \<Rightarrow> respondWith 200 ''No membership'' None
      | Some membership \<Rightarrow>
         andThen (remoteMembership env membership (pp_publicKey pp)) (\<lambda>remote.
         case remote of (remoteStatus, remoteBody) \<Rightarrow>
         if remoteStatus = Some 200 \<and> cm_status membership \<noteq> M_ACTIVE
         then andThen (syncedConfig env membership) (\<lambda>cfg.
           andThen (memberships_update env (cm_id membership) (\<lambda>r. r\<lparr>cm_status := M_ACTIVE,
               cm_configJson := fst cfg, cm_councilName := snd cfg\<rparr>)) (\<lambda>_.
           respondWith 200 ''Membership synced'' (Some M_ACTIVE)))
         else if (remoteBody = Some ''REJECTED'' \<or>
                  remoteStatus = Some 404 \<and> remoteBody = Some ''NOT_FOUND'' \<and> cm_status membership = M_PENDING) \<and>
                 cm_status membership \<noteq> M_REJECTED
         then andThen (memberships_update env (cm_id membership) (\<lambda>r. r\<lparr>cm_status := M_REJECTED\<rparr>)) (\<lambda>_.
           respondWith 200 ''Membership synced'' (Some M_REJECTED))
         else respondWith 200 ''Membership unchanged'' (Some (cm_status membership)))))
     (\<lambda>_. respond 500 ''Failed to sync membership'')"

section \<open>Registering, listing and deleting providers\<close>

record RegisteredPp =
  rp_publicKey :: string
  rp_isActive :: bool

definition trimLabel :: "json \<Rightarrow> exn + string option" where
  "trimLabel label =
    (case label of
       JString s \<Rightarrow> Inr (Some (trim s))
     | _ \<Rightarrow> if nullish label then Inr None else Inl TypeError)"

definition kycUrlOf :: "json \<Rightarrow> string option" where
  "kycUrlOf v = (case v of JString s \<Rightarrow> if length (trim s) > 0 then Some (trim s) else None | _ \<Rightarrow> None)"

definition registerNew ::
    "env \<Rightarrow> CouncilApi \<Rightarrow> json \<Rightarrow> string \<Rightarrow> string \<Rightarrow> string \<Rightarrow> RegisteredPp Response action" where
  "registerNew env api body secretKey publicKey ownerPublicKey =
    andThen (external (\<lambda>n. Inr (encryptSk (subtle env) (randomBytes api n 0 SALT_LENGTH)
        (randomBytes api n 1 IV_LENGTH) secretKey (SERVICE_AUTH_SECRET env)))) (\<lambda>encrypted.
    andThen (liftSum (trimLabel (member body ''label''))) (\<lambda>label.
    andThen (liftSum (pgInteger api (member body ''derivationIndex''))) (\<lambda>derivationIndex.
    andThen (dateNow env) (\<lambda>now.
    andThen (gets (\<lambda>w. randomUUID api (w_tick w))) (\<lambda>uuid.
    andThen (pps_create env
      \<lparr>createdAt = now, updatedAt = now, createdBy = None, updatedBy = None, deletedAt = None,
       pp_id = uuid, pp_publicKey = publicKey, pp_encryptedSk = encrypted,
       pp_derivationIndex = derivationIndex, pp_ownerPublicKey = Some ownerPublicKey, pp_isActive = True,
       pp_label = label, pp_kycSubmissionUrl = kycUrlOf (member body ''kycSubmissionUrl'')\<rparr>) (\<lambda>pp.
    andThen (addProviderAddress publicKey) (\<lambda>_.
    respondWith 200 ''Provider registered''
      \<lparr>rp_publicKey = pp_publicKey pp, rp_isActive = pp_isActive pp\<rparr>)))))))"

definition handleRegisterPp ::
    "env \<Rightarrow> CouncilApi \<Rightarrow> exn + json \<Rightarrow> string \<Rightarrow> RegisteredPp Response action" where
  "handleRegisterPp env api request sub =
    tryCatch
     (andThen (liftSum request) (\<lambda>body.
      andThen (liftSum (getMember body ''secretKey'')) (\<lambda>k.
      case nonEmptyString k of
        None \<Rightarrow> respond 400 ''secretKey is required''
      | Some secretKey \<Rightarrow>
         (case keypairPublicKey env secretKey of
            Inl _ \<Rightarrow> respond 400 ''Invalid Stellar secret key''
          | Inr publicKey \<Rightarrow>
             andThen (findByPublicKey env publicKey) (\<lambda>existing.
             case existing of
               Some pp \<Rightarrow>
                 if orEmpty (pp_ownerPublicKey pp) \<noteq> [] \<and> pp_ownerPublicKey pp \<noteq> Some sub
                 then respond 403 ''This provider belongs to another user''
                 else andThen
                   (if pp_isActive pp then ret ()
                    else andThen (activate env (pp_id pp)) (\<lambda>_. addProviderAddress publicKey)) (\<lambda>_.
                   respondWith 200 ''Provider already registered'' \<lparr>rp_publicKey = publicKey, rp_isActive = True\<rparr>)
             | None \<Rightarrow> registerNew env api body secretKey publicKey sub)))))
     (\<lambda>_. respond 500 ''Failed to register provider'')"

record MembershipListing =
  ml_councilUrl :: string
  ml_councilName :: "string option"
  ml_status :: CouncilMembershipStatus
  ml_channelAuthId :: string
  ml_claimedJurisdictions :: json
  ml_councilJurisdictions :: "json list option"
  ml_channels :: json

record ProviderListing =
  pl_publicKey :: string
  pl_derivationIndex :: int
  pl_label :: "string option"
  pl_isActive :: bool
  pl_createdAt :: string
  pl_councilMemberships :: "MembershipListing list"

text \<open>\<^verbatim>\<open>(cfg.jurisdictions || []).map((j) => j.countryCode)\<close>, \<open>None\<close> when it throws.\<close>

fun countryCodes :: "json list \<Rightarrow> json list option" where
  "countryCodes [] = Some []"
| "countryCodes (j # js) = (if nullish j then None else map_option (\<lambda>cs. member j ''countryCode'' # cs) (countryCodes js))"

definition jurisdictionsOf :: "json \<Rightarrow> json list option" where
  "jurisdictionsOf cfg =
    (if nullish cfg then None
     else case member cfg ''jurisdictions'' of
       JArray js \<Rightarrow> countryCodes js
     | v \<Rightarrow> if truthy v then None else Some [])"

definition membershipListing :: "CouncilApi \<Rightarrow> CouncilMembership \<Rightarrow> MembershipListing" where
  "membershipListing api m =
    (let text = orEmpty (cm_configJson m);
         cfg = (if text = [] then None else JSON_parse api text);
         councilJurisdictions = Option.bind cfg jurisdictionsOf;
         channels = (case cfg of
            None \<Rightarrow> JArray []
          | Some c \<Rightarrow> if councilJurisdictions = None then JArray []
                      else if truthy (member c ''channels'') then member c ''channels'' else JArray []) in
     \<lparr>ml_councilUrl = cm_councilUrl m, ml_councilName = cm_councilName m, ml_status = cm_status m,
      ml_channelAuthId = cm_channelAuthId m,
      ml_claimedJurisdictions = parseOrNull api (cm_claimedJurisdictions m),
      ml_councilJurisdictions = councilJurisdictions, ml_channels = channels\<rparr>)"

definition providerListing :: "env \<Rightarrow> CouncilApi \<Rightarrow> PaymentProvider \<Rightarrow> ProviderListing action" where
  "providerListing env api pp =
    andThen (listAllForPp env (pp_publicKey pp)) (\<lambda>memberships.
    ret \<lparr>pl_publicKey = pp_publicKey pp, pl_derivationIndex = pp_derivationIndex pp, pl_label = pp_label pp,
         pl_isActive = pp_isActive pp, pl_createdAt = toISOString (createdAt pp),
         pl_councilMemberships = map (membershipListing api) memberships\<rparr>)"

definition handleListPps :: "env \<Rightarrow> CouncilApi \<Rightarrow> string \<Rightarrow> ProviderListing list Response action" where
  "handleListPps env api sub =
    tryCatch
     (andThen (listByOwner env sub) (\<lambda>pps.
      andThen (mapM (providerListing env api) pps) (\<lambda>data.
      respondWith 200 ''Providers listed'' data)))
     (\<lambda>_. respond 500 ''Failed to list providers'')"

definition handleDeletePp :: "env \<Rightarrow> PaymentProvider \<Rightarrow> unit Response action" where
  "handleDeletePp env pp =
    tryCatch
     (andThen (removeProviderAddress (pp_publicKey pp)) (\<lambda>_.
      andThen (listAllForPp env (pp_publicKey pp)) (\<lambda>memberships.
      andThen (forM memberships (\<lambda>m. memberships_delete env (cm_id m))) (\<lambda>_.
      andThen (hardDelete env (pp_id pp)) (\<lambda>_.
      respond 200 ''Provider deleted'')))))
     (\<lambda>_. respond 500 ''Failed to delete provider'')"

section \<open>Routes\<close>

text \<open>The routes of \<^verbatim>\<open>http/v1/providers/routes.ts\<close> that change a provider or its membership, behind the check of
  ownership; \<open>sub\<close> is the subject of the operator's session.\<close>

definition deleteRoute :: "env \<Rightarrow> string option \<Rightarrow> string option \<Rightarrow> unit Response action" where
  "deleteRoute env ppParam sub = requirePpOwnership env ppParam sub (handleDeletePp env)"

definition joinRoute ::
    "env \<Rightarrow> CouncilApi \<Rightarrow> exn + json \<Rightarrow> string option \<Rightarrow> string option \<Rightarrow> JoinResult Response action" where
  "joinRoute env api request ppParam sub = requirePpOwnership env ppParam sub (handleJoinCouncil env api request)"

definition syncRoute ::
    "env \<Rightarrow> string option \<Rightarrow> string option \<Rightarrow> CouncilMembershipStatus option Response action" where
  "syncRoute env ppParam sub = requirePpOwnership env ppParam sub (handleSyncMembership env)"

section \<open>Guarantees\<close>

context world_guarantee
begin

lemma guar_attemptM: "guar R m \<Longrightarrow> guar R (attempt m)"
  by (auto simp: guar_def attempt_def split: prod.split) (metis snd_conv)

lemma guar_provider_reads:
  "guar R (listByOwner env o')" "guar R (getPendingForPp env p)" "guar R (getPending env)"
  "guar R (findByCouncilUrlAndPp env u p)" "guar R (findByJoinRequestId env j)" "guar R (listAllForPp env p)"
  by (simp_all add: listByOwner_def getPendingForPp_def getPending_def findByCouncilUrlAndPp_def
      findByJoinRequestId_def listAllForPp_def guar_dbQuery)

lemma guar_discover: "guar R (handleDiscoverCouncil api request)"
  unfolding handleDiscoverCouncil_def discoverAt_def
  by (intro world_rules guar_respond guar_attemptM)

end

locale provider_client = watcher_client R for R :: "world \<Rightarrow> world \<Rightarrow> bool" +
  assumes R_pps: "R w (w_pps_update h1 w)"
begin

lemma guar_pps_writes: "guar R (pps_create env r)" "guar R (activate env i)" "guar R (deactivate env i)"
  "guar R (hardDelete env i)"
  unfolding pps_create_def activate_def deactivate_def hardDelete_def
  by (rule guar_dbExec, rule guarI, simp add: R_pps R_refl)+

lemma guar_memberships_writes: "guar R (memberships_create env m)" "guar R (memberships_delete env i)"
  unfolding memberships_create_def memberships_delete_def base_create_def base_delete_def
  by (rule guar_dbExec, rule guarI, simp add: R_memberships R_refl)+

lemma guar_provider_set: "guar R (addProviderAddress p)" "guar R (removeProviderAddress p)"
  "guar R (addCouncilWatcher c)"
  unfolding addProviderAddress_def removeProviderAddress_def addCouncilWatcher_def
  by (intro guar_modify R_providers guar_watchCouncilContract)+

lemma guar_registerPp: "guar R (handleRegisterPp env api request sub)"
  unfolding handleRegisterPp_def registerNew_def
  by (intro world_rules guar_respond guar_reads guar_pps_writes guar_provider_set)

lemma guar_deleteRoute: "guar R (deleteRoute env p sub)"
  unfolding deleteRoute_def handleDeletePp_def
  by (intro guar_requirePpOwnership world_rules guar_respond guar_provider_reads guar_pps_writes
      guar_memberships_writes guar_provider_set)

lemma guar_joinRoute: "guar R (joinRoute env api request p sub)"
  unfolding joinRoute_def handleJoinCouncil_def joinAt_def relayEnvelope_def storeMembership_def Let_def
  by (intro guar_requirePpOwnership world_rules guar_respond guar_provider_reads guar_attemptM
      guar_memberships_writes guar_provider_set)

lemma guar_syncRoute: "guar R (syncRoute env p sub)"
  unfolding syncRoute_def handleSyncMembership_def remoteMembership_def syncedConfig_def
  by (intro guar_requirePpOwnership world_rules guar_respond repo_rules guar_getCurrentForPp guar_attemptM)

end

section \<open>Internal addresses\<close>

definition dotted :: "nat \<Rightarrow> nat \<Rightarrow> nat \<Rightarrow> nat \<Rightarrow> string" where
  "dotted a b c d = natToString a @ ''.'' @ natToString b @ ''.'' @ natToString c @ ''.'' @ natToString d"

lemma natToString_digits: "list_all isDigitChar (natToString n)"
proof (induction n rule: natToString.induct)
  case (1 n)
  have "isDigitChar (digitChar d)" if "d < 10" for d
    using that by (simp add: isDigitChar_def digitChar_def)
  with 1 show ?case by (subst natToString.simps) auto
qed

lemma not_digit [simp]: "\<not> isDigitChar CHR ''.''" "\<not> isDigitChar CHR '':''" "\<not> isDigitChar CHR ''x''"
  "\<not> isDigitChar CHR ''X''" "\<not> isDigitChar CHR ''l''" "\<not> isDigitChar CHR ''f''"
  by code_simp+

lemma isDigitChar_iff: "isDigitChar c \<longleftrightarrow> c \<in> set ''0123456789''"
proof -
  have "isDigitChar c \<longleftrightarrow> (of_char c :: nat) \<in> of_char ` set ''0123456789''"
    by (simp add: isDigitChar_def Let_def) arith
  also have "\<dots> \<longleftrightarrow> c \<in> set ''0123456789''" by (rule inj_image_mem_iff [OF inj_of_char])
  finally show ?thesis .
qed

lemma no_dot: "list_all isDigitChar s \<Longrightarrow> CHR ''.'' \<notin> set s"
  by (auto simp: list_all_iff)

lemma startsWith_dot:
  assumes "CHR ''.'' \<notin> set x" and "CHR ''.'' \<notin> set y"
  shows "startsWith (x @ CHR ''.'' # r) (y @ CHR ''.'' # q) \<longleftrightarrow> x = y \<and> startsWith r q"
  using assms
proof (induction x arbitrary: y)
  case Nil
  then show ?case by (cases y) (auto simp: startsWith_def)
next
  case (Cons c x)
  then show ?case by (cases y) (auto simp: startsWith_def)
qed

lemma startsWith_chars: "startsWith s p \<Longrightarrow> set p \<subseteq> set s"
  unfolding startsWith_def by (metis set_take_subset)

lemma splitDots_join: "CHR ''.'' \<notin> set x \<Longrightarrow> splitDots (x @ CHR ''.'' # r) = x # splitDots r"
  by (induction x) auto

lemma splitDots_last: "CHR ''.'' \<notin> set x \<Longrightarrow> splitDots x = [x]"
  by (induction x) auto

lemma splitDots_dotted: "splitDots (dotted a b c d) = map natToString [a, b, c, d]"
  by (simp add: dotted_def splitDots_join splitDots_last no_dot natToString_digits)

lemma natToString_eq_iff [simp]: "natToString m = natToString n \<longleftrightarrow> m = n"
  using parseDigits_natToString by (metis option.inject)

lemma twoDigits_iff:
  "[t, u] \<in> set [''16'', ''17'', ''18'', ''19'', ''20'', ''21'', ''22'', ''23'', ''24'', ''25'', ''26'', ''27'', ''28'',
      ''29'', ''30'', ''31''] \<longleftrightarrow>
    t = CHR ''1'' \<and> u \<in> set ''6789'' \<or> t = CHR ''2'' \<and> isDigitChar u \<or> t = CHR ''3'' \<and> u \<in> set ''01''"
  unfolding isDigitChar_iff by auto

lemma startsWith_172:
  "length x = 2 \<Longrightarrow> startsWith (c1 # c7 # c2 # d1 # t # u # d2 # rest) (''172.'' @ x @ ''.'') \<longleftrightarrow>
    [c1, c7, c2, d1, d2] = ''172..'' \<and> x = [t, u]"
  by (auto simp: startsWith_def length_Suc_conv numeral_2_eq_2)

lemma startsWith_172_any:
  assumes "list_all (\<lambda>x. length x = 2) xs"
  shows "(\<exists>x\<in>set xs. startsWith (c1 # c7 # c2 # d1 # t # u # d2 # rest) (''172.'' @ x @ ''.'')) \<longleftrightarrow>
    [c1, c7, c2, d1, d2] = ''172..'' \<and> [t, u] \<in> set xs"
proof -
  have "\<And>x. x \<in> set xs \<Longrightarrow> startsWith (c1 # c7 # c2 # d1 # t # u # d2 # rest) (''172.'' @ x @ ''.'') \<longleftrightarrow>
      [c1, c7, c2, d1, d2] = ''172..'' \<and> x = [t, u]"
    using assms by (intro startsWith_172) (simp add: list_all_iff)
  then show ?thesis by blast
qed

lemma startsWith_172_short:
  "length s < 7 \<Longrightarrow> list_all (\<lambda>x. length x = 2) xs \<Longrightarrow> \<not> (\<exists>x\<in>set xs. startsWith s (''172.'' @ x @ ''.''))"
  by (auto simp: list_all_iff startsWith_def dest: arg_cong [of _ _ length])

lemma bex_map: "(\<exists>x\<in>set (map f xs). P x) \<longleftrightarrow> (\<exists>b\<in>set xs. P (f b))"
  by simp

lemma private172_iff:
  "private172 s \<longleftrightarrow> (\<exists>b\<in>set [16..<32]. startsWith s (natToString 172 @ ''.'' @ natToString b @ ''.''))"
proof -
  have e: "map natToString [16..<32] = [''16'', ''17'', ''18'', ''19'', ''20'', ''21'', ''22'', ''23'', ''24'', ''25'',
      ''26'', ''27'', ''28'', ''29'', ''30'', ''31'']" "natToString 172 = ''172''"
    by code_simp+
  have len: "list_all (\<lambda>x. length x = 2) (map natToString [16..<32])" unfolding e by simp
  have "(\<exists>b\<in>set [16..<32]. startsWith s (natToString 172 @ ''.'' @ natToString b @ ''.'')) \<longleftrightarrow>
    (\<exists>x\<in>set (map natToString [16..<32]). startsWith s (''172.'' @ x @ ''.''))"
    unfolding e(2) bex_map append.simps by (rule refl)
  also have "\<dots> \<longleftrightarrow> private172 s"
  proof (cases "7 \<le> length s")
    case True
    then obtain c1 c7 c2 d1 t u d2 rest where s: "s = c1 # c7 # c2 # d1 # t # u # d2 # rest"
      by (auto simp: Suc_le_length_iff numeral_eq_Suc)
    show ?thesis unfolding s startsWith_172_any [OF len] unfolding e(1) twoDigits_iff private172.simps ..
  next
    case False
    then have "\<not> private172 s" using False by (cases s rule: private172.cases) auto
    with startsWith_172_short [OF _ len] False show ?thesis by (meson not_le)
  qed
  finally show ?thesis by (rule sym)
qed

lemma octet_texts: "''0.0.0.0'' = dotted 0 0 0 0" "''169.254.169.254'' = dotted 169 254 169 254"
  "''127.'' = natToString 127 @ ''.''" "''10.'' = natToString 10 @ ''.''"
  "''192.168.'' = natToString 192 @ ''.'' @ natToString 168 @ ''.''"
  by code_simp+

lemma dotted_eq_iff: "dotted a b c d = dotted a' b' c' d' \<longleftrightarrow> a = a' \<and> b = b' \<and> c = c' \<and> d = d'"
proof
  assume "dotted a b c d = dotted a' b' c' d'"
  then have "splitDots (dotted a b c d) = splitDots (dotted a' b' c' d')" by simp
  then show "a = a' \<and> b = b' \<and> c = c' \<and> d = d'" by (simp add: splitDots_dotted)
qed simp

lemma dotted_chars: "x \<in> set (dotted a b c d) \<Longrightarrow> isDigitChar x \<or> x = CHR ''.''"
  using natToString_digits [of a] natToString_digits [of b] natToString_digits [of c] natToString_digits [of d]
  by (auto simp: dotted_def list_all_iff)

lemma dotted_excludes:
  assumes "x \<in> set p" and "\<not> isDigitChar x" and "x \<noteq> CHR ''.''"
  shows "\<not> startsWith (dotted a b c d) p" "\<not> endsWith (dotted a b c d) p" "dotted a b c d \<noteq> p"
proof -
  have x: "x \<notin> set (dotted a b c d)" using dotted_chars assms(2,3) by blast
  then show "\<not> startsWith (dotted a b c d) p" using startsWith_chars assms(1) by blast
  show "\<not> endsWith (dotted a b c d) p" unfolding endsWith_def using startsWith_chars assms(1) x by fastforce
  show "dotted a b c d \<noteq> p" using assms(1) x by auto
qed

lemma startsWith_Nil [simp]: "startsWith s []"
  by (simp add: startsWith_def)

lemma dotted_starts:
  "startsWith (dotted a b c d) (natToString n @ ''.'') \<longleftrightarrow> a = n"
  "startsWith (dotted a b c d) (natToString n @ ''.'' @ natToString m @ ''.'') \<longleftrightarrow> a = n \<and> b = m"
  by (simp_all add: dotted_def startsWith_dot no_dot natToString_digits)

lemma internalHost_dotted:
  "internalHost (dotted a b c d) \<longleftrightarrow>
    a = 127 \<or> a = 10 \<or> a = 172 \<and> 16 \<le> b \<and> b < 32 \<or> a = 192 \<and> b = 168 \<or>
    (a, b, c, d) = (0, 0, 0, 0) \<or> (a, b, c, d) = (169, 254, 169, 254)"
proof -
  have "CHR ''.'' \<in> set (dotted a b c d)" by (simp add: dotted_def)
  moreover from this have "\<not> allDigits (dotted a b c d)"
    unfolding allDigits_def list_all_iff using not_digit(1) by blast
  moreover have "\<not> hexNumber (dotted a b c d)" "\<not> mappedIPv4 (dotted a b c d)"
    using dotted_excludes(1) [of "CHR ''x''" "''0x''"] dotted_excludes(1) [of "CHR ''X''" "''0X''"]
      dotted_excludes(1) [of "CHR '':''" "''::ffff:''"]
    by (simp_all add: hexNumber_def mappedIPv4_def)
  moreover have "private172 (dotted a b c d) \<longleftrightarrow> a = 172 \<and> 16 \<le> b \<and> b < 32"
    unfolding private172_iff dotted_starts atLeastLessThan_upt [symmetric] atLeastLessThan_iff Bex_def by blast
  ultimately show ?thesis
    unfolding internalHost_def octet_texts dotted_eq_iff dotted_starts
    using dotted_excludes(3) [of "CHR '':''" "''::1''"] dotted_excludes(1) [of "CHR '':''" "''::ffff:''"]
      dotted_excludes(1) [of "CHR '':''" "''fe80:''"] dotted_excludes(2) [of "CHR ''l''" "''.local''"]
      dotted_excludes(2) [of "CHR ''l''" "''.internal''"]
    by auto
qed

section \<open>Properties\<close>

definition api0 :: CouncilApi where
  "api0 = \<lparr>MODE = ''production'', PROVIDER_BASE_URL = ''https://pp.example'',
     newURL = (\<lambda>s. if startsWith s ''http'' then
       Some \<lparr>url_protocol = ''https:'', url_hostname = drop 8 s, url_origin = s, url_council = None\<rparr> else None),
     JSON_stringify = (\<lambda>_. ''json''), JSON_parse = (\<lambda>_. None), randomUUID = (\<lambda>n. replicate n CHR ''i''),
     randomBytes = (\<lambda>_ _ k. replicate k 0),
     pgInteger = (\<lambda>v. case v of JNumber n \<Rightarrow> Inr \<lfloor>n\<rfloor> | _ \<Rightarrow> Inl DbError),
     pgText = (\<lambda>_. Inl DbError), is_abort = (\<lambda>e. e = TimeoutError ''abort''),
     httpGet = (\<lambda>_ _. Inl TypeError),
     httpJoin = (\<lambda>_ _ _. Inr \<lparr>ha_status = 200, ha_contentLength = None,
        ha_json = Inr (JObject [(''data'', JObject [(''id'', JString ''j1'')])])\<rparr>)\<rparr>"

text \<open>C29: An address in dotted decimal is refused exactly when it is a loopback or private one, the
  zero address or the metadata endpoint.\<close>

theorem internal_ipv4_exact:
  assumes "MODE api \<noteq> ''development''" and "isHttp url" and "url_hostname url = dotted a b c d"
  shows "isInternalUrl api url \<longleftrightarrow>
    a = 127 \<or> a = 10 \<or> a = 172 \<and> 16 \<le> b \<and> b < 32 \<or> a = 192 \<and> b = 168 \<or>
    (a, b, c, d) = (0, 0, 0, 0) \<or> (a, b, c, d) = (169, 254, 169, 254)"
proof -
  let ?h = "dotted a b c d"
  have low: "x \<in> set ?h \<Longrightarrow> (let n = (of_char x :: nat) in if 65 \<le> n \<and> n \<le> 90 then char_of (n + 32) else x) = x" for x
    using dotted_chars [of x a b c d] by (auto simp: isDigitChar_def Let_def)
  have "toLowerCase ?h = ?h" unfolding toLowerCase_def by (rule map_idI) (rule low)
  moreover have "filter (\<lambda>x. x \<noteq> CHR ''['' \<and> x \<noteq> CHR '']'') ?h = ?h"
    using dotted_chars [of "CHR ''[''" a b c d] dotted_chars [of "CHR '']''" a b c d]
    by (intro filter_True) (auto simp: isDigitChar_iff)
  ultimately have "isInternalUrl api url = internalHost ?h"
    using assms by (auto simp: isInternalUrl_def isHttp_def)
  then show ?thesis using internalHost_dotted by simp
qed

lemma internal_ipv4_exact_witness:
  "isInternalUrl api0 \<lparr>url_protocol = ''http:'', url_hostname = dotted 172 31 0 9, url_origin = [], url_council = None\<rparr> \<and>
   \<not> isInternalUrl api0 \<lparr>url_protocol = ''http:'', url_hostname = dotted 172 32 0 9, url_origin = [], url_council = None\<rparr>"
proof -
  have m: "MODE api0 \<noteq> ''development''" by (simp add: api0_def)
  show ?thesis
    using internal_ipv4_exact [OF m, of "\<lparr>url_protocol = ''http:'', url_hostname = dotted 172 31 0 9, url_origin = [], url_council = None\<rparr>" 172 31 0 9]
      internal_ipv4_exact [OF m, of "\<lparr>url_protocol = ''http:'', url_hostname = dotted 172 32 0 9, url_origin = [], url_council = None\<rparr>" 172 32 0 9]
    by (simp add: isHttp_def)
qed

text \<open>A request that names an internal address is refused before any call leaves the platform: neither the
  discovery nor the join touches anything.\<close>

theorem internal_address_is_never_called:
  assumes "request = Inr body" and "member body ''councilUrl'' = JString s" and "\<not> nullish body" and "s \<noteq> []"
    and "newURL api s = Some url" and "isHttp url" and "isInternalUrl api url"
  shows "handleDiscoverCouncil api request w =
      (Inr \<lparr>r_status = 400, r_message = ''councilUrl must not target internal addresses'', r_data = None\<rparr>, w) \<and>
    handleJoinCouncil env api request pp w =
      (Inr \<lparr>r_status = 400, r_message = ''councilUrl must not target internal addresses'', r_data = None\<rparr>, w)"
  using assms
  by (simp add: handleDiscoverCouncil_def handleJoinCouncil_def tryCatch_apply andThen_apply liftSum_def
      getMember_def)

definition joinBody0 :: "string \<Rightarrow> json" where
  "joinBody0 url = JObject [(''councilUrl'', JString url), (''councilId'', JString ''auth''),
     (''signedEnvelope'', JObject [(''payload'', JBool True), (''signature'', JString ''s''),
        (''publicKey'', JString ''P1'')])]"

definition pp0 :: PaymentProvider where
  "pp0 = hd (w_pps world0)"

lemma internal_address_is_never_called_witness:
  "fst (handleJoinCouncil env0 api0 (Inr (joinBody0 ''https://10.0.0.7'')) pp0 world0) =
    Inr \<lparr>r_status = 400, r_message = ''councilUrl must not target internal addresses'', r_data = None\<rparr>"
proof -
  have "member (joinBody0 ''https://10.0.0.7'') ''councilUrl'' = JString ''https://10.0.0.7''"
    "\<not> nullish (joinBody0 ''https://10.0.0.7'')" by (simp_all add: joinBody0_def)
  moreover have "newURL api0 ''https://10.0.0.7'' = Some \<lparr>url_protocol = ''https:'', url_hostname = ''10.0.0.7'',
      url_origin = ''https://10.0.0.7'', url_council = None\<rparr>" by code_simp
  moreover have "isHttp \<lparr>url_protocol = ''https:'', url_hostname = ''10.0.0.7'',
      url_origin = ''https://10.0.0.7'', url_council = None\<rparr>" by (simp add: isHttp_def)
  moreover have "isInternalUrl api0 \<lparr>url_protocol = ''https:'', url_hostname = ''10.0.0.7'',
      url_origin = ''https://10.0.0.7'', url_council = None\<rparr>" by code_simp
  ultimately show ?thesis using internal_address_is_never_called by fastforce
qed

text \<open>A trailing dot defeats the guard: the fully qualified name of the local host passes.\<close>

theorem trailing_dot_passes:
  "isInternalUrl api0 \<lparr>url_protocol = ''http:'', url_hostname = ''localhost'', url_origin = [], url_council = None\<rparr> \<and>
   \<not> isInternalUrl api0 \<lparr>url_protocol = ''http:'', url_hostname = ''localhost.'', url_origin = [], url_council = None\<rparr> \<and>
   \<not> isInternalUrl api0 \<lparr>url_protocol = ''http:'', url_hostname = ''metadata.google.internal.'', url_origin = [], url_council = None\<rparr>"
  by (intro conjI) code_simp+

definition ownership :: "world \<Rightarrow> (string \<times> string \<times> string option \<times> string) list" where
  "ownership w = map (\<lambda>r. (pp_id r, pp_publicKey r, pp_ownerPublicKey r, pp_encryptedSk r)) (w_pps w)"

definition registers :: "string \<Rightarrow> world \<Rightarrow> world \<Rightarrow> bool" where
  "registers sub w w' \<longleftrightarrow>
    (\<exists>new. ownership w' = ownership w @ new \<and> list_all (\<lambda>(_, _, o', _). o' = Some sub) new) \<and>
    (distinct (map pp_publicKey (w_pps w)) \<longrightarrow> distinct (map pp_publicKey (w_pps w')))"

lemma registers_same: "w_pps w' = w_pps w \<Longrightarrow> registers sub w w'"
  by (simp add: registers_def ownership_def)

lemma registers_map:
  assumes "w_pps w' = map g (w_pps w)"
    and "\<And>r. pp_id (g r) = pp_id r \<and> pp_publicKey (g r) = pp_publicKey r \<and>
      pp_ownerPublicKey (g r) = pp_ownerPublicKey r \<and> pp_encryptedSk (g r) = pp_encryptedSk r"
  shows "registers sub w w'"
  using assms by (simp add: registers_def ownership_def comp_def)

interpretation registering: watcher_client "registers sub" for sub
proof unfold_locales
  show "registers sub s t \<Longrightarrow> registers sub t u \<Longrightarrow> registers sub s u" for s t u
    by (fastforce simp: registers_def)
qed (simp_all add: registers_same)

lemma guar_registers_activate: "guar (registers sub) (activate env i)"
  unfolding activate_def
proof (intro registering.guar_dbExec guarI, unfold snd_conv)
  fix t w
  let ?g = "\<lambda>r. if pp_id r = i then r\<lparr>pp_isActive := True, updatedAt := t\<rparr> else r"
  show "registers sub w (w_pps_update (map ?g) w)"
    by (rule registers_map [where g = ?g]) simp_all
qed

lemma guar_registers_create: "pp_ownerPublicKey row = Some sub \<Longrightarrow> guar (registers sub) (pps_create env row)"
  unfolding pps_create_def
  by (intro registering.guar_dbExec guarI)
    (auto simp: registers_def ownership_def list_ex_iff)

text \<open>C22: Registration never takes a provider away: every stored row keeps its identity, its key, its owner and
  its encrypted secret; what is added belongs to the caller, and no public key is stored twice.\<close>

theorem registration_takes_nothing:
  assumes "distinct (map pp_publicKey (w_pps w))"
  shows "(\<exists>new. ownership (snd (handleRegisterPp env api request sub w)) = ownership w @ new \<and>
      list_all (\<lambda>(_, _, o', _). o' = Some sub) new) \<and>
    distinct (map pp_publicKey (w_pps (snd (handleRegisterPp env api request sub w))))"
proof -
  have "guar (registers sub) (handleRegisterPp env api request sub)"
    unfolding handleRegisterPp_def registerNew_def addProviderAddress_def
    by (intro registering.world_rules registering.guar_respond registering.guar_reads
        guar_registers_activate guar_registers_create guar_modify registering.R_providers) simp
  then show ?thesis using assms by (auto simp: guar_def registers_def)
qed

definition registerBody0 :: json where
  "registerBody0 = JObject [(''secretKey'', JString ''SP2''), (''derivationIndex'', JNumber 1)]"

lemma registration_takes_nothing_witness:
  "distinct (map pp_publicKey (w_pps (snd (handleRegisterPp env0 api0 (Inr registerBody0) ''O2'' world0))))"
  using registration_takes_nothing [of world0 env0 api0 "Inr registerBody0" "''O2''"] by (simp add: fixture_defs)

section \<open>Isolation of operators\<close>

text \<open>A step that marks memberships with an identifier of \<open>I\<close> only.\<close>

definition membershipsMarked :: "string set \<Rightarrow> world \<Rightarrow> world \<Rightarrow> bool" where
  "membershipsMarked I w w' \<longleftrightarrow>
    (\<exists>g. w_memberships w' = map g (w_memberships w) \<and> (\<forall>r. cm_id (g r) = cm_id r \<and> cm_ppPublicKey (g r) = cm_ppPublicKey r) \<and>
      (\<forall>r. cm_id r \<notin> I \<longrightarrow> g r = r))"

lemma membershipsMarked_same: "w_memberships w' = w_memberships w \<Longrightarrow> membershipsMarked I w w'"
  unfolding membershipsMarked_def by (intro exI [of _ id]) simp

interpretation marked: world_guarantee "membershipsMarked I" for I
proof unfold_locales
  show "membershipsMarked I s t \<Longrightarrow> membershipsMarked I t u \<Longrightarrow> membershipsMarked I s u" for s t u
    unfolding membershipsMarked_def by (elim exE, rule_tac x = "ga \<circ> g" in exI) simp
qed (simp_all add: membershipsMarked_same)

lemma guar_marked_delete: "i \<in> I \<Longrightarrow> guar (membershipsMarked I) (memberships_delete env i)"
  unfolding memberships_delete_def base_delete_def
proof (intro marked.guar_dbExec guarI, unfold snd_conv)
  fix t w
  assume "i \<in> I"
  then show "membershipsMarked I w (w_memberships_update (map (\<lambda>r. if cm_id r = i then r\<lparr>deletedAt := Some t\<rparr> else r)) w)"
    unfolding membershipsMarked_def
    by (intro exI [of _ "\<lambda>r. if cm_id r = i then r\<lparr>deletedAt := Some t\<rparr> else r"]) simp
qed

lemma membershipsMarked_others:
  assumes "membershipsMarked I w w'" and "\<And>r. r \<in> set (w_memberships w) \<Longrightarrow> cm_id r \<in> I \<Longrightarrow> cm_ppPublicKey r = p"
  shows "filter (\<lambda>r. cm_ppPublicKey r \<noteq> p) (w_memberships w') = filter (\<lambda>r. cm_ppPublicKey r \<noteq> p) (w_memberships w)"
proof -
  from assms(1) obtain g where g: "w_memberships w' = map g (w_memberships w)"
    "\<And>r. cm_ppPublicKey (g r) = cm_ppPublicKey r" "\<And>r. cm_id r \<notin> I \<Longrightarrow> g r = r"
    by (auto simp: membershipsMarked_def)
  have "filter (\<lambda>r. cm_ppPublicKey r \<noteq> p) (map g rs) = filter (\<lambda>r. cm_ppPublicKey r \<noteq> p) rs"
    if "set rs \<subseteq> set (w_memberships w)" for rs
    using that
  proof (induction rs)
    case (Cons r rs)
    then have "cm_ppPublicKey r \<noteq> p \<Longrightarrow> g r = r" using assms(2) g(3) by auto
    with Cons g(2) show ?case by simp
  qed simp
  then show ?thesis using g(1) by simp
qed

text \<open>A step that removes providers with the identifier \<open>i\<close> only.\<close>

definition removesOnly :: "string \<Rightarrow> world \<Rightarrow> world \<Rightarrow> bool" where
  "removesOnly i w w' \<longleftrightarrow> (\<exists>P. w_pps w' = filter P (w_pps w) \<and> (\<forall>r. pp_id r \<noteq> i \<longrightarrow> P r))"

lemma removesOnly_same: "w_pps w' = w_pps w \<Longrightarrow> removesOnly i w w'"
  unfolding removesOnly_def by (intro exI [of _ "\<lambda>_. True"]) simp

interpretation removing: watcher_client "removesOnly i" for i
proof unfold_locales
  fix s t u
  assume "removesOnly i s t" and "removesOnly i t u"
  then obtain P Q where "w_pps t = filter P (w_pps s)" "w_pps u = filter Q (w_pps t)"
    "\<And>r. pp_id r \<noteq> i \<Longrightarrow> P r \<and> Q r" by (auto simp: removesOnly_def)
  then show "removesOnly i s u"
    unfolding removesOnly_def by (intro exI [of _ "\<lambda>r. P r \<and> Q r"]) (simp add: conj_commute)
qed (simp_all add: removesOnly_same)

lemma handleDeletePp_removes: "guar (removesOnly (pp_id pp)) (handleDeletePp env pp)"
proof -
  have "guar (removesOnly (pp_id pp)) (hardDelete env (pp_id pp))"
    unfolding hardDelete_def by (intro removing.guar_dbExec guarI) (auto simp: removesOnly_def)
  moreover have "guar (removesOnly (pp_id pp)) (memberships_delete env i)" for i
    unfolding memberships_delete_def base_delete_def
    by (intro removing.guar_dbExec guarI) (simp add: removesOnly_same)
  ultimately show ?thesis
    unfolding handleDeletePp_def removeProviderAddress_def
    by (intro removing.world_rules removing.guar_respond removing.guar_provider_reads guar_modify removing.R_providers)
qed

lemma handleDeletePp_marks:
  "membershipsMarked {cm_id m |m. m \<in> set (w_memberships w) \<and> cm_ppPublicKey m = pp_publicKey pp} w
     (snd (handleDeletePp env pp w))"
proof -
  let ?I = "{cm_id m |m. m \<in> set (w_memberships w) \<and> cm_ppPublicKey m = pp_publicKey pp}"
  have del: "guar (membershipsMarked ?I) (forM ms (\<lambda>m. memberships_delete env (cm_id m)))"
    if "set ms \<subseteq> {m \<in> set (w_memberships w). cm_ppPublicKey m = pp_publicKey pp}" for ms
    using that by (intro marked.guar_forM guar_marked_delete) auto
  have hd: "guar (membershipsMarked I) (hardDelete env i)" for I i
    unfolding hardDelete_def by (intro marked.guar_dbExec guarI) (simp add: membershipsMarked_same)
  define tail where "tail ms = andThen (forM ms (\<lambda>m. memberships_delete env (cm_id m))) (\<lambda>_.
      andThen (hardDelete env (pp_id pp)) (\<lambda>_. respond 200 ''Provider deleted'' :: unit Response action))" for ms :: "CouncilMembership list"
  define v where "v = advance (w_registeredProviders_update (\<lambda>ps. setDelete ps (pp_publicKey pp)) w)"
  define ms where "ms = sort_key createdAt (filter (\<lambda>r. cm_ppPublicKey r = pp_publicKey pp \<and> deletedAt r = None) (w_memberships w))"
  have "snd (handleDeletePp env pp w) \<in> {v, snd (tail ms v)}"
    by (cases "tail ms v")
      (auto simp: handleDeletePp_def tryCatch_apply andThen_apply removeProviderAddress_def listAllForPp_def dbQuery_apply
        tail_def [symmetric] ms_def v_def split: sum.split)
  moreover have "membershipsMarked ?I w v" by (simp add: membershipsMarked_same v_def)
  moreover have "set ms \<subseteq> {m \<in> set (w_memberships w). cm_ppPublicKey m = pp_publicKey pp}"
    by (auto simp: ms_def)
  then have "guar (membershipsMarked ?I) (tail ms)"
    unfolding tail_def by (intro marked.guar_andThen [OF del] marked.guar_andThen [OF hd] marked.guar_respond)
  then have "membershipsMarked ?I v (snd (tail ms v))" by (simp add: guar_def)
  ultimately show ?thesis using marked.R_trans [of ?I w v "snd (tail ms v)"] by (elim insertE) simp_all
qed

lemma requirePpOwnership_cases:
  assumes "requirePpOwnership env p sub next w = (r, w')"
  obtains (refused) "w' \<in> {w, advance w}"
    | (passed) pp where "find (\<lambda>r. pp_publicKey r = orEmpty p \<and> pp_ownerPublicKey r = Some (orEmpty sub)) (w_pps w) = Some pp"
        "next pp (advance w) = (r, w')"
proof (cases "orEmpty p = [] \<or> orEmpty sub = [] \<or> dbFault env (w_tick w)")
  case True
  then have "w' \<in> {w, advance w}"
    using assms by (auto simp: requirePpOwnership_def Let_def findByPublicKeyAndOwner_def andThen_apply dbQuery_apply
        split: if_splits)
  then show ?thesis by (rule refused)
next
  case False
  then show ?thesis
    using assms refused passed
    by (cases "find (\<lambda>r. pp_publicKey r = orEmpty p \<and> pp_ownerPublicKey r = Some (orEmpty sub)) (w_pps w)")
      (simp_all add: requirePpOwnership_def Let_def findByPublicKeyAndOwner_def andThen_apply dbQuery_apply)
qed

text \<open>C21: An operator can only delete an own provider: the rows of all providers that are not the caller's, and
  the memberships of every other provider, are the same afterwards, whatever fails on the way.\<close>

theorem deletion_is_isolated:
  assumes "deleteRoute env (Some p) (Some sub) w = (r, w')"
    and "distinct (map pp_id (w_pps w))" and "distinct (map cm_id (w_memberships w))"
  shows "filter (\<lambda>r. pp_ownerPublicKey r \<noteq> Some sub \<or> pp_publicKey r \<noteq> p) (w_pps w') =
      filter (\<lambda>r. pp_ownerPublicKey r \<noteq> Some sub \<or> pp_publicKey r \<noteq> p) (w_pps w) \<and>
    filter (\<lambda>m. cm_ppPublicKey m \<noteq> p) (w_memberships w') = filter (\<lambda>m. cm_ppPublicKey m \<noteq> p) (w_memberships w)"
proof -
  show ?thesis using assms(1) unfolding deleteRoute_def
  proof (cases rule: requirePpOwnership_cases)
    case (passed pp)
    then have pp: "pp \<in> set (w_pps w)" "pp_publicKey pp = p" "pp_ownerPublicKey pp = Some sub"
      by (auto simp: find_Some_iff orEmpty_def)
    have w': "w' = snd (handleDeletePp env pp (advance w))" using passed(2) by simp
    obtain P where P: "w_pps w' = filter P (w_pps w)" "\<And>r. pp_id r \<noteq> pp_id pp \<Longrightarrow> P r"
      using handleDeletePp_removes [of pp env] w' by (auto simp: guar_def removesOnly_def dest!: spec [of _ "advance w"])
    have "P r" if "r \<in> set (w_pps w)" "pp_ownerPublicKey r \<noteq> Some sub \<or> pp_publicKey r \<noteq> p" for r
    proof (rule P(2))
      show "pp_id r \<noteq> pp_id pp" using assms(2) that pp by (auto simp: distinct_map dest: inj_onD)
    qed
    then have "filter (\<lambda>r. pp_ownerPublicKey r \<noteq> Some sub \<or> pp_publicKey r \<noteq> p) (w_pps w') =
        filter (\<lambda>r. pp_ownerPublicKey r \<noteq> Some sub \<or> pp_publicKey r \<noteq> p) (w_pps w)"
      unfolding P(1) filter_filter by (intro filter_cong) auto
    moreover have "filter (\<lambda>m. cm_ppPublicKey m \<noteq> p) (w_memberships w') =
        filter (\<lambda>m. cm_ppPublicKey m \<noteq> p) (w_memberships (advance w))"
    proof (rule membershipsMarked_others [OF handleDeletePp_marks [of "advance w" pp env, folded w']])
      fix m
      assume "m \<in> set (w_memberships (advance w))"
        "cm_id m \<in> {cm_id m |m. m \<in> set (w_memberships (advance w)) \<and> cm_ppPublicKey m = pp_publicKey pp}"
      then show "cm_ppPublicKey m = p" using assms(3) pp(2) by (auto simp: distinct_map dest: inj_onD)
    qed
    ultimately show ?thesis by simp
  qed auto
qed

lemma deletion_is_isolated_witness:
  "filter (\<lambda>r. pp_ownerPublicKey r \<noteq> Some ''O1'' \<or> pp_publicKey r \<noteq> ''P1'')
     (w_pps (snd (deleteRoute env0 (Some ''P1'') (Some ''O1'') world0))) = w_pps world0"
  using deletion_is_isolated [of env0 "''P1''" "''O1''" world0, OF prod.collapse [symmetric]]
  by (simp add: fixture_defs)

section \<open>Joining twice and synchronising\<close>

lemma tryCatch_respondE:
  assumes "tryCatch m (\<lambda>_. respond st msg) w = (Inr r, w')"
  obtains (inner) "m w = (Inr r, w')" | (failed) "r_status r = st"
  using assms by (cases "m w") (auto simp: tryCatch_apply split: sum.splits)

lemma memberships_create_Inr:
  assumes "memberships_create env m w = (Inr x, w')"
  shows "w_memberships w' = w_memberships w @ [m] \<and> w_watcher w' = w_watcher w"
  using assms
  by (auto simp: memberships_create_def base_create_def dbExec_def advance_def split: if_splits)

lemma storeMembership_Inr:
  assumes "storeMembership env api body baseUrl councilId pk resp w = (Inr r, w')"
  shows "\<exists>m. w_memberships w' = w_memberships w @ [m] \<and> cm_councilUrl m = baseUrl \<and> cm_ppPublicKey m = pk \<and>
    cm_status m = M_PENDING \<and> deletedAt m = None \<and> cm_channelAuthId m = councilId \<and>
    pk \<in> set (w_registeredProviders w') \<and>
    (case w_watcher w' of None \<Rightarrow> True | Some x \<Rightarrow> councilId \<in> set (ew_contractIds x))"
  using assms
  by (auto simp: storeMembership_def addCouncilWatcher_def watchCouncilContract_def addProviderAddress_def addContract_def
      elim!: andThen_InrE dest!: memberships_create_Inr split: option.splits)

lemma attempt_external [simp]: "attempt (external f) w = (Inr (f (w_tick w)), advance w)"
  by (simp add: attempt_def external_apply)

lemma relayEnvelope_200:
  assumes "relayEnvelope env api body baseUrl councilId pk w = (Inr r, w')" and "r_status r = 200"
  obtains resp where "storeMembership env api body baseUrl councilId pk resp (advance w) = (Inr r, w')"
  using assms
  by (auto simp: relayEnvelope_def Let_def liftSum_def elim!: andThen_InrE split: sum.splits if_splits)

lemma joinAt_200:
  assumes "joinAt env api body baseUrl pk w = (Inr r, w')" and "r_status r = 200"
  obtains councilId resp where "storeMembership env api body baseUrl councilId pk resp (advance (advance w)) = (Inr r, w')"
proof -
  from assms obtain councilId where "relayEnvelope env api body baseUrl councilId pk (advance w) = (Inr r, w')"
    by (auto simp: joinAt_def findByCouncilUrlAndPp_def Let_def dbQuery_apply elim!: andThen_InrE
        split: option.splits if_splits)
  then show ?thesis using relayEnvelope_200 assms(2) that by metis
qed

lemma handleJoin_request:
  assumes "handleJoinCouncil env api request pp w = (Inr r, w')" and "r_status r = 200"
  shows "\<exists>body url. handleJoinCouncil env api request pp =
      tryCatch (joinAt env api body (stripSlashes url) (pp_publicKey pp)) (\<lambda>_. respond 500 ''Failed to submit join request'') \<and>
    joinAt env api body (stripSlashes url) (pp_publicKey pp) w = (Inr r, w')"
proof -
  note run = handleJoinCouncil_def tryCatch_apply andThen_apply liftSum_def getMember_def
  obtain body where body: "request = Inr body"
    using assms by (cases request) (auto simp: run)
  have nn: "\<not> nullish body" using assms by (auto simp: run body)
  obtain url where url: "nonEmptyString (member body ''councilUrl'') = Some url"
    using assms nn by (cases "nonEmptyString (member body ''councilUrl'')") (auto simp: run body)
  obtain u where u: "newURL api url = Some u"
    using assms nn url by (cases "newURL api url") (auto simp: run body)
  have ok: "isHttp u" "\<not> isInternalUrl api u"
    using assms nn url u by (auto simp: run body split: if_splits)
  have again: "handleJoinCouncil env api request pp =
      tryCatch (joinAt env api body (stripSlashes url) (pp_publicKey pp)) (\<lambda>_. respond 500 ''Failed to submit join request'')"
    using nn url u ok by (intro ext) (simp add: run body)
  have "joinAt env api body (stripSlashes url) (pp_publicKey pp) w = (Inr r, w')"
    using assms(1) unfolding again by (rule tryCatch_respondE) (simp_all add: assms(2))
  with again show ?thesis by blast
qed

text \<open>A join that succeeds leaves one new pending membership, a watched contract and a registered provider;
  repeating the request changes nothing and is answered with a conflict.\<close>

theorem join_is_single:
  assumes "handleJoinCouncil env api request pp w = (Inr r, w')" and "r_status r = 200" and "noFaults env"
  shows "\<exists>m. w_memberships w' = w_memberships w @ [m] \<and> cm_status m = M_PENDING \<and> cm_ppPublicKey m = pp_publicKey pp \<and>
      pp_publicKey pp \<in> set (w_registeredProviders w') \<and>
      (case w_watcher w' of None \<Rightarrow> True | Some x \<Rightarrow> cm_channelAuthId m \<in> set (ew_contractIds x)) \<and>
      (\<exists>r'. handleJoinCouncil env api request pp w' = (Inr r', advance w') \<and> r_status r' = 409)"
proof -
  from assms(1,2) obtain body url where
    again: "handleJoinCouncil env api request pp =
      tryCatch (joinAt env api body (stripSlashes url) (pp_publicKey pp)) (\<lambda>_. respond 500 ''Failed to submit join request'')"
    and "joinAt env api body (stripSlashes url) (pp_publicKey pp) w = (Inr r, w')"
    using handleJoin_request by blast
  then obtain councilId resp where
    "storeMembership env api body (stripSlashes url) councilId (pp_publicKey pp) resp (advance (advance w)) = (Inr r, w')"
    using joinAt_200 assms(2) by metis
  from storeMembership_Inr [OF this] obtain m where m: "w_memberships w' = w_memberships w @ [m]"
    "cm_councilUrl m = stripSlashes url" "cm_ppPublicKey m = pp_publicKey pp" "cm_status m = M_PENDING" "deletedAt m = None"
    "pp_publicKey pp \<in> set (w_registeredProviders w')"
    "case w_watcher w' of None \<Rightarrow> True | Some x \<Rightarrow> cm_channelAuthId m \<in> set (ew_contractIds x)"
    by auto
  have "find (\<lambda>r. cm_councilUrl r = stripSlashes url \<and> cm_ppPublicKey r = pp_publicKey pp \<and> deletedAt r = None)
      (w_memberships w') \<noteq> None"
    using m(1,2,3,5) by (auto simp: find_None_iff)
  then have "\<exists>r'. handleJoinCouncil env api request pp w' = (Inr r', advance w') \<and> r_status r' = 409"
    using assms(3)
    by (auto simp: again joinAt_def findByCouncilUrlAndPp_def dbQuery_apply andThen_apply tryCatch_apply)
  with m show ?thesis by blast
qed

lemma join_is_single_witness:
  "\<exists>m. w_memberships (snd (handleJoinCouncil env0 api0 (Inr (joinBody0 ''https://council.example'')) pp0 world0)) =
     w_memberships world0 @ [m] \<and> cm_status m = M_PENDING"
proof -
  let ?j = "handleJoinCouncil env0 api0 (Inr (joinBody0 ''https://council.example'')) pp0"
  have e: "fst (?j world0) = Inr \<lparr>r_status = 200, r_message = ''Join request submitted'',
      r_data = Some \<lparr>jr_joinRequestId = JString ''j1'', jr_status = M_PENDING\<rparr>\<rparr>"
    by code_simp
  then have "?j world0 = (Inr \<lparr>r_status = 200, r_message = ''Join request submitted'',
      r_data = Some \<lparr>jr_joinRequestId = JString ''j1'', jr_status = M_PENDING\<rparr>\<rparr>, snd (?j world0))"
    by (metis prod.collapse)
  from join_is_single [OF this] show ?thesis by auto
qed

lemma getCurrentForPp_result:
  assumes "getCurrentForPp env pk w = (res, v)"
  shows "w_memberships v = w_memberships w \<and> (case res of Inr (Some m) \<Rightarrow> m \<in> set (w_memberships w) | _ \<Rightarrow> True)"
proof -
  have hd: "sort_key k xs = y # ys \<Longrightarrow> y \<in> set xs" for k :: "CouncilMembership \<Rightarrow> int" and xs y ys
    by (metis list.set_intros(1) set_sort)
  show ?thesis
    using assms
    by (auto simp: getCurrentForPp_def getActiveForPp_def andThen_apply dbQuery_apply find_Some_iff
        split: if_splits option.splits list.splits dest!: hd)
qed

lemma memberships_update_result:
  "w_memberships (snd (memberships_update env i f w)) = w_memberships w \<or>
   (\<exists>t. w_memberships (snd (memberships_update env i f w)) =
      map (\<lambda>r. if cm_id r = i then (f r)\<lparr>updatedAt := t\<rparr> else r) (w_memberships w))"
  by (auto simp: memberships_update_def base_update_def dbExec_def)

lemma remoteMembership_apply [simp]:
  "remoteMembership env m pk w =
    (Inr (case fetchMembership env (w_tick w) (cm_councilUrl m) (cm_channelAuthId m) pk of
        Inl _ \<Rightarrow> (None, None) | Inr (st, body) \<Rightarrow> (Some st, body)), advance w)"
  by (simp add: remoteMembership_def andThen_apply)

lemma syncedConfig_result:
  "\<exists>c n. syncedConfig env m w = (Inr (c, n), advance w) \<and> (cm_configJson m \<noteq> None \<longrightarrow> c \<noteq> None)"
  by (auto simp: syncedConfig_def andThen_apply split: sum.split option.split)

text \<open>What a synchronisation may do to a row.\<close>

definition syncedRow :: "bool \<Rightarrow> CouncilMembership \<Rightarrow> CouncilMembership \<Rightarrow> bool" where
  "syncedRow rejected r r' \<longleftrightarrow> cm_id r' = cm_id r \<and> cm_ppPublicKey r' = cm_ppPublicKey r \<and>
    (cm_configJson r \<noteq> None \<longrightarrow> cm_configJson r' \<noteq> None) \<and>
    (cm_status r = M_ACTIVE \<and> \<not> rejected \<longrightarrow> cm_status r' = M_ACTIVE)"

definition neverRejects :: "env \<Rightarrow> bool" where
  "neverRejects env \<longleftrightarrow> (\<forall>n u a p st. fetchMembership env n u a p \<noteq> Inr (st, Some ''REJECTED''))"

lemma syncedRow_refl [simp]: "syncedRow b r r"
  by (simp add: syncedRow_def)

lemma list_all2_map_row:
  assumes "distinct (map cm_id ms)" and "m \<in> set ms" and "P m (f m)" and "\<And>r. P r r"
  shows "list_all2 P ms (map (\<lambda>r. if cm_id r = cm_id m then f r else r) ms)"
proof -
  have "P r (if cm_id r = cm_id m then f r else r)" if "r \<in> set ms" for r
    using assms that by (auto simp: distinct_map dest: inj_onD)
  then show ?thesis by (simp add: list_all2_map2 list_all2_same)
qed

lemma handleSync_writes:
  assumes cur: "getCurrentForPp env (pp_publicKey pp) w = (Inr (Some m), v)"
  shows "snd (handleSyncMembership env pp w) = advance v \<or>
    (\<exists>f u. snd (handleSyncMembership env pp w) = snd (memberships_update env (cm_id m) f u) \<and>
      w_memberships u = w_memberships v \<and> (\<forall>t. syncedRow (\<not> neverRejects env) m ((f m)\<lparr>updatedAt := t\<rparr>)))"
proof -
  let ?S = "syncedRow (\<not> neverRejects env)"
  obtain st body where remote: "(case fetchMembership env (w_tick v) (cm_councilUrl m) (cm_channelAuthId m) (pp_publicKey pp) of
      Inl _ \<Rightarrow> (None, None) | Inr (st, body) \<Rightarrow> (Some st, body)) = (st, body)" by fastforce
  obtain c n where cfg: "syncedConfig env m (advance v) = (Inr (c, n), advance (advance v))"
    "cm_configJson m \<noteq> None \<Longrightarrow> c \<noteq> None" using syncedConfig_result by blast
  let ?on = "\<lambda>r. r\<lparr>cm_status := M_ACTIVE, cm_configJson := c, cm_councilName := n\<rparr>"
  let ?off = "\<lambda>r :: CouncilMembership. r\<lparr>cm_status := M_REJECTED\<rparr>"
  let ?off_if = "(body = Some ''REJECTED'' \<or> st = Some 404 \<and> body = Some ''NOT_FOUND'' \<and> cm_status m = M_PENDING) \<and>
    cm_status m \<noteq> M_REJECTED"
  have neg: "body = Some ''REJECTED'' \<Longrightarrow> \<not> neverRejects env"
    using remote by (fastforce simp: neverRejects_def split: sum.splits prod.splits)
  have S_on: "?S m ((?on m)\<lparr>updatedAt := t\<rparr>)" for t using cfg(2) by (simp add: syncedRow_def)
  have S_off: "?off_if \<Longrightarrow> ?S m ((?off m)\<lparr>updatedAt := t\<rparr>)" for t
    using neg by (auto simp: syncedRow_def)
  note run = handleSyncMembership_def tryCatch_apply andThen_apply cur remote cfg(1)
  consider (on) "st = Some 200 \<and> cm_status m \<noteq> M_ACTIVE"
    | (off) "\<not> (st = Some 200 \<and> cm_status m \<noteq> M_ACTIVE)" ?off_if
    | (none) "\<not> (st = Some 200 \<and> cm_status m \<noteq> M_ACTIVE)" "\<not> ?off_if"
    by blast
  then show ?thesis
  proof cases
    case on
    then have "snd (handleSyncMembership env pp w) = snd (memberships_update env (cm_id m) ?on (advance (advance v)))"
      by (cases "memberships_update env (cm_id m) ?on (advance (advance v))") (auto simp: run split: sum.split)
    with S_on show ?thesis by (intro disjI2 exI [of _ ?on] exI [of _ "advance (advance v)"]) simp
  next
    case off
    then have "snd (handleSyncMembership env pp w) = snd (memberships_update env (cm_id m) ?off (advance v))"
      by (cases "memberships_update env (cm_id m) ?off (advance v)") (auto simp: run split: sum.split)
    with S_off [OF off(2)] show ?thesis by (intro disjI2 exI [of _ ?off] exI [of _ "advance v"]) simp
  qed (auto simp: run)
qed

text \<open>A synchronisation never loses a stored configuration, and demotes an active membership only on an
  explicit rejection: an unreachable council, an error status or a missing record leave it active.\<close>

theorem sync_keeps_config_and_activity:
  assumes "distinct (map cm_id (w_memberships w))"
  shows "list_all2 (syncedRow (\<not> neverRejects env)) (w_memberships w) (w_memberships (snd (handleSyncMembership env pp w)))"
proof -
  let ?S = "syncedRow (\<not> neverRejects env)"
  have same: "list_all2 ?S ms ms" for ms by (rule list_all2_refl) simp
  obtain res v where cur: "getCurrentForPp env (pp_publicKey pp) w = (res, v)" by fastforce
  note v = getCurrentForPp_result [OF cur]
  show ?thesis
  proof (cases "\<exists>m. res = Inr (Some m)")
    case False
    then have "snd (handleSyncMembership env pp w) = v"
      using cur by (cases res) (auto simp: handleSyncMembership_def tryCatch_apply andThen_apply split: option.split)
    with v same show ?thesis by simp
  next
    case True
    then obtain m where m: "res = Inr (Some m)" by blast
    have "list_all2 ?S (w_memberships w) (w_memberships (snd (memberships_update env (cm_id m) f u)))"
      if "w_memberships u = w_memberships w" "\<And>t. ?S m ((f m)\<lparr>updatedAt := t\<rparr>)" for f u
      using memberships_update_result [of env "cm_id m" f u] same that v m assms by (auto simp: list_all2_map_row)
    with handleSync_writes [OF cur [unfolded m]] v same show ?thesis by fastforce
  qed
qed

lemma sync_keeps_config_and_activity_witness:
  "list_all2 (syncedRow (\<not> neverRejects env0)) (w_memberships world0) (w_memberships (snd (handleSyncMembership env0 pp0 world0)))"
  by (rule sync_keeps_config_and_activity) (simp add: fixture_defs)

text \<open>The event-driven activation does lose it: with an unreachable council the stored configuration is
  replaced by nothing, and the synchronisation, which skips active memberships, does not bring it back.\<close>

theorem sync_does_not_repair_config:
  "map (\<lambda>m. (cm_status m, cm_configJson m)) (w_memberships (snd (handleSyncMembership env0 pp0
     (snd (poll unreachableCouncil pendingMember0))))) = [(M_ACTIVE, None)]"
  by code_simp

end
