(* ===== verification/Queries.thy ===== *)
theory Queries
  imports PayLedger Entities Providers
begin

text \<open>
  The read side: a wallet's view of its own bundles (\<^verbatim>\<open>core/service/bundle/get-bundle.process.ts\<close>,
  \<^verbatim>\<open>list-bundles.process.ts\<close>) and the operator's dashboards of one payment provider
  (\<^verbatim>\<open>http/v1/dashboard\<close>: bundles, transactions, operations, UTXOs, channels, treasury, audit export;
  \<^verbatim>\<open>http/v1/entities/get.ts\<close>).

  The joins of the queries are on primary keys, so a row has at most one partner.  \<open>DashboardApi\<close> holds what the
  handlers take from outside: the \<^verbatim>\<open>limit\<close> clause the query builder makes of a number, the runtime's date parser
  (\<open>None\<close> for an invalid date), the configured Horizon server and its answers.
\<close>

section \<open>A wallet's bundles\<close>

definition bundleStatusName :: "BundleStatus \<Rightarrow> string" where
  "bundleStatusName s = (case s of B_PENDING \<Rightarrow> ''PENDING'' | B_PROCESSING \<Rightarrow> ''PROCESSING''
     | B_EXPIRED \<Rightarrow> ''EXPIRED'' | B_COMPLETED \<Rightarrow> ''COMPLETED'' | B_FAILED \<Rightarrow> ''FAILED'')"

definition bundleStatuses :: "BundleStatus list" where
  "bundleStatuses = [B_PENDING, B_PROCESSING, B_EXPIRED, B_COMPLETED, B_FAILED]"

record BundleItem =
  dto_id :: string
  dto_status :: string
  dto_ttl :: string
  dto_operationsMLXDR :: "string list"
  dto_fee :: string
  dto_createdAt :: string
  dto_updatedAt :: string

record BundleDTO = BundleItem +
  dto_failureDetail :: "FailureDetail option"

definition toBundleDTO :: "OperationsBundle \<Rightarrow> BundleDTO" where
  "toBundleDTO bundle =
    \<lparr>dto_id = ob_id bundle, dto_status = bundleStatusName (ob_status bundle),
     dto_ttl = toISOString (ob_ttl bundle), dto_operationsMLXDR = ob_operationsMLXDR bundle,
     dto_fee = intToString (ob_fee bundle), dto_createdAt = toISOString (createdAt bundle),
     dto_updatedAt = toISOString (updatedAt bundle), dto_failureDetail = ob_failureDetail bundle\<rparr>"

definition findBundleOrThrow :: "env \<Rightarrow> string \<Rightarrow> OperationsBundle action" where
  "findBundleOrThrow env bundleId =
    andThen (bundles_findById env bundleId) (\<lambda>bundle.
      case bundle of None \<Rightarrow> throw (BUNDLE_NOT_FOUND bundleId) | Some b \<Rightarrow> ret b)"

definition assertBundleOwnership :: "env \<Rightarrow> string \<Rightarrow> OperationsBundle \<Rightarrow> unit action" where
  "assertBundleOwnership env sessionId bundle =
    andThen (sessions_findById env sessionId) (\<lambda>userSession.
      case userSession of
        None \<Rightarrow> throw (INVALID_SESSION sessionId)
      | Some s \<Rightarrow>
          if createdBy bundle \<noteq> Some (s_accountId s)
          then throw (BUNDLE_ACCESS_FORBIDDEN (ob_id bundle) (s_accountId s))
          else ret ())"

definition P_GetBundleById :: "env \<Rightarrow> string \<Rightarrow> string \<Rightarrow> BundleDTO action" where
  "P_GetBundleById env sessionId bundleId =
    andThen (findBundleOrThrow env bundleId) (\<lambda>bundle.
    andThen (assertBundleOwnership env sessionId bundle) (\<lambda>_.
    ret (toBundleDTO bundle)))"

definition validateSessionAndGetAccountId :: "env \<Rightarrow> string \<Rightarrow> string action" where
  "validateSessionAndGetAccountId env sessionId =
    andThen (sessions_findById env sessionId) (\<lambda>userSession.
      case userSession of None \<Rightarrow> throw (INVALID_SESSION sessionId) | Some s \<Rightarrow> ret (s_accountId s))"

definition findBundlesByUser :: "env \<Rightarrow> string \<Rightarrow> BundleStatus option \<Rightarrow> BundleDTO list action" where
  "findBundlesByUser env accountId status =
    andThen (findByCreatedBy env accountId status) (\<lambda>bundles. ret (map toBundleDTO bundles))"

definition P_ListBundlesByUser :: "env \<Rightarrow> string \<Rightarrow> BundleStatus option \<Rightarrow> BundleDTO list action" where
  "P_ListBundlesByUser env sessionId status =
    andThen (validateSessionAndGetAccountId env sessionId) (\<lambda>accountId.
    findBundlesByUser env accountId status)"

text \<open>The query parameter the list accepts (\<^verbatim>\<open>http/v1/bundle/list.ts\<close>): absent or one of four statuses.\<close>

definition listRequestStatus :: "string option \<Rightarrow> unit + BundleStatus option" where
  "listRequestStatus param =
    (case param of
       None \<Rightarrow> Inr None
     | Some s \<Rightarrow>
        (case find (\<lambda>st. bundleStatusName st = s) [B_PENDING, B_PROCESSING, B_COMPLETED, B_EXPIRED] of
           None \<Rightarrow> Inl ()
         | Some st \<Rightarrow> Inr (Some st)))"

section \<open>The operator's bundles\<close>

record DashboardApi =
  limitClause :: "number \<Rightarrow> exn + nat option"
  parseDate :: "string \<Rightarrow> int option"
  dashHorizonUrl :: "string option"
  horizonGet :: "nat \<Rightarrow> string \<Rightarrow> exn + HttpAnswer"

datatype OpKind = K_deposit | K_withdraw | K_spend | K_create | K_unknown

record OpView =
  ov_kind :: OpKind
  ov_address :: "string option"
  ov_amount :: "string option"

text \<open>\<^verbatim>\<open>aggregateAmountFromMLXDR\<close>: the three sums, each absent until the first operation of its kind; an operation
  that does not parse is ignored.\<close>

definition addTo :: "int option \<Rightarrow> int \<Rightarrow> int option" where
  "addTo acc n = Some ((case acc of None \<Rightarrow> 0 | Some m \<Rightarrow> m) + n)"

fun sumKinds ::
    "env \<Rightarrow> int option \<Rightarrow> int option \<Rightarrow> int option \<Rightarrow> string list \<Rightarrow> int option \<times> int option \<times> int option" where
  "sumKinds env d wd c [] = (d, wd, c)"
| "sumKinds env d wd c (mlxdr # rest) =
    (case fromMLXDR env mlxdr of
       Inr (Deposit op) \<Rightarrow> sumKinds env (addTo d (dep_amount op)) wd c rest
     | Inr (Withdraw op) \<Rightarrow> sumKinds env d (addTo wd (wd_amount op)) c rest
     | Inr (Create op) \<Rightarrow> sumKinds env d wd (addTo c (co_amount op)) rest
     | _ \<Rightarrow> sumKinds env d wd c rest)"

definition aggregateAmountFromMLXDR :: "env \<Rightarrow> string list \<Rightarrow> string option" where
  "aggregateAmountFromMLXDR env mlxdrs =
    (case sumKinds env None None None mlxdrs of
       (Some d, _, _) \<Rightarrow> Some (intToString d)
     | (None, Some wd, _) \<Rightarrow> Some (intToString wd)
     | (None, None, Some c) \<Rightarrow> Some (intToString c)
     | (None, None, None) \<Rightarrow> None)"

definition classify :: "MoonlightOperation \<Rightarrow> OpView" where
  "classify op =
    (case op of
       Deposit d \<Rightarrow> \<lparr>ov_kind = K_deposit, ov_address = Some (dep_publicKey d), ov_amount = Some (intToString (dep_amount d))\<rparr>
     | Withdraw d \<Rightarrow> \<lparr>ov_kind = K_withdraw, ov_address = Some (wd_publicKey d), ov_amount = Some (intToString (wd_amount d))\<rparr>
     | Spend _ \<Rightarrow> \<lparr>ov_kind = K_spend, ov_address = None, ov_amount = None\<rparr>
     | Create _ \<Rightarrow> \<lparr>ov_kind = K_create, ov_address = None, ov_amount = None\<rparr>)"

definition viewOperation :: "env \<Rightarrow> string \<Rightarrow> OpView" where
  "viewOperation env mlxdr =
    (case fromMLXDR env mlxdr of
       Inr op \<Rightarrow> classify op
     | Inl _ \<Rightarrow> \<lparr>ov_kind = K_unknown, ov_address = None, ov_amount = None\<rparr>)"

record BundleDetail =
  bd_id :: string
  bd_status :: BundleStatus
  bd_channelContractId :: "string option"
  bd_operations :: "OpView list"
  bd_entityName :: "string option"
  bd_jurisdictions :: "string list"
  bd_amount :: "string option"
  bd_failureDetail :: "FailureDetail option"

text \<open>The name and the jurisdictions of the submitter: two queries, the second only for an account with an entity.\<close>

definition submitterEntity :: "env \<Rightarrow> string option \<Rightarrow> (string option \<times> string list) action" where
  "submitterEntity env creator =
    (if orEmpty creator = [] then ret (None, [])
     else
      andThen (dbQuery env (\<lambda>w. find (\<lambda>a. a_id a = orEmpty creator) (w_accounts w))) (\<lambda>submitterAccount.
      case submitterAccount of
        None \<Rightarrow> ret (None, [])
      | Some a \<Rightarrow>
          if a_entityId a = [] then ret (None, [])
          else
           andThen (dbQuery env (\<lambda>w. find (\<lambda>e. e_id e = a_entityId a) (w_entities w))) (\<lambda>e.
           ret (case e of
                  None \<Rightarrow> (None, [])
                | Some ent \<Rightarrow> (e_name ent, (case e_jurisdictions ent of None \<Rightarrow> [] | Some js \<Rightarrow> js))))))"

definition handleGetBundleDetail ::
    "env \<Rightarrow> string option \<Rightarrow> PaymentProvider \<Rightarrow> BundleDetail Response action" where
  "handleGetBundleDetail env idParam pp =
    tryCatch
     (if orEmpty idParam = [] then respond 400 ''Bundle id is required''
      else
       andThen (bundles_findById env (orEmpty idParam)) (\<lambda>bundle.
       case bundle of
         None \<Rightarrow> respond 404 ''Bundle not found''
       | Some b \<Rightarrow>
          if ob_ppPublicKey b \<noteq> Some (pp_publicKey pp) then respond 404 ''Bundle not found''
          else
           andThen (submitterEntity env (createdBy b)) (\<lambda>(entityName, jurisdictions).
           respondWith 200 ''Bundle detail''
             \<lparr>bd_id = ob_id b, bd_status = ob_status b, bd_channelContractId = ob_channelContractId b,
              bd_operations = map (viewOperation env) (ob_operationsMLXDR b),
              bd_entityName = entityName, bd_jurisdictions = jurisdictions,
              bd_amount = aggregateAmountFromMLXDR env (ob_operationsMLXDR b),
              bd_failureDetail = ob_failureDetail b\<rparr>)))
     (\<lambda>_. respond 500 ''Failed to fetch bundle detail'')"

definition LIST_DEFAULT_LIMIT :: rat where
  "LIST_DEFAULT_LIMIT = 25"

definition LIST_MAX_LIMIT :: rat where
  "LIST_MAX_LIMIT = 200"

definition LIST_WINDOW_MS :: int where
  "LIST_WINDOW_MS = 6 * 60 * 60 * 1000"

record RecentBundle =
  rb_id :: string
  rb_status :: BundleStatus
  rb_channelContractId :: "string option"
  rb_entityName :: "string option"
  rb_jurisdictions :: "string list"
  rb_amount :: "string option"
  rb_failureDetail :: "FailureDetail option"
  rb_createdAt :: string
  rb_updatedAt :: string

text \<open>The two left joins, \<^verbatim>\<open>account\<close> on the creator and \<^verbatim>\<open>entity\<close> on the account.\<close>

definition joinedEntity :: "world \<Rightarrow> string option \<Rightarrow> Entity option" where
  "joinedEntity w creator =
    Option.bind creator (\<lambda>i. Option.bind (find (\<lambda>a. a_id a = i) (w_accounts w))
      (\<lambda>a. find (\<lambda>e. e_id e = a_entityId a) (w_entities w)))"

definition entityJurisdictions :: "Entity option \<Rightarrow> string list" where
  "entityJurisdictions e = (case Option.bind e e_jurisdictions of None \<Rightarrow> [] | Some js \<Rightarrow> js)"

definition recentBundle :: "env \<Rightarrow> OperationsBundle \<times> Entity option \<Rightarrow> RecentBundle" where
  "recentBundle env row = (case row of (b, e) \<Rightarrow>
    \<lparr>rb_id = ob_id b, rb_status = ob_status b, rb_channelContractId = ob_channelContractId b,
     rb_entityName = Option.bind e e_name, rb_jurisdictions = entityJurisdictions e,
     rb_amount = aggregateAmountFromMLXDR env (ob_operationsMLXDR b), rb_failureDetail = ob_failureDetail b,
     rb_createdAt = toISOString (createdAt b), rb_updatedAt = toISOString (updatedAt b)\<rparr>)"

definition handleListRecentBundles ::
    "env \<Rightarrow> DashboardApi \<Rightarrow> string option \<Rightarrow> PaymentProvider \<Rightarrow> RecentBundle list Response action" where
  "handleListRecentBundles env api limitParam pp =
    tryCatch
     (let limit = (if orEmpty limitParam = [] then Finite LIST_DEFAULT_LIMIT
                   else numberMin (Finite LIST_MAX_LIMIT) (numberMax (Finite 1) (toNumberText (orEmpty limitParam)))) in
      andThen (dateNow env) (\<lambda>now.
      andThen (liftSum (limitClause api limit)) (\<lambda>lmt.
      andThen (dbQuery env (\<lambda>w. page lmt 0 (sort_key (\<lambda>(b, _). - updatedAt b)
        (map (\<lambda>b. (b, joinedEntity w (createdBy b)))
          (filter (\<lambda>b. deletedAt b = None \<and> now - LIST_WINDOW_MS \<le> updatedAt b \<and>
             ob_ppPublicKey b = Some (pp_publicKey pp)) (w_bundles w)))))) (\<lambda>rows.
      respondWith 200 ''Recent bundles'' (map (recentBundle env) rows)))))
     (\<lambda>_. respond 500 ''Failed to list bundles'')"

section \<open>The operator's transactions\<close>

definition MAX_LIST_RESULTS :: nat where
  "MAX_LIST_RESULTS = 500"

text \<open>An address and the printed amount.\<close>

record ParsedOps =
  po_deposits :: "(string \<times> string) list"
  po_withdraws :: "(string \<times> string) list"
  po_spendCount :: nat
  po_createCount :: nat

fun parseBundleOps :: "env \<Rightarrow> string list \<Rightarrow> ParsedOps" where
  "parseBundleOps env [] = \<lparr>po_deposits = [], po_withdraws = [], po_spendCount = 0, po_createCount = 0\<rparr>"
| "parseBundleOps env (mlxdr # rest) =
    (let ops = parseBundleOps env rest in
     case fromMLXDR env mlxdr of
       Inl _ \<Rightarrow> ops
     | Inr (Deposit d) \<Rightarrow> ops\<lparr>po_deposits := (dep_publicKey d, intToString (dep_amount d)) # po_deposits ops\<rparr>
     | Inr (Withdraw d) \<Rightarrow> ops\<lparr>po_withdraws := (wd_publicKey d, intToString (wd_amount d)) # po_withdraws ops\<rparr>
     | Inr (Spend _) \<Rightarrow> ops\<lparr>po_spendCount := Suc (po_spendCount ops)\<rparr>
     | Inr (Create _) \<Rightarrow> ops\<lparr>po_createCount := Suc (po_createCount ops)\<rparr>)"

record TxBundle =
  tb_id :: string
  tb_createdAt :: string
  tb_ops :: ParsedOps

record TxUtxo =
  tu_id :: string
  tu_amount :: string
  tu_createdAtBundleId :: "string option"
  tu_spent :: bool

record TxDetail =
  td_id :: string
  td_status :: TransactionStatus
  td_ledgerSequence :: string
  td_channelContractId :: "string option"
  td_mempoolAt :: "string option"
  td_submittedAt :: string
  td_verifiedAt :: "string option"
  td_senders :: "string list"
  td_receivers :: "string list"
  td_deposits :: "(string \<times> string) list"
  td_withdraws :: "(string \<times> string) list"
  td_bundles :: "TxBundle list"
  td_utxos :: "TxUtxo list"

definition transactions_findById :: "env \<Rightarrow> string \<Rightarrow> Transaction option action" where
  "transactions_findById env = base_findById env w_transactions t_id"

definition findByCreatedAtBundleId :: "env \<Rightarrow> string \<Rightarrow> Utxo list action" where
  "findByCreatedAtBundleId env bundleId = dbQuery env (\<lambda>w.
    filter (\<lambda>u. u_createdAtBundleId u = Some bundleId \<and> deletedAt u = None) (w_utxos w))"

fun earliest :: "int option \<Rightarrow> OperationsBundle list \<Rightarrow> int option" where
  "earliest m [] = m"
| "earliest m (b # bs) =
    earliest (case m of None \<Rightarrow> Some (createdAt b) | Some t \<Rightarrow> if createdAt b < t then Some (createdAt b) else m) bs"

fun txChannel :: "OperationsBundle list \<Rightarrow> string option" where
  "txChannel [] = None"
| "txChannel (b # bs) =
    (if orEmpty (ob_channelContractId b) = [] then txChannel bs else ob_channelContractId b)"

definition txUtxo :: "Utxo \<Rightarrow> TxUtxo" where
  "txUtxo u = \<lparr>tu_id = u_id u, tu_amount = intToString (u_amount u), tu_createdAtBundleId = u_createdAtBundleId u,
    tu_spent = (u_spentAtBundleId u \<noteq> None)\<rparr>"

text \<open>The loop over the links reads one bundle per link; what it accumulates is a function of the bundles found.\<close>

definition buildTxDetail :: "env \<Rightarrow> string \<Rightarrow> string \<Rightarrow> TxDetail option action" where
  "buildTxDetail env txId ppPublicKey =
    andThen (transactions_findById env txId) (\<lambda>found.
    case found of
      None \<Rightarrow> ret None
    | Some tx \<Rightarrow>
       andThen (findByTransactionId env txId) (\<lambda>bundleLinks.
       andThen (mapM (\<lambda>link. bundles_findById env (bt_bundleId link)) bundleLinks) (\<lambda>rows.
       let bundles = [b. Some b \<leftarrow> rows];
           ops = map (\<lambda>b. parseBundleOps env (ob_operationsMLXDR b)) bundles;
           deposits = concat (map po_deposits ops);
           withdraws = concat (map po_withdraws ops)
       in
       if \<not> list_ex (\<lambda>b. ob_ppPublicKey b = Some ppPublicKey) bundles then ret None
       else
        andThen (mapM (\<lambda>link. findByCreatedAtBundleId env (bt_bundleId link)) bundleLinks) (\<lambda>created.
        ret (Some
          \<lparr>td_id = t_id tx, td_status = t_status tx, td_ledgerSequence = t_ledgerSequence tx,
           td_channelContractId = txChannel bundles,
           td_mempoolAt = map_option toISOString (earliest None bundles),
           td_submittedAt = toISOString (createdAt tx),
           td_verifiedAt = (if t_status tx = T_VERIFIED then Some (toISOString (updatedAt tx)) else None),
           td_senders = map fst deposits, td_receivers = map fst withdraws,
           td_deposits = deposits, td_withdraws = withdraws,
           td_bundles = map (\<lambda>b. \<lparr>tb_id = ob_id b, tb_createdAt = toISOString (createdAt b),
             tb_ops = parseBundleOps env (ob_operationsMLXDR b)\<rparr>) bundles,
           td_utxos = map txUtxo (concat created)\<rparr>)))))"

text \<open>The joined query: the transaction has a link to a bundle of the provider on the channel.  The transaction
  must not be deleted; links and bundles may be.\<close>

definition txOfPp :: "world \<Rightarrow> string \<Rightarrow> string \<Rightarrow> Transaction \<Rightarrow> bool" where
  "txOfPp w ppPublicKey channelContractId t \<longleftrightarrow>
    list_ex (\<lambda>l. bt_transactionId l = t_id t \<and>
      list_ex (\<lambda>b. ob_id b = bt_bundleId l \<and> ob_ppPublicKey b = Some ppPublicKey \<and>
        ob_channelContractId b = Some channelContractId) (w_bundles w)) (w_links w)"

definition findTxIdsInRangeForPp ::
    "env \<Rightarrow> string \<Rightarrow> string \<Rightarrow> int \<Rightarrow> int \<Rightarrow> nat \<Rightarrow> string list action" where
  "findTxIdsInRangeForPp env ppPublicKey channelContractId from until limit = dbQuery env (\<lambda>w.
    map t_id (take limit (sort_key (\<lambda>t. - createdAt t) (filter (\<lambda>t.
      txOfPp w ppPublicKey channelContractId t \<and> from \<le> createdAt t \<and> createdAt t \<le> until \<and> deletedAt t = None)
      (w_transactions w)))))"

definition handleListDashboardTransactions ::
    "env \<Rightarrow> DashboardApi \<Rightarrow> string option \<Rightarrow> string option \<Rightarrow> string option \<Rightarrow> PaymentProvider \<Rightarrow>
      (TxDetail list \<times> bool) Response action" where
  "handleListDashboardTransactions env api channelParam fromIso toIso pp =
    tryCatch
     (if orEmpty channelParam = [] \<or> orEmpty fromIso = [] \<or> orEmpty toIso = []
      then respond 400 ''channelContractId, fromIso, toIso are required''
      else
       case (parseDate api (orEmpty fromIso), parseDate api (orEmpty toIso)) of
         (Some from, Some until) \<Rightarrow>
           andThen (findTxIdsInRangeForPp env (pp_publicKey pp) (orEmpty channelParam) from until MAX_LIST_RESULTS) (\<lambda>txIds.
           andThen (mapM (\<lambda>txId. buildTxDetail env txId (pp_publicKey pp)) txIds) (\<lambda>details.
           respondWith 200 ''Transactions retrieved''
             ([d. Some d \<leftarrow> details], MAX_LIST_RESULTS \<le> length txIds)))
       | _ \<Rightarrow> respond 400 ''fromIso/toIso must be ISO datetimes'')
     (\<lambda>_. respond 500 ''Failed to list transactions'')"

definition handleGetTransactionDetail ::
    "env \<Rightarrow> string option \<Rightarrow> PaymentProvider \<Rightarrow> TxDetail Response action" where
  "handleGetTransactionDetail env idParam pp =
    tryCatch
     (if orEmpty idParam = [] then respond 400 ''Transaction id is required''
      else
       andThen (buildTxDetail env (orEmpty idParam) (pp_publicKey pp)) (\<lambda>detail.
       case detail of
         None \<Rightarrow> respond 404 ''Transaction not found''
       | Some d \<Rightarrow> respondWith 200 ''Transaction detail'' d))
     (\<lambda>_. respond 500 ''Failed to fetch transaction detail'')"

section \<open>Counters\<close>

definition bundleCountByStatus :: "env \<Rightarrow> string \<Rightarrow> BundleStatus \<Rightarrow> nat action" where
  "bundleCountByStatus env ppPublicKey status = dbQuery env (\<lambda>w.
    length (filter (\<lambda>b. ob_ppPublicKey b = Some ppPublicKey \<and> ob_status b = status \<and> deletedAt b = None)
      (w_bundles w)))"

text \<open>The joined count: one for every transaction, link and bundle that belong together.\<close>

definition txCountByStatus :: "env \<Rightarrow> string \<Rightarrow> TransactionStatus \<Rightarrow> nat action" where
  "txCountByStatus env ppPublicKey status = dbQuery env (\<lambda>w.
    length (filter (\<lambda>(t, l, b). bt_transactionId l = t_id t \<and> ob_id b = bt_bundleId l \<and>
        ob_ppPublicKey b = Some ppPublicKey \<and> t_status t = status \<and> deletedAt t = None)
      (List.product (w_transactions w) (List.product (w_links w) (w_bundles w)))))"

text \<open>\<^verbatim>\<open>((part / total) * 100).toFixed(1) + "%"\<close>, on rational numbers.\<close>

definition toFixed1 :: "rat \<Rightarrow> string" where
  "toFixed1 x = (let n = \<lfloor>x * 10 + 1 / 2\<rfloor> in intToString (n div 10) @ ''.'' @ intToString (n mod 10))"

definition successRate :: "nat \<Rightarrow> nat \<Rightarrow> string" where
  "successRate part whole =
    (if 0 < whole then toFixed1 (of_nat part / of_nat whole * 100) @ ''%'' else ''N/A'')"

record OperationsStats =
  os_total :: nat
  os_pending :: nat
  os_processing :: nat
  os_completed :: nat
  os_expired :: nat
  os_successRate :: string
  os_txTotal :: nat
  os_verified :: nat
  os_failed :: nat
  os_unverified :: nat
  os_txSuccessRate :: string

definition handleGetOperations :: "env \<Rightarrow> PaymentProvider \<Rightarrow> OperationsStats Response action" where
  "handleGetOperations env pp =
    andThen (bundleCountByStatus env (pp_publicKey pp) B_PENDING) (\<lambda>pending.
    andThen (bundleCountByStatus env (pp_publicKey pp) B_PROCESSING) (\<lambda>processing.
    andThen (bundleCountByStatus env (pp_publicKey pp) B_COMPLETED) (\<lambda>completed.
    andThen (bundleCountByStatus env (pp_publicKey pp) B_EXPIRED) (\<lambda>expired.
    andThen (txCountByStatus env (pp_publicKey pp) T_VERIFIED) (\<lambda>verified.
    andThen (txCountByStatus env (pp_publicKey pp) T_FAILED) (\<lambda>failed.
    andThen (txCountByStatus env (pp_publicKey pp) T_UNVERIFIED) (\<lambda>unverified.
    let totalBundles = pending + processing + completed + expired;
        totalTransactions = verified + failed + unverified in
    respondWith 200 ''Operations stats retrieved''
      \<lparr>os_total = totalBundles, os_pending = pending, os_processing = processing, os_completed = completed,
       os_expired = expired, os_successRate = successRate completed totalBundles,
       os_txTotal = totalTransactions, os_verified = verified, os_failed = failed, os_unverified = unverified,
       os_txSuccessRate = successRate verified totalTransactions\<rparr>)))))))"

section \<open>UTXOs, channels, entities, treasury\<close>

definition findUnspentByChannel :: "env \<Rightarrow> string \<Rightarrow> Utxo list action" where
  "findUnspentByChannel env channelContractId = dbQuery env (\<lambda>w.
    filter (\<lambda>u. u_spentAtBundleId u = None \<and> deletedAt u = None \<and>
      list_ex (\<lambda>b. u_createdAtBundleId u = Some (ob_id b) \<and> ob_channelContractId b = Some channelContractId)
        (w_bundles w)) (w_utxos w))"

record UtxoView =
  uv_id :: string
  uv_amount :: string
  uv_createdAtBundleId :: "string option"
  uv_createdAt :: string

definition handleGetUtxos :: "env \<Rightarrow> string option \<Rightarrow> PaymentProvider \<Rightarrow> UtxoView list Response action" where
  "handleGetUtxos env channelParam _ =
    tryCatch
     (if orEmpty channelParam = [] then respond 400 ''channelContractId query parameter is required''
      else
       andThen (findUnspentByChannel env (orEmpty channelParam)) (\<lambda>rows.
       respondWith 200 ''UTXOs retrieved''
         (map (\<lambda>u. \<lparr>uv_id = u_id u, uv_amount = intToString (u_amount u),
            uv_createdAtBundleId = u_createdAtBundleId u, uv_createdAt = toISOString (createdAt u)\<rparr>) rows)))
     (\<lambda>_. respond 500 ''Failed to list UTXOs'')"

definition configChannelIds :: "env \<Rightarrow> CouncilMembership \<Rightarrow> string list" where
  "configChannelIds env m =
    (if orEmpty (cm_configJson m) = [] then []
     else case parseConfigJson env (orEmpty (cm_configJson m)) of
            None \<Rightarrow> []
          | Some cfg \<Rightarrow>
              filter (\<lambda>i. i \<noteq> []) (map cc_channelContractId
                (case cfg_channels cfg of None \<Rightarrow> [] | Some chs \<Rightarrow> chs)))"

record ChannelsView =
  cv_channels :: "ChannelRecord list"
  cv_total :: nat
  cv_active :: nat
  cv_pending :: nat
  cv_inactive :: nat
  cv_disabled :: nat

definition channelsView :: "ChannelRecord list \<Rightarrow> ChannelsView" where
  "channelsView channels =
    (let n = (\<lambda>st. length (filter (\<lambda>c. ch_state c = st) channels)) in
     \<lparr>cv_channels = channels, cv_total = length channels, cv_active = n CS_active, cv_pending = n CS_pending,
      cv_inactive = n CS_inactive, cv_disabled = n CS_disabled\<rparr>)"

text \<open>The registry singleton exists from the first import of the watcher's module on; before the watcher starts
  it is empty.\<close>

definition handleGetChannels :: "env \<Rightarrow> PaymentProvider \<Rightarrow> ChannelsView Response action" where
  "handleGetChannels env pp =
    andThen (listAllForPp env (pp_publicKey pp)) (\<lambda>memberships.
    let ppChannelIds = concat (map (configChannelIds env) memberships) in
    andThen (gets (\<lambda>w. case w_registry w of None \<Rightarrow> [] | Some r \<Rightarrow> getAll r)) (\<lambda>allChannels.
    respondWith 200 ''Channels retrieved''
      (channelsView (filter (\<lambda>c. ch_contractId c \<in> set ppChannelIds) allChannels))))"

record PpEntityListRow =
  ev_pubkey :: string
  ev_status :: EntityStatus
  ev_name :: "string option"
  ev_jurisdictions :: "string list option"
  ev_createdAt :: int
  ev_updatedAt :: int

definition listByPp :: "env \<Rightarrow> string \<Rightarrow> PpEntityListRow list action" where
  "listByPp env ppPublicKey = dbQuery env (\<lambda>w.
    map (\<lambda>r. let e = joinedEntity w (Some (pa_accountPubkey r)) in
        \<lparr>ev_pubkey = pa_accountPubkey r, ev_status = pa_status r, ev_name = Option.bind e e_name,
         ev_jurisdictions = Option.bind e e_jurisdictions, ev_createdAt = createdAt r, ev_updatedAt = updatedAt r\<rparr>)
      (sort_key (\<lambda>r. - updatedAt r)
        (filter (\<lambda>r. pa_ppPublicKey r = ppPublicKey \<and> deletedAt r = None) (w_approvals w))))"

definition handleGetEntities :: "env \<Rightarrow> PaymentProvider \<Rightarrow> PpEntityListRow list Response action" where
  "handleGetEntities env pp = andThen (listByPp env (pp_publicKey pp)) (\<lambda>rows. respondWith 200 [] rows)"

record TreasuryView =
  tv_address :: string
  tv_sequence :: json
  tv_balances :: json
  tv_lastModifiedLedger :: json

definition handleGetTreasury :: "DashboardApi \<Rightarrow> PaymentProvider \<Rightarrow> TreasuryView Response action" where
  "handleGetTreasury api pp =
    (if orEmpty (dashHorizonUrl api) = [] then respond 503 ''No Horizon URL configured''
     else tryCatch
      (andThen (external (\<lambda>n. horizonGet api n (orEmpty (dashHorizonUrl api) @ ''/accounts/'' @ pp_publicKey pp))) (\<lambda>response.
       if \<not> isOk (ha_status response) then throw (JsError (''Horizon returned '' @ intToString (ha_status response)))
       else
        andThen (liftSum (ha_json response)) (\<lambda>accountData.
        andThen (liftSum (getMember accountData ''sequence'')) (\<lambda>sequence.
        respondWith 200 ''Treasury info retrieved''
          \<lparr>tv_address = pp_publicKey pp, tv_sequence = sequence, tv_balances = member accountData ''balances'',
           tv_lastModifiedLedger = member accountData ''last_modified_ledger''\<rparr>))))
      (\<lambda>_. respond 503 ''Failed to fetch treasury info from network''))"

section \<open>Audit export\<close>

definition csvEscape :: "string \<Rightarrow> string" where
  "csvEscape val =
    (if list_ex (\<lambda>c. c = CHR '','' \<or> c = CHR ''\"'' \<or> c = CHR 0x0A) val
     then ''\"'' @ concat (map (\<lambda>c. if c = CHR ''\"'' then ''\"\"'' else [c]) val) @ ''\"''
     else val)"

text \<open>The names \<^verbatim>\<open>in\<close> finds on the enum object although they are not statuses.\<close>

definition objectPrototypeNames :: "string list" where
  "objectPrototypeNames =
    [''constructor'', ''__defineGetter__'', ''__defineSetter__'', ''hasOwnProperty'', ''__lookupGetter__'',
     ''__lookupSetter__'', ''isPrototypeOf'', ''propertyIsEnumerable'', ''toString'', ''valueOf'', ''__proto__'',
     ''toLocaleString'']"

definition auditHeaders :: "string list" where
  "auditHeaders = [''id'', ''status'', ''fee'', ''createdAt'', ''updatedAt'']"

definition auditFields :: "OperationsBundle \<Rightarrow> string list" where
  "auditFields b =
    [ob_id b, bundleStatusName (ob_status b), intToString (ob_fee b), toISOString (createdAt b),
     toISOString (updatedAt b)]"

definition auditCsv :: "OperationsBundle list \<Rightarrow> string" where
  "auditCsv bundles =
    joinWith [CHR 0x0A] (joinWith '','' auditHeaders #
      map (\<lambda>b. joinWith '','' (map csvEscape (auditFields b))) bundles)"

text \<open>A date given as a query parameter: absent, invalid, or an instant.\<close>

definition dateParam :: "DashboardApi \<Rightarrow> string option \<Rightarrow> unit + int option" where
  "dateParam api v =
    (if orEmpty v = [] then Inr None
     else case parseDate api (orEmpty v) of None \<Rightarrow> Inl () | Some t \<Rightarrow> Inr (Some t))"

definition inRange :: "int option \<Rightarrow> int option \<Rightarrow> int \<Rightarrow> bool" where
  "inRange from until t \<longleftrightarrow>
    (case from of None \<Rightarrow> True | Some f \<Rightarrow> f \<le> t) \<and> (case until of None \<Rightarrow> True | Some u \<Rightarrow> t \<le> u)"

record AuditExport =
  ax_filename :: string
  ax_csv :: string

definition handleGetAuditExport ::
    "env \<Rightarrow> DashboardApi \<Rightarrow> string option \<Rightarrow> string option \<Rightarrow> string option \<Rightarrow> PaymentProvider \<Rightarrow>
      AuditExport Response action" where
  "handleGetAuditExport env api statusParam fromParam toParam pp =
    (let name = paramOr statusParam ''COMPLETED'';
         status = find (\<lambda>s. bundleStatusName s = name) bundleStatuses in
     if status = None \<and> name \<notin> set objectPrototypeNames
     then respond 400 (''Invalid status. Must be one of: '' @ joinWith '', '' (map bundleStatusName bundleStatuses))
     else
      case (dateParam api fromParam, dateParam api toParam) of
        (Inr from, Inr until) \<Rightarrow>
          tryCatch
           (andThen
             (case status of
                None \<Rightarrow> throw DbError
              | Some st \<Rightarrow> dbQuery env (\<lambda>w. filter (\<lambda>b. ob_ppPublicKey b = Some (pp_publicKey pp) \<and>
                  ob_status b = st \<and> deletedAt b = None \<and> inRange from until (createdAt b)) (w_bundles w))) (\<lambda>bundles.
            andThen (dateNow env) (\<lambda>now.
            respondWith 200 []
              \<lparr>ax_filename = ''audit-export-'' @ name @ ''-'' @ take 10 (toISOString now) @ ''.csv'',
               ax_csv = auditCsv bundles\<rparr>)))
           (\<lambda>_. respond 500 ''Failed to generate audit export'')
      | _ \<Rightarrow> respond 400 ''Invalid date format. Use ISO 8601 (e.g., 2026-01-01).'')"

section \<open>Reading keeps every relation\<close>

context world_guarantee
begin

lemma guar_queries: "guar R (P_GetBundleById env sid i)" "guar R (P_ListBundlesByUser env sid st)"
  "guar R (handleGetBundleDetail env p pp)" "guar R (handleListRecentBundles env api l pp)"
  "guar R (handleListDashboardTransactions env api c f t pp)" "guar R (handleGetTransactionDetail env p pp)"
  "guar R (handleGetOperations env pp)" "guar R (handleGetUtxos env c pp)" "guar R (handleGetChannels env pp)"
  "guar R (handleGetEntities env pp)" "guar R (handleGetTreasury api pp)"
  "guar R (handleGetAuditExport env api status f t pp)"
proof -
  have detail: "guar R (buildTxDetail env i p)" for i p
    unfolding buildTxDetail_def transactions_findById_def base_findById_def findByCreatedAtBundleId_def Let_def
    by (intro world_rules guar_reads guar_mapM)
  show "guar R (handleListDashboardTransactions env api c f t pp)" "guar R (handleGetTransactionDetail env p pp)"
    unfolding handleListDashboardTransactions_def handleGetTransactionDetail_def findTxIdsInRangeForPp_def
    by (intro world_rules guar_respond guar_mapM detail)+
qed (unfold P_GetBundleById_def findBundleOrThrow_def assertBundleOwnership_def P_ListBundlesByUser_def
    validateSessionAndGetAccountId_def findBundlesByUser_def handleGetBundleDetail_def submitterEntity_def
    handleListRecentBundles_def handleGetOperations_def bundleCountByStatus_def txCountByStatus_def handleGetUtxos_def
    findUnspentByChannel_def handleGetChannels_def handleGetEntities_def listByPp_def handleGetTreasury_def
    handleGetAuditExport_def listAllForPp_def Let_def,
  (intro world_rules guar_reads guar_respond)+)

end

section \<open>A wallet's bundles\<close>

text \<open>What a wallet reads is its own: a bundle it fetches was created by the account of its session, and its list
  holds exactly the stored bundles of that account, newest first.\<close>

theorem wallet_reads_own_bundles:
  assumes "find (\<lambda>s. s_id s = sid \<and> deletedAt s = None) (w_sessions w) = Some s"
  shows "P_GetBundleById env sid i w = (Inr dto, w') \<Longrightarrow>
      \<exists>b\<in>set (w_bundles w). ob_id b = i \<and> deletedAt b = None \<and> createdBy b = Some (s_accountId s) \<and>
        dto = toBundleDTO b"
    and "P_ListBundlesByUser env sid None w = (Inr dtos, w'') \<Longrightarrow>
      \<exists>bs. dtos = map toBundleDTO bs \<and> sorted_wrt (\<lambda>a b. createdAt b \<le> createdAt a) bs \<and>
        mset bs = mset (filter (\<lambda>b. createdBy b = Some (s_accountId s) \<and> deletedAt b = None) (w_bundles w))"
proof -
  note reads = bundles_findById_def sessions_findById_def base_findById_def findByCreatedBy_def run_simps
  show "\<exists>b\<in>set (w_bundles w). ob_id b = i \<and> deletedAt b = None \<and> createdBy b = Some (s_accountId s) \<and>
        dto = toBundleDTO b" if "P_GetBundleById env sid i w = (Inr dto, w')"
    using that assms
    by (auto simp: P_GetBundleById_def findBundleOrThrow_def assertBundleOwnership_def reads
        dest: find_SomeD split: if_splits option.splits)
  let ?own = "\<lambda>b. createdBy b = Some (s_accountId s) \<and> deletedAt b = None"
  show "\<exists>bs. dtos = map toBundleDTO bs \<and> sorted_wrt (\<lambda>a b. createdAt b \<le> createdAt a) bs \<and>
        mset bs = mset (filter ?own (w_bundles w))" if "P_ListBundlesByUser env sid None w = (Inr dtos, w'')"
  proof (intro exI conjI)
    let ?bs = "sort_key (\<lambda>r. - createdAt r) (filter ?own (w_bundles w))"
    show "dtos = map toBundleDTO ?bs"
      using that assms
      by (auto simp: P_ListBundlesByUser_def validateSessionAndGetAccountId_def findBundlesByUser_def reads
          split: if_splits)
    have "sorted (map (\<lambda>r. - createdAt r) ?bs)" by (rule sorted_sort_key)
    then show "sorted_wrt (\<lambda>a b. createdAt b \<le> createdAt a) ?bs" by (simp add: sorted_map)
    show "mset ?bs = mset (filter ?own (w_bundles w))" by simp
  qed
qed

section \<open>The amount of a bundle\<close>

definition parsed :: "env \<Rightarrow> string list \<Rightarrow> MoonlightOperation list" where
  "parsed env mlxdrs = [op. Inr op \<leftarrow> map (fromMLXDR env) mlxdrs]"

lemma parsed_simps [simp]: "parsed env [] = []"
  "parsed env (x # xs) = (case fromMLXDR env x of Inl _ \<Rightarrow> parsed env xs | Inr op \<Rightarrow> op # parsed env xs)"
  by (simp_all add: parsed_def split: sum.split)

definition addAll :: "int option \<Rightarrow> int list \<Rightarrow> int option" where
  "addAll acc ns = foldl addTo acc ns"

lemma addAll_simps [simp]: "addAll acc [] = acc" "addAll acc (n # ns) = addAll (addTo acc n) ns"
  by (simp_all add: addAll_def)

lemma addAll_Some: "addAll (Some m) ns = Some (foldl (+) m ns)"
  by (induction ns arbitrary: m) (simp_all add: addTo_def)

lemma addAll_None: "addAll None ns = (if ns = [] then None else Some (foldl (+) 0 ns))"
  by (cases ns) (simp_all add: addAll_Some addTo_def)

lemma classifyOperations_simps [simp]:
  "cl_deposit (classifyOperations (op # ops)) = (case op of Deposit d \<Rightarrow> d # cl_deposit (classifyOperations ops) | _ \<Rightarrow> cl_deposit (classifyOperations ops))"
  "cl_withdraw (classifyOperations (op # ops)) = (case op of Withdraw d \<Rightarrow> d # cl_withdraw (classifyOperations ops) | _ \<Rightarrow> cl_withdraw (classifyOperations ops))"
  "cl_create (classifyOperations (op # ops)) = (case op of Create d \<Rightarrow> d # cl_create (classifyOperations ops) | _ \<Rightarrow> cl_create (classifyOperations ops))"
  by (simp_all add: classifyOperations_def split: MoonlightOperation.split)

lemma sumKinds_parsed:
  "sumKinds env d wd c xs =
    (addAll d (map dep_amount (cl_deposit (classifyOperations (parsed env xs)))),
     addAll wd (map wd_amount (cl_withdraw (classifyOperations (parsed env xs)))),
     addAll c (map co_amount (cl_create (classifyOperations (parsed env xs)))))"
proof (induction xs arbitrary: d wd c)
  case Nil
  show ?case by (simp add: classifyOperations_def)
next
  case (Cons x xs)
  then show ?case by (simp split: sum.split MoonlightOperation.split)
qed

text \<open>The amount the dashboard derives from the stored operations is the one admission and the mempool announce
  for the same operations, as far as they parse.\<close>

theorem dashboard_amount_agrees:
  "aggregateAmountFromMLXDR env mlxdrs = aggregateBundleAmount (classifyOperations (parsed env mlxdrs))"
  by (simp add: aggregateAmountFromMLXDR_def sumKinds_parsed addAll_None aggregateBundleAmount_def foldl_map)

section \<open>The CSV text\<close>

text \<open>A reader of CSV text in the sense of RFC 4180 with line feeds: a field in quotes may hold commas, line feeds
  and doubled quotes.\<close>

datatype csvMode = Plain | Quoted | Closed

fun csvRead :: "csvMode \<Rightarrow> string \<Rightarrow> string list \<Rightarrow> string \<Rightarrow> string list list" where
  "csvRead m f r [] = [r @ [f]]"
| "csvRead Quoted f r (c # s) =
    (if c = CHR ''\"'' then csvRead Closed f r s else csvRead Quoted (f @ [c]) r s)"
| "csvRead m f r (c # s) =
    (if c = CHR '','' then csvRead Plain [] (r @ [f]) s
     else if c = CHR 0x0A then (r @ [f]) # csvRead Plain [] [] s
     else if c = CHR ''\"'' \<and> m = Closed then csvRead Quoted (f @ [c]) r s
     else if c = CHR ''\"'' \<and> f = [] then csvRead Quoted [] r s
     else csvRead Plain (f @ [c]) r s)"

definition csvParse :: "string \<Rightarrow> string list list" where
  "csvParse text = csvRead Plain [] [] text"

definition special :: "char \<Rightarrow> bool" where
  "special c \<longleftrightarrow> c = CHR '','' \<or> c = CHR ''\"'' \<or> c = CHR 0x0A"

lemma csvRead_plain: "list_all (\<lambda>c. \<not> special c) v \<Longrightarrow> csvRead Plain f r (v @ s) = csvRead Plain (f @ v) r s"
  by (induction v arbitrary: f) (auto simp: special_def)

lemma csvRead_quoted:
  "csvRead Quoted f r (concat (map (\<lambda>c. if c = CHR ''\"'' then ''\"\"'' else [c]) v) @ s) = csvRead Quoted (f @ v) r s"
  by (induction v arbitrary: f) auto

lemma csvRead_escape: "\<exists>m. m \<noteq> Quoted \<and> csvRead Plain [] r (csvEscape v @ s) = csvRead m v r s"
proof (cases "list_ex special v")
  case True
  then have "csvEscape v = ''\"'' @ concat (map (\<lambda>c. if c = CHR ''\"'' then ''\"\"'' else [c]) v) @ ''\"''"
    by (simp add: csvEscape_def special_def [abs_def])
  then show ?thesis by (intro exI [of _ Closed]) (simp add: csvRead_quoted)
next
  case False
  then have "csvEscape v = v" "list_all (\<lambda>c. \<not> special c) v"
    by (auto simp: csvEscape_def special_def [abs_def] list_ex_iff list_all_iff)
  then show ?thesis by (intro exI [of _ Plain]) (simp add: csvRead_plain)
qed

lemma csvRead_comma: "m \<noteq> Quoted \<Longrightarrow> csvRead m v r (CHR '','' # s) = csvRead Plain [] (r @ [v]) s"
  by (cases m) simp_all

lemma csvRead_line: "m \<noteq> Quoted \<Longrightarrow> csvRead m v r (CHR 0x0A # s) = (r @ [v]) # csvRead Plain [] [] s"
  by (cases m) simp_all

lemma csvRead_row:
  "vs \<noteq> [] \<Longrightarrow> csvRead Plain [] r (joinWith '','' (map csvEscape vs)) = [r @ vs] \<and>
    csvRead Plain [] r (joinWith '','' (map csvEscape vs) @ CHR 0x0A # s) = (r @ vs) # csvRead Plain [] [] s"
proof (induction vs arbitrary: r)
  case (Cons v vs)
  obtain m where m: "m \<noteq> Quoted" "csvRead Plain [] r (csvEscape v @ []) = csvRead m v r []"
    using csvRead_escape by blast
  obtain n where n: "n \<noteq> Quoted" "csvRead Plain [] r (csvEscape v @ CHR 0x0A # s) = csvRead n v r (CHR 0x0A # s)"
    using csvRead_escape by blast
  show ?case
  proof (cases vs)
    case Nil
    with m n show ?thesis by (simp add: csvRead_line)
  next
    case (Cons u us)
    have step: "csvRead Plain [] r (csvEscape v @ CHR '','' # t) = csvRead Plain [] (r @ [v]) t" for t
      using csvRead_escape [of r v "CHR '','' # t"] by (auto simp: csvRead_comma)
    with Cons.IH [of "r @ [v]"] Cons show ?thesis by simp
  qed
qed simp

lemma csvParse_lines:
  "rows \<noteq> [] \<Longrightarrow> list_all (\<lambda>vs. vs \<noteq> []) rows \<Longrightarrow>
    csvParse (joinWith [CHR 0x0A] (map (\<lambda>vs. joinWith '','' (map csvEscape vs)) rows)) = rows"
proof (induction rows)
  case (Cons vs rows)
  then show ?case
    by (cases rows) (use csvRead_row [of vs "[]"] in \<open>simp_all add: csvParse_def\<close>)
qed simp

lemma auditCsv_parses: "csvParse (auditCsv bundles) = auditHeaders # map auditFields bundles"
proof -
  have "map csvEscape auditHeaders = auditHeaders" by (simp add: auditHeaders_def csvEscape_def)
  then have "auditCsv bundles =
      joinWith [CHR 0x0A] (map (\<lambda>vs. joinWith '','' (map csvEscape vs)) (auditHeaders # map auditFields bundles))"
    by (simp add: auditCsv_def comp_def)
  then show ?thesis
    by (simp only:, intro csvParse_lines) (simp_all add: auditHeaders_def auditFields_def list_all_iff)
qed

section \<open>What an operator sees\<close>

text \<open>Reading handlers change nothing but the call counter.\<close>

definition onlyTick :: "world \<Rightarrow> world \<Rightarrow> bool" where
  "onlyTick w w' \<longleftrightarrow> w' = w\<lparr>w_tick := w_tick w'\<rparr>"

interpretation read_only: world_guarantee onlyTick
proof unfold_locales
  show "onlyTick s u" if "onlyTick s t" "onlyTick t u" for s t u
    using that unfolding onlyTick_def by (metis world.surjective world.update_convs(1))
qed (simp_all add: onlyTick_def advance_def)

text \<open>The routes of the dashboards, behind the check of ownership.\<close>

definition bundleDetailRoute ::
    "env \<Rightarrow> string option \<Rightarrow> string option \<Rightarrow> string option \<Rightarrow> BundleDetail Response action" where
  "bundleDetailRoute env idParam ppParam sub = requirePpOwnership env ppParam sub (handleGetBundleDetail env idParam)"

definition recentBundlesRoute ::
    "env \<Rightarrow> DashboardApi \<Rightarrow> string option \<Rightarrow> string option \<Rightarrow> string option \<Rightarrow> RecentBundle list Response action" where
  "recentBundlesRoute env api limitParam ppParam sub =
    requirePpOwnership env ppParam sub (handleListRecentBundles env api limitParam)"

definition auditExportRoute ::
    "env \<Rightarrow> DashboardApi \<Rightarrow> string option \<Rightarrow> string option \<Rightarrow> string option \<Rightarrow> string option \<Rightarrow> string option \<Rightarrow>
      AuditExport Response action" where
  "auditExportRoute env api statusParam fromParam toParam ppParam sub =
    requirePpOwnership env ppParam sub (handleGetAuditExport env api statusParam fromParam toParam)"

definition transactionDetailRoute ::
    "env \<Rightarrow> string option \<Rightarrow> string option \<Rightarrow> string option \<Rightarrow> TxDetail Response action" where
  "transactionDetailRoute env idParam ppParam sub =
    requirePpOwnership env ppParam sub (handleGetTransactionDetail env idParam)"

text \<open>The stored, undeleted bundles of the provider an operator may look at: the operator owns the provider.\<close>

definition ownBundle :: "world \<Rightarrow> string option \<Rightarrow> string option \<Rightarrow> OperationsBundle \<Rightarrow> bool" where
  "ownBundle w ppParam sub b \<longleftrightarrow>
    b \<in> set (w_bundles w) \<and> deletedAt b = None \<and>
    (\<exists>pp\<in>set (w_pps w). ppParam = Some (pp_publicKey pp) \<and> sub \<noteq> None \<and> pp_ownerPublicKey pp = sub \<and>
      ob_ppPublicKey b = Some (pp_publicKey pp))"

lemma requirePpOwnership_data:
  assumes "requirePpOwnership env p sub next w = (Inr resp, w')" and "r_data resp = Some d"
  obtains pp v where "pp \<in> set (w_pps w)" and "p = Some (pp_publicKey pp)" and "sub \<noteq> None"
    and "pp_ownerPublicKey pp = sub" and "v = advance w" and "next pp v = (Inr resp, w')"
  using assms
  by (auto simp: requirePpOwnership_def findByPublicKeyAndOwner_def Let_def run_simps orEmpty_def
      dest: find_SomeD split: if_splits option.splits)

lemma mem_page: "x \<in> set (page lmt off xs) \<Longrightarrow> x \<in> set xs"
  by (auto simp: page_def split: option.splits dest: in_set_takeD in_set_dropD)

lemma bundleDetail_own:
  assumes "handleGetBundleDetail env i pp w = (Inr resp, w')" and "r_data resp = Some d"
  shows "\<exists>b\<in>set (w_bundles w). deletedAt b = None \<and> ob_ppPublicKey b = Some (pp_publicKey pp) \<and>
    i = Some (ob_id b) \<and> bd_id d = ob_id b \<and> bd_status d = ob_status b \<and>
    bd_operations d = map (viewOperation env) (ob_operationsMLXDR b)"
  using assms
  by (auto simp: handleGetBundleDetail_def bundles_findById_def base_findById_def run_simps orEmpty_def
      dest!: find_SomeD split: if_splits option.splits prod.splits sum.splits) blast+

lemma recentBundles_own:
  assumes "handleListRecentBundles env api l pp w = (Inr resp, w')" and "r_data resp = Some rows" and "r \<in> set rows"
  shows "\<exists>b\<in>set (w_bundles w). deletedAt b = None \<and> ob_ppPublicKey b = Some (pp_publicKey pp) \<and> rb_id r = ob_id b \<and>
    clock env (w_tick w) - LIST_WINDOW_MS \<le> updatedAt b"
  using assms
  by (auto simp: handleListRecentBundles_def run_simps Let_def recentBundle_def dest!: mem_page
      split: if_splits sum.splits) blast+

lemma operator_bundles:
  shows "bundleDetailRoute env i p sub w = (Inr resp, w') \<Longrightarrow> r_data resp = Some d \<Longrightarrow>
      \<exists>b. ownBundle w p sub b \<and> i = Some (ob_id b) \<and> bd_id d = ob_id b \<and> bd_status d = ob_status b \<and>
        bd_operations d = map (viewOperation env) (ob_operationsMLXDR b)"
    and "recentBundlesRoute env api l p sub w = (Inr resp', w'') \<Longrightarrow> r_data resp' = Some rows \<Longrightarrow> r \<in> set rows \<Longrightarrow>
      \<exists>b. ownBundle w p sub b \<and> rb_id r = ob_id b"
proof -
  show "\<exists>b. ownBundle w p sub b \<and> i = Some (ob_id b) \<and> bd_id d = ob_id b \<and> bd_status d = ob_status b \<and>
      bd_operations d = map (viewOperation env) (ob_operationsMLXDR b)"
    if run: "bundleDetailRoute env i p sub w = (Inr resp, w')" and d: "r_data resp = Some d"
  proof -
    from run [unfolded bundleDetailRoute_def] d obtain pp where
      pp: "pp \<in> set (w_pps w)" "p = Some (pp_publicKey pp)" "sub \<noteq> None" "pp_ownerPublicKey pp = sub"
      and h: "handleGetBundleDetail env i pp (advance w) = (Inr resp, w')"
      by (metis requirePpOwnership_data)
    from bundleDetail_own [OF h d] pp show ?thesis by (auto simp: ownBundle_def)
  qed
  show "\<exists>b. ownBundle w p sub b \<and> rb_id r = ob_id b"
    if run: "recentBundlesRoute env api l p sub w = (Inr resp', w'')" and rows: "r_data resp' = Some rows" "r \<in> set rows"
  proof -
    from run [unfolded recentBundlesRoute_def] rows obtain pp where
      pp: "pp \<in> set (w_pps w)" "p = Some (pp_publicKey pp)" "sub \<noteq> None" "pp_ownerPublicKey pp = sub"
      and h: "handleListRecentBundles env api l pp (advance w) = (Inr resp', w'')"
      by (metis requirePpOwnership_data)
    from recentBundles_own [OF h rows] pp show ?thesis by (auto simp: ownBundle_def)
  qed
qed

text \<open>C36: An operator is shown bundles of a provider the operator owns, and no others: the detail of a bundle, and
  every row of the list of recent bundles.\<close>

theorem operator_sees_own_bundles:
  "(\<forall>resp w' d. bundleDetailRoute env i p sub w = (Inr resp, w') \<and> r_data resp = Some d \<longrightarrow>
      (\<exists>b. ownBundle w p sub b \<and> i = Some (ob_id b) \<and> bd_id d = ob_id b \<and> bd_status d = ob_status b \<and>
        bd_operations d = map (viewOperation env) (ob_operationsMLXDR b))) \<and>
   (\<forall>resp w' rows. recentBundlesRoute env api l p sub w = (Inr resp, w') \<and> r_data resp = Some rows \<longrightarrow>
      (\<forall>r\<in>set rows. \<exists>b. ownBundle w p sub b \<and> rb_id r = ob_id b))"
  using operator_bundles by blast

text \<open>C24: The audit export reads back: parsed as CSV, the text is the header and one record per stored bundle of the
  operator's provider with the requested status and creation time, in full and in order, whatever characters the
  fields contain.\<close>

theorem audit_export_reads_back:
  assumes "auditExportRoute env api statusParam fromParam toParam p sub w = (Inr resp, w')"
    and "r_data resp = Some x"
  shows "\<exists>st from until. bundleStatusName st = paramOr statusParam ''COMPLETED'' \<and>
    dateParam api fromParam = Inr from \<and> dateParam api toParam = Inr until \<and>
    csvParse (ax_csv x) = auditHeaders # map (auditFields)
      (filter (\<lambda>b. ownBundle w p sub b \<and> ob_status b = st \<and> inRange from until (createdAt b)) (w_bundles w))"
proof -
  from assms(1) [unfolded auditExportRoute_def] assms(2) obtain pp where
    pp: "pp \<in> set (w_pps w)" "p = Some (pp_publicKey pp)" "sub \<noteq> None" "pp_ownerPublicKey pp = sub"
    and h: "handleGetAuditExport env api statusParam fromParam toParam pp (advance w) = (Inr resp, w')"
    by (metis requirePpOwnership_data)
  from h assms(2) obtain st since until where
    st: "find (\<lambda>s. bundleStatusName s = paramOr statusParam ''COMPLETED'') bundleStatuses = Some st"
    and dates: "dateParam api fromParam = Inr since" "dateParam api toParam = Inr until"
    and csv: "ax_csv x = auditCsv (filter (\<lambda>b. ob_ppPublicKey b = Some (pp_publicKey pp) \<and>
                  ob_status b = st \<and> deletedAt b = None \<and> inRange since until (createdAt b)) (w_bundles w))"
    by (auto simp: handleGetAuditExport_def Let_def run_simps split: if_splits sum.splits option.splits)
  have "filter (\<lambda>b. ob_ppPublicKey b = Some (pp_publicKey pp) \<and>
                  ob_status b = st \<and> deletedAt b = None \<and> inRange since until (createdAt b)) (w_bundles w)
      = filter (\<lambda>b. ownBundle w p sub b \<and> ob_status b = st \<and> inRange since until (createdAt b)) (w_bundles w)"
    using pp by (intro filter_cong refl) (auto simp: ownBundle_def)
  with csv dates find_SomeD [OF st] show ?thesis by (auto simp: auditCsv_parses)
qed

lemma mapM_dbQuery:
  assumes "\<And>x v. f x (advance v) = f x v"
  shows "mapM (\<lambda>x. dbQuery env (f x)) xs w = (Inr ys, w') \<Longrightarrow> ys = map (\<lambda>x. f x w) xs"
proof (induction xs arbitrary: w ys)
  case (Cons x xs)
  obtain y t where q: "dbQuery env (f x) w = (Inr y, t)"
    and rest: "andThen (mapM (\<lambda>x. dbQuery env (f x)) xs) (\<lambda>ys. ret (y # ys)) t = (Inr ys, w')"
    using Cons.prems unfolding mapM.simps by (rule andThen_InrE)
  from rest obtain zs where zs: "mapM (\<lambda>x. dbQuery env (f x)) xs t = (Inr zs, w')" "ys = y # zs"
    by (rule andThen_InrE) simp
  have "y = f x w" "t = advance w" using q by (auto simp: dbQuery_apply split: if_splits)
  with zs Cons.IH [of t zs] show ?case by (simp add: assms)
qed simp

text \<open>The detail of a transaction is shown to an operator only when one of the bundles in it belongs to the
  operator's provider.\<close>

theorem transaction_detail_needs_own_bundle:
  assumes "transactionDetailRoute env i p sub w = (Inr resp, w')" and "r_data resp = Some d"
  shows "\<exists>b l. ownBundle w p sub b \<and> l \<in> set (w_links w) \<and> deletedAt l = None \<and>
    i = Some (bt_transactionId l) \<and> bt_bundleId l = ob_id b \<and> i = Some (td_id d)"
proof -
  from assms(1) [unfolded transactionDetailRoute_def] assms(2) obtain pp where
    pp: "pp \<in> set (w_pps w)" "p = Some (pp_publicKey pp)" "sub \<noteq> None" "pp_ownerPublicKey pp = sub"
    and h: "handleGetTransactionDetail env i pp (advance w) = (Inr resp, w')"
    by (metis requirePpOwnership_data)
  from h assms(2) obtain txId v where i: "i = Some txId" and b: "buildTxDetail env txId (pp_publicKey pp) (advance w) = (Inr (Some d), v)"
    by (auto simp: handleGetTransactionDetail_def run_simps orEmpty_def split: if_splits option.splits prod.splits sum.splits)
  let ?links = "filter (\<lambda>r. bt_transactionId r = txId \<and> deletedAt r = None) (w_links w)"
  from b obtain rows u tx where
    m: "mapM (\<lambda>link. bundles_findById env (bt_bundleId link)) ?links (advance (advance (advance w))) = (Inr rows, u)"
    and own: "list_ex (\<lambda>b. ob_ppPublicKey b = Some (pp_publicKey pp)) [b. Some b \<leftarrow> rows]"
    and tx: "find (\<lambda>r. t_id r = txId \<and> deletedAt r = None) (w_transactions w) = Some tx" "td_id d = t_id tx"
    by (auto simp: buildTxDetail_def transactions_findById_def base_findById_def findByTransactionId_def run_simps Let_def
        split: if_splits option.splits prod.splits sum.splits)
  have "rows = map (\<lambda>l. find (\<lambda>r. ob_id r = bt_bundleId l \<and> deletedAt r = None) (w_bundles w)) ?links"
    using mapM_dbQuery [OF _ m [unfolded bundles_findById_def base_findById_def]] by simp
  with own obtain l b where "l \<in> set ?links"
    "find (\<lambda>r. ob_id r = bt_bundleId l \<and> deletedAt r = None) (w_bundles w) = Some b"
    "ob_ppPublicKey b = Some (pp_publicKey pp)"
    by (auto simp: list_ex_iff split: option.splits dest!: sym [of "Some _"])
  with pp i tx(2) find_SomeD [OF tx(1)] show ?thesis
    by (intro exI [of _ b] exI [of _ l]) (auto simp: ownBundle_def dest!: find_SomeD)
qed

text \<open>The counters of the operator's overview: the four statuses shown are the provider's bundles of that status
  and the total is their sum, which leaves out the failed ones.\<close>

theorem operations_total_omits_failed:
  assumes "handleGetOperations env pp w = (Inr resp, w')" and "r_data resp = Some d"
  shows "os_total d + length (filter (\<lambda>b. ob_ppPublicKey b = Some (pp_publicKey pp) \<and> deletedAt b = None \<and>
        ob_status b = B_FAILED) (w_bundles w)) =
      length (filter (\<lambda>b. ob_ppPublicKey b = Some (pp_publicKey pp) \<and> deletedAt b = None) (w_bundles w))"
proof -
  define own where "own b \<longleftrightarrow> ob_ppPublicKey b = Some (pp_publicKey pp) \<and> deletedAt b = None" for b :: OperationsBundle
  define n where "n st = length (filter (\<lambda>b. own b \<and> ob_status b = st) (w_bundles w))" for st
  have eq: "filter (\<lambda>b. ob_ppPublicKey b = Some (pp_publicKey pp) \<and> ob_status b = st \<and> deletedAt b = None) bs =
      filter (\<lambda>b. own b \<and> ob_status b = st) bs" for st bs
    by (rule filter_cong) (auto simp: own_def)
  have "length (filter (\<lambda>b. own b \<and> ob_status b = B_PENDING) bs) + length (filter (\<lambda>b. own b \<and> ob_status b = B_PROCESSING) bs)
      + length (filter (\<lambda>b. own b \<and> ob_status b = B_COMPLETED) bs) + length (filter (\<lambda>b. own b \<and> ob_status b = B_EXPIRED) bs)
      + length (filter (\<lambda>b. own b \<and> ob_status b = B_FAILED) bs) = length (filter own bs)" for bs
  proof (induction bs)
    case (Cons b bs)
    then show ?case by (cases "ob_status b") auto
  qed simp
  moreover have "os_total d = n B_PENDING + n B_PROCESSING + n B_COMPLETED + n B_EXPIRED"
    using assms by (auto simp: handleGetOperations_def bundleCountByStatus_def txCountByStatus_def run_simps n_def Let_def eq
        split: if_splits)
  ultimately show ?thesis by (simp add: n_def own_def [abs_def] conj_assoc)
qed

section \<open>Examples\<close>

text \<open>Two providers, the first owned by operator \<open>O1\<close>; a bundle of each, both in transaction \<open>h1\<close>, and a UTXO
  created by the second.  The identifier of the first bundle holds a comma.\<close>

definition provider0 :: "string \<Rightarrow> string \<Rightarrow> PaymentProvider" where
  "provider0 k owner = BaseColumns.extend base0 \<lparr>pp_id = k, pp_publicKey = k, pp_encryptedSk = [],
     pp_derivationIndex = 0, pp_ownerPublicKey = Some owner, pp_isActive = True, pp_label = None,
     pp_kycSubmissionUrl = None\<rparr>"

definition link0 :: "string \<Rightarrow> string \<Rightarrow> BundleTransaction" where
  "link0 b t = BaseColumns.extend base0 \<lparr>bt_bundleId = b, bt_transactionId = t\<rparr>"

definition dash0 :: world where
  "dash0 = world0\<lparr>w_pps := [provider0 ''P1'' ''O1'', provider0 ''P2'' ''O2''],
     w_bundles := [row0 ''b,1'' B_COMPLETED, (row0 ''b2'' B_FAILED)\<lparr>ob_ppPublicKey := Some ''P2'', createdBy := Some ''A2''\<rparr>],
     w_transactions := [BaseColumns.extend base0 \<lparr>t_id = ''h1'', t_status = T_VERIFIED, t_timeout = 2000,
       t_ledgerSequence = ''20''\<rparr>],
     w_links := [link0 ''b,1'' ''h1'', link0 ''b2'' ''h1''],
     w_utxos := [BaseColumns.extend base0 \<lparr>u_id = ''u2'', u_amount = 7, u_accountId = ''A2'',
        u_spentByAccountId = None, u_createdAtBundleId = Some ''b2'', u_spentAtBundleId = None\<rparr>]\<rparr>"

definition dashApi0 :: DashboardApi where
  "dashApi0 = \<lparr>limitClause = (\<lambda>n. case n of Finite x \<Rightarrow> Inr (Some (nat \<lfloor>x\<rfloor>)) | _ \<Rightarrow> Inr None),
     parseDate = (\<lambda>s. if s = ''epoch'' then Some 0 else None), dashHorizonUrl = None,
     horizonGet = (\<lambda>_ _. Inl (NetworkError ''down''))\<rparr>"

lemmas dash_simps = dash0_def provider0_def link0_def fixture_defs run_simps orEmpty_def

lemma wallet_reads_own_bundles_witness:
  "(\<exists>b\<in>set (w_bundles dash0). ob_id b = ''b,1'' \<and> deletedAt b = None \<and> createdBy b = Some ''A1'' \<and>
      Inr (toBundleDTO b) = fst (P_GetBundleById env0 ''s1'' ''b,1'' dash0)) \<and>
   P_GetBundleById env0 ''s1'' ''b2'' dash0 = (Inl (BUNDLE_ACCESS_FORBIDDEN ''b2'' ''A1''), advance (advance dash0))"
proof -
  note defs = P_GetBundleById_def findBundleOrThrow_def assertBundleOwnership_def bundles_findById_def
    sessions_findById_def base_findById_def dash_simps
  have s: "find (\<lambda>s. s_id s = ''s1'' \<and> deletedAt s = None) (w_sessions dash0) =
      Some (BaseColumns.extend base0 \<lparr>s_id = ''s1'', s_status = S_ACTIVE, s_jwtToken = None, s_accountId = ''A1''\<rparr>)"
    by (simp add: dash_simps)
  have run: "P_GetBundleById env0 ''s1'' ''b,1'' dash0 = (Inr (toBundleDTO (row0 ''b,1'' B_COMPLETED)), advance (advance dash0))"
    by (simp add: defs)
  from wallet_reads_own_bundles(1) [OF s run] run
  have "\<exists>b\<in>set (w_bundles dash0). ob_id b = ''b,1'' \<and> deletedAt b = None \<and> createdBy b = Some ''A1'' \<and>
      Inr (toBundleDTO b) = fst (P_GetBundleById env0 ''s1'' ''b,1'' dash0)" by (auto simp: fixture_defs)
  moreover have "P_GetBundleById env0 ''s1'' ''b2'' dash0 = (Inl (BUNDLE_ACCESS_FORBIDDEN ''b2'' ''A1''), advance (advance dash0))"
    by (simp add: defs)
  ultimately show ?thesis by blast
qed

lemma operator_sees_own_bundles_witness:
  "\<exists>b. ownBundle dash0 (Some ''P1'') (Some ''O1'') b \<and> ob_id b = ''b,1''"
proof -
  obtain resp w' d where run: "bundleDetailRoute env0 (Some ''b,1'') (Some ''P1'') (Some ''O1'') dash0 = (Inr resp, w')"
    and d: "r_data resp = Some d"
    by (simp add: bundleDetailRoute_def requirePpOwnership_def findByPublicKeyAndOwner_def handleGetBundleDetail_def
        bundles_findById_def base_findById_def submitterEntity_def Let_def dash_simps)
  have "\<exists>b. ownBundle dash0 (Some ''P1'') (Some ''O1'') b \<and> Some ''b,1'' = Some (ob_id b)"
    using operator_sees_own_bundles [of env0 "Some ''b,1''" "Some ''P1''" "Some ''O1''" dash0 dashApi0 None, THEN conjunct1] run d
    by blast
  then show ?thesis by auto
qed

lemma iso0: "toISOString 1000 = ''1970-01-01T00:00:01.000Z''" "toISOString 900 = ''1970-01-01T00:00:00.900Z''"
  by code_simp+

lemma audit_export_reads_back_witness:
  "map_option (csvParse \<circ> ax_csv) (Option.bind (case fst (auditExportRoute env0 dashApi0 None None None (Some ''P1'') (Some ''O1'') dash0) of
      Inr resp \<Rightarrow> Some resp | Inl _ \<Rightarrow> None) r_data) =
    Some [[''id'', ''status'', ''fee'', ''createdAt'', ''updatedAt''], [''b,1'', ''COMPLETED'', ''40'', ''1970-01-01T00:00:00.900Z'', ''1970-01-01T00:00:00.900Z'']]"
proof -
  have run: "auditExportRoute env0 dashApi0 None None None (Some ''P1'') (Some ''O1'') dash0 =
      (Inr \<lparr>r_status = 200, r_message = [], r_data = Some
        \<lparr>ax_filename = ''audit-export-COMPLETED-1970-01-01.csv'', ax_csv = auditCsv [row0 ''b,1'' B_COMPLETED]\<rparr>\<rparr>, advance (advance dash0))"
    by (simp add: auditExportRoute_def requirePpOwnership_def findByPublicKeyAndOwner_def handleGetAuditExport_def
        bundleStatuses_def bundleStatusName_def paramOr_def dateParam_def inRange_def Let_def iso0 dash_simps)
  obtain st from' until where st: "bundleStatusName st = paramOr None ''COMPLETED''"
    and dates: "dateParam dashApi0 None = Inr from'" "dateParam dashApi0 None = Inr until"
    and csv: "csvParse (auditCsv [row0 ''b,1'' B_COMPLETED]) = auditHeaders # map (auditFields)
      (filter (\<lambda>b. ownBundle dash0 (Some ''P1'') (Some ''O1'') b \<and> ob_status b = st \<and> inRange from' until (createdAt b)) (w_bundles dash0))"
    using audit_export_reads_back [OF run] by auto
  have "st = B_COMPLETED" using st by (cases st) (simp_all add: bundleStatusName_def paramOr_def orEmpty_def)
  with dates csv have "csvParse (auditCsv [row0 ''b,1'' B_COMPLETED]) = auditHeaders # [auditFields (row0 ''b,1'' B_COMPLETED)]"
    by (simp add: dateParam_def inRange_def ownBundle_def dash_simps)
  moreover have "intToString 40 = ''40''" by code_simp
  ultimately show ?thesis by (simp add: run auditHeaders_def auditFields_def bundleStatusName_def iso0)
qed

lemma transaction_detail_needs_own_bundle_witness:
  "\<exists>b l. ownBundle dash0 (Some ''P1'') (Some ''O1'') b \<and> l \<in> set (w_links dash0) \<and> bt_bundleId l = ob_id b"
proof -
  obtain resp w' d where run: "transactionDetailRoute env0 (Some ''h1'') (Some ''P1'') (Some ''O1'') dash0 = (Inr resp, w')"
    and d: "r_data resp = Some d"
    by (simp add: transactionDetailRoute_def requirePpOwnership_def findByPublicKeyAndOwner_def handleGetTransactionDetail_def
        buildTxDetail_def transactions_findById_def findByTransactionId_def bundles_findById_def base_findById_def
        findByCreatedAtBundleId_def Let_def dash_simps)
  from transaction_detail_needs_own_bundle [OF run d] show ?thesis by blast
qed

text \<open>A dashboard shows rows of other providers: the detail of a shared transaction lists every bundle in it, and
  the UTXOs of a channel are those of all providers.\<close>

theorem dashboards_show_foreign_rows:
  "(\<exists>resp w' d. transactionDetailRoute env0 (Some ''h1'') (Some ''P1'') (Some ''O1'') dash0 = (Inr resp, w') \<and>
      r_data resp = Some d \<and> map tb_id (td_bundles d) = [''b,1'', ''b2'']) \<and>
   (\<exists>resp w' us. handleGetUtxos env0 (Some ''C1'') (provider0 ''P1'' ''O1'') dash0 = (Inr resp, w') \<and>
      r_data resp = Some us \<and> map uv_createdAtBundleId us = [Some ''b2''])"
  by (simp add: transactionDetailRoute_def requirePpOwnership_def findByPublicKeyAndOwner_def handleGetTransactionDetail_def
        buildTxDetail_def transactions_findById_def findByTransactionId_def bundles_findById_def base_findById_def
        findByCreatedAtBundleId_def handleGetUtxos_def findUnspentByChannel_def Let_def dash_simps)

lemma operations_total_omits_failed_witness:
  "\<exists>resp w' d. handleGetOperations env0 (provider0 ''P2'' ''O2'') dash0 = (Inr resp, w') \<and> r_data resp = Some d \<and>
    os_total d + 1 = 1"
proof -
  obtain resp w' d where run: "handleGetOperations env0 (provider0 ''P2'' ''O2'') dash0 = (Inr resp, w')" and d: "r_data resp = Some d"
    by (simp add: handleGetOperations_def bundleCountByStatus_def txCountByStatus_def Let_def dash_simps)
  from operations_total_omits_failed [OF run d] have "os_total d + 1 = 1" by (simp add: dash_simps)
  with run d show ?thesis by blast
qed

end
