(* ===== verification/Metrics.thy ===== *)
theory Metrics
  imports Queries Decimals
begin

text \<open>
  The mempool metrics: the collector of \<^verbatim>\<open>core/service/mempool-metrics/metrics-collector.ts\<close>, its repository
  \<^verbatim>\<open>mempool-metric.repository.ts\<close> and the dashboards that read it (\<^verbatim>\<open>http/v1/dashboard/metrics.ts\<close>,
  \<^verbatim>\<open>http/v1/dashboard/mempool.ts\<close>).

  Averages are rational numbers.  The serial identifier of a sample is the value of the call counter, which
  increases with every statement.
\<close>

section \<open>Repository\<close>

definition metrics_insert :: "env \<Rightarrow> MempoolMetric \<Rightarrow> MempoolMetric action" where
  "metrics_insert env data = dbExec env (\<lambda>now w.
    let row = data\<lparr>mm_id := w_tick w, mm_recordedAt := now\<rparr> in
    (Inr row, w_metrics_update (\<lambda>rs. rs @ [row]) w))"

definition findRecent :: "env \<Rightarrow> nat \<Rightarrow> MempoolMetric list action" where
  "findRecent env limit = dbQuery env (\<lambda>w. take limit (sort_key (\<lambda>r. - mm_recordedAt r) (w_metrics w)))"

definition findRecentForPp :: "env \<Rightarrow> string \<Rightarrow> int \<Rightarrow> nat \<Rightarrow> MempoolMetric list action" where
  "findRecentForPp env ppPublicKey since limit = dbQuery env (\<lambda>w.
    take limit (sort_key (\<lambda>r. - mm_recordedAt r)
      (filter (\<lambda>r. mm_ppPublicKey r = Some ppPublicKey \<and> since \<le> mm_recordedAt r) (w_metrics w))))"

record Averages =
  avg_queueDepth :: rat
  avg_slotCount :: rat
  avg_processingMs :: rat
  avg_throughputPerMin :: rat
  avg_sampleCount :: nat

text \<open>\<^verbatim>\<open>Number(avg(...) ?? 0)\<close>: SQL averages the values that are not null and gives null for none.\<close>

definition sqlAvg :: "rat option list \<Rightarrow> rat" where
  "sqlAvg vs = (let xs = [x. Some x \<leftarrow> vs] in if xs = [] then 0 else sum_list xs / of_nat (length xs))"

definition averagesOf :: "MempoolMetric list \<Rightarrow> Averages" where
  "averagesOf rows =
    \<lparr>avg_queueDepth = sqlAvg (map (\<lambda>r. Some (of_nat (mm_queueDepth r))) rows),
     avg_slotCount = sqlAvg (map (\<lambda>r. Some (of_nat (mm_slotCount r))) rows),
     avg_processingMs = sqlAvg (map mm_avgProcessingMs rows),
     avg_throughputPerMin = sqlAvg (map mm_throughputPerMin rows),
     avg_sampleCount = length rows\<rparr>"

definition getAveragesSince :: "env \<Rightarrow> int \<Rightarrow> Averages action" where
  "getAveragesSince env since =
    dbQuery env (\<lambda>w. averagesOf (filter (\<lambda>r. since \<le> mm_recordedAt r) (w_metrics w)))"

definition getAveragesSinceForPp :: "env \<Rightarrow> string \<Rightarrow> int \<Rightarrow> Averages action" where
  "getAveragesSinceForPp env ppPublicKey since = dbQuery env (\<lambda>w.
    averagesOf (filter (\<lambda>r. mm_ppPublicKey r = Some ppPublicKey \<and> since \<le> mm_recordedAt r) (w_metrics w)))"

definition deleteOlderThan :: "env \<Rightarrow> int \<Rightarrow> nat action" where
  "deleteOlderThan env before = dbExec env (\<lambda>_ w.
    (Inr (length (filter (\<lambda>r. mm_recordedAt r < before) (w_metrics w))),
     w_metrics_update (filter (\<lambda>r. \<not> mm_recordedAt r < before)) w))"

section \<open>Collector\<close>

definition COLLECTION_INTERVAL_MS :: int where
  "COLLECTION_INTERVAL_MS = 60000"

definition RETENTION_DAYS :: int where
  "RETENTION_DAYS = 7"

definition deriveActiveChannelContractIds :: "env \<Rightarrow> CouncilMembership list \<Rightarrow> string list" where
  "deriveActiveChannelContractIds env memberships =
    concat (map (\<lambda>m. if cm_status m = M_ACTIVE then configChannelIds env m else []) memberships)"

text \<open>\<^verbatim>\<open>percentile(values, p)\<close> of a non-empty array.\<close>

definition percentile :: "int list \<Rightarrow> rat \<Rightarrow> int" where
  "percentile values p =
    (let arr = sort values; idx = \<lceil>of_nat (length arr) * p\<rceil> - 1 in arr ! nat (max 0 idx))"

definition processingTimes :: "OperationsBundle list \<Rightarrow> int list" where
  "processingTimes completed = filter (\<lambda>t. 0 \<le> t) (map (\<lambda>b. updatedAt b - createdAt b) completed)"

definition average :: "int list \<Rightarrow> rat" where
  "average ts = of_int (sum_list ts) / of_nat (length ts)"

definition collectFor :: "env \<Rightarrow> string \<Rightarrow> int \<Rightarrow> PaymentProvider \<Rightarrow> unit action" where
  "collectFor env platformVersion windowStart pp =
    andThen (listAllForPp env (pp_publicKey pp)) (\<lambda>memberships.
    let activeChannels = deriveActiveChannelContractIds env memberships in
    if length activeChannels = 0 then ret ()
    else
     andThen (gets (\<lambda>w. getStatsForChannels (w_slots w) activeChannels)) (\<lambda>(queueDepth, slotCount).
     andThen (findByStatusUpdatedSinceForChannels env B_COMPLETED windowStart activeChannels 10000) (\<lambda>completed.
     andThen (findByStatusUpdatedSinceForChannels env B_EXPIRED windowStart activeChannels 10000) (\<lambda>expired.
     andThen (findByStatusUpdatedSinceForChannels env B_FAILED windowStart activeChannels 10000) (\<lambda>failed.
     let processingTimesMs = processingTimes completed;
         windowMinutes = of_int COLLECTION_INTERVAL_MS / 60000 in
     andThen (metrics_insert env
       \<lparr>mm_id = 0, mm_recordedAt = 0, mm_platformVersion = platformVersion, mm_ppPublicKey = Some (pp_publicKey pp),
        mm_queueDepth = queueDepth, mm_slotCount = slotCount, mm_bundlesCompleted = length completed,
        mm_bundlesExpired = length expired, mm_bundlesFailed = length failed,
        mm_avgProcessingMs = (if processingTimesMs = [] then None else Some (average processingTimesMs)),
        mm_p95ProcessingMs = (if processingTimesMs = [] then None else Some (of_int (percentile processingTimesMs (95 / 100)))),
        mm_throughputPerMin = Some (of_nat (length completed) / windowMinutes)\<rparr>) (\<lambda>_.
     ret ()))))))"

definition collect :: "env \<Rightarrow> string \<Rightarrow> unit action" where
  "collect env platformVersion =
    tryCatch
     (andThen (dateNow env) (\<lambda>now.
      andThen (listActive env) (\<lambda>pps.
      andThen (forM pps (collectFor env platformVersion (now - COLLECTION_INTERVAL_MS))) (\<lambda>_.
      andThen (dateNow env) (\<lambda>end.
      andThen (deleteOlderThan env (end - RETENTION_DAYS * 24 * 60 * 60 * 1000)) (\<lambda>_. ret ()))))))
     (\<lambda>_. ret ())"

text \<open>\<^verbatim>\<open>start\<close> and \<^verbatim>\<open>stop\<close> on the interval of the collector: it runs or it does not.\<close>

definition collector_start :: "env \<Rightarrow> string \<Rightarrow> bool \<Rightarrow> bool action" where
  "collector_start env platformVersion running =
    (if running then ret True else andThen (collect env platformVersion) (\<lambda>_. ret True))"

definition collector_stop :: "bool \<Rightarrow> bool action" where
  "collector_stop running = ret False"

section \<open>Dashboards\<close>

definition DEFAULT_RANGE_MIN :: int where
  "DEFAULT_RANGE_MIN = 60"

definition MAX_RANGE_MIN :: int where
  "MAX_RANGE_MIN = 10080"

definition parseRangeMin :: "string option \<Rightarrow> int option" where
  "parseRangeMin raw =
    (case raw of
       None \<Rightarrow> Some DEFAULT_RANGE_MIN
     | Some text \<Rightarrow>
        (let parsed = toNumberText text in
         case parsed of
           Finite x \<Rightarrow> if \<not> isInteger parsed \<or> x \<le> 0 then None else Some (min \<lfloor>x\<rfloor> MAX_RANGE_MIN)
         | _ \<Rightarrow> None))"

record MetricsView =
  mv_ppPublicKey :: string
  mv_rangeMin :: int
  mv_since :: string
  mv_snapshots :: "MempoolMetric list"

definition handleGetMetrics :: "env \<Rightarrow> string option \<Rightarrow> PaymentProvider \<Rightarrow> MetricsView Response action" where
  "handleGetMetrics env rangeParam pp =
    (case parseRangeMin rangeParam of
       None \<Rightarrow> respond 400 ''rangeMin must be a positive integer''
     | Some rangeMin \<Rightarrow>
        andThen (dateNow env) (\<lambda>now.
        let since = now - rangeMin * 60000 in
        andThen (findRecentForPp env (pp_publicKey pp) since (nat rangeMin)) (\<lambda>rows.
        respondWith 200 [] \<lparr>mv_ppPublicKey = pp_publicKey pp, mv_rangeMin = rangeMin,
          mv_since = toISOString since, mv_snapshots = rows\<rparr>)))"

text \<open>\<^verbatim>\<open>round(n)\<close> to two decimals.\<close>

definition round2 :: "rat \<Rightarrow> rat" where
  "round2 n = of_int \<lfloor>n * 100 + 1 / 2\<rfloor> / 100"

record MempoolView =
  mp_live :: MempoolStats
  mp_averages :: Averages
  mp_slotCapacity :: int
  mp_weights :: WeightConfig

definition handleGetMempool :: "env \<Rightarrow> PaymentProvider \<Rightarrow> MempoolView Response action" where
  "handleGetMempool env pp =
    andThen (gets (\<lambda>w. getStats (w_slots w))) (\<lambda>stats.
    andThen (dateNow env) (\<lambda>now.
    andThen (getAveragesSinceForPp env (pp_publicKey pp) (now - 60 * 60 * 1000)) (\<lambda>averages.
    respondWith 200 ''Mempool state retrieved''
      \<lparr>mp_live = stats,
       mp_averages = \<lparr>avg_queueDepth = round2 (avg_queueDepth averages), avg_slotCount = round2 (avg_slotCount averages),
         avg_processingMs = round2 (avg_processingMs averages),
         avg_throughputPerMin = round2 (avg_throughputPerMin averages), avg_sampleCount = avg_sampleCount averages\<rparr>,
       mp_slotCapacity = MEMPOOL_SLOT_CAPACITY env, mp_weights = MEMPOOL_WEIGHT_CONFIG env\<rparr>)))"

section \<open>Relations the collector keeps\<close>

locale metrics_client = world_guarantee R for R :: "world \<Rightarrow> world \<Rightarrow> bool" +
  assumes R_metrics: "R w (w_metrics_update q1 w)"
begin

lemma guar_collect: "guar R (collect env v)"
proof -
  have "guar R (findByStatusUpdatedSinceForChannels env st s chs n)" for st s chs n
    unfolding findByStatusUpdatedSinceForChannels_def by (intro world_rules)
  moreover have "guar R (metrics_insert env r)" "guar R (deleteOlderThan env t)" for r t
    unfolding metrics_insert_def deleteOlderThan_def Let_def
    by (rule guar_dbExec, rule guarI, simp add: R_metrics)+
  ultimately show ?thesis
    unfolding collect_def collectFor_def Let_def by (intro world_rules guar_reads guar_provider_reads)
qed

lemma guar_metricsViews: "guar R (handleGetMetrics env p pp)" "guar R (handleGetMempool env pp)"
  unfolding handleGetMetrics_def handleGetMempool_def findRecentForPp_def getAveragesSinceForPp_def Let_def
  by (intro world_rules guar_respond)+

end

section \<open>The percentile\<close>

lemma sorted_nth_le_count:
  assumes "sorted xs" and "k < length xs"
  shows "k < length (filter (\<lambda>v. v \<le> xs ! k) xs)" and "length (filter (\<lambda>v. v < xs ! k) xs) \<le> k"
proof -
  let ?P = "\<lambda>v. v \<le> xs ! k"
  have "filter ?P (take (Suc k) xs) = take (Suc k) xs"
    using assms by (auto simp: filter_id_conv in_set_conv_nth less_Suc_eq_le sorted_iff_nth_mono)
  then have "Suc k = length (filter ?P (take (Suc k) xs))" using assms(2) by simp
  also have "\<dots> \<le> length (filter ?P (take (Suc k) xs @ drop (Suc k) xs))" by (simp only: filter_append length_append)
  finally show "k < length (filter ?P xs)" by simp
  let ?Q = "\<lambda>v. v < xs ! k"
  have "filter ?Q (drop k xs) = []"
    using assms by (auto simp: filter_empty_conv in_set_conv_nth not_less sorted_iff_nth_mono)
  then have "filter ?Q (take k xs @ drop k xs) = filter ?Q (take k xs)" by (simp only: filter_append append_Nil2)
  then have "length (filter ?Q xs) \<le> length (take k xs)" by (metis append_take_drop_id length_filter_le)
  then show "length (filter ?Q xs) \<le> k" by simp
qed

text \<open>The reported percentile is the nearest rank: one of the values, at least the given share of the values do
  not exceed it, and less than that share is below it.\<close>

theorem percentile_is_nearest_rank:
  assumes "values \<noteq> []" and "0 < p" and "p \<le> 1"
  shows "percentile values p \<in> set values"
    and "of_nat (length values) * p \<le> of_nat (length (filter (\<lambda>v. v \<le> percentile values p) values))"
    and "of_nat (length (filter (\<lambda>v. v < percentile values p) values)) < of_nat (length values) * p"
proof -
  define n where "n = length values"
  define idx where "idx = \<lceil>of_nat n * p\<rceil> - 1"
  define k where "k = nat (max 0 idx)"
  have n: "0 < n" using assms(1) by (simp add: n_def)
  have pos: "0 < of_nat n * p" using n assms(2) by simp
  then have "0 \<le> idx" by (simp add: idx_def)
  then have k: "int k = idx" by (simp add: k_def)
  have "of_nat n * p \<le> of_nat n" using assms(3) by (simp add: mult_left_le)
  then have "\<lceil>of_nat n * p\<rceil> \<le> int n" by (simp add: ceiling_le_iff)
  then have kn: "k < n" using k by (simp add: idx_def)
  let ?arr = "sort values"
  have len: "length ?arr = n" by (simp add: n_def)
  have perc: "percentile values p = ?arr ! k" by (simp add: percentile_def Let_def k_def idx_def n_def)
  have same: "length (filter P ?arr) = length (filter P values)" for P
    by (metis mset_filter mset_sort size_mset)
  show "percentile values p \<in> set values" using perc kn len by (metis nth_mem set_sort)
  have "of_nat n * p \<le> of_int (int k + 1)" by (simp add: k idx_def)
  also have "\<dots> \<le> of_nat (length (filter (\<lambda>v. v \<le> ?arr ! k) ?arr))"
    using sorted_nth_le_count(1) [of ?arr k] kn len by (simp add: Suc_le_eq)
  finally show "of_nat (length values) * p \<le> of_nat (length (filter (\<lambda>v. v \<le> percentile values p) values))"
    by (simp add: perc same n_def)
  have "of_nat (length (filter (\<lambda>v. v < ?arr ! k) ?arr)) \<le> (of_int (int k) :: rat)"
    using sorted_nth_le_count(2) [of ?arr k] kn len by simp
  also have "\<dots> < of_nat n * p" using ceiling_correct [of "of_nat n * p"] by (simp add: k idx_def)
  finally show "of_nat (length (filter (\<lambda>v. v < percentile values p) values)) < of_nat (length values) * p"
    by (simp add: perc same n_def)
qed

section \<open>Samples and retention\<close>

definition sampledChannels :: "env \<Rightarrow> world \<Rightarrow> PaymentProvider \<Rightarrow> string list" where
  "sampledChannels env w pp = deriveActiveChannelContractIds env
    (sort_key createdAt (filter (\<lambda>r. cm_ppPublicKey r = pp_publicKey pp \<and> deletedAt r = None) (w_memberships w)))"

definition recentIn :: "world \<Rightarrow> BundleStatus \<Rightarrow> int \<Rightarrow> string list \<Rightarrow> nat" where
  "recentIn w st since channels = min (length (filter (\<lambda>r. ob_status r = st \<and> since \<le> updatedAt r \<and>
     (case ob_channelContractId r of None \<Rightarrow> False | Some c \<Rightarrow> c \<in> set channels) \<and> deletedAt r = None) (w_bundles w))) 10000"

text \<open>What one sample says of the state: the queue of the provider's channels, and the bundles on those channels
  that reached a final status since the given time.\<close>

definition sampleOf :: "env \<Rightarrow> world \<Rightarrow> int \<Rightarrow> PaymentProvider \<Rightarrow> MempoolMetric \<Rightarrow> bool" where
  "sampleOf env w since pp r \<longleftrightarrow>
    mm_ppPublicKey r = Some (pp_publicKey pp) \<and> mm_recordedAt r \<in> range (clock env) \<and>
    (mm_queueDepth r, mm_slotCount r) = getStatsForChannels (w_slots w) (sampledChannels env w pp) \<and>
    mm_bundlesCompleted r = recentIn w B_COMPLETED since (sampledChannels env w pp) \<and>
    mm_bundlesExpired r = recentIn w B_EXPIRED since (sampledChannels env w pp) \<and>
    mm_bundlesFailed r = recentIn w B_FAILED since (sampledChannels env w pp)"

text \<open>The collector writes samples and reads the rest.\<close>

definition sameButMetrics :: "world \<Rightarrow> world \<Rightarrow> bool" where
  "sameButMetrics w w' \<longleftrightarrow> w_slots w' = w_slots w \<and> w_bundles w' = w_bundles w \<and> w_memberships w' = w_memberships w"

lemma sampleOf_same: "sameButMetrics w v \<Longrightarrow> sampleOf env v since = sampleOf env w since"
  "sameButMetrics w v \<Longrightarrow> sampledChannels env v pp = sampledChannels env w pp"
  by (simp_all add: fun_eq_iff sampleOf_def sampledChannels_def recentIn_def sameButMetrics_def)

lemma collectFor_run:
  assumes "noFaults env"
  shows "\<exists>w' new. collectFor env v since pp w = (Inr (), w') \<and> sameButMetrics w w' \<and> w_metrics w' = w_metrics w @ new \<and>
    list_all2 (sampleOf env w since) (if sampledChannels env w pp = [] then [] else [pp]) new"
proof (cases "sampledChannels env w pp = []")
  case True
  then show ?thesis using assms
    by (simp add: collectFor_def listAllForPp_def sampledChannels_def run_simps Let_def sameButMetrics_def)
next
  case False
  let ?chs = "deriveActiveChannelContractIds env
    (sort_key createdAt (filter (\<lambda>r. cm_ppPublicKey r = pp_publicKey pp \<and> deletedAt r = None) (w_memberships w)))"
  obtain q s where qs: "getStatsForChannels (w_slots w) ?chs = (q, s)" by fastforce
  show ?thesis using assms False
    by (simp add: collectFor_def listAllForPp_def sampledChannels_def run_simps Let_def sameButMetrics_def qs
        findByStatusUpdatedSinceForChannels_def metrics_insert_def dbExec_def sampleOf_def recentIn_def)
qed

lemma collectAll_run:
  assumes "noFaults env"
  shows "\<exists>w' new. forM pps (collectFor env v since) w = (Inr (), w') \<and> sameButMetrics w w' \<and> w_metrics w' = w_metrics w @ new \<and>
    list_all2 (sampleOf env w since) (filter (\<lambda>pp. sampledChannels env w pp \<noteq> []) pps) new"
proof (induction pps arbitrary: w)
  case Nil
  show ?case by (simp add: sameButMetrics_def)
next
  case (Cons pp pps)
  obtain w1 new1 where one: "collectFor env v since pp w = (Inr (), w1)" "sameButMetrics w w1" "w_metrics w1 = w_metrics w @ new1"
    "list_all2 (sampleOf env w since) (if sampledChannels env w pp = [] then [] else [pp]) new1"
    using collectFor_run [OF assms] by blast
  from Cons.IH [of w1] obtain w2 new2 where two: "forM pps (collectFor env v since) w1 = (Inr (), w2)" "sameButMetrics w1 w2"
    "w_metrics w2 = w_metrics w1 @ new2"
    "list_all2 (sampleOf env w since) (filter (\<lambda>pp. sampledChannels env w pp \<noteq> []) pps) new2"
    by (auto simp: sampleOf_same [OF one(2)])
  have "list_all2 (sampleOf env w since) (filter (\<lambda>pp. sampledChannels env w pp \<noteq> []) (pp # pps)) (new1 @ new2)"
    using list_all2_appendI [OF one(4) two(4)] by (simp split: if_splits)
  with one two show ?case by (intro exI [of _ w2] exI [of _ "new1 @ new2"]) (auto simp: run_simps sameButMetrics_def)
qed

lemma collect_run:
  assumes "noFaults env"
  shows "\<exists>new t. w_metrics (snd (collect env v w)) =
      filter (\<lambda>r. clock env t - 7 * 24 * 60 * 60 * 1000 \<le> mm_recordedAt r) (w_metrics w @ new) \<and>
    list_all2 (sampleOf env w (clock env (w_tick w) - 60000))
      (filter (\<lambda>pp. sampledChannels env w pp \<noteq> []) (filter pp_isActive (w_pps w))) new"
proof -
  let ?since = "clock env (w_tick w) - COLLECTION_INTERVAL_MS"
  have same: "sameButMetrics w (advance w)" by (simp add: sameButMetrics_def)
  obtain w' new where run: "forM (filter pp_isActive (w_pps w)) (collectFor env v ?since) (advance w) = (Inr (), w')"
    "w_metrics w' = w_metrics w @ new"
    "list_all2 (sampleOf env w ?since) (filter (\<lambda>pp. sampledChannels env w pp \<noteq> []) (filter pp_isActive (w_pps w))) new"
    using collectAll_run [OF assms, of "filter pp_isActive (w_pps w)" v ?since "advance w"]
    by (auto simp: sampleOf_same [OF same])
  have "w_metrics (snd (collect env v w)) =
      filter (\<lambda>r. clock env (w_tick w') - 7 * 24 * 60 * 60 * 1000 \<le> mm_recordedAt r) (w_metrics w @ new)"
    using assms run(1,2) by (simp add: collect_def listActive_def run_simps deleteOlderThan_def dbExec_def RETENTION_DAYS_def not_less)
  with run(3) show ?thesis unfolding COLLECTION_INTERVAL_MS_def by blast
qed


section \<open>The range of a query\<close>

text \<open>The range of a metrics query lies between one minute and the seven days of retention; a decimal number of
  minutes is taken as it is, up to that bound, and zero, fractions and text are refused.\<close>

theorem metrics_range_is_bounded:
  shows "parseRangeMin raw = Some n \<Longrightarrow> 1 \<le> n \<and> n \<le> 10080"
    and "0 < k \<Longrightarrow> parseRangeMin (Some (natToString k)) = Some (min (int k) 10080)"
proof -
  show "1 \<le> n \<and> n \<le> 10080" if "parseRangeMin raw = Some n"
  proof (cases raw)
    case None
    with that show ?thesis by (simp add: parseRangeMin_def DEFAULT_RANGE_MIN_def)
  next
    case (Some t)
    with that obtain x where x: "isInteger (Finite x)" "0 < x" "n = min \<lfloor>x\<rfloor> MAX_RANGE_MIN"
      by (auto simp: parseRangeMin_def Let_def split: number.splits if_splits)
    obtain a b where ab: "quotient_of x = (a, b)" by fastforce
    with x(1) have "x = of_int a" by (simp add: isInteger_def quotient_of_div [OF ab])
    with x show ?thesis by (simp add: MAX_RANGE_MIN_def)
  qed
  show "parseRangeMin (Some (natToString k)) = Some (min (int k) 10080)" if "0 < k"
  proof -
    have "isInteger (Finite (of_nat k))"
      by (simp add: isInteger_def)
    then show ?thesis using that
      by (simp add: parseRangeMin_def toNumberText_natToString Let_def MAX_RANGE_MIN_def)
  qed
qed

section \<open>Examples\<close>

lemma percentile_is_nearest_rank_witness:
  "percentile [30, 10, 20] (95 / 100) \<in> {30, 10, 20} \<and>
   (of_nat (length (filter (\<lambda>v. v < percentile [30, 10, 20] (95 / 100)) [30, 10, 20])) :: rat) < 3 * (95 / 100)"
  using percentile_is_nearest_rank(1,3) [of "[30, 10, 20]" "95 / 100"] by simp

lemma sampled0: "w_memberships w = w_memberships world0 \<Longrightarrow> pp_publicKey pp = ''P1'' \<Longrightarrow> sampledChannels env0 w pp = [''C1'']"
  by (simp add: sampledChannels_def deriveActiveChannelContractIds_def configChannelIds_def orEmpty_def fixture_defs)


lemma metrics_range_is_bounded_witness:
  "parseRangeMin (Some ''90'') = Some 90 \<and> parseRangeMin (Some ''1.5'') = None"
proof -
  have "''90'' = natToString 90" by code_simp
  then have "parseRangeMin (Some ''90'') = Some 90" using metrics_range_is_bounded(2) [of 90] by simp
  moreover have "parseRangeMin (Some ''1.5'') = None" by code_simp
  ultimately show ?thesis by blast
qed

text \<open>The samples of a provider count every bundle on its channels, also those of other providers there: a
  provider with no bundle of its own is credited with one completed by another.\<close>

theorem samples_count_foreign_bundles:
  "\<exists>r\<in>set (w_metrics (snd (collect env0 ''1.0''
      (world0\<lparr>w_bundles := [(row0 ''b9'' B_COMPLETED)\<lparr>ob_ppPublicKey := Some ''P2''\<rparr>]\<rparr>)))).
    mm_ppPublicKey r = Some ''P1'' \<and> mm_bundlesCompleted r = 1"
proof -
  let ?w = "world0\<lparr>w_bundles := [(row0 ''b9'' B_COMPLETED)\<lparr>ob_ppPublicKey := Some ''P2''\<rparr>]\<rparr>"
  have "recentIn ?w B_COMPLETED (- 59000) [''C1''] = 1" by (simp add: recentIn_def)
  with collect_run [OF noFaults_env0, of "''1.0''" ?w] show ?thesis
    by (auto simp: sampled0 list_all2_Cons1 sampleOf_def fixture_defs)
qed

end
