(* ===== verification/Admission.thy ===== *)
theory Admission
  imports Channels
begin

text \<open>
  Admission of a bundle, \<^verbatim>\<open>core/service/bundle/add-bundle.process.ts\<close>: every check in the order of the
  source, the persistence of the bundle and its UTXOs, and the hand-over to the mempool.

  In the source the resubmission branch receives from \<^verbatim>\<open>BaseRepository.update\<close> an array in place of
  a row: its \<^verbatim>\<open>id\<close>, \<^verbatim>\<open>ttl\<close> and \<^verbatim>\<open>createdAt\<close> are \<^verbatim>\<open>undefined\<close>.  \<open>BundleEntity\<close> keeps the two
  cases apart.
\<close>

section \<open>Checks\<close>

definition validateSession :: "env \<Rightarrow> string \<Rightarrow> Session action" where
  "validateSession env sessionId =
    andThen (sessions_findById env sessionId) (\<lambda>userSession.
    case userSession of
      None \<Rightarrow> throw (INVALID_SESSION sessionId)
    | Some s \<Rightarrow> ret s)"

definition assertBundleIsExpired :: "env \<Rightarrow> string \<Rightarrow> bool action" where
  "assertBundleIsExpired env bundleId =
    andThen (bundles_findById env bundleId) (\<lambda>existingBundle.
    case existingBundle of
      None \<Rightarrow> ret False
    | Some b \<Rightarrow>
        if ob_status b \<noteq> B_EXPIRED \<and> ob_status b \<noteq> B_FAILED
        then throw (BUNDLE_ALREADY_EXISTS bundleId)
        else ret True)"

definition parseOperations :: "env \<Rightarrow> string list \<Rightarrow> MoonlightOperation list action" where
  "parseOperations env operationsMLXDR =
    mapM (\<lambda>xdr. liftSum (fromMLXDR env xdr)) operationsMLXDR"

fun validateSpendFrom :: "nat \<Rightarrow> SpendOperation list \<Rightarrow> unit action" where
  "validateSpendFrom i [] = ret ()"
| "validateSpendFrom i (operation # operations) =
    (if \<not> so_signedByUTXO operation then throw (SPEND_OPERATION_NOT_SIGNED i)
     else validateSpendFrom (Suc i) operations)"

definition validateSpendOperations :: "SpendOperation list \<Rightarrow> unit action" where
  "validateSpendOperations operations = validateSpendFrom 0 operations"

definition recordRejectedSubmitter :: "env \<Rightarrow> string \<Rightarrow> string \<Rightarrow> string \<Rightarrow> unit action" where
  "recordRejectedSubmitter env newId ppPublicKey accountPubkey =
    tryCatch (recordInteraction env newId ppPublicKey accountPubkey) (\<lambda>_. ret ())"

section \<open>Persistence\<close>

definition persistCreateOperations ::
    "env \<Rightarrow> CreateOperation list \<Rightarrow> string option \<Rightarrow> string \<Rightarrow> unit action" where
  "persistCreateOperations env operations bundleId accountId =
    forM operations (\<lambda>operation.
      andThen (utxos_findById env (co_utxo operation)) (\<lambda>utxo.
      case utxo of
        Some _ \<Rightarrow> ret ()
      | None \<Rightarrow>
         andThen (dateNow env) (\<lambda>now.
         andThen (utxos_create env
           \<lparr>createdAt = now, updatedAt = now, createdBy = Some accountId, updatedBy = None,
            deletedAt = None, u_id = co_utxo operation, u_amount = co_amount operation,
            u_accountId = accountId, u_spentByAccountId = None, u_createdAtBundleId = bundleId,
            u_spentAtBundleId = None\<rparr>) (\<lambda>_. ret ()))))"

text \<open>\<^verbatim>\<open>balances[i] || BigInt(0)\<close>: a missing balance counts as zero.  A column whose new value is
  \<^verbatim>\<open>undefined\<close> is left as it is.\<close>

fun spendLoop ::
    "env \<Rightarrow> SpendOperation list \<Rightarrow> int list \<Rightarrow> string option \<Rightarrow> string \<Rightarrow> unit action" where
  "spendLoop env [] balances bundleId accountId = ret ()"
| "spendLoop env (operation # operations) balances bundleId accountId =
    andThen (utxos_findById env (so_utxo operation)) (\<lambda>utxo.
    case utxo of
      None \<Rightarrow> throw (UTXO_NOT_FOUND (so_utxo operation))
    | Some u \<Rightarrow>
       (let spendAmount = (case balances of [] \<Rightarrow> 0 | b # _ \<Rightarrow> b) in
        andThen (utxos_update env (u_id u) (\<lambda>r. r\<lparr>
            u_amount := u_amount u - spendAmount, updatedBy := Some accountId,
            u_spentAtBundleId := (case bundleId of None \<Rightarrow> u_spentAtBundleId r | Some i \<Rightarrow> Some i),
            u_spentByAccountId := Some accountId\<rparr>)) (\<lambda>_.
        spendLoop env operations (drop 1 balances) bundleId accountId)))"

definition persistSpendOperations ::
    "env \<Rightarrow> SpendOperation list \<Rightarrow> string option \<Rightarrow> string \<Rightarrow> PrivacyChannel \<Rightarrow> string \<Rightarrow> unit action" where
  "persistSpendOperations env operations bundleId accountId channelClient channelContractId =
    (if operations = [] then ret ()
     else
      andThen (rpcUnavailable channelContractId (withTimeout env ''fetchUtxoBalances''
        (external (\<lambda>n. fetchUtxoBalances (rpcUtxoBalances env n channelClient) (map so_utxo operations)))))
        (\<lambda>balances. spendLoop env operations balances bundleId accountId))"

section \<open>The slot bundle\<close>

datatype BundleEntity =
    CreatedRow OperationsBundle
  | UpdatedRows "OperationsBundle list"

definition entityId :: "BundleEntity \<Rightarrow> string option" where
  "entityId e = (case e of CreatedRow r \<Rightarrow> Some (ob_id r) | UpdatedRows _ \<Rightarrow> None)"

text \<open>On an array \<^verbatim>\<open>bundle.ttl.getTime()\<close> is a call on \<^verbatim>\<open>undefined\<close>.\<close>

definition createSlotBundle ::
    "env \<Rightarrow> BundleEntity \<Rightarrow> ClassifiedOperations \<Rightarrow> string option \<Rightarrow> string list \<Rightarrow> SlotBundle action" where
  "createSlotBundle env bundleEntity classified entityName jurisdictions =
    (case bundleEntity of
       UpdatedRows _ \<Rightarrow> throw TypeError
     | CreatedRow bundle \<Rightarrow>
        andThen (dateNow env) (\<lambda>now.
        ret (slotBundleOf env bundle classified now entityName jurisdictions)))"

section \<open>The process\<close>

record AddBundleInput =
  ai_operationsMLXDR :: "string list"
  ai_channelContractId :: string
  ai_sessionId :: string
  ai_ppPublicKey :: "string option"
  ai_uuid :: string

definition rejectSubmitter :: "env \<Rightarrow> AddBundleInput \<Rightarrow> string \<Rightarrow> string \<Rightarrow> 'a action" where
  "rejectSubmitter env input ppPublicKey accountId =
    andThen (recordRejectedSubmitter env (ai_uuid input) ppPublicKey accountId) (\<lambda>_.
    throw (SUBMITTER_NOT_APPROVED accountId))"

text \<open>The entity-approval gate: the account of the session, approved for this provider.\<close>

definition approvedSubmitter :: "env \<Rightarrow> AddBundleInput \<Rightarrow> string \<Rightarrow> string \<Rightarrow> Account action" where
  "approvedSubmitter env input ppPublicKey accountId =
    andThen (accounts_findById env accountId) (\<lambda>submitterAccount.
    case submitterAccount of
      None \<Rightarrow> rejectSubmitter env input ppPublicKey accountId
    | Some account \<Rightarrow>
        andThen (findByPpAndAccount env ppPublicKey (a_id account)) (\<lambda>approval.
        case approval of
          None \<Rightarrow> rejectSubmitter env input ppPublicKey accountId
        | Some a \<Rightarrow>
            if pa_status a \<noteq> E_APPROVED then rejectSubmitter env input ppPublicKey accountId
            else ret account))"

definition persistBundle ::
    "env \<Rightarrow> bool \<Rightarrow> string \<Rightarrow> AddBundleInput \<Rightarrow> string \<Rightarrow> int \<Rightarrow> int \<Rightarrow> string \<Rightarrow> BundleEntity action" where
  "persistBundle env isExpired bundleId input ppPublicKey fee ttl accountId =
    (if isExpired
     then andThen (bundles_update env bundleId (\<lambda>r. r\<lparr>
              ob_status := B_PENDING, ob_channelContractId := Some (ai_channelContractId input),
              ob_operationsMLXDR := ai_operationsMLXDR input, ob_fee := fee, ob_ttl := ttl,
              ob_retryCount := 0, ob_ppPublicKey := Some ppPublicKey,
              updatedBy := Some accountId\<rparr>)) (\<lambda>rows. ret (UpdatedRows rows))
     else andThen (dateNow env) (\<lambda>now.
          andThen (bundles_create env
            \<lparr>createdAt = now, updatedAt = now, createdBy = Some accountId, updatedBy = None,
             deletedAt = None, ob_id = bundleId, ob_status = B_PENDING,
             ob_channelContractId = Some (ai_channelContractId input), ob_ttl = ttl,
             ob_operationsMLXDR = ai_operationsMLXDR input, ob_fee = fee, ob_retryCount = 0,
             ob_lastFailureReason = None, ob_failureDetail = None,
             ob_ppPublicKey = Some ppPublicKey\<rparr>) (\<lambda>row. ret (CreatedRow row))))"

text \<open>Admission is split where the source has its \<^verbatim>\<open>persisting\<close> comment: everything before writes
  nothing but the record of a rejected submitter.\<close>

record Admitted =
  ad_accountId :: string
  ad_ppPublicKey :: string
  ad_bundleId :: string
  ad_isExpired :: bool
  ad_classified :: ClassifiedOperations
  ad_channelClient :: PrivacyChannel
  ad_entityName :: "string option"
  ad_jurisdictions :: "string list"
  ad_fee :: int
  ad_ttl :: int

definition admissionChecks :: "env \<Rightarrow> AddBundleInput \<Rightarrow> Admitted action" where
  "admissionChecks env input =
    (let operationsMLXDR = ai_operationsMLXDR input; channelContractId = ai_channelContractId input in
      andThen (assertM (TOO_MANY_OPERATIONS (length operationsMLXDR) (BUNDLE_MAX_OPERATIONS env))
                 (\<not> length operationsMLXDR > BUNDLE_MAX_OPERATIONS env)) (\<lambda>_.
      let ppPublicKey = orEmpty (ai_ppPublicKey input) in
      andThen (assertM PP_PUBLIC_KEY_REQUIRED (ppPublicKey \<noteq> [])) (\<lambda>_.
      andThen (rpcUnavailable channelContractId (withTimeout env ''resolveChannelContext''
        (resolveChannelContext env channelContractId ppPublicKey))) (\<lambda>channelCtx.
      let channelClient = cx_channelClient channelCtx in
      andThen (validateSession env (ai_sessionId input)) (\<lambda>userSession.
      let accountId = s_accountId userSession in
      andThen (approvedSubmitter env input ppPublicKey accountId) (\<lambda>submitterAccount.
      andThen (entities_findById env (a_entityId submitterAccount)) (\<lambda>submitterEntity.
      let bundleId = generateBundleId (subtle env) operationsMLXDR in
      andThen (assertBundleIsExpired env bundleId) (\<lambda>isExpired.
      andThen (parseOperations env operationsMLXDR) (\<lambda>operations.
      let classified = classifyOperations operations in
      andThen (validateSpendOperations (cl_spend classified)) (\<lambda>_.
      andThen (gets (\<lambda>w. channelDisabled w channelContractId)) (\<lambda>disabled.
      andThen (assertM (CHANNEL_DISABLED channelContractId)
                 (\<not> (disabled \<and> \<not> isWithdrawOnlyBundle classified))) (\<lambda>_.
      andThen (rpcUnavailable channelContractId (withTimeout env ''calculateOperationAmounts''
        (external (\<lambda>n. calculateOperationAmounts (rpcUtxoBalances env n channelClient) classified))))
        (\<lambda>amounts.
      let feeCalculation = calculateFee amounts in
      andThen (assertM (INSUFFICIENT_BALANCE
                          (fc_fee feeCalculation + fc_totalOutflows feeCalculation)
                          (fc_totalOutflows feeCalculation))
                 (\<not> fc_fee feeCalculation < 1)) (\<lambda>_.
      andThen (rpcUnavailable channelContractId (withTimeout env ''getLatestLedger''
        (external (rpcLatestLedger env)))) (\<lambda>latestLedger.
      andThen (dateNow env) (\<lambda>now.
      ret \<lparr>ad_accountId = accountId, ad_ppPublicKey = ppPublicKey, ad_bundleId = bundleId,
           ad_isExpired = isExpired, ad_classified = classified, ad_channelClient = channelClient,
           ad_entityName = Option.bind submitterEntity e_name,
           ad_jurisdictions = orElse (Option.bind submitterEntity e_jurisdictions) [],
           ad_fee = fc_fee feeCalculation,
           ad_ttl = calculateBundleTtl now (Some classified) (Some latestLedger)\<rparr>))))))))))))))))"

definition admit :: "env \<Rightarrow> AddBundleInput \<Rightarrow> Admitted \<Rightarrow> string option action" where
  "admit env input ad =
    andThen (persistBundle env (ad_isExpired ad) (ad_bundleId ad) input (ad_ppPublicKey ad)
               (ad_fee ad) (ad_ttl ad) (ad_accountId ad)) (\<lambda>bundleEntity.
    andThen (persistCreateOperations env (cl_create (ad_classified ad)) (entityId bundleEntity)
               (ad_accountId ad)) (\<lambda>_.
    andThen (persistSpendOperations env (cl_spend (ad_classified ad)) (entityId bundleEntity)
               (ad_accountId ad) (ad_channelClient ad) (ai_channelContractId input)) (\<lambda>_.
    andThen (createSlotBundle env bundleEntity (ad_classified ad) (ad_entityName ad)
               (ad_jurisdictions ad)) (\<lambda>slotBundle.
    andThen (addBundle env slotBundle) (\<lambda>_.
    ret (entityId bundleEntity))))))"

definition P_AddOperationsBundle :: "env \<Rightarrow> AddBundleInput \<Rightarrow> string option action" where
  "P_AddOperationsBundle env input = andThen (admissionChecks env input) (admit env input)"

section \<open>What the checks leave alone\<close>

definition admissionFrame :: "world \<Rightarrow> world \<Rightarrow> bool" where
  "admissionFrame w w' \<longleftrightarrow>
    w_bundles w' = w_bundles w \<and> w_transactions w' = w_transactions w \<and> w_links w' = w_links w \<and>
    w_utxos w' = w_utxos w \<and> w_sessions w' = w_sessions w \<and> w_accounts w' = w_accounts w \<and>
    w_slots w' = w_slots w \<and> w_bus w' = w_bus w \<and> w_submitted w' = w_submitted w \<and>
    w_registry w' = w_registry w"

interpretation admission_frame: gate_guarantee admissionFrame
  by unfold_locales (simp_all add: admissionFrame_def)

context gate_guarantee
begin

lemma guar_validateSession: "guar R (validateSession env i)"
  unfolding validateSession_def by (intro world_rules guar_reads)

lemma guar_assertBundleIsExpired: "guar R (assertBundleIsExpired env i)"
  unfolding assertBundleIsExpired_def by (intro world_rules guar_reads)

lemma guar_parseOperations: "guar R (parseOperations env xs)"
  unfolding parseOperations_def by (intro world_rules)

lemma guar_validateSpendFrom: "guar R (validateSpendFrom i ops)"
proof (induction ops arbitrary: i)
  case Nil
  show ?case unfolding validateSpendFrom.simps by (rule guar_ret)
next
  case (Cons op ops)
  then show ?case unfolding validateSpendFrom.simps by (intro world_rules)
qed

lemma guar_rejectSubmitter: "guar R (rejectSubmitter env inp pk acc)"
  unfolding rejectSubmitter_def recordRejectedSubmitter_def
  by (intro world_rules guar_recordInteraction)

lemma guar_approvedSubmitter: "guar R (approvedSubmitter env inp pk acc)"
  unfolding approvedSubmitter_def by (intro world_rules guar_reads guar_rejectSubmitter)

lemma guar_admissionChecks: "guar R (admissionChecks env inp)"
  unfolding admissionChecks_def validateSpendOperations_def
  by (intro world_rules guar_reads channel_rules guar_validateSession guar_approvedSubmitter
      guar_assertBundleIsExpired guar_parseOperations guar_validateSpendFrom)

end

section \<open>What the checks establish\<close>

lemma validateSpendFrom_Inr:
  "validateSpendFrom i ops w = (Inr (), w') \<Longrightarrow> \<forall>op\<in>set ops. so_signedByUTXO op"
  by (induction ops arbitrary: i) (auto split: if_splits)

lemma validateSession_Inr:
  assumes "validateSession env i w = (Inr s, w')"
  shows "find (\<lambda>r. s_id r = i \<and> deletedAt r = None) (w_sessions w) = Some s"
  using assms
  by (auto simp: validateSession_def sessions_findById_def base_findById_def dbQuery_apply
      andThen_apply split: if_splits option.splits)

lemma rejectSubmitter_Inl: "rejectSubmitter env inp pk acc w \<noteq> (Inr x, w')"
  by (auto simp: rejectSubmitter_def andThen_apply split: prod.splits sum.splits)

definition approvedFor :: "world \<Rightarrow> string \<Rightarrow> string \<Rightarrow> bool" where
  "approvedFor w pk acc \<longleftrightarrow> (\<exists>a\<in>set (w_approvals w).
    pa_ppPublicKey a = pk \<and> pa_accountPubkey a = acc \<and> deletedAt a = None \<and> pa_status a = E_APPROVED)"

lemma approvedSubmitter_Inr:
  assumes "approvedSubmitter env inp pk acc w = (Inr account, w')"
  shows "approvedFor w pk acc"
proof -
  from assms obtain a u where acct: "accounts_findById env acc w = (Inr (Some a), u)"
    unfolding approvedSubmitter_def
    by (auto elim!: andThen_InrE split: option.splits simp: rejectSubmitter_Inl)
  then have a: "u = advance w" "a_id a = acc"
    by (auto simp: accounts_findById_def base_findById_def dbQuery_apply find_Some_iff split: if_splits)
  from assms acct obtain p v where p: "findByPpAndAccount env pk (a_id a) u = (Inr (Some p), v)"
      "pa_status p = E_APPROVED"
    unfolding approvedSubmitter_def
    by (auto elim!: andThen_InrE split: option.splits if_splits simp: rejectSubmitter_Inl)
  then have "find (\<lambda>r. pa_ppPublicKey r = pk \<and> pa_accountPubkey r = acc \<and> deletedAt r = None)
      (w_approvals w) = Some p"
    using a by (auto simp: findByPpAndAccount_def dbQuery_apply split: if_splits)
  with p(2) show ?thesis unfolding approvedFor_def by (metis (mono_tags, lifting) find_Some_iff nth_mem)
qed

definition liveBundle :: "world \<Rightarrow> string \<Rightarrow> OperationsBundle option" where
  "liveBundle w i = find (\<lambda>r. ob_id r = i \<and> deletedAt r = None) (w_bundles w)"

lemma assertBundleIsExpired_Inr:
  assumes "assertBundleIsExpired env i w = (Inr x, w')"
  shows "x \<longleftrightarrow> liveBundle w i \<noteq> None"
    and "liveBundle w i = Some r \<Longrightarrow> ob_status r \<in> {B_EXPIRED, B_FAILED}"
  using assms
  by (auto simp: assertBundleIsExpired_def bundles_findById_def base_findById_def dbQuery_apply
      liveBundle_def andThen_apply split: if_splits option.splits)

lemma approvedFor_frame: "w_approvals w' = w_approvals w \<Longrightarrow> approvedFor w' pk acc = approvedFor w pk acc"
  by (simp add: approvedFor_def)

text \<open>The steps before the approval gate do not touch the approvals.\<close>

definition approvalsKept :: "world \<Rightarrow> world \<Rightarrow> bool" where
  "approvalsKept w w' \<longleftrightarrow> w_approvals w' = w_approvals w"

interpretation approvals_kept: cache_guarantee approvalsKept
  by unfold_locales (simp_all add: approvalsKept_def)

lemma guar_ak_validateSession: "guar approvalsKept (validateSession env i)"
  unfolding validateSession_def by (intro approvals_kept.world_rules approvals_kept.guar_reads)

lemma calculateFee_ge: "fc_fee (calculateFee a) = (if totalDepositAmount a \<le> 0
    then totalSpendAmount a else totalDepositAmount a) - (totalCreateAmount a + totalWithdrawAmount a)"
  by (simp add: calculateFee_def Let_def)

lemma admissionChecks_Inr:
  assumes "admissionChecks env inp w = (Inr ad, w')"
  shows "length (ai_operationsMLXDR inp) \<le> BUNDLE_MAX_OPERATIONS env"
    and "ai_ppPublicKey inp = Some (ad_ppPublicKey ad)"
    and "approvedFor w (ad_ppPublicKey ad) (ad_accountId ad)"
    and "\<exists>s\<in>set (w_sessions w). s_id s = ai_sessionId inp \<and> s_accountId s = ad_accountId ad \<and> deletedAt s = None"
    and "ad_bundleId ad = generateBundleId (subtle env) (ai_operationsMLXDR inp)"
    and "ad_isExpired ad \<longleftrightarrow> liveBundle w (ad_bundleId ad) \<noteq> None"
    and "\<And>r. liveBundle w (ad_bundleId ad) = Some r \<Longrightarrow> ob_status r \<in> {B_EXPIRED, B_FAILED}"
    and "\<forall>op\<in>set (cl_spend (ad_classified ad)). so_signedByUTXO op"
    and "channelDisabled w (ai_channelContractId inp) \<Longrightarrow> isWithdrawOnlyBundle (ad_classified ad)"
    and "1 \<le> ad_fee ad"
    and "\<exists>n. ad_ttl ad \<le> clock env n + DEFAULT_BUNDLE_TTL_MS"
proof -
  let ?ch = "ai_channelContractId inp" and ?pk = "orEmpty (ai_ppPublicKey inp)"
  obtain u1 v1 u2 v2 cx w1 s w2 acct w3 ent w4 ex w5 ops w6 u7 w7 disabled v7 u8 v8 am v9 u10 v10 lat v11 now v12 where
    a1: "assertM (TOO_MANY_OPERATIONS (length (ai_operationsMLXDR inp)) (BUNDLE_MAX_OPERATIONS env))
      (\<not> length (ai_operationsMLXDR inp) > BUNDLE_MAX_OPERATIONS env) w = (Inr u1, v1)"
    and a2: "assertM PP_PUBLIC_KEY_REQUIRED (?pk \<noteq> []) v1 = (Inr u2, v2)"
    and m1: "rpcUnavailable ?ch (withTimeout env ''resolveChannelContext''
      (resolveChannelContext env ?ch ?pk)) v2 = (Inr cx, w1)"
    and m2: "validateSession env (ai_sessionId inp) w1 = (Inr s, w2)"
    and m3: "approvedSubmitter env inp ?pk (s_accountId s) w2 = (Inr acct, w3)"
    and m4: "entities_findById env (a_entityId acct) w3 = (Inr ent, w4)"
    and m5: "assertBundleIsExpired env (generateBundleId (subtle env) (ai_operationsMLXDR inp)) w4 = (Inr ex, w5)"
    and m6: "parseOperations env (ai_operationsMLXDR inp) w5 = (Inr ops, w6)"
    and m7: "validateSpendOperations (cl_spend (classifyOperations ops)) w6 = (Inr u7, w7)"
    and m7': "gets (\<lambda>w. channelDisabled w ?ch) w7 = (Inr disabled :: exn + bool, v7)"
    and a3: "assertM (CHANNEL_DISABLED ?ch) (\<not> (disabled \<and>
      \<not> isWithdrawOnlyBundle (classifyOperations ops))) v7 = (Inr u8, v8)"
    and m8: "rpcUnavailable ?ch (withTimeout env ''calculateOperationAmounts''
      (external (\<lambda>n. calculateOperationAmounts (rpcUtxoBalances env n (cx_channelClient cx))
        (classifyOperations ops)))) v8 = (Inr am, v9)"
    and a4: "assertM (INSUFFICIENT_BALANCE
      (fc_fee (calculateFee am) + fc_totalOutflows (calculateFee am))
      (fc_totalOutflows (calculateFee am))) (\<not> fc_fee (calculateFee am) < 1) v9 = (Inr u10, v10)"
    and m9: "rpcUnavailable ?ch (withTimeout env ''getLatestLedger''
      (external (rpcLatestLedger env))) v10 = (Inr lat, v11)"
    and m10: "dateNow env v11 = (Inr now, v12)"
    and m11: "ret \<lparr>ad_accountId = s_accountId s, ad_ppPublicKey = ?pk,
      ad_bundleId = generateBundleId (subtle env) (ai_operationsMLXDR inp), ad_isExpired = ex,
      ad_classified = classifyOperations ops, ad_channelClient = cx_channelClient cx,
      ad_entityName = Option.bind ent e_name,
      ad_jurisdictions = orElse (Option.bind ent e_jurisdictions) [],
      ad_fee = fc_fee (calculateFee am),
      ad_ttl = calculateBundleTtl now (Some (classifyOperations ops)) (Some lat)\<rparr> v12 = (Inr ad :: exn + Admitted, w')"
    using assms unfolding admissionChecks_def Let_def
    by (elim andThen_InrE) (rule that)
  have len: "length (ai_operationsMLXDR inp) \<le> BUNDLE_MAX_OPERATIONS env" and pk: "?pk \<noteq> []"
    and v: "v1 = w" "v2 = w"
    using a1 a2 by (auto simp: assertM_Inr)
  have dis: "disabled \<longrightarrow> isWithdrawOnlyBundle (classifyOperations ops)"
    and fee: "1 \<le> fc_fee (calculateFee am)"
    using a3 a4 by (auto simp: assertM_Inr)
  note m1 = m1 [unfolded v] and ad = m11 [unfolded ret_apply prod.inject sum.inject, THEN conjunct1, symmetric]
  have "now = clock env (w_tick v11)" using m10 by auto
  have "ai_ppPublicKey inp = Some ?pk" using pk by (cases "ai_ppPublicKey inp") (auto simp: orEmpty_def)
  have f1: "admissionFrame w w1"
    using m1 by (rule guarD [rotated]) (intro admission_frame.channel_rules)
  have f2: "admissionFrame w1 w2" by (rule guarD [OF admission_frame.guar_validateSession m2])
  have f3: "admissionFrame w2 w3" by (rule guarD [OF admission_frame.guar_approvedSubmitter m3])
  have f4: "admissionFrame w3 w4" by (rule guarD [OF admission_frame.guar_reads(14) m4])
  have f5: "admissionFrame w4 w5" by (rule guarD [OF admission_frame.guar_assertBundleIsExpired m5])
  have f6: "admissionFrame w5 w6" by (rule guarD [OF admission_frame.guar_parseOperations m6])
  have f7: "admissionFrame w6 w7"
    using m7 unfolding validateSpendOperations_def by (rule guarD [OF admission_frame.guar_validateSpendFrom])
  have "w_registry w7 = w_registry w" using f1 f2 f3 f4 f5 f6 f7 by (simp add: admissionFrame_def)
  then have disabled: "disabled = channelDisabled w ?ch" using m7' by (simp add: channelDisabled_def)
  have k1: "approvalsKept w w1"
    using m1 by (rule guarD [rotated]) (intro approvals_kept.channel_rules)
  have k2: "approvalsKept w1 w2" by (rule guarD [OF guar_ak_validateSession m2])
  show "length (ai_operationsMLXDR inp) \<le> BUNDLE_MAX_OPERATIONS env" by (rule len)
  show "ai_ppPublicKey inp = Some (ad_ppPublicKey ad)" using \<open>ai_ppPublicKey inp = Some ?pk\<close> ad by simp
  have "w_approvals w2 = w_approvals w" using k1 k2 by (simp add: approvalsKept_def)
  from approvedFor_frame [OF this, of ?pk "s_accountId s"]
  show "approvedFor w (ad_ppPublicKey ad) (ad_accountId ad)"
    using approvedSubmitter_Inr [OF m3] ad by simp
  have "find (\<lambda>r. s_id r = ai_sessionId inp \<and> deletedAt r = None) (w_sessions w) = Some s"
    using validateSession_Inr [OF m2] f1 by (simp add: admissionFrame_def)
  then have "s \<in> set (w_sessions w) \<and> s_id s = ai_sessionId inp \<and> deletedAt s = None"
    by (auto simp: find_Some_iff)
  then show "\<exists>s\<in>set (w_sessions w). s_id s = ai_sessionId inp \<and> s_accountId s = ad_accountId ad \<and>
      deletedAt s = None"
    using ad by auto
  show "ad_bundleId ad = generateBundleId (subtle env) (ai_operationsMLXDR inp)" using ad by simp
  have live: "liveBundle w4 i = liveBundle w i" for i
    using f1 f2 f3 f4 by (simp add: admissionFrame_def liveBundle_def)
  show "ad_isExpired ad \<longleftrightarrow> liveBundle w (ad_bundleId ad) \<noteq> None"
    using assertBundleIsExpired_Inr(1) [OF m5] live ad by simp
  show "ob_status r \<in> {B_EXPIRED, B_FAILED}" if "liveBundle w (ad_bundleId ad) = Some r" for r
    using assertBundleIsExpired_Inr(2) [OF m5] live ad that by simp
  show "\<forall>op\<in>set (cl_spend (ad_classified ad)). so_signedByUTXO op"
    using m7 ad by (auto simp: validateSpendOperations_def dest: validateSpendFrom_Inr)
  show "channelDisabled w ?ch \<Longrightarrow> isWithdrawOnlyBundle (ad_classified ad)" using dis ad disabled by simp
  show "1 \<le> ad_fee ad" using fee ad by simp
  show "\<exists>n. ad_ttl ad \<le> clock env n + DEFAULT_BUNDLE_TTL_MS"
    using calculateBundleTtl_le_default ad \<open>now = _\<close> by auto
qed

section \<open>Resubmission\<close>

text \<open>With an array in place of the row, the mempool is never reached.\<close>

lemma createSlotBundle_updated: "createSlotBundle env (UpdatedRows rs) c n js w = (Inl TypeError, w)"
  by (simp add: createSlotBundle_def)

lemma admit_resubmission:
  assumes "ad_isExpired ad"
  shows "\<exists>e w'. admit env inp ad w = (Inl e, w')"
proof (cases "admit env inp ad w")
  case (Pair r w')
  show ?thesis
  proof (cases r)
    case (Inl e)
    with Pair show ?thesis by simp
  next
    case (Inr x)
    with Pair have "admit env inp ad w = (Inr x, w')" by simp
    then obtain be v s v2 v3 where
      "persistBundle env (ad_isExpired ad) (ad_bundleId ad) inp (ad_ppPublicKey ad)
        (ad_fee ad) (ad_ttl ad) (ad_accountId ad) w = (Inr be, v)"
      and "createSlotBundle env be (ad_classified ad) (ad_entityName ad) (ad_jurisdictions ad) v2 =
        (Inr s, v3)"
      unfolding admit_def by (elim andThen_InrE) (rule that)
    moreover from this(1) assms obtain rs where "be = UpdatedRows rs"
      by (auto simp: persistBundle_def elim!: andThen_InrE)
    ultimately show ?thesis by (simp add: createSlotBundle_updated)
  qed
qed

text \<open>The row of a resubmitted bundle is left \<^verbatim>\<open>PENDING\<close>, outside the mempool.\<close>

definition utxoFrame :: "world \<Rightarrow> world \<Rightarrow> bool" where
  "utxoFrame w w' \<longleftrightarrow> w_bundles w' = w_bundles w \<and> w_slots w' = w_slots w \<and>
    w_submitted w' = w_submitted w"

interpretation utxo_frame: side_tables utxoFrame
  by unfold_locales (simp_all add: utxoFrame_def)

context side_tables
begin

lemma guar_persistCreateOperations: "guar R (persistCreateOperations env ops i acc)"
  unfolding persistCreateOperations_def by (intro world_rules repo_rules)

lemma guar_spendLoop: "guar R (spendLoop env ops bs i acc)"
proof (induction ops arbitrary: bs)
  case Nil
  show ?case unfolding spendLoop.simps by (rule guar_ret)
next
  case (Cons op ops)
  then show ?case unfolding spendLoop.simps by (intro world_rules repo_rules)
qed

lemma guar_persistSpendOperations: "guar R (persistSpendOperations env ops i acc cl ch)"
  unfolding persistSpendOperations_def by (intro world_rules channel_rules guar_spendLoop)

lemma guar_createSlotBundle: "guar R (createSlotBundle env be c n js)"
  unfolding createSlotBundle_def
  by (cases be) (simp_all add: guar_throw, intro world_rules)

lemmas admit_rules = guar_persistCreateOperations guar_persistSpendOperations guar_createSlotBundle

end

lemma admit_resubmission_frame:
  assumes "ad_isExpired ad" and "noFaults env" and "admit env inp ad w = (Inl e, w')"
  shows "w_slots w' = w_slots w \<and> w_submitted w' = w_submitted w \<and>
    statusOf w' (ad_bundleId ad) = map_option (\<lambda>_. B_PENDING) (statusOf w (ad_bundleId ad))"
proof -
  let ?i = "ad_bundleId ad"
  let ?f = "\<lambda>r. r\<lparr>ob_status := B_PENDING, ob_channelContractId := Some (ai_channelContractId inp),
    ob_operationsMLXDR := ai_operationsMLXDR inp, ob_fee := ad_fee ad, ob_ttl := ad_ttl ad,
    ob_retryCount := 0, ob_ppPublicKey := Some (ad_ppPublicKey ad),
    updatedBy := Some (ad_accountId ad)\<rparr>"
  obtain rs u where u: "bundles_update env ?i ?f w = (Inr rs, u)" "w_slots u = w_slots w"
    "\<forall>j. bundleRow u j = map_option (\<lambda>r. if ob_id r = ?i
       then (?f r)\<lparr>updatedAt := clock env (w_tick w)\<rparr> else r) (bundleRow w j)"
    using bundles_update_run [OF assms(2), of ?f ?i w] by auto
  have sub: "w_submitted u = w_submitted w"
    using guarD [OF guar_submitted_bundles(1) u(1)] by (simp add: submittedKept_def)
  have "admit env inp ad w = andThen (persistCreateOperations env (cl_create (ad_classified ad)) None
      (ad_accountId ad)) (\<lambda>_. andThen (persistSpendOperations env (cl_spend (ad_classified ad)) None
      (ad_accountId ad) (ad_channelClient ad) (ai_channelContractId inp)) (\<lambda>_. throw TypeError)) u"
    using u(1) assms(1)
    by (simp add: admit_def persistBundle_def andThen_apply entityId_def createSlotBundle_def
        split: prod.split sum.split)
  moreover have "guar utxoFrame (andThen (persistCreateOperations env (cl_create (ad_classified ad)) None
      (ad_accountId ad)) (\<lambda>_. andThen (persistSpendOperations env (cl_spend (ad_classified ad)) None
      (ad_accountId ad) (ad_channelClient ad) (ai_channelContractId inp)) (\<lambda>_. throw TypeError)))"
    by (intro utxo_frame.world_rules utxo_frame.admit_rules)
  ultimately have fr: "utxoFrame u w'" using assms(3) by (metis guarD)
  have "bundleRow w' ?i = bundleRow u ?i" using fr by (simp add: utxoFrame_def bundleRow_def)
  then have "statusOf w' ?i = map_option (\<lambda>_. B_PENDING) (statusOf w ?i)"
    using u(3) bundleRow_id [of w ?i] by (cases "bundleRow w ?i") (auto simp: statusOf_def)
  with fr u(2) sub show ?thesis by (simp add: utxoFrame_def)
qed

section \<open>Guarantees of admission\<close>

text \<open>What keeps a relation for admission, on top of the mempool's effects: the insertion and the
  reset of a bundle row.\<close>

locale admission_client = mempool_client R for R :: "world \<Rightarrow> world \<Rightarrow> bool" +
  assumes R_create: "\<And>r. ob_status r = B_PENDING \<Longrightarrow> 1 \<le> ob_fee r \<Longrightarrow> guar R (bundles_create env r)"
begin

lemma guar_persistBundle_new:
  "1 \<le> fee \<Longrightarrow> guar R (persistBundle env False i inp pk fee ttl acc)"
  unfolding persistBundle_def if_False by (intro world_rules R_create) simp_all

lemma guar_admit_new:
  assumes "\<not> ad_isExpired ad" and "1 \<le> ad_fee ad"
  shows "guar R (admit env inp ad)"
  unfolding admit_def
  using assms by (intro world_rules admit_rules guar_addBundle)
    (simp add: guar_persistBundle_new)

end

text \<open>Relations that also survive the reset of a row by a resubmission are kept by the whole process.\<close>

locale resubmission_client = admission_client R for R :: "world \<Rightarrow> world \<Rightarrow> bool" +
  assumes R_reset: "\<And>f. (\<And>r. ob_id (f r) = ob_id r \<and> 1 \<le> ob_fee (f r)) \<Longrightarrow> guar R (bundles_update env i f)"
begin

lemma guar_persistBundle: "1 \<le> fee \<Longrightarrow> guar R (persistBundle env e i inp pk fee ttl acc)"
  unfolding persistBundle_def by (intro world_rules R_create R_reset) simp_all

lemma guar_P_AddOperationsBundle: "guar R (P_AddOperationsBundle env inp)"
  unfolding P_AddOperationsBundle_def
proof (rule guar_andThen_result [OF guar_admissionChecks])
  fix w ad v
  assume "admissionChecks env inp w = (Inr ad, v)"
  then have "1 \<le> ad_fee ad" by (rule admissionChecks_Inr)
  then show "guar R (admit env inp ad)"
    unfolding admit_def by (intro world_rules admit_rules guar_addBundle guar_persistBundle)
qed

end

interpretation terminal_admission: admission_client terminalKept
  by unfold_locales (rule guar_tk_bundles_create)

interpretation mempool_admission: resubmission_client mempoolKept
  by unfold_locales (rule guar_mk_bundles)+

interpretation submitted_admission: resubmission_client submittedKept
  by unfold_locales (rule guar_submitted_bundles)+

section \<open>A fresh bundle\<close>

definition utxosLive :: "world \<Rightarrow> bool" where
  "utxosLive w \<longleftrightarrow> (\<forall>u\<in>set (w_utxos w). deletedAt u = None)"

definition utxoIds :: "world \<Rightarrow> string set" where
  "utxoIds w = u_id ` set (w_utxos w)"

lemma utxos_findById_run:
  assumes "noFaults env" and "utxosLive w"
  shows "utxos_findById env i w = (Inr (find (\<lambda>u. u_id u = i) (w_utxos w)), advance w)"
proof -
  have "find (\<lambda>r. u_id r = i \<and> deletedAt r = None) (w_utxos w) = find (\<lambda>u. u_id u = i) (w_utxos w)"
    using assms(2) unfolding utxosLive_def by (intro find_cong) auto
  with assms(1) show ?thesis by (simp add: utxos_findById_def base_findById_def dbQuery_apply)
qed

lemma advance_utxos [simp]: "utxosLive (advance w) = utxosLive w" "utxoIds (advance w) = utxoIds w"
  by (simp_all add: utxosLive_def utxoIds_def)

lemma find_id_None: "find (\<lambda>u. u_id u = i) (w_utxos w) = None \<longleftrightarrow> i \<notin> utxoIds w"
  by (auto simp: find_None_iff utxoIds_def)

lemma persistCreate_run:
  assumes "noFaults env" and "utxosLive w"
  shows "\<exists>w'. persistCreateOperations env ops i acc w = (Inr (), w') \<and> utxosLive w' \<and>
    utxoIds w' = utxoIds w \<union> co_utxo ` set ops"
  using assms(2)
proof (induction ops arbitrary: w)
  case Nil
  then show ?case by (simp add: persistCreateOperations_def)
next
  case (Cons op ops)
  note find = utxos_findById_run [OF assms(1) Cons.prems, of "co_utxo op"]
  show ?case
  proof (cases "co_utxo op \<in> utxoIds w")
    case True
    then obtain u where "find (\<lambda>u. u_id u = co_utxo op) (w_utxos w) = Some u"
      using find_id_None [of "co_utxo op" w] by auto
    with find True Cons.IH [of "advance w"] Cons.prems show ?thesis
      by (auto simp: persistCreateOperations_def andThen_apply)
  next
    case False
    then have none: "find (\<lambda>u. u_id u = co_utxo op) (w_utxos w) = None" by (simp add: find_id_None)
    define row where "row = \<lparr>createdAt = clock env (Suc (w_tick w)), updatedAt = clock env (Suc (w_tick w)),
      createdBy = Some acc, updatedBy = None, deletedAt = None, u_id = co_utxo op,
      u_amount = co_amount op, u_accountId = acc, u_spentByAccountId = None,
      u_createdAtBundleId = i, u_spentAtBundleId = None\<rparr>"
    define v where "v = advance (w_utxos_update (\<lambda>rs. rs @ [row]) (advance w))"
    have "\<not> list_ex (\<lambda>r. u_id r = u_id row) (w_utxos w)"
      using False by (force simp: list_ex_iff utxoIds_def row_def)
    then have create: "utxos_create env row (advance w) = (Inr row, v)"
      using assms(1) by (simp add: utxos_create_def base_create_def dbExec_def v_def)
    have v: "utxosLive v" "utxoIds v = insert (co_utxo op) (utxoIds w)"
      using Cons.prems by (auto simp: v_def utxosLive_def utxoIds_def row_def)
    have "persistCreateOperations env (op # ops) i acc w = persistCreateOperations env ops i acc v"
      using find none create by (simp add: persistCreateOperations_def andThen_apply row_def)
    with Cons.IH [OF v(1)] v(2) show ?thesis by auto
  qed
qed

lemma spendLoop_run:
  assumes "noFaults env" and "utxosLive w" and "so_utxo ` set ops \<subseteq> utxoIds w"
  shows "\<exists>w'. spendLoop env ops bs i acc w = (Inr (), w')"
  using assms(2,3)
proof (induction ops arbitrary: w bs)
  case Nil
  then show ?case by simp
next
  case (Cons op ops)
  note find = utxos_findById_run [OF assms(1) Cons.prems(1), of "so_utxo op"]
  obtain u where u: "find (\<lambda>u. u_id u = so_utxo op) (w_utxos w) = Some u"
    using find_id_None [of "so_utxo op" w] Cons.prems(2) by auto
  let ?f = "\<lambda>r. r\<lparr>u_amount := u_amount u - (case bs of [] \<Rightarrow> 0 | b # _ \<Rightarrow> b), updatedBy := Some acc,
    u_spentAtBundleId := (case i of None \<Rightarrow> u_spentAtBundleId r | Some i \<Rightarrow> Some i),
    u_spentByAccountId := Some acc\<rparr>"
  obtain rs v where upd: "utxos_update env (u_id u) ?f (advance w) = (Inr rs, v)"
    and rows: "w_utxos v = map (\<lambda>r. if u_id r = u_id u
      then (?f r)\<lparr>updatedAt := clock env (Suc (w_tick w))\<rparr> else r) (w_utxos w)"
    using assms(1) by (simp add: utxos_update_def base_update_def dbExec_def)
  have "utxosLive v" using Cons.prems(1) by (auto simp: utxosLive_def rows)
  moreover have "utxoIds v = utxoIds w"
  proof -
    have "map u_id (w_utxos v) = map u_id (w_utxos w)" unfolding rows by simp
    then show ?thesis unfolding utxoIds_def by (metis list.set_map)
  qed
  ultimately show ?case
    using Cons.IH [of v "drop 1 bs"] Cons.prems(2) find u upd by (simp add: andThen_apply)
qed

definition rpcReliable :: "env \<Rightarrow> bool" where
  "rpcReliable env \<longleftrightarrow> (\<forall>n. \<not> rpcTimeout env n) \<and> (\<forall>n c us. isl (rpcUtxoBalances env n c us) = False)"

lemma persistSpend_run:
  assumes "noFaults env" and "utxosLive w" and "so_utxo ` set ops \<subseteq> utxoIds w" and "rpcReliable env"
  shows "\<exists>w'. persistSpendOperations env ops i acc cl ch w = (Inr (), w')"
proof (cases "ops = []")
  case True
  then show ?thesis by (simp add: persistSpendOperations_def)
next
  case False
  obtain bs where "fetchUtxoBalances (rpcUtxoBalances env (w_tick w) cl) (map so_utxo ops) = Inr bs"
    using assms(4) False
    by (cases "rpcUtxoBalances env (w_tick w) cl (map so_utxo ops)")
      (auto simp: fetchUtxoBalances_def rpcReliable_def, metis isl_def)
  moreover obtain w' where "spendLoop env ops bs i acc (advance w) = (Inr (), w')"
    using spendLoop_run [of env "advance w" ops bs i acc] assms(1-3) by auto
  ultimately show ?thesis
    using False assms(4)
    by (simp add: persistSpendOperations_def andThen_apply rpcUnavailable_def tryCatch_apply
        withTimeout_def external_apply rpcReliable_def)
qed

lemma bundles_create_run:
  assumes "noFaults env" and "bundleRow w (ob_id r) = None"
  shows "\<exists>w'. bundles_create env r w = (Inr r, w') \<and> bundleRow w' (ob_id r) = Some r \<and>
    w_slots w' = w_slots w \<and> w_utxos w' = w_utxos w"
proof -
  have "\<not> list_ex (\<lambda>q. ob_id q = ob_id r) (w_bundles w)"
    using assms(2) by (auto simp: bundleRow_def find_None_iff list_ex_iff)
  moreover have "find (\<lambda>q. ob_id q = ob_id r) (w_bundles w @ [r]) = Some r"
    using assms(2) by (simp add: bundleRow_def find_append_key)
  ultimately show ?thesis
    using assms(1) by (simp add: bundles_create_def base_create_def dbExec_def bundleRow_def)
qed

lemma admit_fresh_run:
  fixes w :: world
  assumes "noFaults env" and "rpcReliable env" and "\<not> ad_isExpired ad"
    and "bundleRow w (ad_bundleId ad) = None" and "utxosLive w"
    and "so_utxo ` set (cl_spend (ad_classified ad)) \<subseteq>
      utxoIds w \<union> co_utxo ` set (cl_create (ad_classified ad))"
    and "slotsFit env w"
    and "calculateBundleWeight (ad_classified ad) (MEMPOOL_WEIGHT_CONFIG env) \<le> MEMPOOL_SLOT_CAPACITY env"
    and "\<And>n. clock env n < ad_ttl ad"
  shows "\<exists>w' b. admit env inp ad w = (Inr (Some (ad_bundleId ad)), w') \<and>
    statusOf w' (ad_bundleId ad) = Some B_PROCESSING \<and>
    allBundles w' = add_mset b (allBundles w) \<and> sb_bundleId b = ad_bundleId ad \<and> sb_fee b = ad_fee ad"
proof -
  let ?now = "clock env (w_tick w)"
  define r where "r = \<lparr>createdAt = ?now, updatedAt = ?now, createdBy = Some (ad_accountId ad),
    updatedBy = None, deletedAt = None, ob_id = ad_bundleId ad, ob_status = B_PENDING,
    ob_channelContractId = Some (ai_channelContractId inp), ob_ttl = ad_ttl ad,
    ob_operationsMLXDR = ai_operationsMLXDR inp, ob_fee = ad_fee ad, ob_retryCount = 0,
    ob_lastFailureReason = None, ob_failureDetail = None, ob_ppPublicKey = Some (ad_ppPublicKey ad)\<rparr>"
  have rid: "ob_id r = ad_bundleId ad" by (simp add: r_def)
  obtain w1 where w1: "bundles_create env r w = (Inr r, w1)" "bundleRow w1 (ob_id r) = Some r"
    "w_slots w1 = w_slots w" "w_utxos w1 = w_utxos w"
    using bundles_create_run [OF assms(1), of w r] assms(4) rid by auto
  have persist: "persistBundle env False (ad_bundleId ad) inp (ad_ppPublicKey ad) (ad_fee ad)
      (ad_ttl ad) (ad_accountId ad) w = (Inr (CreatedRow r), w1)"
    using w1(1) by (simp add: persistBundle_def andThen_apply r_def)
  have live1: "utxosLive w1" "utxoIds w1 = utxoIds w"
    using assms(5) w1(4) by (simp_all add: utxosLive_def utxoIds_def)
  obtain w2 where w2: "persistCreateOperations env (cl_create (ad_classified ad)) (Some (ob_id r))
      (ad_accountId ad) w1 = (Inr (), w2)" "utxosLive w2"
      "utxoIds w2 = utxoIds w \<union> co_utxo ` set (cl_create (ad_classified ad))"
    using persistCreate_run [OF assms(1) live1(1)] live1(2) by metis
  obtain w3 where w3: "persistSpendOperations env (cl_spend (ad_classified ad)) (Some (ob_id r))
      (ad_accountId ad) (ad_channelClient ad) (ai_channelContractId inp) w2 = (Inr (), w3)"
    using persistSpend_run [OF assms(1) w2(2) _ assms(2)] assms(6) w2(3) by metis
  define b where "b = slotBundleOf env r (ad_classified ad) (clock env (w_tick w3)) (ad_entityName ad)
    (ad_jurisdictions ad)"
  have f2: "utxoFrame w1 w2" by (rule guarD [OF utxo_frame.guar_persistCreateOperations w2(1)])
  have f3: "utxoFrame w2 w3" by (rule guarD [OF utxo_frame.guar_persistSpendOperations w3])
  have slots3: "w_slots w3 = w_slots w" using f2 f3 w1(3) by (simp add: utxoFrame_def)
  have row3: "bundleRow w3 (sb_bundleId b) = Some r"
    using f2 f3 w1(2) by (simp add: utxoFrame_def bundleRow_def b_def slotBundleOf_def)
  have fits: "fst (placed env b (w_slots w3))"
    using placed_fits [of "w_slots w3" env b] assms(7,8) slots3
    by (simp add: slotsFit_def b_def slotBundleOf_def)
  have ttl: "clock env (w_tick w3) < sb_ttl b" using assms(9) by (simp add: b_def slotBundleOf_def r_def)
  obtain w' where w': "addBundle env b w3 = (Inr (), w')" "allBundles w' = add_mset b (allBundles w3)"
    "statusOf w' (sb_bundleId b) = Some B_PROCESSING"
    using addBundle_active_run [OF assms(1) ttl fits row3] by (auto simp: r_def statusOf_def)
  have "admit env inp ad w = (Inr (Some (ad_bundleId ad)), w')"
    using assms(3) persist w2(1) w3 w'(1) rid
    by (simp add: admit_def andThen_apply entityId_def createSlotBundle_def b_def)
  moreover have "sb_bundleId b = ad_bundleId ad" "sb_fee b = ad_fee ad"
    by (simp_all add: b_def slotBundleOf_def r_def)
  moreover have "allBundles w3 = allBundles w" using slots3 by (simp add: allBundles_def)
  ultimately show ?thesis using w'(2,3) by metis
qed

section \<open>Properties\<close>

definition input0 :: "string list \<Rightarrow> AddBundleInput" where
  "input0 ops = \<lparr>ai_operationsMLXDR = ops, ai_channelContractId = ''C1'', ai_sessionId = ''s1'',
     ai_ppPublicKey = Some ''P1'', ai_uuid = ''id''\<rparr>"

lemmas admission_defs = channelDisabled_def isDisabled_def registry_get_def P_AddOperationsBundle_def admissionChecks_def admit_def input0_def
  rpcUnavailable_def withTimeout_def resolveChannelContext_def findByPublicKey_def getActiveForPp_def
  getChannelClient_def cacheStep_def findChannel_def orElse_def orEmpty_def validateSession_def
  sessions_findById_def approvedSubmitter_def accounts_findById_def findByPpAndAccount_def
  entities_findById_def assertBundleIsExpired_def bundles_findById_def parseOperations_def
  validateSpendOperations_def calculateOperationAmounts_def fetchUtxoBalances_def calculateFee_def
  base_findById_def

lemma checks0:
  "admissionChecks env0 (input0 [''dep'', ''cre'']) world0 =
    (Inr \<lparr>ad_accountId = ''A1'', ad_ppPublicKey = ''P1'', ad_bundleId = ''dc'', ad_isExpired = False,
       ad_classified = classifyOperations [Deposit \<lparr>dep_publicKey = ''G1'', dep_amount = 100\<rparr>,
         Create \<lparr>co_utxo = ''u1'', co_amount = 60\<rparr>],
       ad_channelClient = \<lparr>pc_channelId = ''C1'', pc_authId = ''auth'', pc_assetId = ''asset''\<rparr>,
       ad_entityName = None, ad_jurisdictions = [], ad_fee = 40, ad_ttl = 86401000\<rparr>,
     snd (admissionChecks env0 (input0 [''dep'', ''cre'']) world0))"
  by (simp add: admission_defs run_simps Let_def fixture_defs classifyOperations_def
      calculateBundleTtl_def DEFAULT_BUNDLE_TTL_MS_def tryCatch_def MAX_CACHE_SIZE_def)

lemma P_Add_Inr:
  assumes "P_AddOperationsBundle env inp w = (Inr x, w')"
  obtains ad v where "admissionChecks env inp w = (Inr ad, v)" and "admit env inp ad v = (Inr x, w')"
  using assms unfolding P_AddOperationsBundle_def by (auto elim!: andThen_InrE)

text \<open>C1: Nothing is admitted past a gate.  A request that returns was within the operation limit,
  carried a session and came from an account the provider has approved; no live bundle with the same
  operations existed; every spend is signed by its UTXO; a channel the council disabled only got a
  withdraw-only bundle.\<close>

theorem admission_gates:
  assumes "P_AddOperationsBundle env inp w = (Inr x, w')"
  shows "length (ai_operationsMLXDR inp) \<le> BUNDLE_MAX_OPERATIONS env \<and>
    (\<exists>s\<in>set (w_sessions w). s_id s = ai_sessionId inp \<and> deletedAt s = None \<and>
      (\<exists>pk. ai_ppPublicKey inp = Some pk \<and> approvedFor w pk (s_accountId s))) \<and>
    liveBundle w (generateBundleId (subtle env) (ai_operationsMLXDR inp)) = None \<and>
    (\<exists>ad v. admissionChecks env inp w = (Inr ad, v) \<and> 1 \<le> ad_fee ad \<and>
      (\<forall>op\<in>set (cl_spend (ad_classified ad)). so_signedByUTXO op) \<and>
      (channelDisabled w (ai_channelContractId inp) \<longrightarrow> isWithdrawOnlyBundle (ad_classified ad)))"
proof -
  obtain ad v where c: "admissionChecks env inp w = (Inr ad, v)" and a: "admit env inp ad v = (Inr x, w')"
    using assms by (rule P_Add_Inr)
  note g = admissionChecks_Inr [OF c]
  have "\<not> ad_isExpired ad"
  proof
    assume "ad_isExpired ad"
    then obtain e v' where "admit env inp ad v = (Inl e, v')" using admit_resubmission by blast
    with a show False by simp
  qed
  then have "liveBundle w (generateBundleId (subtle env) (ai_operationsMLXDR inp)) = None" using g(5,6) by simp
  moreover obtain s where "s \<in> set (w_sessions w)" "s_id s = ai_sessionId inp" "deletedAt s = None"
    "s_accountId s = ad_accountId ad"
    using g(4) by blast
  then have "\<exists>s\<in>set (w_sessions w). s_id s = ai_sessionId inp \<and> deletedAt s = None \<and>
      (\<exists>pk. ai_ppPublicKey inp = Some pk \<and> approvedFor w pk (s_accountId s))"
    using g(2,3) by auto
  moreover have "\<exists>ad v. admissionChecks env inp w = (Inr ad, v) \<and> 1 \<le> ad_fee ad \<and>
      (\<forall>op\<in>set (cl_spend (ad_classified ad)). so_signedByUTXO op) \<and>
      (channelDisabled w (ai_channelContractId inp) \<longrightarrow> isWithdrawOnlyBundle (ad_classified ad))"
    using c g(8-10) by blast
  ultimately show ?thesis using g(1) by blast
qed

lemma rpcReliable_env0 [simp]: "rpcReliable env0"
  by (simp add: rpcReliable_def)



text \<open>A bundle that is pending, in process or completed cannot be submitted again: the request fails
  and changes nothing.\<close>

theorem duplicate_is_rejected:
  assumes "liveBundle w (generateBundleId (subtle env) (ai_operationsMLXDR inp)) = Some r"
    and "ob_status r \<notin> {B_EXPIRED, B_FAILED}"
  shows "\<exists>e w'. P_AddOperationsBundle env inp w = (Inl e, w') \<and> admissionFrame w w'"
proof (cases "admissionChecks env inp w")
  case (Pair res v)
  show ?thesis
  proof (cases res)
    case (Inl e)
    with Pair guarD [OF admission_frame.guar_admissionChecks, of env inp w res v] show ?thesis
      by (auto simp: P_AddOperationsBundle_def andThen_Inl)
  next
    case (Inr ad)
    with Pair have c: "admissionChecks env inp w = (Inr ad, v)" by simp
    have "liveBundle w (ad_bundleId ad) = Some r" using admissionChecks_Inr(5) [OF c] assms(1) by simp
    then have "ob_status r \<in> {B_EXPIRED, B_FAILED}" by (rule admissionChecks_Inr(7) [OF c])
    with assms(2) show ?thesis by simp
  qed
qed

theorem duplicate_is_rejected_witness:
  "\<exists>e w'. P_AddOperationsBundle env0 (input0 [''dep'', ''cre''])
      (world0\<lparr>w_bundles := [row0 ''dc'' B_COMPLETED]\<rparr>) = (Inl e, w')"
proof -
  have "liveBundle (world0\<lparr>w_bundles := [row0 ''dc'' B_COMPLETED]\<rparr>)
      (generateBundleId (subtle env0) (ai_operationsMLXDR (input0 [''dep'', ''cre'']))) = Some (row0 ''dc'' B_COMPLETED)"
    by (simp add: liveBundle_def input0_def)
  from duplicate_is_rejected [OF this] show ?thesis by auto
qed

lemma freshAdmission_run:
  fixes w :: world
  assumes "noFaults env" and "rpcReliable env" and "admissionChecks env inp w = (Inr ad, v)"
    and "bundleRow w (ad_bundleId ad) = None" and "utxosLive w"
    and "so_utxo ` set (cl_spend (ad_classified ad)) \<subseteq>
      utxoIds w \<union> co_utxo ` set (cl_create (ad_classified ad))"
    and "slotsFit env w"
    and "calculateBundleWeight (ad_classified ad) (MEMPOOL_WEIGHT_CONFIG env) \<le> MEMPOOL_SLOT_CAPACITY env"
    and "\<forall>n. clock env n < ad_ttl ad"
  shows "\<exists>w' b. P_AddOperationsBundle env inp w = (Inr (Some (ad_bundleId ad)), w') \<and>
    statusOf w' (ad_bundleId ad) = Some B_PROCESSING \<and>
    allBundles w' = add_mset b (allBundles w) \<and> sb_bundleId b = ad_bundleId ad \<and> sb_fee b = ad_fee ad"
proof -
  have fr: "admissionFrame w v" by (rule guarD [OF admission_frame.guar_admissionChecks assms(3)])
  have row: "bundleRow v (ad_bundleId ad) = None"
    using fr assms(4) by (simp add: admissionFrame_def bundleRow_def)
  have u: "utxosLive v" "utxoIds v = utxoIds w" "slotsFit env v" "allBundles v = allBundles w"
    using fr assms(5,7) by (simp_all add: admissionFrame_def utxosLive_def utxoIds_def slotsFit_def allBundles_def)
  have "\<not> ad_isExpired ad"
    using admissionChecks_Inr(6) [OF assms(3)] assms(4)
    by (auto simp: liveBundle_def bundleRow_def find_None_iff)
  from admit_fresh_run [OF assms(1,2) this row u(1) _ u(3) assms(8), of inp] assms(6,9) u(2,4)
  obtain w' b where "admit env inp ad v = (Inr (Some (ad_bundleId ad)), w')"
    "statusOf w' (ad_bundleId ad) = Some B_PROCESSING" "allBundles w' = add_mset b (allBundles w)"
    "sb_bundleId b = ad_bundleId ad" "sb_fee b = ad_fee ad" by auto
  with assms(3) show ?thesis by (auto simp: P_AddOperationsBundle_def andThen_Inr)
qed

lemma admitted0:
  "\<exists>w' b. P_AddOperationsBundle env0 (input0 [''dep'', ''cre'']) world0 = (Inr (Some ''dc''), w') \<and>
    statusOf w' ''dc'' = Some B_PROCESSING \<and> allBundles w' = {#b#} \<and> sb_bundleId b = ''dc''"
  using freshAdmission_run [OF noFaults_env0 rpcReliable_env0 checks0]
  by (auto simp: bundleRow_def utxosLive_def slotsFit_def calculateBundleWeight_def classifyOperations_def
      allBundles_def fixture_defs Let_def)

theorem admission_gates_witness:
  "approvedFor world0 ''P1'' ''A1'' \<and> liveBundle world0 ''dc'' = None"
proof -
  obtain w' where "P_AddOperationsBundle env0 (input0 [''dep'', ''cre'']) world0 = (Inr (Some ''dc''), w')"
    using admitted0 by blast
  from admission_gates [OF this] show ?thesis by (simp add: input0_def fixture_defs)
qed



text \<open>Resubmission never succeeds.  The source means a bundle that expired or failed to be submitted
  again, but the reset row comes back from the repository as an array: the request throws, and with a
  working database the row is left \<^verbatim>\<open>PENDING\<close> while the mempool does not hold the bundle.\<close>

theorem resubmission_fails:
  assumes "liveBundle w (generateBundleId (subtle env) (ai_operationsMLXDR inp)) = Some r" and "noFaults env"
    and "admissionChecks env inp w = (Inr ad, v)"
  shows "\<exists>e w'. P_AddOperationsBundle env inp w = (Inl e, w') \<and> w_slots w' = w_slots w \<and>
    statusOf w' (ad_bundleId ad) = Some B_PENDING"
proof -
  have fr: "admissionFrame w v" by (rule guarD [OF admission_frame.guar_admissionChecks assms(3)])
  have ex: "ad_isExpired ad" using admissionChecks_Inr(5,6) [OF assms(3)] assms(1) by simp
  then obtain e w' where a: "admit env inp ad v = (Inl e, w')" using admit_resubmission by blast
  note f = admit_resubmission_frame [OF ex assms(2) a]
  have "\<exists>q. bundleRow w (ad_bundleId ad) = Some q"
    using assms(1) admissionChecks_Inr(5) [OF assms(3)]
    by (cases "bundleRow w (ad_bundleId ad)")
      (auto simp: liveBundle_def bundleRow_def find_None_iff find_Some_iff)
  then obtain s where "statusOf v (ad_bundleId ad) = Some s"
    using fr by (auto simp: statusOf_def bundleRow_def admissionFrame_def)
  with f a fr assms(3) show ?thesis
    by (auto simp: P_AddOperationsBundle_def andThen_Inr admissionFrame_def)
qed

theorem resubmission_fails_witness:
  "\<exists>e w'. P_AddOperationsBundle env0 (input0 [''dep'', ''cre''])
      (world0\<lparr>w_bundles := [row0 ''dc'' B_EXPIRED]\<rparr>) = (Inl e, w') \<and> w_slots w' = [] \<and>
    statusOf w' ''dc'' = Some B_PENDING"
proof -
  let ?w = "world0\<lparr>w_bundles := [row0 ''dc'' B_EXPIRED]\<rparr>"
  obtain ad v where c: "admissionChecks env0 (input0 [''dep'', ''cre'']) ?w = (Inr ad, v)" "ad_bundleId ad = ''dc''"
    by (simp add: admission_defs run_simps Let_def fixture_defs classifyOperations_def
        calculateBundleTtl_def DEFAULT_BUNDLE_TTL_MS_def tryCatch_def MAX_CACHE_SIZE_def)
  have "liveBundle ?w (generateBundleId (subtle env0) (ai_operationsMLXDR (input0 [''dep'', ''cre'']))) =
      Some (row0 ''dc'' B_EXPIRED)"
    by (simp add: liveBundle_def input0_def)
  from resubmission_fails [OF this noFaults_env0 c(1)] c(2) show ?thesis by simp
qed

end
