(* ===== verification/Endpoints.thy ===== *)
theory Endpoints
  imports Metrics Admission
begin

text \<open>
  The HTTP layer: the pipelines of \<^verbatim>\<open>http/pipelines\<close> with their processes and their error plugin, the session
  middleware \<^verbatim>\<open>http/middleware/auth/index.ts\<close>, the endpoints built from them (\<^verbatim>\<open>http/v1/bundle\<close>,
  \<^verbatim>\<open>http/v1/stellar/auth\<close>), and the handlers of operator sign-in, entity challenges and the waiting list.

  \<open>EndpointApi\<close> holds what this layer takes from outside: whether an error that passed through the pipeline library
  is still an instance of its class, the issues a schema reports for a value, the verification of a token, the check
  of a Stellar key and random identifiers.
\<close>

section \<open>Errors as responses\<close>

record JwtPayload =
  jp_sub :: "string option"
  jp_exp :: "rat option"
  jp_sessionId :: string
  jp_type :: "string option"

record EndpointApi =
  keepsClass :: bool
  schemaIssues :: "json \<Rightarrow> (string list \<times> string) list"
  jwtVerify :: "nat \<Rightarrow> string \<Rightarrow> exn + JwtPayload"
  endpointUUID :: "nat \<Rightarrow> string"

text \<open>The shape of an exception that is a \<^verbatim>\<open>PlatformError\<close>.\<close>

definition platformShape :: "exn \<Rightarrow> PlatformErrorShape option" where
  "platformShape e =
    (case e of
       PlatformError s \<Rightarrow> Some s
     | INVALID_SESSION i \<Rightarrow> Some (Err_INVALID_SESSION i)
     | BUNDLE_ALREADY_EXISTS i \<Rightarrow> Some (Err_BUNDLE_ALREADY_EXISTS i)
     | UTXO_NOT_FOUND i \<Rightarrow> Some (Err_UTXO_NOT_FOUND i)
     | SPEND_OPERATION_NOT_SIGNED _ \<Rightarrow> Some Err_SPEND_OPERATION_NOT_SIGNED
     | BUNDLE_NOT_FOUND i \<Rightarrow> Some (Err_BUNDLE_NOT_FOUND_bundle i)
     | BUNDLE_ACCESS_FORBIDDEN i a \<Rightarrow> Some (Err_BUNDLE_ACCESS_FORBIDDEN i a)
     | TOO_MANY_OPERATIONS n m \<Rightarrow> Some (Err_TOO_MANY_OPERATIONS (int n) (int m))
     | SUBMITTER_NOT_APPROVED k \<Rightarrow> Some (Err_SUBMITTER_NOT_APPROVED k)
     | PP_PUBLIC_KEY_REQUIRED \<Rightarrow> Some Err_PP_PUBLIC_KEY_REQUIRED
     | CHANNEL_DISABLED c \<Rightarrow> Some (Err_CHANNEL_DISABLED c)
     | CHANNEL_RPC_UNAVAILABLE c \<Rightarrow> Some (Err_CHANNEL_RPC_UNAVAILABLE c)
     | INSUFFICIENT_BALANCE a r \<Rightarrow> Some (Err_INSUFFICIENT_BALANCE a r)
     | SLOT_FULL v c \<Rightarrow> Some (Err_SLOT_FULL v c)
     | InsufficientFees d \<Rightarrow> Some (Err_InsufficientFees d)
     | _ \<Rightarrow> None)"

text \<open>\<^verbatim>\<open>PlatformError.fromUnknown\<close> of any other error; its stack, the details, is for logs.\<close>

definition fromUnknown :: "env \<Rightarrow> exn \<Rightarrow> PlatformErrorShape" where
  "fromUnknown env e = \<lparr>e_source = ''@general/unknown'', e_code = ''GEN_001'', e_message = errorMessage env e,
     e_details = None, e_api = None\<rparr>"

definition errorToApiResponse :: "env \<Rightarrow> EndpointApi \<Rightarrow> exn \<Rightarrow> ApiError" where
  "errorToApiResponse env api e =
    (case platformShape e of
       Some s \<Rightarrow> if keepsClass api then getAPIError s else getAPIError (fromUnknown env e)
     | None \<Rightarrow> getAPIError (fromUnknown env e))"

text \<open>\<^verbatim>\<open>PIPE_APIError\<close> run on an error made on the spot: no pipeline has wrapped it.\<close>

definition apiErrorOf :: "PlatformErrorShape \<Rightarrow> ApiError" where
  "apiErrorOf s = getAPIError s"

section \<open>Pipelines\<close>

datatype 'd reply = SuccessReply string 'd | ErrorReply ApiError

fun replyStatus :: "'d reply \<Rightarrow> nat" where
  "replyStatus (SuccessReply msg d) = 200"
| "replyStatus (ErrorReply e) = api_status e"

definition parseRequestBody :: "EndpointApi \<Rightarrow> (json \<Rightarrow> 'b option) \<Rightarrow> exn + json \<Rightarrow> exn + 'b" where
  "parseRequestBody api schema request =
    (case request of
       Inl _ \<Rightarrow> Inl (PlatformError Err_FAILED_TO_PARSE_BODY)
     | Inr v \<Rightarrow> (case schema v of
                  None \<Rightarrow> Inl (PlatformError (Err_INVALID_PAYLOAD (schemaIssues api v)))
                | Some b \<Rightarrow> Inr b))"

definition parseRequestQuery :: "EndpointApi \<Rightarrow> (json \<Rightarrow> 'b option) \<Rightarrow> json \<Rightarrow> exn + 'b" where
  "parseRequestQuery api schema query =
    (case schema query of
       None \<Rightarrow> Inl (PlatformError (Err_INVALID_QUERY_PARAMS (schemaIssues api query)))
     | Some b \<Rightarrow> Inr b)"

text \<open>\<^verbatim>\<open>P_SetSuccessResponse\<close>: the data has to satisfy the response schema.\<close>

definition setSuccessResponse :: "('d \<Rightarrow> 'r option) \<Rightarrow> string \<Rightarrow> 'd \<Rightarrow> exn + 'r reply" where
  "setSuccessResponse schema message data =
    (case schema data of
       None \<Rightarrow> Inl (PlatformError Err_FAILED_TO_SET_SUCCESS_RESPONSE)
     | Some r \<Rightarrow> Inr (SuccessReply message r))"

text \<open>\<^verbatim>\<open>PIPE_PostEndpoint\<close> and \<^verbatim>\<open>PIPE_GetEndpoint\<close>: parse, the steps, the success response; an error of any of them
  goes to the plugin.\<close>

definition pipeEndpoint ::
    "env \<Rightarrow> EndpointApi \<Rightarrow> exn + 'b \<Rightarrow> ('b \<Rightarrow> 'd action) \<Rightarrow> ('d \<Rightarrow> 'r option) \<Rightarrow> string \<Rightarrow> 'r reply action" where
  "pipeEndpoint env api parsedRequest steps responseSchema message =
    tryCatch
     (andThen (liftSum parsedRequest) (\<lambda>input.
      andThen (steps input) (\<lambda>data.
      liftSum (setSuccessResponse responseSchema message data))))
     (\<lambda>e. ret (ErrorReply (errorToApiResponse env api e)))"

section \<open>The session middleware\<close>

fun splitSpace :: "string \<Rightarrow> string list" where
  "splitSpace [] = [[]]"
| "splitSpace (c # s) =
    (if c = CHR '' '' then [] # splitSpace s
     else case splitSpace s of [] \<Rightarrow> [[c]] | p # ps \<Rightarrow> (c # p) # ps)"

text \<open>The payload of a bearer token, or the error to answer with.\<close>

definition jwtSession :: "env \<Rightarrow> EndpointApi \<Rightarrow> string option \<Rightarrow> (PlatformErrorShape + JwtPayload) action" where
  "jwtSession env api authorization =
    (case authorization of
       None \<Rightarrow> ret (Inl Err_MISSING_AUTHORIZATION_HEADER)
     | Some header \<Rightarrow>
        (case splitSpace header of
           [scheme, token] \<Rightarrow>
             if scheme \<noteq> ''Bearer'' then ret (Inl Err_INVALID_AUTHORIZATION_HEADER)
             else tryCatch
               (andThen (external (\<lambda>n. jwtVerify api n token)) (\<lambda>payload.
                andThen (dateNow env) (\<lambda>ms.
                case jp_exp payload of
                  Some expiry \<Rightarrow> if of_int (ms div 1000) > expiry then ret (Inl Err_EXPIRED_TOKEN) else ret (Inr payload)
                | None \<Rightarrow> ret (Inr payload))))
               (\<lambda>_. ret (Inl Err_JWT_VERIFICATION_FAILED))
         | _ \<Rightarrow> ret (Inl Err_INVALID_AUTHORIZATION_HEADER)))"

definition jwtMiddleware ::
    "env \<Rightarrow> EndpointApi \<Rightarrow> string option \<Rightarrow> (JwtPayload \<Rightarrow> 'd reply action) \<Rightarrow> 'd reply action" where
  "jwtMiddleware env api authorization next =
    andThen (jwtSession env api authorization) (\<lambda>session.
    case session of Inl s \<Rightarrow> ret (ErrorReply (apiErrorOf s)) | Inr payload \<Rightarrow> next payload)"

section \<open>Bundle endpoints\<close>

text \<open>A list of strings, all of them.\<close>

fun stringArray :: "json list \<Rightarrow> string list option" where
  "stringArray [] = Some []"
| "stringArray (JString s # vs) = map_option (\<lambda>ss. s # ss) (stringArray vs)"
| "stringArray (_ # vs) = None"

definition bundleRequestSchema :: "nat \<Rightarrow> json \<Rightarrow> (string list \<times> string) option" where
  "bundleRequestSchema maxOps v =
    (case v of
       JObject kvs \<Rightarrow>
        (case (member v ''operationsMLXDR'', member v ''channelContractId'') of
           (JArray ops, JString channel) \<Rightarrow>
             (case stringArray ops of
                Some mlxdr \<Rightarrow> if 1 \<le> length mlxdr \<and> length mlxdr \<le> maxOps \<and> channel \<noteq> [] then Some (mlxdr, channel) else None
              | None \<Rightarrow> None)
         | _ \<Rightarrow> None)
     | _ \<Rightarrow> None)"

definition handlePostBundle ::
    "env \<Rightarrow> EndpointApi \<Rightarrow> exn + json \<Rightarrow> string option \<Rightarrow> JwtPayload \<Rightarrow> (string \<times> string) reply action" where
  "handlePostBundle env api request ppParam payload =
    andThen (gets (\<lambda>w. endpointUUID api (w_tick w))) (\<lambda>uuid.
    pipeEndpoint env api (parseRequestBody api (bundleRequestSchema (BUNDLE_MAX_OPERATIONS env)) request)
      (\<lambda>(mlxdr, channel). P_AddOperationsBundle env
        \<lparr>ai_operationsMLXDR = mlxdr, ai_channelContractId = channel, ai_sessionId = jp_sessionId payload,
         ai_ppPublicKey = ppParam, ai_uuid = uuid\<rparr>)
      (map_option (\<lambda>i. (i, ''PENDING'')))
      ''Bundle received and queued for processing'')"

text \<open>The path parameter replaces the query parameter of the same name.\<close>

definition bundleIdSchema :: "string option \<Rightarrow> json \<Rightarrow> string option" where
  "bundleIdSchema pathParam query =
    (if orEmpty pathParam \<noteq> [] then pathParam
     else case member query ''bundleId'' of JString s \<Rightarrow> if s = [] then None else Some s | _ \<Rightarrow> None)"

definition handleGetBundle ::
    "env \<Rightarrow> EndpointApi \<Rightarrow> string option \<Rightarrow> json \<Rightarrow> JwtPayload \<Rightarrow> BundleDTO reply action" where
  "handleGetBundle env api pathParam query payload =
    pipeEndpoint env api (parseRequestQuery api (bundleIdSchema pathParam) query)
      (P_GetBundleById env (jp_sessionId payload)) Some ''Bundle successfully retrieved''"

definition listStatusSchema :: "json \<Rightarrow> BundleStatus option option" where
  "listStatusSchema query =
    (case member query ''status'' of
       JString s \<Rightarrow> (case listRequestStatus (Some s) of Inl _ \<Rightarrow> None | Inr st \<Rightarrow> Some st)
     | JUndefined \<Rightarrow> Some None
     | _ \<Rightarrow> None)"

text \<open>The schema of the items of the list drops the failure detail.\<close>

definition handleListBundles ::
    "env \<Rightarrow> EndpointApi \<Rightarrow> json \<Rightarrow> JwtPayload \<Rightarrow> BundleItem list reply action" where
  "handleListBundles env api query payload =
    pipeEndpoint env api (parseRequestQuery api listStatusSchema query)
      (P_ListBundlesByUser env (jp_sessionId payload)) (Some \<circ> map BundleItem.truncate)
      ''Bundles successfully retrieved''"

definition postBundleRoute ::
    "env \<Rightarrow> EndpointApi \<Rightarrow> string option \<Rightarrow> exn + json \<Rightarrow> string option \<Rightarrow> (string \<times> string) reply action" where
  "postBundleRoute env api authorization request ppParam =
    jwtMiddleware env api authorization (handlePostBundle env api request ppParam)"

definition getBundleRoute ::
    "env \<Rightarrow> EndpointApi \<Rightarrow> string option \<Rightarrow> string option \<Rightarrow> json \<Rightarrow> BundleDTO reply action" where
  "getBundleRoute env api authorization pathParam query =
    jwtMiddleware env api authorization (handleGetBundle env api pathParam query)"

section \<open>Wallet sign-in endpoints\<close>

definition accountSchema :: "AuthApi \<Rightarrow> json \<Rightarrow> string option" where
  "accountSchema auth query =
    (case member query ''account'' of JString s \<Rightarrow> if isEd25519PublicKey auth s then Some s else None | _ \<Rightarrow> None)"

definition handleGetAuth ::
    "env \<Rightarrow> EndpointApi \<Rightarrow> AuthApi \<Rightarrow> json \<Rightarrow> string \<Rightarrow> (string \<times> string) reply action" where
  "handleGetAuth env api auth query requestId =
    pipeEndpoint env api (parseRequestQuery api (accountSchema auth) query)
      (\<lambda>account. getAuth env auth (Some account) requestId) Some ''Auth challenge successfully created''"

definition signedChallengeSchema :: "json \<Rightarrow> (string \<times> string) option" where
  "signedChallengeSchema v =
    (case (member v ''signedChallenge'', member v ''ppPublicKey'') of
       (JString c, JString p) \<Rightarrow> if p = [] then None else Some (c, p)
     | _ \<Rightarrow> None)"

definition handlePostAuth ::
    "env \<Rightarrow> EndpointApi \<Rightarrow> AuthApi \<Rightarrow> exn + json \<Rightarrow> AuthResult reply action" where
  "handlePostAuth env api auth request =
    pipeEndpoint env api (parseRequestBody api signedChallengeSchema request)
      (\<lambda>(challenge, pp). postAuth env auth challenge pp) Some ''Auth challenge verified successfully''"

section \<open>Operator sign-in and entity challenges\<close>

definition isTooMany :: "exn \<Rightarrow> string option" where
  "isTooMany e = (case e of JsError m \<Rightarrow> if includesText m ''Too many pending challenges'' then Some m else None | _ \<Rightarrow> None)"

definition handlePostChallenge :: "env \<Rightarrow> AuthApi \<Rightarrow> exn + json \<Rightarrow> string Response action" where
  "handlePostChallenge env auth request =
    tryCatch
     (andThen (liftSum request) (\<lambda>body.
      andThen (liftSum (getMember body ''publicKey'')) (\<lambda>v.
      case nonEmptyString v of
        None \<Rightarrow> respond 400 ''publicKey is required''
      | Some publicKey \<Rightarrow>
          if \<not> validKey auth publicKey then respond 400 ''Invalid Stellar public key format''
          else andThen (createDashboardChallenge env auth publicKey) (respondWith 200 ''Challenge created''))))
     (\<lambda>e. case isTooMany e of Some m \<Rightarrow> respond 429 m | None \<Rightarrow> respond 500 ''Failed to create challenge'')"

definition handlePostEntityChallenge :: "env \<Rightarrow> AuthApi \<Rightarrow> exn + json \<Rightarrow> string Response action" where
  "handlePostEntityChallenge env auth request =
    tryCatch
     (andThen (liftSum request) (\<lambda>body.
      case nonEmptyString (optMember body ''pubkey'') of
        None \<Rightarrow> respond 400 ''pubkey is required''
      | Some pubkey \<Rightarrow>
          if \<not> validKey auth pubkey then respond 400 ''Invalid Stellar public key''
          else andThen (createEntityChallenge env auth pubkey) (respondWith 200 ''Challenge created'')))
     (\<lambda>e. case isTooMany e of Some m \<Rightarrow> respond 429 m | None \<Rightarrow> respond 500 ''Failed to create challenge'')"

definition walletUsers_findByPublicKey :: "env \<Rightarrow> string \<Rightarrow> WalletUser option action" where
  "walletUsers_findByPublicKey env publicKey =
    dbQuery env (\<lambda>w. find (\<lambda>u. wu_publicKey u = publicKey) (w_walletUsers w))"

definition walletUsers_insert :: "env \<Rightarrow> string \<Rightarrow> WalletUser option action" where
  "walletUsers_insert env publicKey = dbExec env (\<lambda>now w.
    if list_ex (\<lambda>u. wu_publicKey u = publicKey) (w_walletUsers w) then (Inr None, w)
    else let row = \<lparr>wu_publicKey = publicKey, wu_createdAt = now\<rparr> in
      (Inr (Some row), w_walletUsers_update (\<lambda>us. us @ [row]) w))"

definition findOrCreate :: "env \<Rightarrow> string \<Rightarrow> WalletUser option action" where
  "findOrCreate env publicKey =
    andThen (walletUsers_findByPublicKey env publicKey) (\<lambda>existing.
    case existing of
      Some u \<Rightarrow> ret (Some u)
    | None \<Rightarrow>
       andThen (walletUsers_insert env publicKey) (\<lambda>created.
       case created of Some u \<Rightarrow> ret (Some u) | None \<Rightarrow> walletUsers_findByPublicKey env publicKey))"

text \<open>The three members have to be truthy; the typed signature of the verification makes them strings.\<close>

definition handlePostVerify :: "env \<Rightarrow> AuthApi \<Rightarrow> exn + json \<Rightarrow> string Response action" where
  "handlePostVerify env auth request =
    tryCatch
     (andThen (liftSum request) (\<lambda>body.
      andThen (liftSum (getMember body ''nonce'')) (\<lambda>nonce.
      if \<not> truthy nonce \<or> \<not> truthy (member body ''signature'') \<or> \<not> truthy (member body ''publicKey'')
      then respond 400 ''nonce, signature, and publicKey are required''
      else
       case (nonce, member body ''signature'', member body ''publicKey'') of
         (JString n, JString sig, JString publicKey) \<Rightarrow>
           andThen (verifyDashboardChallenge env auth n sig publicKey
             \<lparr>providerPublicKey = publicKey, horizonUrl = None\<rparr>) (\<lambda>token.
           andThen (findOrCreate env publicKey) (\<lambda>_.
           respondWith 200 ''Authentication successful'' token))
       | _ \<Rightarrow> throw TypeError)))
     (\<lambda>_. respond 401 ''Authentication failed'')"

section \<open>Waiting list\<close>

text \<open>\<^verbatim>\<open>/^[^\s@]+@[^\s@]+\.[^\s@]+$/\<close>: one \<open>@\<close> and no white space, and a dot inside the domain.\<close>

definition emailPart :: "string \<Rightarrow> bool" where
  "emailPart s \<longleftrightarrow> s \<noteq> [] \<and> list_all (\<lambda>c. \<not> isSpace c \<and> c \<noteq> CHR ''@'') s"

definition isEmail :: "string \<Rightarrow> bool" where
  "isEmail s =
    (let local = takeWhile (\<lambda>c. c \<noteq> CHR ''@'') s; rest = dropWhile (\<lambda>c. c \<noteq> CHR ''@'') s; domain = tl rest in
     rest \<noteq> [] \<and> emailPart local \<and> emailPart domain \<and> CHR ''.'' \<in> set (butlast (tl domain)))"

text \<open>Ids are unique, and wallets where there is one.\<close>

definition waitlist_create :: "env \<Rightarrow> WaitlistRequest \<Rightarrow> WaitlistRequest action" where
  "waitlist_create env row = dbExec env (\<lambda>_ w.
    if list_ex (\<lambda>r. wl_id r = wl_id row \<or>
        wl_walletPublicKey row \<noteq> None \<and> wl_walletPublicKey r = wl_walletPublicKey row) (w_waitlist w)
    then (Inl DbError, w)
    else (Inr row, w_waitlist_update (\<lambda>rs. rs @ [row]) w))"

definition waitlist_newRow :: "env \<Rightarrow> EndpointApi \<Rightarrow> string \<Rightarrow> string option \<Rightarrow> string \<Rightarrow> WaitlistRequest action" where
  "waitlist_newRow env api email wallet source =
    andThen (dateNow env) (\<lambda>now.
    andThen (gets (\<lambda>w. endpointUUID api (w_tick w))) (\<lambda>uuid.
    waitlist_create env \<lparr>createdAt = now, updatedAt = now, createdBy = None, updatedBy = None, deletedAt = None,
      wl_id = uuid, wl_email = email, wl_walletPublicKey = wallet, wl_source = source\<rparr>))"

definition waitlist_setEmail :: "env \<Rightarrow> string \<Rightarrow> string \<Rightarrow> unit action" where
  "waitlist_setEmail env i email = dbExec env (\<lambda>now w. (Inr (),
    w_waitlist_update (map (\<lambda>r. if wl_id r = i then r\<lparr>wl_email := email, updatedAt := now\<rparr> else r)) w))"

definition upsert :: "env \<Rightarrow> EndpointApi \<Rightarrow> string \<Rightarrow> string option \<Rightarrow> string \<Rightarrow> bool action" where
  "upsert env api email wallet source =
    (if orEmpty wallet = [] then andThen (waitlist_newRow env api email None source) (\<lambda>_. ret True)
     else
      andThen (dbQuery env (\<lambda>w. find (\<lambda>r. wl_walletPublicKey r = wallet) (w_waitlist w))) (\<lambda>existing.
      case existing of
        Some r \<Rightarrow> andThen (waitlist_setEmail env (wl_id r) email) (\<lambda>_. ret False)
      | None \<Rightarrow> andThen (waitlist_newRow env api email wallet source) (\<lambda>_. ret True)))"

definition postWaitlist :: "env \<Rightarrow> EndpointApi \<Rightarrow> exn + json \<Rightarrow> unit Response action" where
  "postWaitlist env api request =
    (let body = (case request of Inl _ \<Rightarrow> JNull | Inr v \<Rightarrow> v) in
     case optMember body ''email'' of
       JString email \<Rightarrow>
         if \<not> isEmail email \<or> 254 < utf16Length email then respond 400 ''Invalid email''
         else
          andThen (upsert env api email
            (case optMember body ''walletPublicKey'' of JString k \<Rightarrow> Some k | _ \<Rightarrow> None) ''provider-console'') (\<lambda>isNew.
          respond (if isNew then 201 else 200) ''Added to waitlist'')
     | _ \<Rightarrow> respond 400 ''Invalid email'')"

section \<open>The error classes conform\<close>




section \<open>Relations the endpoints keep\<close>

context world_guarantee
begin

lemma guar_pipeEndpoint: "(\<And>b. guar R (steps b)) \<Longrightarrow> guar R (pipeEndpoint env api req steps schema msg)"
  unfolding pipeEndpoint_def by (intro world_rules)

lemma guar_jwtMiddleware: "(\<And>p. guar R (next p)) \<Longrightarrow> guar R (jwtMiddleware env api auth next)"
  unfolding jwtMiddleware_def jwtSession_def
  by (intro world_rules) (auto split: list.split intro!: world_rules)

lemma guar_postBundleRoute:
  "(\<And>inp. guar R (P_AddOperationsBundle env inp)) \<Longrightarrow> guar R (postBundleRoute env api auth request p)"
  unfolding postBundleRoute_def handlePostBundle_def by (intro guar_jwtMiddleware world_rules guar_pipeEndpoint)

end

locale endpoint_client = auth_client R + metrics_client R for R :: "world \<Rightarrow> world \<Rightarrow> bool" +
  assumes R_waitlist: "R w (w_waitlist_update e1 w)"
    and R_walletUsers: "R w (w_walletUsers_update e2 w)"
begin

lemma guar_handleAuth: "guar R (handleGetAuth env api auth query i)" "guar R (handlePostAuth env api auth request)"
  unfolding handleGetAuth_def handlePostAuth_def
  by (intro guar_pipeEndpoint world_rules guar_getAuth guar_postAuth)+

lemma guar_challenges: "guar R (handlePostChallenge env auth request)" "guar R (handlePostEntityChallenge env auth request)"
  unfolding handlePostChallenge_def handlePostEntityChallenge_def
  by (intro world_rules guar_respond guar_operatorAuth guar_entityAuth)+

lemma guar_handlePostVerify: "guar R (handlePostVerify env auth request)"
proof -
  have "guar R (findOrCreate env k)" for k
    unfolding findOrCreate_def walletUsers_findByPublicKey_def walletUsers_insert_def Let_def
    by (intro world_rules guarI) (simp_all add: R_refl R_walletUsers)
  then show ?thesis
    unfolding handlePostVerify_def
    by (intro world_rules guar_respond)
      (auto split: json.split intro!: world_rules guar_respond guar_operatorAuth)
qed

lemma guar_postWaitlist: "guar R (postWaitlist env api request)"
proof -
  have "guar R (waitlist_newRow env api e k s)" for e k s
    unfolding waitlist_newRow_def waitlist_create_def
    by (intro world_rules guarI) (simp_all add: R_refl R_waitlist)
  moreover have "guar R (waitlist_setEmail env i e)" for i e
    unfolding waitlist_setEmail_def by (intro world_rules guarI) (simp add: R_waitlist)
  ultimately show ?thesis
    unfolding postWaitlist_def upsert_def Let_def
    by (auto split: json.split intro!: world_rules guar_respond)
qed

lemmas endpoint_rules = guar_handleAuth guar_challenges guar_handlePostVerify guar_postWaitlist guar_collect

end

section \<open>A concrete endpoint\<close>

definition payload0 :: JwtPayload where
  "payload0 = \<lparr>jp_sub = Some ''A1'', jp_exp = Some 10, jp_sessionId = ''s1'', jp_type = None\<rparr>"

definition endpointApi0 :: EndpointApi where
  "endpointApi0 = \<lparr>keepsClass = True, schemaIssues = (\<lambda>_. []),
     jwtVerify = (\<lambda>_ token. if token = ''tok'' then Inr payload0 else Inl TypeError), endpointUUID = (\<lambda>_. ''id'')\<rparr>"

definition bundleBody0 :: json where
  "bundleBody0 = JObject [(''operationsMLXDR'', JArray [JString ''dep'', JString ''cre'']),
     (''channelContractId'', JString ''C1'')]"

lemma endpointApi0_simps [simp]: "keepsClass endpointApi0" "endpointUUID endpointApi0 = (\<lambda>_. ''id'')"
  "jwtVerify endpointApi0 = (\<lambda>_ token. if token = ''tok'' then Inr payload0 else Inl TypeError)"
  "jp_sessionId payload0 = ''s1''" "jp_exp payload0 = Some 10"
  by (simp_all add: endpointApi0_def payload0_def)

lemma bundleBody0_schema [simp]: "bundleRequestSchema 5 bundleBody0 = Some ([''dep'', ''cre''], ''C1'')"
  by (simp add: bundleRequestSchema_def bundleBody0_def)

section \<open>What the middleware lets through\<close>

lemma splitSpace_not_Nil [simp]: "splitSpace s \<noteq> []"
  by (cases s) (auto split: list.split)

lemma splitSpace_two: "splitSpace s = [a, b] \<Longrightarrow> s = a @ '' '' @ b \<and> CHR '' '' \<notin> set a \<and> CHR '' '' \<notin> set b"
proof -
  have one: "splitSpace t = [c] \<Longrightarrow> t = c \<and> CHR '' '' \<notin> set c" for t c
    by (induction t arbitrary: c) (auto split: if_splits list.splits)
  show "splitSpace s = [a, b] \<Longrightarrow> s = a @ '' '' @ b \<and> CHR '' '' \<notin> set a \<and> CHR '' '' \<notin> set b"
    by (induction s arbitrary: a) (auto split: if_splits list.splits dest: one)
qed

text \<open>The token of a request: verified, and not past its expiry by the clock of the server.\<close>

definition tokenOk :: "env \<Rightarrow> EndpointApi \<Rightarrow> world \<Rightarrow> string option \<Rightarrow> JwtPayload \<Rightarrow> bool" where
  "tokenOk env api w authorization payload \<longleftrightarrow>
    (\<exists>token. authorization = Some (''Bearer '' @ token) \<and> jwtVerify api (w_tick w) token = Inr payload) \<and>
    (case jp_exp payload of None \<Rightarrow> True | Some expiry \<Rightarrow> of_int (clock env (Suc (w_tick w)) div 1000) \<le> expiry)"

lemma unauthorized [simp]:
  "api_status (apiErrorOf Err_MISSING_AUTHORIZATION_HEADER) = 401"
  "api_status (apiErrorOf Err_INVALID_AUTHORIZATION_HEADER) = 401"
  "api_status (apiErrorOf Err_EXPIRED_TOKEN) = 401" "api_status (apiErrorOf Err_JWT_VERIFICATION_FAILED) = 401"
  by (simp_all add: apiErrorOf_def getAPIError_def Err_MISSING_AUTHORIZATION_HEADER_def
      Err_INVALID_AUTHORIZATION_HEADER_def Err_EXPIRED_TOKEN_def Err_JWT_VERIFICATION_FAILED_def)

lemma jwtSession_run:
  assumes "jwtSession env api auth w = (r, w')"
  shows "(\<exists>s. r = Inr (Inl s) \<and> api_status (apiErrorOf s) = 401 \<and> onlyTick w w') \<or>
    (\<exists>payload. r = Inr (Inr payload) \<and> tokenOk env api w auth payload \<and> w' = advance w)"
proof -
  show ?thesis
  proof (cases "\<exists>token. auth = Some (''Bearer '' @ token) \<and> splitSpace (''Bearer '' @ token) = [''Bearer'', token]")
    case True
    then obtain token where auth: "auth = Some (''Bearer '' @ token)" and split: "splitSpace (''Bearer '' @ token) = [''Bearer'', token]"
      by blast
    from assms show ?thesis
      by (auto simp: jwtSession_def auth split [simplified] run_simps tokenOk_def onlyTick_def advance_def not_less
          split: sum.splits option.splits if_splits)
  next
    case False
    have "\<exists>s. r = Inr (Inl s) \<and> api_status (apiErrorOf s) = 401 \<and> w' = w"
    proof (cases auth)
      case None
      with assms show ?thesis by (auto simp: jwtSession_def)
    next
      case (Some header)
      with False splitSpace_two [of header] have "\<And>token. splitSpace header \<noteq> [''Bearer'', token]" by auto
      with assms Some show ?thesis
        by (auto simp: jwtSession_def split: list.splits if_splits)
    qed
    then show ?thesis by (auto simp: onlyTick_def)
  qed
qed

text \<open>A request behind the session middleware is handled only with a bearer token that verifies and has not
  expired; any other request is answered 401 and changes nothing.\<close>

theorem session_is_required:
  assumes "jwtMiddleware env api authorization next w = (r, w')"
  shows "(\<exists>e. r = Inr (ErrorReply e) \<and> api_status e = 401 \<and> onlyTick w w') \<or>
    (\<exists>payload. tokenOk env api w authorization payload \<and> next payload (advance w) = (r, w'))"
proof -
  obtain r1 w1 where s: "jwtSession env api authorization w = (r1, w1)" by fastforce
  from jwtSession_run [OF s] s assms show ?thesis
    by (auto simp: jwtMiddleware_def andThen_apply)
qed

lemma session0: "jwtSession env0 endpointApi0 (Some ''Bearer tok'') world0 = (Inr (Inr payload0), advance world0)"
  by (simp add: jwtSession_def run_simps)

theorem session_is_required_witness: "\<exists>payload. tokenOk env0 endpointApi0 world0 (Some ''Bearer tok'') payload"
proof -
  have "jwtMiddleware env0 endpointApi0 (Some ''Bearer tok'') (\<lambda>_. ret (SuccessReply [] ())) world0 =
      (Inr (SuccessReply [] ()), advance world0)"
    by (simp add: jwtMiddleware_def andThen_apply session0)
  from session_is_required [OF this] show ?thesis by auto
qed

section \<open>Endpoints always answer\<close>

lemma pipeEndpoint_run:
  "pipeEndpoint env api req steps schema msg w =
    (case req of
       Inl e \<Rightarrow> (Inr (ErrorReply (errorToApiResponse env api e)), w)
     | Inr b \<Rightarrow>
        (case steps b w of
           (Inl e, v) \<Rightarrow> (Inr (ErrorReply (errorToApiResponse env api e)), v)
         | (Inr d, v) \<Rightarrow>
             (Inr (case schema d of
                     None \<Rightarrow> ErrorReply (errorToApiResponse env api (PlatformError Err_FAILED_TO_SET_SUCCESS_RESPONSE))
                   | Some x \<Rightarrow> SuccessReply msg x), v)))"
  by (auto simp: pipeEndpoint_def run_simps setSuccessResponse_def split: sum.split prod.split option.split)



text \<open>C9: End to end: a bundle is accepted only over a verified session whose account the addressed provider has
  approved, with at least one and at most the configured number of operations.\<close>

theorem accepted_bundle_has_approved_session:
  assumes "postBundleRoute env api authorization request p w = (Inr (SuccessReply m d), w')"
  shows "\<exists>payload s pk. tokenOk env api w authorization payload \<and>
    s \<in> set (w_sessions w) \<and> s_id s = jp_sessionId payload \<and> deletedAt s = None \<and>
    p = Some pk \<and> approvedFor w pk (s_accountId s) \<and>
    (\<exists>v ops channel. request = Inr v \<and> bundleRequestSchema (BUNDLE_MAX_OPERATIONS env) v = Some (ops, channel) \<and>
      1 \<le> length ops \<and> length ops \<le> BUNDLE_MAX_OPERATIONS env)"
proof -
  obtain r1 w1 where s: "jwtSession env api authorization w = (r1, w1)" by fastforce
  with jwtSession_run [OF s] assms obtain payload where tok: "tokenOk env api w authorization payload"
    and h: "handlePostBundle env api request p payload (advance w) = (Inr (SuccessReply m d), w')"
    by (auto simp: postBundleRoute_def jwtMiddleware_def andThen_apply)
  from h obtain v ops channel x where req: "request = Inr v" "bundleRequestSchema (BUNDLE_MAX_OPERATIONS env) v = Some (ops, channel)"
    and add: "P_AddOperationsBundle env \<lparr>ai_operationsMLXDR = ops, ai_channelContractId = channel,
      ai_sessionId = jp_sessionId payload, ai_ppPublicKey = p, ai_uuid = endpointUUID api (w_tick (advance w))\<rparr> (advance w) = (Inr x, w')"
    by (auto simp: handlePostBundle_def run_simps pipeEndpoint_run parseRequestBody_def split: sum.splits option.splits prod.splits)
  from add obtain ad u where c: "admissionChecks env \<lparr>ai_operationsMLXDR = ops, ai_channelContractId = channel,
      ai_sessionId = jp_sessionId payload, ai_ppPublicKey = p, ai_uuid = endpointUUID api (w_tick (advance w))\<rparr> (advance w) = (Inr ad, u)"
    by (rule P_Add_Inr)
  note g = admissionChecks_Inr [OF c]
  have lens: "1 \<le> length ops \<and> length ops \<le> BUNDLE_MAX_OPERATIONS env"
    using req(2) by (auto simp: bundleRequestSchema_def split: json.splits option.splits if_splits)
  obtain s where "s \<in> set (w_sessions w)" "s_id s = jp_sessionId payload" "deletedAt s = None" "s_accountId s = ad_accountId ad"
    using g(4) by auto
  moreover obtain pk where "p = Some pk" "approvedFor w pk (ad_accountId ad)"
    using g(2,3) by (auto simp: approvedFor_def)
  ultimately show ?thesis using tok req lens by metis
qed

lemma checks1:
  "admissionChecks env0 (input0 [''dep'', ''cre'']) (advance world0) =
    (Inr \<lparr>ad_accountId = ''A1'', ad_ppPublicKey = ''P1'', ad_bundleId = ''dc'', ad_isExpired = False,
       ad_classified = classifyOperations [Deposit \<lparr>dep_publicKey = ''G1'', dep_amount = 100\<rparr>,
         Create \<lparr>co_utxo = ''u1'', co_amount = 60\<rparr>],
       ad_channelClient = \<lparr>pc_channelId = ''C1'', pc_authId = ''auth'', pc_assetId = ''asset''\<rparr>,
       ad_entityName = None, ad_jurisdictions = [], ad_fee = 40, ad_ttl = 86401000\<rparr>,
     snd (admissionChecks env0 (input0 [''dep'', ''cre'']) (advance world0)))"
  by (simp add: admission_defs run_simps Let_def fixture_defs classifyOperations_def
      calculateBundleTtl_def DEFAULT_BUNDLE_TTL_MS_def tryCatch_def MAX_CACHE_SIZE_def)

lemma accepted0:
  "\<exists>m d w'. postBundleRoute env0 endpointApi0 (Some ''Bearer tok'') (Inr bundleBody0) (Some ''P1'') world0 =
    (Inr (SuccessReply m d), w')"
proof -
  have "\<exists>w'. P_AddOperationsBundle env0 (input0 [''dep'', ''cre'']) (advance world0) = (Inr (Some ''dc''), w')"
    using freshAdmission_run [OF noFaults_env0 rpcReliable_env0 checks1]
    by (auto simp: bundleRow_def utxosLive_def slotsFit_def calculateBundleWeight_def classifyOperations_def
        allBundles_def fixture_defs Let_def)
  then obtain w' where "P_AddOperationsBundle env0 (input0 [''dep'', ''cre'']) (advance world0) = (Inr (Some ''dc''), w')"
    by (rule exE)
  then have "handlePostBundle env0 endpointApi0 (Inr bundleBody0) (Some ''P1'') payload0 (advance world0) =
      (Inr (SuccessReply ''Bundle received and queued for processing'' (''dc'', ''PENDING'')), w')"
    by (simp add: handlePostBundle_def andThen_apply [of "gets _"] pipeEndpoint_run parseRequestBody_def input0_def)
  then show ?thesis
    by (simp add: postBundleRoute_def jwtMiddleware_def andThen_apply session0)
qed

theorem accepted_bundle_has_approved_session_witness: "\<exists>s. s \<in> set (w_sessions world0) \<and> approvedFor world0 ''P1'' (s_accountId s)"
  using accepted0 by (auto dest!: accepted_bundle_has_approved_session)

section \<open>The waiting list\<close>

definition walletsOf :: "world \<Rightarrow> string list" where
  "walletsOf w = [k. Some k \<leftarrow> map wl_walletPublicKey (w_waitlist w)]"

lemma walletsOf_snoc: "w_waitlist w' = w_waitlist w @ [r] \<Longrightarrow>
    walletsOf w' = walletsOf w @ (case wl_walletPublicKey r of None \<Rightarrow> [] | Some k \<Rightarrow> [k])"
  by (simp add: walletsOf_def split: option.split)

lemma walletsOf_mem: "k \<in> set (walletsOf w) \<longleftrightarrow> (\<exists>r\<in>set (w_waitlist w). wl_walletPublicKey r = Some k)"
  by (auto simp: walletsOf_def split: option.splits) metis

lemma walletsOf_advance [simp]: "walletsOf (advance w) = walletsOf w"
  by (simp add: walletsOf_def)

lemma newRow_Inr:
  assumes "waitlist_newRow env api email wallet source w = (Inr row, w')"
  shows "w_waitlist w' = w_waitlist w @ [row] \<and> wl_email row = email \<and> wl_walletPublicKey row = wallet"
  using assms
  by (auto simp: waitlist_newRow_def waitlist_create_def dbExec_def run_simps split: if_splits)

lemma setEmail_Inr:
  assumes "waitlist_setEmail env i email w = (Inr u, w')"
  shows "walletsOf w' = walletsOf w"
    and "row \<in> set (w_waitlist w) \<Longrightarrow> wl_id row = i \<Longrightarrow>
      \<exists>q\<in>set (w_waitlist w'). wl_walletPublicKey q = wl_walletPublicKey row \<and> wl_email q = email"
proof -
  have "map wl_walletPublicKey (map (\<lambda>r. if wl_id r = i then r\<lparr>wl_email := email, updatedAt := t\<rparr> else r) rs) =
      map wl_walletPublicKey rs" for t and rs :: "WaitlistRequest list" by simp
  with assms show "walletsOf w' = walletsOf w"
    by (auto simp: waitlist_setEmail_def dbExec_def walletsOf_def simp del: map_map split: if_splits)
  show "row \<in> set (w_waitlist w) \<Longrightarrow> wl_id row = i \<Longrightarrow>
      \<exists>q\<in>set (w_waitlist w'). wl_walletPublicKey q = wl_walletPublicKey row \<and> wl_email q = email"
  proof -
    assume row: "row \<in> set (w_waitlist w)" "wl_id row = i"
    have "w_waitlist w' = map (\<lambda>r. if wl_id r = i then r\<lparr>wl_email := email, updatedAt := clock env (w_tick w)\<rparr> else r) (w_waitlist w)"
      using assms by (auto simp: waitlist_setEmail_def dbExec_def split: if_splits)
    with row have "row\<lparr>wl_email := email, updatedAt := clock env (w_tick w)\<rparr> \<in> set (w_waitlist w')" by force
    then show ?thesis by (rule bexI [rotated]) simp
  qed
qed

lemma upsert_Inr:
  assumes "upsert env api email (Some k) source w = (Inr isNew, w')" and "k \<noteq> []" and "distinct (walletsOf w)"
  shows "isNew = (k \<notin> set (walletsOf w)) \<and> distinct (walletsOf w') \<and>
    (\<exists>q\<in>set (w_waitlist w'). wl_walletPublicKey q = Some k \<and> wl_email q = email)"
proof (cases "find (\<lambda>r. wl_walletPublicKey r = Some k) (w_waitlist w)")
  case None
  then have "k \<notin> set (walletsOf w)" by (auto simp: walletsOf_mem find_None_iff)
  moreover obtain row where "waitlist_newRow env api email (Some k) source (advance w) = (Inr row, w')" "isNew"
    using assms(1,2) None
    by (auto simp: upsert_def orEmpty_def andThen_apply dbQuery_apply split: if_splits prod.splits sum.splits)
  moreover from this(1) have "w_waitlist w' = w_waitlist w @ [row]" "wl_email row = email" "wl_walletPublicKey row = Some k"
    by (auto dest: newRow_Inr)
  ultimately show ?thesis using assms(3) by (simp add: walletsOf_snoc)
next
  case (Some r)
  then have r: "r \<in> set (w_waitlist w)" "wl_walletPublicKey r = Some k" by (auto dest: find_SomeD)
  then have "k \<in> set (walletsOf w)" by (auto simp: walletsOf_mem)
  moreover obtain u where u: "waitlist_setEmail env (wl_id r) email (advance w) = (Inr u, w')" and "\<not> isNew"
    using assms(1,2) Some
    by (auto simp: upsert_def orEmpty_def andThen_apply dbQuery_apply split: if_splits prod.splits sum.splits)
  moreover have "distinct (walletsOf w')" using setEmail_Inr(1) [OF u] assms(3) by simp
  moreover have "\<exists>q\<in>set (w_waitlist w'). wl_walletPublicKey q = Some k \<and> wl_email q = email"
    using setEmail_Inr(2) [OF u, of r] r by simp
  ultimately show ?thesis by blast
qed

text \<open>The waiting list holds one entry per wallet, with the address of its last request: the reply is 201 for
  a wallet that was not on the list, and 200 when its entry has got the new address.\<close>

theorem waitlist_has_one_entry_per_wallet:
  assumes "postWaitlist env api (Inr body) w = (Inr r, w')" and "r_status r \<noteq> 400"
    and "optMember body ''walletPublicKey'' = JString k" and "k \<noteq> []" and "distinct (walletsOf w)"
  shows "distinct (walletsOf w') \<and> r_status r = (if k \<in> set (walletsOf w) then 200 else 201) \<and>
    (\<exists>q\<in>set (w_waitlist w'). wl_walletPublicKey q = Some k \<and> optMember body ''email'' = JString (wl_email q))"
proof -
  obtain email isNew where email: "optMember body ''email'' = JString email"
    and up: "upsert env api email (Some k) ''provider-console'' w = (Inr isNew, w')"
    and r: "r_status r = (if isNew then 201 else 200)"
    using assms(1-3)
    by (auto simp: postWaitlist_def respond_def andThen_apply split: json.splits if_splits prod.splits sum.splits)
  from upsert_Inr [OF up assms(4,5)] email r show ?thesis by auto
qed

definition waitBody0 :: json where
  "waitBody0 = JObject [(''email'', JString ''a@b.org''), (''walletPublicKey'', JString ''G1'')]"

theorem waitlist_has_one_entry_per_wallet_witness:
  "\<exists>w'. distinct (walletsOf w') \<and> (\<exists>q\<in>set (w_waitlist w'). wl_walletPublicKey q = Some ''G1'' \<and> wl_email q = ''a@b.org'')"
proof -
  have body: "optMember waitBody0 ''email'' = JString ''a@b.org''" "optMember waitBody0 ''walletPublicKey'' = JString ''G1''"
    by (simp_all add: waitBody0_def optMember_def)
  have "isEmail ''a@b.org''" by code_simp
  then have "\<exists>w'. postWaitlist env0 endpointApi0 (Inr waitBody0) world0 =
      (Inr \<lparr>r_status = 201, r_message = ''Added to waitlist'', r_data = None\<rparr>, w')"
    by (simp add: postWaitlist_def body upsert_def orEmpty_def andThen_apply dbQuery_apply waitlist_newRow_def
        waitlist_create_def dbExec_def respond_def utf16Length_def)
  then obtain w' where "postWaitlist env0 endpointApi0 (Inr waitBody0) world0 =
      (Inr \<lparr>r_status = 201, r_message = ''Added to waitlist'', r_data = None\<rparr>, w')" by (rule exE)
  moreover have "distinct (walletsOf world0)" by (simp add: walletsOf_def)
  ultimately have "distinct (walletsOf w') \<and>
      (\<exists>q\<in>set (w_waitlist w'). wl_walletPublicKey q = Some ''G1'' \<and> optMember waitBody0 ''email'' = JString (wl_email q))"
    using waitlist_has_one_entry_per_wallet [OF _ _ body(2)] by fastforce
  then show ?thesis unfolding body(1) by (metis json.inject(3))
qed

end
