(* ===== verification/EventStream.thy ===== *)
theory EventStream
  imports Endpoints "HOL-Library.Sublist"
begin

text \<open>
  How events reach operators: the text of an event (\<^verbatim>\<open>core/service/events/event.types.ts\<close>), the bus with its NOTIFY
  transport (\<^verbatim>\<open>pg-notify-event-bus.ts\<close>, \<^verbatim>\<open>pg-listener.ts\<close>) and the websocket handler
  (\<^verbatim>\<open>http/v1/events/ws-handler.ts\<close>).  A machine keeps the listeners of its bus and its connections; what arrives
  on the channel of the database is a text, possibly from another machine.  Connections are numbered in the order of
  their upgrade; a listener is the number of its connection.
\<close>

section \<open>The text of an event\<close>

text \<open>\<^verbatim>\<open>JSON.stringify\<close>; the numbers of an event are integers.\<close>

fun stringify :: "json \<Rightarrow> string option" and stringifyItems :: "json list \<Rightarrow> string list"
  and stringifyMembers :: "(string \<times> json) list \<Rightarrow> string list" where
  "stringify JUndefined = None"
| "stringify JNull = Some ''null''"
| "stringify (JBool b) = Some (if b then ''true'' else ''false'')"
| "stringify (JNumber n) = Some (intToString \<lfloor>n\<rfloor>)"
| "stringify (JString s) = Some (quote s)"
| "stringify (JArray xs) = Some (''['' @ joinWith '','' (stringifyItems xs) @ '']'')"
| "stringify (JObject kvs) = Some (''{'' @ joinWith '','' (stringifyMembers kvs) @ ''}'')"
| "stringifyItems [] = []"
| "stringifyItems (v # vs) = (case stringify v of None \<Rightarrow> ''null'' | Some s \<Rightarrow> s) # stringifyItems vs"
| "stringifyMembers [] = []"
| "stringifyMembers ((k, v) # kvs) =
    (case stringify v of None \<Rightarrow> stringifyMembers kvs | Some s \<Rightarrow> (quote k @ '':'' @ s) # stringifyMembers kvs)"

definition jsonOf :: "string option \<Rightarrow> json" where
  "jsonOf s = (case s of None \<Rightarrow> JNull | Some x \<Rightarrow> JString x)"

definition jsonArray :: "string list \<Rightarrow> json" where
  "jsonArray xs = JArray (map JString xs)"

fun eventKind :: "EventPayload \<Rightarrow> string" where
  "eventKind (MempoolBundleAdded _ _ _ _ _ _ _) = ''mempool.bundle_added''"
| "eventKind (MempoolBundleExpired _ _) = ''mempool.bundle_expired''"
| "eventKind (ExecutorTransactionSubmitted _ _ _) = ''executor.transaction_submitted''"
| "eventKind (ExecutorExecutionFailed _ _ _) = ''executor.execution_failed''"
| "eventKind (VerifierBundleCompleted _ _ _) = ''verifier.bundle_completed''"
| "eventKind (VerifierBundleFailed _ _ _ _) = ''verifier.bundle_failed''"
| "eventKind (BundleDepositCompleted _ _ _ _ _) = ''bundle.deposit_completed''"
| "eventKind (BundleWithdrawCompleted _ _ _ _ _) = ''bundle.withdraw_completed''"
| "eventKind (ChannelProviderAdded _) = ''channel.provider_added''"
| "eventKind (ChannelProviderRemoved _) = ''channel.provider_removed''"

text \<open>The members of a payload, in the order in which the services build it.\<close>

fun payloadMembers :: "EventPayload \<Rightarrow> (string \<times> json) list" where
  "payloadMembers (MempoolBundleAdded i wt ch fresh name js amount) =
    [(''bundleId'', JString i), (''weight'', JNumber (of_int wt)), (''channelContractId'', JString ch),
     (''newSlot'', JBool fresh), (''entityName'', jsonOf name), (''jurisdictions'', jsonArray js),
     (''amount'', jsonOf amount)]"
| "payloadMembers (MempoolBundleExpired i ch) = [(''bundleId'', JString i), (''channelContractId'', JString ch)]"
| "payloadMembers (ExecutorTransactionSubmitted h is ch) =
    [(''txHash'', JString h), (''bundleIds'', jsonArray is), (''channelContractId'', JString ch)]"
| "payloadMembers (ExecutorExecutionFailed is ch reason) =
    [(''bundleIds'', jsonArray is), (''channelContractId'', jsonOf ch), (''reason'', JString reason)]"
| "payloadMembers (VerifierBundleCompleted t is ch) =
    [(''txId'', JString t), (''bundleIds'', jsonArray is), (''channelContractId'', JString ch)]"
| "payloadMembers (VerifierBundleFailed t is ch reason) =
    [(''txId'', JString t), (''bundleIds'', jsonArray is), (''channelContractId'', JString ch), (''reason'', JString reason)]"
| "payloadMembers (BundleDepositCompleted i t ch address amount) =
    [(''bundleId'', JString i), (''txId'', JString t), (''channelContractId'', JString ch),
     (''depositorAddress'', JString address), (''amount'', JString amount)]"
| "payloadMembers (BundleWithdrawCompleted i t ch address amount) =
    [(''bundleId'', JString i), (''txId'', JString t), (''channelContractId'', JString ch),
     (''recipientAddress'', JString address), (''amount'', JString amount)]"
| "payloadMembers (ChannelProviderAdded ch) = [(''channelContractId'', JString ch)]"
| "payloadMembers (ChannelProviderRemoved ch) = [(''channelContractId'', JString ch)]"

definition eventJson :: "ProviderEvent \<Rightarrow> json" where
  "eventJson e = JObject
    [(''kind'', JString (eventKind (pe_payload e))), (''ts'', JNumber (of_int (pe_ts e))),
     (''scope'', JObject [(''ppPublicKey'', JString (es_ppPublicKey (pe_scope e))),
                        (''ppLabel'', jsonOf (es_ppLabel (pe_scope e)))]),
     (''payload'', JObject (payloadMembers (pe_payload e)))]"

definition eventText :: "ProviderEvent \<Rightarrow> string" where
  "eventText e = orEmpty (stringify (eventJson e))"

section \<open>The machine\<close>

text \<open>A connection: the provider it is bound to, whether its socket is open, whether it has been cleaned up, whether
  it is subscribed, and what it has been sent.\<close>

record Connection =
  ws_boundPpPublicKey :: string
  ws_open :: bool
  ws_closed :: bool
  ws_subscribed :: bool
  ws_sent :: "json list"

record Machine =
  bus_listeners :: "nat list"
  bus_notifier :: bool
  m_connections :: "Connection list"
  m_notified :: "string list"

definition MAX_NOTIFY_PAYLOAD_BYTES :: nat where
  "MAX_NOTIFY_PAYLOAD_BYTES = 7900"

definition bus_setNotifier :: "Machine \<Rightarrow> Machine" where
  "bus_setNotifier m = m\<lparr>bus_notifier := True\<rparr>"

definition bus_subscribe :: "nat \<Rightarrow> Machine \<Rightarrow> Machine" where
  "bus_subscribe i m = m\<lparr>bus_listeners := setAdd (bus_listeners m) i\<rparr>"

definition bus_unsubscribe :: "nat \<Rightarrow> Machine \<Rightarrow> Machine" where
  "bus_unsubscribe i m = m\<lparr>bus_listeners := setDelete (bus_listeners m) i\<rparr>"

text \<open>The listener of a connection: events of another provider are not for it, an event while the socket is not open
  is dropped, and so is one the socket fails to send.  An exception of the listener, for an event without a scope,
  is caught by the bus and has the same effect.\<close>

definition wsListener :: "bool \<Rightarrow> json \<Rightarrow> Connection \<Rightarrow> Connection" where
  "wsListener sendFails event c =
    (case getMember (member event ''scope'') ''ppPublicKey'' of
       Inl _ \<Rightarrow> c
     | Inr pp \<Rightarrow>
        if pp \<noteq> JString (ws_boundPpPublicKey c) then c
        else if \<not> ws_open c then c
        else if sendFails then c
        else c\<lparr>ws_sent := ws_sent c @ [event]\<rparr>)"

definition atConnection :: "nat \<Rightarrow> (Connection \<Rightarrow> Connection) \<Rightarrow> Machine \<Rightarrow> Machine" where
  "atConnection i f m = (if i < length (m_connections m) then m\<lparr>m_connections := (m_connections m)[i := f (m_connections m ! i)]\<rparr> else m)"

definition publishLocal :: "(nat \<Rightarrow> bool) \<Rightarrow> json \<Rightarrow> Machine \<Rightarrow> Machine" where
  "publishLocal sendFails event m =
    fold (\<lambda>i. atConnection i (wsListener (sendFails i) event)) (bus_listeners m) m"

text \<open>Before the transport is wired an event goes straight to the local listeners.\<close>

definition bus_emit :: "(nat \<Rightarrow> bool) \<Rightarrow> ProviderEvent \<Rightarrow> Machine \<Rightarrow> Machine" where
  "bus_emit sendFails event m =
    (if \<not> bus_notifier m then publishLocal sendFails (eventJson event) m
     else let payload = eventText event in
       if MAX_NOTIFY_PAYLOAD_BYTES \<le> utf16Length payload then m
       else m\<lparr>m_notified := m_notified m @ [payload]\<rparr>)"

text \<open>A notification: its text has to be JSON with a kind.\<close>

definition onNotify :: "(string \<Rightarrow> exn + json) \<Rightarrow> (nat \<Rightarrow> bool) \<Rightarrow> string \<Rightarrow> Machine \<Rightarrow> Machine" where
  "onNotify parseJson sendFails payload m =
    (case parseJson payload of
       Inl _ \<Rightarrow> m
     | Inr event \<Rightarrow>
        (case event of
           JObject kvs \<Rightarrow> (case member event ''kind'' of JString _ \<Rightarrow> publishLocal sendFails event m | _ \<Rightarrow> m)
         | _ \<Rightarrow> m))"

section \<open>Connecting\<close>

definition BEARER_PROTO_PREFIX :: string where
  "BEARER_PROTO_PREFIX = ''bearer.''"

fun splitComma :: "string \<Rightarrow> string list" where
  "splitComma [] = [[]]"
| "splitComma (c # s) =
    (if c = CHR '','' then [] # splitComma s
     else case splitComma s of [] \<Rightarrow> [[c]] | p # ps \<Rightarrow> (c # p) # ps)"

fun firstBearer :: "string list \<Rightarrow> string option" where
  "firstBearer [] = None"
| "firstBearer (entry # entries) =
    (let token = drop (length BEARER_PROTO_PREFIX) entry in
     if startsWith entry BEARER_PROTO_PREFIX \<and> token \<noteq> [] then Some token else firstBearer entries)"

definition extractBearerToken :: "string option \<Rightarrow> string option" where
  "extractBearerToken headerValue =
    (if orEmpty headerValue = [] then None else firstBearer (map trim (splitComma (orEmpty headerValue))))"

text \<open>The subject of a verified token; nothing when it does not verify, has expired or has no subject.\<close>

definition verifyJwtToken :: "env \<Rightarrow> EndpointApi \<Rightarrow> string \<Rightarrow> string option action" where
  "verifyJwtToken env api token =
    tryCatch
     (andThen (external (\<lambda>n. jwtVerify api n token)) (\<lambda>payload.
      andThen (dateNow env) (\<lambda>ms.
      if (case jp_exp payload of Some expiry \<Rightarrow> of_int (ms div 1000) > expiry | None \<Rightarrow> False) then ret None
      else ret (jp_sub payload))))
     (\<lambda>_. ret None)"

datatype WsAnswer = Refuse nat string | Upgrade PaymentProvider

definition handleEventsWs ::
    "env \<Rightarrow> EndpointApi \<Rightarrow> bool \<Rightarrow> string option \<Rightarrow> string option \<Rightarrow> WsAnswer action" where
  "handleEventsWs env api isUpgradable protoHeader ppParam =
    (if \<not> isUpgradable then ret (Refuse 426 ''WebSocket upgrade required'')
     else case extractBearerToken protoHeader of
       None \<Rightarrow> ret (Refuse 401 ''Missing bearer.<jwt> Sec-WebSocket-Protocol entry'')
     | Some token \<Rightarrow>
        andThen (verifyJwtToken env api token) (\<lambda>session.
        case session of
          None \<Rightarrow> ret (Refuse 401 ''Invalid or expired token'')
        | Some sub \<Rightarrow>
           if orEmpty ppParam = [] then ret (Refuse 400 ''Missing :ppPublicKey URL path param'')
           else
            andThen (findByPublicKeyAndOwner env (orEmpty ppParam) sub) (\<lambda>pp.
            case pp of
              None \<Rightarrow> ret (Refuse 403 ''PP not owned by authenticated operator'')
            | Some r \<Rightarrow> ret (Upgrade r))))"

text \<open>The upgraded socket: not open yet, not subscribed.\<close>

definition newConnection :: "string \<Rightarrow> Connection" where
  "newConnection boundPpPublicKey = \<lparr>ws_boundPpPublicKey = boundPpPublicKey, ws_open = False, ws_closed = False,
     ws_subscribed = False, ws_sent = []\<rparr>"

definition upgrade :: "PaymentProvider \<Rightarrow> Machine \<Rightarrow> Machine" where
  "upgrade pp m = m\<lparr>m_connections := m_connections m @ [newConnection (pp_publicKey pp)]\<rparr>"

definition onopen :: "nat \<Rightarrow> Machine \<Rightarrow> Machine" where
  "onopen i m = bus_subscribe i (atConnection i (\<lambda>c. c\<lparr>ws_open := True, ws_subscribed := True\<rparr>) m)"

definition cleanup :: "nat \<Rightarrow> Machine \<Rightarrow> Machine" where
  "cleanup i m =
    (if i < length (m_connections m) \<and> \<not> ws_closed (m_connections m ! i)
     then (if ws_subscribed (m_connections m ! i) then bus_unsubscribe i else id)
       (atConnection i (\<lambda>c. c\<lparr>ws_closed := True, ws_subscribed := False\<rparr>) m)
     else m)"

definition onclose :: "nat \<Rightarrow> Machine \<Rightarrow> Machine" where
  "onclose i m = cleanup i (atConnection i (\<lambda>c. c\<lparr>ws_open := False\<rparr>) m)"

definition onerror :: "nat \<Rightarrow> Machine \<Rightarrow> Machine" where
  "onerror i m = cleanup i m"

section \<open>A machine over time\<close>

datatype streamStep =
    Connect env EndpointApi bool "string option" "string option" world
  | Opened nat | ClosedBy nat | Errored nat | Wire
  | Emitted "nat \<Rightarrow> bool" ProviderEvent
  | Notified "nat \<Rightarrow> bool" string

fun streamRun :: "(string \<Rightarrow> exn + json) \<Rightarrow> streamStep \<Rightarrow> Machine \<Rightarrow> Machine" where
  "streamRun parseJson (Connect env api up header p w) m =
    (case fst (handleEventsWs env api up header p w) of Inr (Upgrade pp) \<Rightarrow> upgrade pp m | _ \<Rightarrow> m)"
| "streamRun parseJson (Opened i) m = onopen i m"
| "streamRun parseJson (ClosedBy i) m = onclose i m"
| "streamRun parseJson (Errored i) m = onerror i m"
| "streamRun parseJson Wire m = bus_setNotifier m"
| "streamRun parseJson (Emitted sendFails e) m = bus_emit sendFails e m"
| "streamRun parseJson (Notified sendFails text) m = onNotify parseJson sendFails text m"

text \<open>The event a step hands to the listeners of this machine.\<close>

fun publishedBy :: "(string \<Rightarrow> exn + json) \<Rightarrow> streamStep \<Rightarrow> Machine \<Rightarrow> json list" where
  "publishedBy parseJson (Emitted sendFails e) m = (if bus_notifier m then [] else [eventJson e])"
| "publishedBy parseJson (Notified sendFails text) m =
    (case parseJson text of
       Inr (JObject kvs) \<Rightarrow> (case member (JObject kvs) ''kind'' of JString _ \<Rightarrow> [JObject kvs] | _ \<Rightarrow> [])
     | _ \<Rightarrow> [])"
| "publishedBy parseJson _ m = []"

definition startedMachine :: Machine where
  "startedMachine = \<lparr>bus_listeners = [], bus_notifier = False, m_connections = [], m_notified = []\<rparr>"

inductive streaming :: "(string \<Rightarrow> exn + json) \<Rightarrow> Machine \<Rightarrow> json list \<Rightarrow> bool" for parseJson where
  boot: "streaming parseJson startedMachine []"
| run: "streaming parseJson m events \<Longrightarrow>
    streaming parseJson (streamRun parseJson s m) (events @ publishedBy parseJson s m)"

text \<open>An event is for the provider its scope names.\<close>

definition eventFor :: "string \<Rightarrow> json \<Rightarrow> bool" where
  "eventFor pk event \<longleftrightarrow> member (member event ''scope'') ''ppPublicKey'' = JString pk"

lemma eventFor_eventJson [simp]: "eventFor pk (eventJson e) \<longleftrightarrow> pk = es_ppPublicKey (pe_scope e)"
  by (auto simp: eventFor_def eventJson_def)

lemma wsListener_sent:
  "wsListener f e c = c \<or> eventFor (ws_boundPpPublicKey c) e \<and> wsListener f e c = c\<lparr>ws_sent := ws_sent c @ [e]\<rparr>"
  by (auto simp: wsListener_def eventFor_def getMember_def split: sum.split)

lemma wsListener_delivers:
  "ws_open c \<Longrightarrow> eventFor (ws_boundPpPublicKey c) e \<Longrightarrow> wsListener False e c = c\<lparr>ws_sent := ws_sent c @ [e]\<rparr>"
  by (cases "member e ''scope''") (auto simp: wsListener_def eventFor_def getMember_def)

section \<open>A concrete machine\<close>

definition streamEvent0 :: ProviderEvent where
  "streamEvent0 = \<lparr>pe_ts = 1000, pe_scope = \<lparr>es_ppPublicKey = ''P1'', es_ppLabel = None\<rparr>,
     pe_payload = MempoolBundleExpired ''b1'' ''C1''\<rparr>"

definition parse0 :: "string \<Rightarrow> exn + json" where
  "parse0 payload = (if payload = eventText streamEvent0 then Inr (eventJson streamEvent0) else Inl TypeError)"

definition owned0 :: world where
  "owned0 = w_pps_update (map (\<lambda>r. r\<lparr>pp_ownerPublicKey := Some ''A1''\<rparr>)) world0"

abbreviation connect0 :: streamStep where
  "connect0 \<equiv> Connect env0 endpointApi0 True (Some ''moonlight.events.v1, bearer.tok'') (Some ''P1'') owned0"

definition listening0 :: Machine where
  "listening0 = streamRun parse0 (Opened 0) (streamRun parse0 connect0 startedMachine)"

lemma upgrade0: "\<exists>pp w'. handleEventsWs env0 endpointApi0 True (Some ''moonlight.events.v1, bearer.tok'') (Some ''P1'') owned0 =
    (Inr (Upgrade pp), w') \<and> pp_publicKey pp = ''P1''"
proof -
  have token: "extractBearerToken (Some ''moonlight.events.v1, bearer.tok'') = Some ''tok''" by code_simp
  have "jp_sub payload0 = Some ''A1''" by (simp add: payload0_def)
  with token show ?thesis
    by (simp add: handleEventsWs_def verifyJwtToken_def findByPublicKeyAndOwner_def run_simps orEmpty_def owned0_def
        fixture_defs)
qed

lemma listening0: "listening0 = \<lparr>bus_listeners = [0], bus_notifier = False,
    m_connections = [\<lparr>ws_boundPpPublicKey = ''P1'', ws_open = True, ws_closed = False, ws_subscribed = True, ws_sent = []\<rparr>],
    m_notified = []\<rparr>"
proof -
  obtain pp w' where "handleEventsWs env0 endpointApi0 True (Some ''moonlight.events.v1, bearer.tok'') (Some ''P1'') owned0 =
    (Inr (Upgrade pp), w')" "pp_publicKey pp = ''P1''" using upgrade0 by blast
  then show ?thesis
    by (simp add: listening0_def startedMachine_def upgrade_def newConnection_def onopen_def bus_subscribe_def setAdd_def
        atConnection_def)
qed

lemma streaming0: "streaming parse0 listening0 []"
proof -
  have "streaming parse0 (streamRun parse0 (Opened 0) (streamRun parse0 connect0 startedMachine))
      (([] @ publishedBy parse0 connect0 startedMachine) @ publishedBy parse0 (Opened 0) (streamRun parse0 connect0 startedMachine))"
    by (intro streaming.run streaming.boot)
  then show ?thesis by (simp add: listening0_def)
qed

section \<open>Delivery\<close>

lemma atConnection_simps [simp]:
  "bus_listeners (atConnection i f m) = bus_listeners m" "bus_notifier (atConnection i f m) = bus_notifier m"
  "m_notified (atConnection i f m) = m_notified m"
  "length (m_connections (atConnection i f m)) = length (m_connections m)"
  by (simp_all add: atConnection_def)

lemma atConnection_nth:
  "j < length (m_connections m) \<Longrightarrow>
    m_connections (atConnection i f m) ! j = (if j = i then f (m_connections m ! j) else m_connections m ! j)"
  by (auto simp: atConnection_def)

lemma fold_atConnection:
  assumes "distinct is"
  shows "bus_listeners (fold (\<lambda>i. atConnection i (f i)) is m) = bus_listeners m \<and>
    length (m_connections (fold (\<lambda>i. atConnection i (f i)) is m)) = length (m_connections m) \<and>
    (\<forall>j<length (m_connections m). m_connections (fold (\<lambda>i. atConnection i (f i)) is m) ! j =
      (if j \<in> set is then f j (m_connections m ! j) else m_connections m ! j))"
  using assms by (induction "is" arbitrary: m) (auto simp: atConnection_nth)

definition machineOk :: "Machine \<Rightarrow> json list \<Rightarrow> bool" where
  "machineOk m events \<longleftrightarrow> distinct (bus_listeners m) \<and>
    (\<forall>c\<in>set (m_connections m). subseq (ws_sent c) (filter (eventFor (ws_boundPpPublicKey c)) events))"

lemma publishLocal_ok:
  assumes "machineOk m events"
  shows "machineOk (publishLocal sendFails e m) (events @ [e])"
  unfolding machineOk_def
proof (intro conjI ballI)
  let ?m = "publishLocal sendFails e m"
  note f = fold_atConnection [OF assms [unfolded machineOk_def, THEN conjunct1],
      of "\<lambda>i. wsListener (sendFails i) e" m, folded publishLocal_def]
  show "distinct (bus_listeners ?m)" using f assms by (simp add: machineOk_def)
  fix c' assume "c' \<in> set (m_connections ?m)"
  then obtain j where j: "j < length (m_connections m)" "c' = m_connections ?m ! j"
    using f by (auto simp: in_set_conv_nth)
  define c where "c = m_connections m ! j"
  have old: "subseq (ws_sent c) (filter (eventFor (ws_boundPpPublicKey c)) events)"
    using assms j(1) by (simp add: machineOk_def c_def)
  have "c' = c \<or> c' = wsListener (sendFails j) e c" using f j by (simp add: c_def)
  with wsListener_sent [of "sendFails j" e c] consider "c' = c" |
      "eventFor (ws_boundPpPublicKey c) e" "c' = c\<lparr>ws_sent := ws_sent c @ [e]\<rparr>" by metis
  then show "subseq (ws_sent c') (filter (eventFor (ws_boundPpPublicKey c')) (events @ [e]))"
    using old by cases (auto intro: list_emb_append_mono subseq_rev_drop_many)
qed

definition ledgerOf :: "Machine \<Rightarrow> (string \<times> json list) list" where
  "ledgerOf m = map (\<lambda>c. (ws_boundPpPublicKey c, ws_sent c)) (m_connections m)"

lemma machineOk_same:
  assumes "machineOk m events" and "ledgerOf m' = ledgerOf m" and "distinct (bus_listeners m) \<Longrightarrow> distinct (bus_listeners m')"
  shows "machineOk m' events"
proof -
  have "(\<forall>c\<in>set (m_connections n). subseq (ws_sent c) (filter (eventFor (ws_boundPpPublicKey c)) events)) \<longleftrightarrow>
      (\<forall>(pk, sent)\<in>set (ledgerOf n). subseq sent (filter (eventFor pk) events))" for n
    by (auto simp: ledgerOf_def)
  with assms show ?thesis unfolding machineOk_def by simp
qed

lemma ledgerOf_atConnection:
  "(\<And>c. ws_boundPpPublicKey (f c) = ws_boundPpPublicKey c \<and> ws_sent (f c) = ws_sent c) \<Longrightarrow>
    ledgerOf (atConnection i f m) = ledgerOf m"
  by (auto simp: ledgerOf_def atConnection_def intro: nth_equalityI simp: nth_list_update)

lemma ledgerOf_bus [simp]: "ledgerOf (bus_subscribe i m) = ledgerOf m" "ledgerOf (bus_unsubscribe i m) = ledgerOf m"
  "ledgerOf (bus_setNotifier m) = ledgerOf m" "ledgerOf (m\<lparr>m_notified := ts\<rparr>) = ledgerOf m"
  by (simp_all add: ledgerOf_def bus_subscribe_def bus_unsubscribe_def bus_setNotifier_def)

lemma cleanup_ok:
  assumes "machineOk m events"
  shows "machineOk (cleanup i m) events"
proof (rule machineOk_same [OF assms])
  show "ledgerOf (cleanup i m) = ledgerOf m"
    by (simp add: cleanup_def ledgerOf_atConnection)
  show "distinct (bus_listeners m) \<Longrightarrow> distinct (bus_listeners (cleanup i m))"
    by (simp add: cleanup_def bus_unsubscribe_def distinct_setDelete)
qed

lemma onopen_ok: "machineOk m events \<Longrightarrow> machineOk (onopen i m) events"
  by (erule machineOk_same) (simp_all add: onopen_def ledgerOf_atConnection, simp add: bus_subscribe_def distinct_setAdd)

lemma onclose_ok: "machineOk m events \<Longrightarrow> machineOk (onclose i m) events"
  unfolding onclose_def by (rule cleanup_ok, erule machineOk_same) (simp_all add: ledgerOf_atConnection)

lemma upgrade_ok: "machineOk m events \<Longrightarrow> machineOk (upgrade pp m) events"
  by (auto simp: machineOk_def upgrade_def newConnection_def)

lemma streamRun_ok:
  assumes "machineOk m events"
  shows "machineOk (streamRun parseJson s m) (events @ publishedBy parseJson s m)"
proof (cases s)
  case (Notified f payload)
  then show ?thesis
    using assms publishLocal_ok [OF assms] by (auto simp: onNotify_def split: sum.split json.split)
next
  case (Emitted f e)
  have "machineOk (m\<lparr>m_notified := ts\<rparr>) events" for ts using assms by (rule machineOk_same) simp_all
  with Emitted show ?thesis using assms publishLocal_ok [OF assms] by (simp add: bus_emit_def Let_def)
next
  case Wire
  have "machineOk (bus_setNotifier m) events" using assms by (rule machineOk_same) (simp, simp add: bus_setNotifier_def)
  with Wire show ?thesis by simp
qed (use assms in \<open>auto simp: upgrade_ok onopen_ok onclose_ok onerror_def cleanup_ok split: sum.split WsAnswer.split\<close>)

lemma streaming_ok: "streaming parseJson m events \<Longrightarrow> machineOk m events"
  by (induction rule: streaming.induct) (simp add: machineOk_def startedMachine_def, rule streamRun_ok)

text \<open>C32: A connection is only ever sent events of the provider it is bound to, each at most as often as it was
  published on this machine, in the order of publication.\<close>

theorem stream_is_own_events:
  assumes "streaming parseJson m events" and "c \<in> set (m_connections m)"
  shows "subseq (ws_sent c) (filter (eventFor (ws_boundPpPublicKey c)) events)"
  using streaming_ok [OF assms(1)] assms(2) by (simp add: machineOk_def)

theorem stream_is_own_events_witness:
  "list_all (\<lambda>c. subseq (ws_sent c) (filter (eventFor (ws_boundPpPublicKey c)) [eventJson streamEvent0]))
    (m_connections (streamRun parse0 (Notified (\<lambda>_. False) (eventText streamEvent0)) listening0))"
proof -
  have "publishedBy parse0 (Notified (\<lambda>_. False) (eventText streamEvent0)) listening0 = [eventJson streamEvent0]"
    by (simp add: parse0_def) (simp add: eventJson_def)
  with streaming.run [OF streaming0, of "Notified (\<lambda>_. False) (eventText streamEvent0)"]
  have "streaming parse0 (streamRun parse0 (Notified (\<lambda>_. False) (eventText streamEvent0)) listening0) [eventJson streamEvent0]"
    by (simp only: append_Nil)
  from stream_is_own_events [OF this] show ?thesis unfolding list_all_iff by blast
qed

text \<open>C33: An event a service emits on a machine with the transport wired, if its text is below the cap, is notified
  once; and a machine that reads the notification back sends it to every connection that listens there with an open
  socket for the provider of the event.\<close>

theorem event_reaches_operator:
  assumes "bus_notifier m" and "utf16Length (eventText e) < MAX_NOTIFY_PAYLOAD_BYTES"
    and "parseJson (eventText e) = Inr (eventJson e)"
    and "streaming parseJson n events" and "i \<in> set (bus_listeners n)" and "i < length (m_connections n)"
    and "ws_open (m_connections n ! i)" and "ws_boundPpPublicKey (m_connections n ! i) = es_ppPublicKey (pe_scope e)"
    and "\<not> sendFails i"
  shows "m_notified (bus_emit f e m) = m_notified m @ [eventText e] \<and>
    ws_sent (m_connections (onNotify parseJson sendFails (eventText e) n) ! i) = ws_sent (m_connections n ! i) @ [eventJson e]"
proof
  show "m_notified (bus_emit f e m) = m_notified m @ [eventText e]"
    using assms(1,2) by (simp add: bus_emit_def Let_def)
  have "distinct (bus_listeners n)" using streaming_ok [OF assms(4)] by (simp add: machineOk_def)
  from fold_atConnection [OF this, of "\<lambda>i. wsListener (sendFails i) (eventJson e)" n] assms(5-9)
  have "m_connections (publishLocal sendFails (eventJson e) n) ! i = wsListener False (eventJson e) (m_connections n ! i)"
    by (simp add: publishLocal_def)
  moreover have "onNotify parseJson sendFails (eventText e) n = publishLocal sendFails (eventJson e) n"
    using assms(3) by (simp add: onNotify_def eventJson_def)
  ultimately show "ws_sent (m_connections (onNotify parseJson sendFails (eventText e) n) ! i) =
      ws_sent (m_connections n ! i) @ [eventJson e]"
    using wsListener_delivers [of "m_connections n ! i" "eventJson e"] assms(7,8) by simp
qed

theorem event_reaches_operator_witness:
  "ws_sent (m_connections (onNotify parse0 (\<lambda>_. False) (eventText streamEvent0) listening0) ! 0) = [eventJson streamEvent0]"
proof -
  have short: "utf16Length (eventText streamEvent0) < MAX_NOTIFY_PAYLOAD_BYTES"
    unfolding MAX_NOTIFY_PAYLOAD_BYTES_def streamEvent0_def by code_simp
  have "parse0 (eventText streamEvent0) = Inr (eventJson streamEvent0)" by (simp add: parse0_def)
  from event_reaches_operator [of "bus_setNotifier startedMachine", OF _ short this streaming0, of 0 "\<lambda>_. False" "\<lambda>_. False"]
  show ?thesis by (simp add: listening0 streamEvent0_def bus_setNotifier_def)
qed

text \<open>An operator gets a stream only over a token that verifies, has not expired and names the owner of the
  provider of the route; the connection is bound to that provider.\<close>

theorem stream_needs_ownership:
  assumes "handleEventsWs env api up header p w = (Inr (Upgrade pp), w')"
  shows "\<exists>token payload sub. extractBearerToken header = Some token \<and>
    jwtVerify api (w_tick w) token = Inr payload \<and> jp_sub payload = Some sub \<and>
    (\<forall>expiry. jp_exp payload = Some expiry \<longrightarrow> of_int (clock env (Suc (w_tick w)) div 1000) \<le> expiry) \<and>
    pp \<in> set (w_pps w) \<and> pp_publicKey pp = orEmpty p \<and> pp_ownerPublicKey pp = Some sub"
  using assms
  by (auto simp: handleEventsWs_def verifyJwtToken_def findByPublicKeyAndOwner_def run_simps advance_def not_less
      dest!: find_SomeD split: if_splits option.splits sum.splits)

theorem stream_needs_ownership_witness: "\<exists>pp\<in>set (w_pps owned0). pp_ownerPublicKey pp = Some ''A1''"
proof -
  obtain pp w' where "handleEventsWs env0 endpointApi0 True (Some ''moonlight.events.v1, bearer.tok'') (Some ''P1'') owned0 =
    (Inr (Upgrade pp), w')" using upgrade0 by blast
  from stream_needs_ownership [OF this] show ?thesis by (auto simp: owned0_def fixture_defs)
qed

end
