(* ===== verification/Executor.thy ===== *)
theory Executor
  imports Admission
begin

text \<open>
  The executor, \<^verbatim>\<open>core/service/executor\<close>: building one transaction from a slot
  (\<^verbatim>\<open>executor.service.ts\<close>), the fee-payer check (\<^verbatim>\<open>preflight-opex-balance.ts\<close>), submission, the record
  of the transaction and the handling of failures (\<^verbatim>\<open>executor-failure.helpers.ts\<close>,
  \<^verbatim>\<open>failure-detail.ts\<close>), composed in \<^verbatim>\<open>executeNext\<close> (\<^verbatim>\<open>executor.process.ts\<close>).

  The transaction builder and the OPEX account come from the SDK: \<open>addOperationCheck\<close> is the error
  \<^verbatim>\<open>addOperation\<close> throws, \<open>opexFreeUtxos\<close> the free UTXOs after a number of derived batches.  Account
  lookups whose answer only reaches the trace are left out.
\<close>

section \<open>Building the transaction\<close>

definition OPEX_REQUIRED :: nat where
  "OPEX_REQUIRED = 1"

text \<open>The derivation loop may not end, so it has fuel; it counts the batches it derived.\<close>

fun ensureOpexUtxosAvailable :: "nat \<Rightarrow> env \<Rightarrow> (nat \<Rightarrow> string list) \<Rightarrow> nat \<Rightarrow> nat \<Rightarrow> nat action" where
  "ensureOpexUtxosAvailable 0 env free requiredCount iterations = throw OutOfFuel"
| "ensureOpexUtxosAvailable (Suc fuel) env free requiredCount iterations =
    (if length (free iterations) < requiredCount + 1
     then andThen (external (\<lambda>n. case opexDerive env n of None \<Rightarrow> Inr () | Some e \<Rightarrow> Inl e)) (\<lambda>_.
          ensureOpexUtxosAvailable fuel env free requiredCount (Suc iterations))
     else ret iterations)"

definition addOperation :: "env \<Rightarrow> MoonlightTx \<Rightarrow> MoonlightOperation \<Rightarrow> MoonlightTx action" where
  "addOperation env tx op =
    (case addOperationCheck env (tx_operations tx) op of
       Some e \<Rightarrow> throw e
     | None \<Rightarrow> ret (tx\<lparr>tx_operations := tx_operations tx @ [op]\<rparr>))"

fun addOperations :: "env \<Rightarrow> MoonlightTx \<Rightarrow> MoonlightOperation list \<Rightarrow> MoonlightTx action" where
  "addOperations env tx [] = ret tx"
| "addOperations env tx (op # ops) = andThen (addOperation env tx op) (\<lambda>tx'. addOperations env tx' ops)"

record TransactionBuildResult =
  br_tx :: MoonlightTx
  br_totalFee :: int
  br_bundleIds :: "string list"

definition buildTransactionFromSlot :: "env \<Rightarrow> Slot \<Rightarrow> ChannelContext \<Rightarrow> TransactionBuildResult action" where
  "buildTransactionFromSlot env slot ctx =
    (let bundles = Slot_getBundles slot in
     andThen (assertM (JsError ''Cannot build transaction from empty slot'') (length bundles \<noteq> 0)) (\<lambda>_.
     let free = opexFreeUtxos env (cx_ppSecretKey ctx) (cx_channelClient ctx) in
     andThen (ensureOpexUtxosAvailable (opexFuel env) env free OPEX_REQUIRED 0) (\<lambda>iterations.
     case opexReserve env (free iterations) OPEX_REQUIRED of
       None \<Rightarrow> throw (JsError ''Insufficient UTXOs'')
     | Some [] \<Rightarrow> throw (JsError ''Insufficient UTXOs'')
     | Some (utxo # _) \<Rightarrow>
        (let totalFee = foldl (\<lambda>sum bundle. sum + sb_fee bundle) 0 bundles in
         andThen (liftSum (createOperation env utxo totalFee)) (\<lambda>feeOperation.
         andThen (addOperations env \<lparr>tx_channel = cx_channelClient ctx, tx_operations = []\<rparr>
             (Create feeOperation #
              concat (map (\<lambda>b. classifiedToOperations (sb_operations b)) bundles))) (\<lambda>tx.
         ret \<lparr>br_tx = tx, br_totalFee = totalFee, br_bundleIds = map sb_bundleId bundles\<rparr>))))))"

definition getTransactionExpiration :: "env \<Rightarrow> int action" where
  "getTransactionExpiration env =
    andThen (external (rpcLatestLedger env)) (\<lambda>latestLedger.
    ret (latestLedger + TRANSACTION_EXPIRATION_OFFSET env))"

section \<open>The fee payer\<close>

record PreflightResult =
  pr_feePayerPubkey :: string
  pr_availableXlmStroops :: int
  pr_requiredXlmStroops :: int
  pr_shortfallStroops :: int

definition computePreflightResult :: "string \<Rightarrow> int \<Rightarrow> int \<Rightarrow> int \<Rightarrow> int \<Rightarrow> int \<Rightarrow> PreflightResult" where
  "computePreflightResult feePayerPubkey balanceStroops numSubEntries baseReserveStroops
      baseInclusionFeeStroops minResourceFeeStroops =
    (let reserveStroops = (2 + numSubEntries) * baseReserveStroops;
         available = balanceStroops - reserveStroops;
         required = baseInclusionFeeStroops + minResourceFeeStroops
     in \<lparr>pr_feePayerPubkey = feePayerPubkey, pr_availableXlmStroops = available,
         pr_requiredXlmStroops = required, pr_shortfallStroops = required - available\<rparr>)"

definition toInsufficientFeesDetail :: "PreflightResult \<Rightarrow> InsufficientFeesDetail" where
  "toInsufficientFeesDetail result =
    \<lparr>ifd_feePayerPubkey = pr_feePayerPubkey result,
     ifd_availableXlm = intToString (pr_availableXlmStroops result),
     ifd_requiredXlm = intToString (pr_requiredXlmStroops result),
     ifd_shortfallXlm = intToString (pr_shortfallStroops result)\<rparr>"

fun readAccountEntry :: "LedgerEntryData list \<Rightarrow> (int \<times> int) option" where
  "readAccountEntry [] = None"
| "readAccountEntry (OtherLedgerEntry # es) = readAccountEntry es"
| "readAccountEntry (AccountLedgerEntry a # es) = Some (ae_balance a, ae_numSubEntries a)"

definition fetchFeePayerAccountState :: "env \<Rightarrow> string \<Rightarrow> (int \<times> int) option action" where
  "fetchFeePayerAccountState env feePayerPubkey =
    andThen (external (\<lambda>n. rpcLedgerEntries env n feePayerPubkey)) (\<lambda>entries.
    ret (if entries = [] then None else readAccountEntry entries))"

definition simulateBundleResourceFee :: "env \<Rightarrow> MoonlightTx \<Rightarrow> int action" where
  "simulateBundleResourceFee env tx =
    andThen (external (\<lambda>n. rpcSimulate env n tx)) (\<lambda>sim.
    case sim of
      SimulationError e \<Rightarrow> throw (JsError (''simulateTransaction returned error: '' @ e))
    | SimulationSuccess None \<Rightarrow> throw (JsError ''simulateTransaction did not return minResourceFee'')
    | SimulationSuccess (Some fee) \<Rightarrow> ret fee)"

text \<open>\<^verbatim>\<open>entries[0].val.account()\<close> throws when the first entry is not an account.\<close>

definition feePayerSequence :: "env \<Rightarrow> string \<Rightarrow> int action" where
  "feePayerSequence env feePayerPubkey =
    andThen (external (\<lambda>n. rpcLedgerEntries env n feePayerPubkey)) (\<lambda>entries.
    case entries of
      [] \<Rightarrow> ret 0
    | AccountLedgerEntry a # _ \<Rightarrow> ret (ae_seqNum a)
    | OtherLedgerEntry # _ \<Rightarrow> throw TypeError)"

definition runPreflightOpexFeeCheck :: "env \<Rightarrow> MoonlightTx \<Rightarrow> string \<Rightarrow> PreflightResult action" where
  "runPreflightOpexFeeCheck env tx feePayerPubkey =
    andThen (fetchFeePayerAccountState env feePayerPubkey) (\<lambda>accountState.
    let balanceStroops = (case accountState of None \<Rightarrow> 0 | Some (b, n) \<Rightarrow> b);
        numSubEntries = (case accountState of None \<Rightarrow> 0 | Some (b, n) \<Rightarrow> n) in
    andThen (feePayerSequence env feePayerPubkey) (\<lambda>_.
    andThen (simulateBundleResourceFee env tx) (\<lambda>minResourceFeeStroops.
    let result = computePreflightResult feePayerPubkey balanceStroops numSubEntries
                   (BASE_RESERVE_STROOPS env) (NETWORK_FEE env) minResourceFeeStroops in
    andThen (assertM (InsufficientFees (toInsufficientFeesDetail result))
               (\<not> pr_shortfallStroops result > 0)) (\<lambda>_.
    ret result))))"

section \<open>Submission and its record\<close>

definition invokeRaw :: "env \<Rightarrow> string \<Rightarrow> MoonlightTx \<Rightarrow> string action" where
  "invokeRaw env source tx = (\<lambda>w.
    let r = rpcInvoke env (w_tick w) source tx in
    (r, advance (w_submitted_update
           (\<lambda>ss. ss @ [\<lparr>sub_tx = tx, sub_source = source, sub_result = r\<rparr>]) w)))"

definition submitTransactionToNetwork ::
    "env \<Rightarrow> MoonlightTx \<Rightarrow> int \<Rightarrow> string \<Rightarrow> string \<Rightarrow> string action" where
  "submitTransactionToNetwork env tx expiration channelContractId ppPublicKey =
    andThen (resolveChannelContext env channelContractId ppPublicKey) (\<lambda>ctx.
    andThen (external (\<lambda>n. case rpcSign env n (cx_source ctx) tx expiration of
        None \<Rightarrow> Inr () | Some e \<Rightarrow> Inl e)) (\<lambda>_.
    tryCatch (invokeRaw env (cx_source ctx) tx) (\<lambda>error. throw (ExecutionError error))))"

definition createTransactionRecord :: "env \<Rightarrow> string \<Rightarrow> string list \<Rightarrow> unit action" where
  "createTransactionRecord env txHash bundleIds =
    andThen (external (rpcLatestLedger env)) (\<lambda>latestLedger.
    andThen (dateNow env) (\<lambda>now.
    andThen (transactions_create env
      \<lparr>createdAt = now, updatedAt = now, createdBy = Some ''system'', updatedBy = None,
       deletedAt = None, t_id = txHash, t_status = T_UNVERIFIED,
       t_timeout = now + TRANSACTION_EXPIRATION_OFFSET env * STELLAR_LEDGER_CLOSE_TIME_MS,
       t_ledgerSequence = intToString latestLedger\<rparr>) (\<lambda>_.
    forM bundleIds (\<lambda>bundleId.
      andThen (dateNow env) (\<lambda>t.
      andThen (links_create env
        \<lparr>createdAt = t, updatedAt = t, createdBy = Some ''system'', updatedBy = None,
         deletedAt = None, bt_bundleId = bundleId, bt_transactionId = txHash\<rparr>) (\<lambda>_.
      ret ()))))))"

section \<open>Failures\<close>

definition truncateText :: "string \<Rightarrow> nat \<Rightarrow> string" where
  "truncateText s maxLength =
    (if length s \<le> maxLength then s
     else take maxLength s @ [CHR 0xE2, CHR 0x80, CHR 0xA6] @ ''(truncated)'')"

definition isDeterministic :: "env \<Rightarrow> exn \<Rightarrow> bool" where
  "isDeterministic env error \<longleftrightarrow> decodeContractError env error \<noteq> None"

definition buildFailureDetail :: "env \<Rightarrow> exn \<Rightarrow> StructuredFailureDetail" where
  "buildFailureDetail env error =
    (case decodeContractError env error of
       Some decoded \<Rightarrow>
         \<lparr>sfd_code = ''SOROBAN_'' @ ce_code decoded, sfd_source = ''onchain'',
          sfd_message = (if ce_details decoded = [] then ''On-chain rejection '' @ ce_name decoded
                         else ce_details decoded),
          sfd_name = Some (ce_name decoded)\<rparr>
     | None \<Rightarrow>
         \<lparr>sfd_code = ''PROVIDER_EXECUTION_FAILED'', sfd_source = ''provider'',
          sfd_message = ''The bundle could not be submitted to the network.'', sfd_name = None\<rparr>)"

record ExecutionFailureResult =
  ef_bundleId :: string
  ef_nextRetryCount :: int
  ef_lastFailureReason :: string

definition failOne ::
    "env \<Rightarrow> string \<Rightarrow> bool \<Rightarrow> StructuredFailureDetail \<Rightarrow> string \<Rightarrow> ExecutionFailureResult option action" where
  "failOne env lastFailureReason deterministic failureDetail bundleId =
    tryCatch
     (andThen (bundles_findById env bundleId) (\<lambda>row.
      case row of
        None \<Rightarrow> ret None
      | Some bundle \<Rightarrow>
         (let nextRetryCount = ob_retryCount bundle + 1;
              hasReachedMaxAttempts = nextRetryCount \<ge> MEMPOOL_MAX_RETRY_ATTEMPTS env;
              isTerminal = deterministic \<or> hasReachedMaxAttempts in
          if isTerminal
          then andThen (updateIfStatusIn env bundleId (\<lambda>r. r\<lparr>ob_status := B_FAILED,
                  ob_retryCount := nextRetryCount, ob_lastFailureReason := Some lastFailureReason,
                  ob_failureDetail := Some (StructuredDetail failureDetail)\<rparr>)
                  [B_PENDING, B_PROCESSING]) (\<lambda>updated. ret None)
          else andThen (updateIfStatusIn env bundleId (\<lambda>r. r\<lparr>ob_status := B_PENDING,
                  ob_retryCount := nextRetryCount, ob_lastFailureReason := Some lastFailureReason\<rparr>)
                  [B_PENDING, B_PROCESSING]) (\<lambda>updated.
               ret (if updated
                    then Some \<lparr>ef_bundleId = bundleId, ef_nextRetryCount = nextRetryCount,
                               ef_lastFailureReason = lastFailureReason\<rparr>
                    else None)))))
     (\<lambda>_. ret None)"

definition handleExecutionFailure ::
    "env \<Rightarrow> string list \<Rightarrow> string \<Rightarrow> bool \<Rightarrow> StructuredFailureDetail \<Rightarrow>
      ExecutionFailureResult list action" where
  "handleExecutionFailure env bundleIds lastFailureReason deterministic failureDetail =
    andThen (mapM (failOne env lastFailureReason deterministic failureDetail) bundleIds) (\<lambda>rs.
    ret [m. Some m \<leftarrow> rs])"

text \<open>\<^verbatim>\<open>new Map\<close> over the list: a later entry of the same key replaces an earlier one.\<close>

definition buildRetryBundles :: "Slot \<Rightarrow> ExecutionFailureResult list \<Rightarrow> SlotBundle list" where
  "buildRetryBundles slot metaList =
    (let metaByBundleId = map_of (rev (map (\<lambda>m. (ef_bundleId m, m)) metaList)) in
     [b\<lparr>sb_retryCount := ef_nextRetryCount m, sb_lastFailureReason := Some (ef_lastFailureReason m)\<rparr>.
       b \<leftarrow> Slot_getBundles slot, Some m \<leftarrow> [metaByBundleId (sb_bundleId b)]])"

text \<open>The TTL gate: the expired bundles leave the slot, each marked if it is still active.\<close>

definition expireSlotBundlesPastTtl :: "env \<Rightarrow> Slot \<Rightarrow> Slot action" where
  "expireSlotBundlesPastTtl env slot =
    andThen (dateNow env) (\<lambda>now.
    let expired = filter (isBundleExpired now) (Slot_getBundles slot) in
    andThen (forM expired (\<lambda>bundle.
      tryCatch
       (andThen (updateStatusIfActive env (sb_bundleId bundle) B_EXPIRED [B_PENDING, B_PROCESSING]) (\<lambda>_.
        emitForPp env (sb_ppPublicKey bundle) (expiredPayload bundle)))
       (\<lambda>_. ret ()))) (\<lambda>_.
    ret (Slot_removeAll slot (map sb_bundleId expired))))"

section \<open>One execution\<close>

definition finallyM :: "'a action \<Rightarrow> (world \<Rightarrow> world) \<Rightarrow> 'a action" where
  "finallyM m cleanup = (\<lambda>w. case m w of (r, w') \<Rightarrow> (r, cleanup w'))"

definition firstChannel :: "Slot \<Rightarrow> string" where
  "firstChannel slot = (case Slot_getBundles slot of [] \<Rightarrow> [] | b # _ \<Rightarrow> sb_channelContractId b)"

definition firstPp :: "Slot \<Rightarrow> string" where
  "firstPp slot = (case Slot_getBundles slot of [] \<Rightarrow> [] | b # _ \<Rightarrow> sb_ppPublicKey b)"

text \<open>The body of the \<^verbatim>\<open>try\<close> from the channel resolution on.\<close>

definition executeSlot :: "env \<Rightarrow> Slot \<Rightarrow> unit action" where
  "executeSlot env slot =
    (let channelContractId = firstChannel slot; ppPublicKey = firstPp slot in
     andThen (assertM (JsError ''Bundle missing channelContractId'') (channelContractId \<noteq> [])) (\<lambda>_.
     andThen (assertM (JsError ''Bundle missing ppPublicKey'') (ppPublicKey \<noteq> [])) (\<lambda>_.
     andThen (resolveChannelContext env channelContractId ppPublicKey) (\<lambda>channelCtx.
     andThen (buildTransactionFromSlot env slot channelCtx) (\<lambda>build.
     andThen (getTransactionExpiration env) (\<lambda>expiration.
     andThen (runPreflightOpexFeeCheck env (br_tx build) ppPublicKey) (\<lambda>_.
     andThen (submitTransactionToNetwork env (br_tx build) expiration channelContractId ppPublicKey)
       (\<lambda>transactionHash.
     andThen (createTransactionRecord env transactionHash (br_bundleIds build)) (\<lambda>_.
     emitForBundles env (br_bundleIds build)
       (ExecutorTransactionSubmitted transactionHash (br_bundleIds build) channelContractId))))))))))"

definition emitExecutionFailed :: "env \<Rightarrow> Slot \<Rightarrow> string list \<Rightarrow> exn \<Rightarrow> unit action" where
  "emitExecutionFailed env slot bundleIds error =
    unlessM (firstChannel slot = [])
      (emitForBundles env bundleIds
        (ExecutorExecutionFailed bundleIds (Some (firstChannel slot)) (errorMessage env error)))"

text \<open>The \<^verbatim>\<open>catch\<close>: an under-funded fee payer is terminal; anything else goes through the retry
  policy.\<close>

definition failInsufficientFees ::
    "env \<Rightarrow> Slot \<Rightarrow> string list \<Rightarrow> exn \<Rightarrow> InsufficientFeesDetail \<Rightarrow> unit action" where
  "failInsufficientFees env slot bundleIds error detail =
    andThen (forM bundleIds (\<lambda>bundleId.
      tryCatch (andThen (bundles_update env bundleId (\<lambda>r. r\<lparr>ob_status := B_FAILED,
          ob_lastFailureReason := Some (errorMessage env error),
          ob_failureDetail := Some (FeesDetail detail)\<rparr>)) (\<lambda>_. ret ()))
        (\<lambda>_. ret ()))) (\<lambda>_.
    emitExecutionFailed env slot bundleIds error)"

definition failureReason :: "env \<Rightarrow> int \<Rightarrow> Slot \<Rightarrow> string list \<Rightarrow> exn \<Rightarrow> string" where
  "failureReason env now slot bundleIds error =
    (let phase = (case error of ExecutionError _ \<Rightarrow> ''submitTransactionToNetwork'' | _ \<Rightarrow> ''slotExecution'')
     in orElse (stringifyFailure env (ExecutionPayload now phase error
                  (Slot_getBundleCount slot, Slot_getTotalWeight slot) bundleIds))
          (truncateText (errorMessage env error) 2000))"

definition retryOrFail :: "env \<Rightarrow> Slot \<Rightarrow> string list \<Rightarrow> exn \<Rightarrow> unit action" where
  "retryOrFail env slot bundleIds error =
    andThen (dateNow env) (\<lambda>now.
    let lastFailureReason = failureReason env now slot bundleIds error in
    andThen (emitExecutionFailed env slot bundleIds error) (\<lambda>_.
    if \<not> Slot_isEmpty slot \<and> length bundleIds > 0
    then andThen (handleExecutionFailure env bundleIds lastFailureReason
                    (isDeterministic env error) (buildFailureDetail env error)) (\<lambda>metaList.
         let bundlesToRetry = buildRetryBundles slot metaList in
         unlessM (length bundlesToRetry = 0) (reAddBundles env bundlesToRetry))
    else ret ()))"

definition handleSlotError :: "env \<Rightarrow> Slot \<Rightarrow> string list \<Rightarrow> exn \<Rightarrow> unit action" where
  "handleSlotError env slot bundleIds error =
    (case error of
       InsufficientFees detail \<Rightarrow> failInsufficientFees env slot bundleIds error detail
     | _ \<Rightarrow> retryOrFail env slot bundleIds error)"

definition processSlot :: "env \<Rightarrow> Slot \<Rightarrow> unit action" where
  "processSlot env pulled =
    andThen (expireSlotBundlesPastTtl env pulled) (\<lambda>slot.
    if Slot_isEmpty slot then ret ()
    else let bundleIds = map sb_bundleId (Slot_getBundles slot) in
      tryCatch (executeSlot env slot) (handleSlotError env slot bundleIds))"

definition executeNext :: "env \<Rightarrow> unit action" where
  "executeNext env =
    andThen (gets w_isProcessing) (\<lambda>busy.
    if busy then ret ()
    else finallyM
      (andThen (modify (w_isProcessing_update (\<lambda>_. True))) (\<lambda>_.
       andThen removeFirstSlot (\<lambda>slot.
       case slot of
         None \<Rightarrow> ret ()
       | Some s \<Rightarrow> if Slot_isEmpty s then ret () else processSlot env s)))
      (w_isProcessing_update (\<lambda>_. False)))"

section \<open>Guarantees\<close>

context world_guarantee
begin

lemma guar_finallyM:
  assumes "guar R m" and "\<And>w. R w (f w)"
  shows "guar R (finallyM m f)"
proof (rule guarI)
  fix w
  obtain r w' where m: "m w = (r, w')" by (cases "m w")
  have "R w w'" using assms(1) m by (rule guarD)
  then show "R w (snd (finallyM m f w))" using m assms(2) by (auto simp: finallyM_def intro: R_trans)
qed

lemma guar_ensureOpex: "guar R (ensureOpexUtxosAvailable k env free n i)"
proof (induction k arbitrary: i)
  case 0
  show ?case unfolding ensureOpexUtxosAvailable.simps by (rule guar_throw)
next
  case (Suc k)
  then show ?case unfolding ensureOpexUtxosAvailable.simps by (intro world_rules)
qed

lemma guar_addOperations: "guar R (addOperations env tx ops)"
proof (induction ops arbitrary: tx)
  case Nil
  show ?case unfolding addOperations.simps by (rule guar_ret)
next
  case (Cons op ops)
  then show ?case unfolding addOperations.simps addOperation_def by (intro world_rules)
qed

lemma guar_list_case:
  "(xs = [] \<Longrightarrow> guar R m) \<Longrightarrow> (\<And>y ys. xs = y # ys \<Longrightarrow> guar R (f y ys)) \<Longrightarrow>
    guar R (case xs of [] \<Rightarrow> m | y # ys \<Rightarrow> f y ys)"
  by (cases xs) auto

lemma guar_buildTransactionFromSlot: "guar R (buildTransactionFromSlot env s cx)"
  unfolding buildTransactionFromSlot_def
  by (intro world_rules guar_ensureOpex guar_addOperations guar_list_case)

lemma guar_preflight: "guar R (runPreflightOpexFeeCheck env tx pk)"
  unfolding runPreflightOpexFeeCheck_def fetchFeePayerAccountState_def feePayerSequence_def
    simulateBundleResourceFee_def
  by (intro world_rules) (auto split: list.split LedgerEntryData.split SimulationResponse.split
      option.split intro: guar_ret guar_throw)

lemma guar_getTransactionExpiration: "guar R (getTransactionExpiration env)"
  unfolding getTransactionExpiration_def by (intro world_rules)

lemmas build_rules = guar_finallyM guar_buildTransactionFromSlot guar_preflight
  guar_getTransactionExpiration

end

context side_tables
begin

lemma guar_createTransactionRecord: "guar R (createTransactionRecord env h ids)"
  unfolding createTransactionRecord_def by (intro world_rules repo_rules)

lemma guar_emitExecutionFailed: "guar R (emitExecutionFailed env s ids e)"
  unfolding emitExecutionFailed_def by (intro world_rules emit_rules)

end

text \<open>What keeps a relation in the executor's own writes to the bundles table: the eviction, the retry
  policy and the terminal failure of an under-funded fee payer.\<close>

locale executor_failure = mempool_client R for R :: "world \<Rightarrow> world \<Rightarrow> bool" +
  assumes R_evict: "guar R (updateStatusIfActive env i B_EXPIRED [B_PENDING, B_PROCESSING])"
    and R_fail: "\<And>f. (\<And>r. ob_id (f r) = ob_id r \<and> ob_fee (f r) = ob_fee r) \<Longrightarrow>
      guar R (updateIfStatusIn env i f [B_PENDING, B_PROCESSING])"
    and R_fees: "guar R (bundles_update env i (\<lambda>r. r\<lparr>ob_status := B_FAILED,
      ob_lastFailureReason := x, ob_failureDetail := y\<rparr>))"
begin

lemma guar_failOne: "guar R (failOne env r d fd i)"
  unfolding failOne_def by (intro world_rules repo_rules R_fail) simp_all

lemma guar_retryOrFail: "guar R (retryOrFail env s ids e)"
  unfolding retryOrFail_def handleExecutionFailure_def
  by (intro world_rules guar_emitExecutionFailed guar_failOne guar_reAddBundles)

lemma guar_failInsufficientFees: "guar R (failInsufficientFees env s ids e d)"
  unfolding failInsufficientFees_def
  by (intro world_rules guar_emitExecutionFailed R_fees)

lemma guar_handleSlotError: "guar R (handleSlotError env s ids e)"
  by (cases e) (simp_all add: handleSlotError_def guar_failInsufficientFees guar_retryOrFail)

lemma guar_expireSlotBundlesPastTtl: "guar R (expireSlotBundlesPastTtl env s)"
  unfolding expireSlotBundlesPastTtl_def by (intro world_rules emit_rules R_evict)

end

text \<open>And in the whole of it: also pulling the first slot, the flag and the call to the network.\<close>

locale executor_client = executor_failure R for R :: "world \<Rightarrow> world \<Rightarrow> bool" +
  assumes R_pull: "w_slots w = s # ss \<Longrightarrow> R w (w_slots_update (\<lambda>_. ss) w)"
    and R_flag: "R w (w_isProcessing_update g w)"
    and R_invoke: "guar R (invokeRaw env src tx)"
begin

lemma guar_submitTransactionToNetwork: "guar R (submitTransactionToNetwork env tx ex ch pk)"
  unfolding submitTransactionToNetwork_def
  by (intro world_rules channel_rules R_invoke)

lemma guar_executeSlot: "guar R (executeSlot env s)"
  unfolding executeSlot_def
  by (intro world_rules channel_rules build_rules emit_rules guar_submitTransactionToNetwork
      guar_createTransactionRecord)

lemma guar_processSlot: "guar R (processSlot env s)"
  unfolding processSlot_def
  by (intro world_rules guar_expireSlotBundlesPastTtl guar_executeSlot guar_handleSlotError)

lemma guar_removeFirstSlot: "guar R removeFirstSlot"
  by (rule guarI) (auto simp: removeFirstSlot_def andThen_apply R_refl R_pull split: list.split)

lemma guar_executeNext: "guar R (executeNext env)"
  unfolding executeNext_def
  by (intro world_rules build_rules guar_removeFirstSlot guar_processSlot guar_modify R_flag)

end

lemma guar_tk_invokeRaw: "guar terminalKept (invokeRaw env src tx)"
  by (rule guarI) (simp add: invokeRaw_def Let_def terminalKept_same)

interpretation terminal_executor: executor_client terminalKept
  by unfold_locales
    (simp_all add: terminalKept_same guar_tk_invokeRaw guar_tk_updateStatusIfActive
      guar_tk_updateIfStatusIn guar_tk_bundles_update keepsTerminal_def)

lemma guar_mk_invokeRaw: "guar mempoolKept (invokeRaw env src tx)"
  by (rule guarI) (simp add: invokeRaw_def Let_def mempoolKept_def mempoolInv_def)

interpretation mempool_executor: executor_client mempoolKept
  by unfold_locales
    (simp_all add: guar_mk_invokeRaw guar_mk_bundles, simp_all add: mempoolKept_def mempoolInv_def)

section \<open>What is submitted\<close>

text \<open>Nothing is submitted and the payment providers are untouched.\<close>

definition quiet :: "world \<Rightarrow> world \<Rightarrow> bool" where
  "quiet w w' \<longleftrightarrow> w_submitted w' = w_submitted w \<and> w_pps w' = w_pps w"

interpretation quiet: side_tables quiet
  by unfold_locales (simp_all add: quiet_def)

lemma guar_quiet_bundles:
  "guar quiet (bundles_update env i f)" "guar quiet (updateIfStatusIn env i f a)"
  "guar quiet (updateStatusIfActive env i st a)" "guar quiet (expireOlderThan env c sts lmt)"
  unfolding bundles_update_def base_update_def updateIfStatusIn_def updateStatusIfActive_def
    expireOlderThan_def Let_def
  by (intro quiet.guar_dbExec guarI; simp add: quiet_def)+

lemma guar_quiet_placeBundle: "guar quiet (placeBundle env b)"
  unfolding placeBundle_def
  by (intro quiet.world_rules quiet.emit_rules guar_modify) (simp_all add: quiet_def)

interpretation quiet_failure: executor_failure quiet
  by unfold_locales (simp_all add: guar_quiet_bundles guar_quiet_placeBundle, simp add: quiet_def)

text \<open>An action that submits at most once, and then only what \<open>P\<close> allows.\<close>

definition oneSubmission :: "PaymentProvider list \<Rightarrow> (Submission \<Rightarrow> bool) \<Rightarrow> world \<Rightarrow> world \<Rightarrow> bool" where
  "oneSubmission pps P w w' \<longleftrightarrow> w_pps w' = pps \<and> (w_submitted w' = w_submitted w \<or>
    (\<exists>sub. w_submitted w' = w_submitted w @ [sub] \<and> P sub))"

definition submits :: "PaymentProvider list \<Rightarrow> (Submission \<Rightarrow> bool) \<Rightarrow> 'a action \<Rightarrow> bool" where
  "submits pps P m \<longleftrightarrow> (\<forall>w. w_pps w = pps \<longrightarrow> oneSubmission pps P w (snd (m w)))"

lemma submitsI: "(\<And>w r v. w_pps w = pps \<Longrightarrow> m w = (r, v) \<Longrightarrow> oneSubmission pps P w v) \<Longrightarrow> submits pps P m"
  by (metis submits_def prod.collapse)

lemma submitsD: "submits pps P m \<Longrightarrow> w_pps w = pps \<Longrightarrow> m w = (r, v) \<Longrightarrow> oneSubmission pps P w v"
  by (metis submits_def snd_conv)

lemma oneSubmission_quiet: "quiet w v \<Longrightarrow> w_pps w = pps \<Longrightarrow> oneSubmission pps P w v"
  by (simp add: quiet_def oneSubmission_def)

lemma oneSubmission_before: "quiet w u \<Longrightarrow> oneSubmission pps P u v \<Longrightarrow> oneSubmission pps P w v"
  by (simp add: quiet_def oneSubmission_def)

lemma oneSubmission_after: "oneSubmission pps P w u \<Longrightarrow> quiet u v \<Longrightarrow> oneSubmission pps P w v"
  by (simp add: quiet_def oneSubmission_def)

lemma submits_before:
  assumes "guar quiet m" and "\<And>w x v. w_pps w = pps \<Longrightarrow> m w = (Inr x, v) \<Longrightarrow> submits pps P (f x)"
  shows "submits pps P (andThen m f)"
proof (rule submitsI)
  fix w r v assume pps: "w_pps w = pps" and run: "andThen m f w = (r, v)"
  obtain r1 u where m: "m w = (r1, u)" by (cases "m w")
  note q = guarD [OF assms(1) m]
  show "oneSubmission pps P w v"
  proof (cases r1)
    case (Inl e)
    with m run q pps show ?thesis by (simp add: andThen_Inl oneSubmission_quiet)
  next
    case (Inr x)
    then have "submits pps P (f x)" using assms(2) [OF pps] m by simp
    moreover have "f x u = (r, v)" "w_pps u = pps"
      using run m Inr q pps by (simp_all add: andThen_Inr quiet_def)
    ultimately have "oneSubmission pps P u v" by (simp add: submitsD)
    with q show ?thesis by (rule oneSubmission_before)
  qed
qed

lemma submits_after:
  assumes "submits pps P m" and "\<And>x. guar quiet (f x)"
  shows "submits pps P (andThen m f)"
proof (rule submitsI)
  fix w r v assume pps: "w_pps w = pps" and run: "andThen m f w = (r, v)"
  obtain r1 u where m: "m w = (r1, u)" by (cases "m w")
  note s = submitsD [OF assms(1) pps m]
  show "oneSubmission pps P w v"
  proof (cases r1)
    case (Inl e)
    with m run s show ?thesis by (simp add: andThen_Inl)
  next
    case (Inr x)
    with m run have "f x u = (r, v)" by (simp add: andThen_Inr)
    with assms(2) have "quiet u v" by (rule guarD)
    with s show ?thesis by (rule oneSubmission_after)
  qed
qed

lemma submits_catch:
  assumes "submits pps P m" and "\<And>e. guar quiet (h e)"
  shows "submits pps P (tryCatch m h)"
proof (rule submitsI)
  fix w r v assume pps: "w_pps w = pps" and run: "tryCatch m h w = (r, v)"
  obtain r1 u where m: "m w = (r1, u)" by (cases "m w")
  note s = submitsD [OF assms(1) pps m]
  show "oneSubmission pps P w v"
  proof (cases r1)
    case (Inr x)
    with m run s show ?thesis by (simp add: tryCatch_Inr)
  next
    case (Inl e)
    with m run have "h e u = (r, v)" by (simp add: tryCatch_Inl)
    with assms(2) have "quiet u v" by (rule guarD)
    with s show ?thesis by (rule oneSubmission_after)
  qed
qed

lemma addOperations_Inr:
  "addOperations env tx ops w = (Inr tx', w') \<Longrightarrow>
    tx' = tx\<lparr>tx_operations := tx_operations tx @ ops\<rparr>"
proof (induction ops arbitrary: tx)
  case Nil
  then show ?case by simp
next
  case (Cons op ops)
  then have "addOperations env (tx\<lparr>tx_operations := tx_operations tx @ [op]\<rparr>) ops w = (Inr tx', w')"
    by (auto simp: addOperation_def elim!: andThen_InrE split: option.splits)
  from Cons.IH [OF this] show ?case by simp
qed

definition slotOperations :: "SlotBundle list \<Rightarrow> MoonlightOperation list" where
  "slotOperations bs = concat (map (\<lambda>b. classifiedToOperations (sb_operations b)) bs)"

lemma buildTransactionFromSlot_Inr:
  assumes "buildTransactionFromSlot env s cx w = (Inr br, w')"
  shows "\<exists>u fo. createOperation env u (sum_list (map sb_fee (sl_bundles s))) = Inr fo \<and>
      br_tx br = \<lparr>tx_channel = cx_channelClient cx,
        tx_operations = Create fo # slotOperations (sl_bundles s)\<rparr>"
    and "br_bundleIds br = map sb_bundleId (sl_bundles s)"
    and "br_totalFee br = sum_list (map sb_fee (sl_bundles s))"
proof -
  let ?bs = "sl_bundles s"
  from assms obtain u fo v tx v2 where
    fo: "createOperation env u (foldl (\<lambda>sum bundle. sum + sb_fee bundle) 0 ?bs) = Inr fo"
    and tx: "addOperations env \<lparr>tx_channel = cx_channelClient cx, tx_operations = []\<rparr>
      (Create fo # concat (map (\<lambda>b. classifiedToOperations (sb_operations b)) ?bs)) v = (Inr tx, v2)"
    and br: "br = \<lparr>br_tx = tx, br_totalFee = foldl (\<lambda>sum bundle. sum + sb_fee bundle) 0 ?bs,
      br_bundleIds = map sb_bundleId ?bs\<rparr>"
    by (auto simp: buildTransactionFromSlot_def Slot_getBundles_def Let_def elim!: andThen_InrE
        split: option.splits list.splits simp del: addOperations.simps)
  from addOperations_Inr [OF tx] fo br
  show "\<exists>u fo. createOperation env u (sum_list (map sb_fee ?bs)) = Inr fo \<and>
      br_tx br = \<lparr>tx_channel = cx_channelClient cx, tx_operations = Create fo # slotOperations ?bs\<rparr>"
    "br_bundleIds br = map sb_bundleId ?bs" "br_totalFee br = sum_list (map sb_fee ?bs)"
    by (auto simp: foldl_sum slotOperations_def)
qed

lemma runPreflight_Inr:
  assumes "runPreflightOpexFeeCheck env tx pk w = (Inr pr, w')"
  shows "pr_requiredXlmStroops pr \<le> pr_availableXlmStroops pr"
  using assms
  by (auto simp: runPreflightOpexFeeCheck_def Let_def assertM_Inr computePreflightResult_def
      elim!: andThen_InrE)

text \<open>The account that signs: the key of the provider's row.\<close>

definition signerOf :: "env \<Rightarrow> PaymentProvider list \<Rightarrow> string \<Rightarrow> string \<Rightarrow> bool" where
  "signerOf env pps pk src \<longleftrightarrow> (\<exists>pp sk. find (\<lambda>r. pp_publicKey r = pk) pps = Some pp \<and>
    pp_isActive pp \<and> decryptSk env (pp_encryptedSk pp) (SERVICE_AUTH_SECRET env) = Inr sk \<and>
    keypairPublicKey env sk = Inr src)"

definition slotSubmission ::
    "env \<Rightarrow> PaymentProvider list \<Rightarrow> SlotBundle list \<Rightarrow> Submission \<Rightarrow> bool" where
  "slotSubmission env pps bs sub \<longleftrightarrow> bs \<noteq> [] \<and>
    signerOf env pps (sb_ppPublicKey (hd bs)) (sub_source sub) \<and>
    (\<exists>u fo. createOperation env u (sum_list (map sb_fee bs)) = Inr fo \<and>
       tx_operations (sub_tx sub) = Create fo # slotOperations bs)"

lemma signerOf_resolve:
  "w_pps w = pps \<Longrightarrow> resolveChannelContext env ch pk w = (Inr cx, v) \<Longrightarrow> signerOf env pps pk (cx_source cx)"
  unfolding signerOf_def by (erule resolveChannelContext_Inr) auto

lemma submits_submit:
  assumes "\<And>sub. sub_tx sub = tx \<Longrightarrow> signerOf env pps pk (sub_source sub) \<Longrightarrow> P sub"
  shows "submits pps P (submitTransactionToNetwork env tx ex ch pk)"
  unfolding submitTransactionToNetwork_def
proof (rule submits_before, rule quiet.channel_rules)
  fix w :: world and cx v
  assume "w_pps w = pps" "resolveChannelContext env ch pk w = (Inr cx, v)"
  then have signer: "signerOf env pps pk (cx_source cx)" by (rule signerOf_resolve)
  show "submits pps P (andThen (external (\<lambda>n. case rpcSign env n (cx_source cx) tx ex of
      None \<Rightarrow> Inr () | Some e \<Rightarrow> Inl e)) (\<lambda>_. tryCatch (invokeRaw env (cx_source cx) tx)
      (\<lambda>error. throw (ExecutionError error))))"
  proof (rule submits_before, rule quiet.world_rules, rule submits_catch)
    show "submits pps P (invokeRaw env (cx_source cx) tx)"
      using assms signer by (simp add: submits_def invokeRaw_def Let_def oneSubmission_def)
    show "guar quiet (throw (ExecutionError e))" for e by (rule quiet.world_rules)
  qed
qed

lemma firstPp_hd: "sl_bundles s \<noteq> [] \<Longrightarrow> firstPp s = sb_ppPublicKey (hd (sl_bundles s))"
  by (cases "sl_bundles s") (simp_all add: firstPp_def Slot_getBundles_def)

lemma submits_executeSlot:
  assumes "sl_bundles s \<noteq> []"
  shows "submits pps (slotSubmission env pps (sl_bundles s)) (executeSlot env s)"
proof -
  have tail: "submits pps (slotSubmission env pps (sl_bundles s))
      (andThen (submitTransactionToNetwork env (br_tx br) ex (firstChannel s) (firstPp s)) (\<lambda>h.
        andThen (createTransactionRecord env h (br_bundleIds br)) (\<lambda>_.
          emitForBundles env (br_bundleIds br)
            (ExecutorTransactionSubmitted h (br_bundleIds br) (firstChannel s)))))"
    if "buildTransactionFromSlot env s cx w = (Inr br, v)" for w v br ex cx
  proof (rule submits_after [OF submits_submit])
    show "slotSubmission env pps (sl_bundles s) sub"
      if "sub_tx sub = br_tx br" and "signerOf env pps (firstPp s) (sub_source sub)" for sub
      using that buildTransactionFromSlot_Inr(1) [OF \<open>buildTransactionFromSlot env s cx w = _\<close>] assms
        firstPp_hd [OF assms] by (auto simp: slotSubmission_def)
    show "guar quiet (andThen (createTransactionRecord env h (br_bundleIds br)) (\<lambda>_.
        emitForBundles env (br_bundleIds br)
          (ExecutorTransactionSubmitted h (br_bundleIds br) (firstChannel s))))" for h
      by (intro quiet.world_rules quiet.guar_createTransactionRecord quiet.emit_rules)
  qed
  show ?thesis
    unfolding executeSlot_def Let_def
    by (rule submits_before, rule quiet.guar_assertM, rule submits_before, rule quiet.guar_assertM,
        rule submits_before, rule quiet.guar_resolveChannelContext,
        rule submits_before, rule quiet.guar_buildTransactionFromSlot,
        rule submits_before, rule quiet.guar_getTransactionExpiration,
        rule submits_before, rule quiet.guar_preflight, rule tail)
qed

lemma expireSlot_slot:
  assumes "expireSlotBundlesPastTtl env s w = (Inr s', w')"
    and "distinct (map sb_bundleId (sl_bundles s))"
  shows "sl_bundles s' = filter (\<lambda>b. \<not> isBundleExpired (clock env (w_tick w)) b) (sl_bundles s)"
proof -
  let ?P = "isBundleExpired (clock env (w_tick w))"
  have s': "s' = Slot_removeAll s (map sb_bundleId (filter ?P (sl_bundles s)))"
    using assms(1) by (auto simp: expireSlotBundlesPastTtl_def Slot_getBundles_def Let_def
        dateNow_apply elim!: andThen_InrE)
  show ?thesis unfolding s'
    by (rule removeAll_hits) (use assms(2) in \<open>metis distinct_map inj_onD\<close>)
qed

lemma submits_processSlot:
  assumes "distinct (map sb_bundleId (sl_bundles s))" and "processSlot env s w = (r, w')"
  shows "oneSubmission (w_pps w) (slotSubmission env (w_pps w)
    (filter (\<lambda>b. \<not> isBundleExpired (clock env (w_tick w)) b) (sl_bundles s))) w w'"
proof -
  obtain r1 u where e: "expireSlotBundlesPastTtl env s w = (r1, u)"
    by (cases "expireSlotBundlesPastTtl env s w")
  note q = guarD [OF quiet_failure.guar_expireSlotBundlesPastTtl e]
  show ?thesis
  proof (cases r1)
    case (Inl x)
    with assms(2) e q show ?thesis by (simp add: processSlot_def andThen_Inl oneSubmission_quiet)
  next
    case (Inr s')
    note live = expireSlot_slot [OF e [unfolded Inr] assms(1)]
    show ?thesis
    proof (cases "Slot_isEmpty s'")
      case True
      with assms(2) e q Inr show ?thesis by (simp add: processSlot_def andThen_Inr oneSubmission_quiet)
    next
      case False
      then have ne: "sl_bundles s' \<noteq> []" by (simp add: Slot_isEmpty_def)
      have run: "tryCatch (executeSlot env s') (handleSlotError env s' (map sb_bundleId (sl_bundles s'))) u = (r, w')"
        using assms(2) e Inr False by (simp add: processSlot_def andThen_Inr Slot_getBundles_def)
      have "submits (w_pps w) (slotSubmission env (w_pps w) (sl_bundles s'))
          (tryCatch (executeSlot env s') (handleSlotError env s' (map sb_bundleId (sl_bundles s'))))"
        by (rule submits_catch [OF submits_executeSlot [OF ne] quiet_failure.guar_handleSlotError])
      moreover have "w_pps u = w_pps w" using q by (simp add: quiet_def)
      ultimately have "oneSubmission (w_pps w) (slotSubmission env (w_pps w) (sl_bundles s')) u w'"
        using run by (rule submitsD)
      with q show ?thesis unfolding live by (rule oneSubmission_before)
    qed
  qed
qed

lemma executeNext_busy: "w_isProcessing w \<Longrightarrow> executeNext env w = (Inr (), w)"
  by (simp add: executeNext_def andThen_apply)

lemma executeNext_empty:
  assumes "\<not> w_isProcessing w" and "w_slots w = []"
  shows "executeNext env w = (Inr (), w\<lparr>w_isProcessing := False\<rparr>)"
  using assms by (simp add: executeNext_def finallyM_def andThen_apply removeFirstSlot_def)

definition pulled :: "world \<Rightarrow> Slot list \<Rightarrow> world" where
  "pulled w ss = w\<lparr>w_isProcessing := True, w_slots := ss\<rparr>"

lemma pulled_simps [simp]:
  "w_tick (pulled w ss) = w_tick w" "w_bundles (pulled w ss) = w_bundles w"
  "w_slots (pulled w ss) = ss" "w_submitted (pulled w ss) = w_submitted w"
  "w_pps (pulled w ss) = w_pps w" "w_links (pulled w ss) = w_links w"
  by (simp_all add: pulled_def)

lemma executeNext_slot:
  assumes "\<not> w_isProcessing w" and "w_slots w = s # ss"
  shows "executeNext env w =
    (case (if Slot_isEmpty s then (Inr (), pulled w ss) else processSlot env s (pulled w ss)) of
       (r, w') \<Rightarrow> (r, w'\<lparr>w_isProcessing := False\<rparr>))"
  using assms by (simp add: executeNext_def finallyM_def andThen_apply removeFirstSlot_def pulled_def)

lemma executeNext_submission:
  assumes "executeNext env w = (r, w')"
    and "\<forall>s\<in>set (w_slots w). distinct (map sb_bundleId (sl_bundles s))"
  shows "w_submitted w' = w_submitted w \<or>
    (\<exists>s ss sub. w_slots w = s # ss \<and> w_submitted w' = w_submitted w @ [sub] \<and>
      slotSubmission env (w_pps w)
        (filter (\<lambda>b. \<not> isBundleExpired (clock env (w_tick w)) b) (sl_bundles s)) sub)"
proof (cases "w_isProcessing w")
  case True
  with assms(1) show ?thesis by (simp add: executeNext_busy)
next
  case idle: False
  show ?thesis
  proof (cases "w_slots w")
    case Nil
    with assms(1) idle show ?thesis by (auto simp: executeNext_empty)
  next
    case (Cons s ss)
    show ?thesis
    proof (cases "Slot_isEmpty s")
      case True
      with assms(1) executeNext_slot [OF idle Cons] show ?thesis by auto
    next
      case False
      obtain r1 v where p: "processSlot env s (pulled w ss) = (r1, v)"
        by (cases "processSlot env s (pulled w ss)")
      with assms(1) executeNext_slot [OF idle Cons] False
      have w': "w' = v\<lparr>w_isProcessing := False\<rparr>" by simp
      have "distinct (map sb_bundleId (sl_bundles s))" using assms(2) Cons by simp
      from submits_processSlot [OF this p] show ?thesis
        using Cons by (auto simp: oneSubmission_def w')
    qed
  qed
qed

lemma executeNext_flag:
  assumes "\<not> w_isProcessing w"
  shows "\<not> w_isProcessing (snd (executeNext env w))"
proof (cases "w_slots w")
  case Nil
  with assms show ?thesis by (simp add: executeNext_empty)
next
  case (Cons s ss)
  with executeNext_slot [OF assms Cons] show ?thesis by (simp split: prod.split)
qed

section \<open>The retry policy\<close>

definition nextRow :: "env \<Rightarrow> string \<Rightarrow> bool \<Rightarrow> StructuredFailureDetail \<Rightarrow> OperationsBundle \<Rightarrow> OperationsBundle" where
  "nextRow env reason det fd r =
    (if det \<or> ob_retryCount r + 1 \<ge> MEMPOOL_MAX_RETRY_ATTEMPTS env
     then r\<lparr>ob_status := B_FAILED, ob_retryCount := ob_retryCount r + 1,
            ob_lastFailureReason := Some reason, ob_failureDetail := Some (StructuredDetail fd)\<rparr>
     else r\<lparr>ob_status := B_PENDING, ob_retryCount := ob_retryCount r + 1,
            ob_lastFailureReason := Some reason\<rparr>)"

definition activeRow :: "OperationsBundle \<Rightarrow> bool" where
  "activeRow r \<longleftrightarrow> deletedAt r = None \<and> ob_status r \<in> {B_PENDING, B_PROCESSING}"

definition retryable :: "env \<Rightarrow> bool \<Rightarrow> OperationsBundle \<Rightarrow> bool" where
  "retryable env det r \<longleftrightarrow> activeRow r \<and> \<not> det \<and> ob_retryCount r + 1 < MEMPOOL_MAX_RETRY_ATTEMPTS env"

lemma find_live_row:
  assumes "distinct (map ob_id (w_bundles w))"
  shows "find (\<lambda>r. ob_id r = i \<and> deletedAt r = None) (w_bundles w) =
    Option.bind (bundleRow w i) (\<lambda>r. if deletedAt r = None then Some r else None)"
proof -
  have "find (\<lambda>r. ob_id r = i \<and> deletedAt r = None) rs =
      Option.bind (find (\<lambda>r. ob_id r = i) rs) (\<lambda>r. if deletedAt r = None then Some r else None)"
    if "distinct (map ob_id rs)" for rs :: "OperationsBundle list"
    using that
  proof (induction rs)
    case Nil
    then show ?case by simp
  next
    case (Cons r rs)
    show ?case
    proof (cases "ob_id r = i \<and> deletedAt r \<noteq> None")
      case True
      then have "find (\<lambda>r. ob_id r = i) rs = None"
        using Cons.prems unfolding find_None_iff by (auto simp: image_iff)
      with True Cons show ?thesis by auto
    qed (use Cons in auto)
  qed
  then show ?thesis unfolding bundleRow_def using assms by blast
qed

text \<open>One row of the policy, on a database that answers.  \<open>stamped\<close> hides the time of the update.\<close>

definition sameButTime :: "OperationsBundle option \<Rightarrow> OperationsBundle option \<Rightarrow> bool" where
  "sameButTime a b \<longleftrightarrow> map_option (\<lambda>r. r\<lparr>updatedAt := 0\<rparr>) a = map_option (\<lambda>r. r\<lparr>updatedAt := 0\<rparr>) b"

lemma sameButTime_refl [simp]: "sameButTime a a"
  by (simp add: sameButTime_def)

lemma sameButTime_trans: "sameButTime a b \<Longrightarrow> sameButTime b c \<Longrightarrow> sameButTime a c"
  by (simp add: sameButTime_def)

lemma updateIfStatusIn_run:
  assumes "noFaults env" and "distinct (map ob_id (w_bundles w))" and "\<And>r. ob_id (f r) = ob_id r"
  shows "\<exists>w'. updateIfStatusIn env i f [B_PENDING, B_PROCESSING] w =
      (Inr (case bundleRow w i of None \<Rightarrow> False | Some r \<Rightarrow> activeRow r), w') \<and>
    map ob_id (w_bundles w') = map ob_id (w_bundles w) \<and> w_slots w' = w_slots w \<and>
    (\<forall>j. bundleRow w' j = (if j = i
       then map_option (\<lambda>r. if activeRow r then (f r)\<lparr>updatedAt := clock env (w_tick w)\<rparr> else r) (bundleRow w j)
       else bundleRow w j))"
proof -
  let ?hit = "\<lambda>r. ob_id r = i \<and> deletedAt r = None \<and> ob_status r \<in> set [B_PENDING, B_PROCESSING]"
  let ?g = "\<lambda>r. if ?hit r then (f r)\<lparr>updatedAt := clock env (w_tick w)\<rparr> else r"
  define w' where "w' = advance (w\<lparr>w_bundles := map ?g (w_bundles w)\<rparr>)"
  have run: "updateIfStatusIn env i f [B_PENDING, B_PROCESSING] w =
      (Inr (filter ?hit (w_bundles w) \<noteq> []), w')"
    using assms(1) by (simp add: updateIfStatusIn_def dbExec_def Let_def w'_def)
  have row: "bundleRow w' j = map_option ?g (bundleRow w j)" for j
    by (rule bundleRow_map) (simp_all add: w'_def assms(3))
  have "filter ?hit (w_bundles w) \<noteq> [] \<longleftrightarrow>
      (case bundleRow w i of None \<Rightarrow> False | Some r \<Rightarrow> activeRow r)"
  proof (cases "bundleRow w i")
    case None
    then have "\<forall>x\<in>set (w_bundles w). ob_id x \<noteq> i" by (auto simp: bundleRow_def find_None_iff)
    with None show ?thesis by (auto simp: filter_empty_conv)
  next
    case (Some r)
    then have r: "r \<in> set (w_bundles w)" "ob_id r = i" by (auto simp: bundleRow_def find_Some_iff)
    have only: "x = r" if "x \<in> set (w_bundles w)" "ob_id x = i" for x
      using that r assms(2) by (auto simp: distinct_map dest: inj_onD)
    have "filter ?hit (w_bundles w) \<noteq> [] \<longleftrightarrow> (\<exists>x\<in>set (w_bundles w). ?hit x)"
      by (simp add: filter_empty_conv)
    also have "\<dots> \<longleftrightarrow> ?hit r" using r only by blast
    finally have "filter ?hit (w_bundles w) \<noteq> [] \<longleftrightarrow> ?hit r" .
    with Some r show ?thesis by (simp add: activeRow_def)
  qed
  moreover have "bundleRow w' j = (if j = i
      then map_option (\<lambda>r. if activeRow r then (f r)\<lparr>updatedAt := clock env (w_tick w)\<rparr> else r) (bundleRow w j)
      else bundleRow w j)" for j
  proof (cases "bundleRow w j")
    case None
    then show ?thesis by (auto simp: row)
  next
    case (Some r)
    then have "ob_id r = j" by (rule bundleRow_id)
    with Some show ?thesis by (auto simp: row activeRow_def)
  qed
  moreover have "map ob_id (w_bundles w') = map ob_id (w_bundles w)"
    by (simp add: w'_def assms(3))
  ultimately show ?thesis using run by (simp add: w'_def)
qed

lemma failOne_run:
  fixes w :: world
  assumes "noFaults env" and "distinct (map ob_id (w_bundles w))"
  shows "\<exists>m w'. failOne env reason det fd i w = (Inr m, w') \<and>
    map ob_id (w_bundles w') = map ob_id (w_bundles w) \<and> w_slots w' = w_slots w \<and>
    (\<forall>j. j \<noteq> i \<longrightarrow> bundleRow w' j = bundleRow w j) \<and>
    sameButTime (bundleRow w' i)
      (map_option (\<lambda>r. if activeRow r then nextRow env reason det fd r else r) (bundleRow w i)) \<and>
    map_option ef_bundleId m =
      (if \<exists>r. bundleRow w i = Some r \<and> retryable env det r then Some i else None)"
proof -
  have rd: "bundles_findById env i w =
      (Inr (Option.bind (bundleRow w i) (\<lambda>r. if deletedAt r = None then Some r else None)), advance w)"
    using assms by (simp add: bundles_findById_def base_findById_def dbQuery_apply find_live_row)
  show ?thesis
  proof (cases "Option.bind (bundleRow w i) (\<lambda>r. if deletedAt r = None then Some r else None)")
    case None
    then have na: "\<not> activeRow r" if "bundleRow w i = Some r" for r
      using that by (auto simp: activeRow_def split: if_splits)
    have "failOne env reason det fd i w = (Inr None, advance w)"
      using rd None by (simp add: failOne_def tryCatch_apply andThen_apply)
    moreover have "bundleRow (advance w) j = bundleRow w j" for j by (rule bundleRow_cong) simp
    moreover have "map_option (\<lambda>r. if activeRow r then nextRow env reason det fd r else r) (bundleRow w i) =
        bundleRow w i"
      using na by (cases "bundleRow w i") auto
    moreover have "\<not> (\<exists>r. bundleRow w i = Some r \<and> retryable env det r)"
      using na by (auto simp: retryable_def)
    ultimately show ?thesis by simp
  next
    case (Some r)
    then have r: "bundleRow w i = Some r" "deletedAt r = None"
      by (auto simp: bind_eq_Some_conv split: if_splits)
    define f :: "OperationsBundle \<Rightarrow> OperationsBundle" where "f = (\<lambda>x. if det \<or> ob_retryCount r + 1 \<ge> MEMPOOL_MAX_RETRY_ATTEMPTS env
      then x\<lparr>ob_status := B_FAILED, ob_retryCount := ob_retryCount r + 1,
            ob_lastFailureReason := Some reason, ob_failureDetail := Some (StructuredDetail fd)\<rparr>
      else x\<lparr>ob_status := B_PENDING, ob_retryCount := ob_retryCount r + 1,
            ob_lastFailureReason := Some reason\<rparr>)"
    have f_id: "ob_id (f x) = ob_id x" for x by (simp add: f_def)
    have adv: "bundleRow (advance w) j = bundleRow w j" for j by (rule bundleRow_cong) simp
    have dist: "distinct (map ob_id (w_bundles (advance w)))" using assms(2) by simp
    obtain w' where w': "updateIfStatusIn env i f [B_PENDING, B_PROCESSING] (advance w) =
        (Inr (activeRow r), w')"
      "map ob_id (w_bundles w') = map ob_id (w_bundles w)" "w_slots w' = w_slots w"
      "\<forall>j. bundleRow w' j = (if j = i then map_option (\<lambda>x. if activeRow x
         then (f x)\<lparr>updatedAt := clock env (Suc (w_tick w))\<rparr> else x) (bundleRow w j) else bundleRow w j)"
      using updateIfStatusIn_run [OF assms(1) dist f_id, of i, unfolded adv r(1) advance_simps option.case] by blast
    have "failOne env reason det fd i w = (Inr (if activeRow r \<and> \<not> det \<and>
        \<not> ob_retryCount r + 1 \<ge> MEMPOOL_MAX_RETRY_ATTEMPTS env
        then Some \<lparr>ef_bundleId = i, ef_nextRetryCount = ob_retryCount r + 1,
             ef_lastFailureReason = reason\<rparr> else None), w')"
      using rd Some w'(1)
      by (cases "det \<or> ob_retryCount r + 1 \<ge> MEMPOOL_MAX_RETRY_ATTEMPTS env")
        (simp_all add: failOne_def tryCatch_apply andThen_apply Let_def f_def)
    moreover have "sameButTime (bundleRow w' i)
        (map_option (\<lambda>r. if activeRow r then nextRow env reason det fd r else r) (bundleRow w i))"
      using w'(4) r by (simp add: sameButTime_def nextRow_def f_def)
    ultimately show ?thesis
      using w' r by (auto simp: retryable_def not_le)
  qed
qed

lemma failRows_run:
  fixes w :: world
  assumes "noFaults env" and "distinct (map ob_id (w_bundles w))" and "distinct ids"
  shows "\<exists>ms w'. mapM (failOne env reason det fd) ids w = (Inr ms, w') \<and> w_slots w' = w_slots w \<and>
    (\<forall>j. j \<notin> set ids \<longrightarrow> bundleRow w' j = bundleRow w j) \<and>
    (\<forall>j\<in>set ids. sameButTime (bundleRow w' j)
      (map_option (\<lambda>r. if activeRow r then nextRow env reason det fd r else r) (bundleRow w j))) \<and>
    map ef_bundleId [m. Some m \<leftarrow> ms] =
      filter (\<lambda>i. \<exists>r. bundleRow w i = Some r \<and> retryable env det r) ids"
  using assms(2,3)
proof (induction ids arbitrary: w)
  case Nil
  then show ?case by simp
next
  case (Cons i ids)
  obtain m u where u: "failOne env reason det fd i w = (Inr m, u)"
    "map ob_id (w_bundles u) = map ob_id (w_bundles w)" "w_slots u = w_slots w"
    "\<forall>j. j \<noteq> i \<longrightarrow> bundleRow u j = bundleRow w j"
    "sameButTime (bundleRow u i)
      (map_option (\<lambda>r. if activeRow r then nextRow env reason det fd r else r) (bundleRow w i))"
    "map_option ef_bundleId m = (if \<exists>r. bundleRow w i = Some r \<and> retryable env det r then Some i else None)"
    using failOne_run [OF assms(1) Cons.prems(1), of reason det fd i] by blast
  have dist: "distinct (map ob_id (w_bundles u))" using Cons.prems(1) u(2) by simp
  have i: "i \<notin> set ids" "distinct ids" using Cons.prems(2) by simp_all
  obtain ms w' where w': "mapM (failOne env reason det fd) ids u = (Inr ms, w')" "w_slots w' = w_slots u"
    "\<forall>j. j \<notin> set ids \<longrightarrow> bundleRow w' j = bundleRow u j"
    "\<forall>j\<in>set ids. sameButTime (bundleRow w' j)
      (map_option (\<lambda>r. if activeRow r then nextRow env reason det fd r else r) (bundleRow u j))"
    "map ef_bundleId [m. Some m \<leftarrow> ms] =
      filter (\<lambda>i. \<exists>r. bundleRow u i = Some r \<and> retryable env det r) ids"
    using Cons.IH [OF dist i(2)] by blast
  have other: "bundleRow u j = bundleRow w j" if "j \<in> set ids" for j using u(4) i(1) that by metis
  have run: "mapM (failOne env reason det fd) (i # ids) w = (Inr (m # ms), w')"
    using u(1) w'(1) by (simp add: andThen_apply)
  moreover have "\<forall>j. j \<notin> set (i # ids) \<longrightarrow> bundleRow w' j = bundleRow w j" using w'(3) u(4) by simp
  moreover have "\<forall>j\<in>set (i # ids). sameButTime (bundleRow w' j)
      (map_option (\<lambda>r. if activeRow r then nextRow env reason det fd r else r) (bundleRow w j))"
    using w'(3,4) u(5) i(1) other by simp
  moreover have "filter (\<lambda>i. \<exists>r. bundleRow u i = Some r \<and> retryable env det r) ids =
      filter (\<lambda>i. \<exists>r. bundleRow w i = Some r \<and> retryable env det r) ids"
    using other by (intro filter_cong) simp_all
  then have "map ef_bundleId [m. Some m \<leftarrow> m # ms] =
      filter (\<lambda>i. \<exists>r. bundleRow w i = Some r \<and> retryable env det r) (i # ids)"
    using w'(5) u(6) by (cases m) (simp_all split: if_splits)
  moreover have "w_slots w' = w_slots w" using w'(2) u(3) by simp
  ultimately show ?case by (intro exI [of _ "m # ms"] exI [of _ w'] conjI)
qed

lemma handleExecutionFailure_run:
  fixes w :: world
  assumes "noFaults env" and "distinct (map ob_id (w_bundles w))" and "distinct ids"
  shows "\<exists>ms w'. handleExecutionFailure env ids reason det fd w = (Inr ms, w') \<and> w_slots w' = w_slots w \<and>
    (\<forall>j. j \<notin> set ids \<longrightarrow> bundleRow w' j = bundleRow w j) \<and>
    (\<forall>j\<in>set ids. sameButTime (bundleRow w' j)
      (map_option (\<lambda>r. if activeRow r then nextRow env reason det fd r else r) (bundleRow w j))) \<and>
    map ef_bundleId ms = filter (\<lambda>i. \<exists>r. bundleRow w i = Some r \<and> retryable env det r) ids"
  using failRows_run [OF assms, of reason det fd] by (auto simp: handleExecutionFailure_def andThen_apply)






section \<open>The preflight check, exactly\<close>

lemma runPreflight_run:
  assumes "rpcLedgerEntries env (w_tick w) pk = Inr es" and "readAccountEntry es = Some (balance, subEntries)"
    and "rpcLedgerEntries env (Suc (w_tick w)) pk = Inr (AccountLedgerEntry a # es')"
    and "rpcSimulate env (Suc (Suc (w_tick w))) tx = Inr (SimulationSuccess (Some fee))"
  shows "runPreflightOpexFeeCheck env tx pk w =
    (let available = balance - (2 + subEntries) * BASE_RESERVE_STROOPS env;
         required = NETWORK_FEE env + fee in
     (if required \<le> available
      then Inr \<lparr>pr_feePayerPubkey = pk, pr_availableXlmStroops = available,
                pr_requiredXlmStroops = required, pr_shortfallStroops = required - available\<rparr>
      else Inl (InsufficientFees \<lparr>ifd_feePayerPubkey = pk, ifd_availableXlm = intToString available,
                ifd_requiredXlm = intToString required,
                ifd_shortfallXlm = intToString (required - available)\<rparr>),
      advance (advance (advance w))))"
proof -
  have "es \<noteq> []" using assms(2) by auto
  with assms show ?thesis
    by (auto simp: runPreflightOpexFeeCheck_def fetchFeePayerAccountState_def feePayerSequence_def
        simulateBundleResourceFee_def computePreflightResult_def toInsufficientFeesDetail_def
        andThen_apply external_apply assertM_def Let_def)
qed

section \<open>The record of a submission\<close>

lemma linkOne_run:
  assumes "andThen (dateNow env) (\<lambda>t. andThen (links_create env
      \<lparr>createdAt = t, updatedAt = t, createdBy = Some ''system'', updatedBy = None,
       deletedAt = None, bt_bundleId = i, bt_transactionId = h\<rparr>) (\<lambda>_. ret ())) w = (Inr (), u)"
  shows "\<exists>l. w_links u = w_links w @ [l] \<and> w_transactions u = w_transactions w \<and> bt_bundleId l = i \<and>
    bt_transactionId l = h \<and> deletedAt l = None"
  using assms
  by (auto simp: andThen_apply links_create_def base_create_def dbExec_def split: if_splits)

lemma forM_links_run:
  assumes "forM ids f w = (Inr (), w')"
    and f: "\<And>i w u. f i w = (Inr (), u) \<Longrightarrow> \<exists>l. w_links u = w_links w @ [l] \<and>
      w_transactions u = w_transactions w \<and> bt_bundleId l = i \<and> bt_transactionId l = h \<and> deletedAt l = None"
  shows "w_transactions w' = w_transactions w \<and> (\<exists>ls. w_links w' = w_links w @ ls \<and>
    map bt_bundleId ls = ids \<and> (\<forall>l\<in>set ls. bt_transactionId l = h \<and> deletedAt l = None))"
  using assms(1)
proof (induction ids arbitrary: w)
  case Nil
  then show ?case by simp
next
  case (Cons i ids)
  from Cons.prems obtain u where fi: "f i w = (Inr (), u)" and rest: "forM ids f u = (Inr (), w')"
    by (auto elim!: andThen_InrE)
  from f [OF fi] obtain l where u: "w_links u = w_links w @ [l]" "w_transactions u = w_transactions w"
      "bt_bundleId l = i" "bt_transactionId l = h" "deletedAt l = None" by blast
  from Cons.IH [OF rest] obtain ls where "w_transactions w' = w_transactions u" "w_links w' = w_links u @ ls"
    "map bt_bundleId ls = ids" "\<forall>l\<in>set ls. bt_transactionId l = h \<and> deletedAt l = None" by blast
  with u show ?case by (intro conjI exI [of _ "l # ls"]) simp_all
qed

definition recorded :: "world \<Rightarrow> world \<Rightarrow> string \<Rightarrow> string list \<Rightarrow> bool" where
  "recorded w w' h ids \<longleftrightarrow>
    (\<exists>t. w_transactions w' = w_transactions w @ [t] \<and> t_id t = h \<and> t_status t = T_UNVERIFIED \<and>
       h \<notin> t_id ` set (w_transactions w)) \<and>
    (\<exists>ls. w_links w' = w_links w @ ls \<and> map bt_bundleId ls = ids \<and>
       (\<forall>l\<in>set ls. bt_transactionId l = h \<and> deletedAt l = None))"

lemma transactions_create_Inr:
  assumes "transactions_create env row w = (Inr x, u)"
  shows "w_transactions u = w_transactions w @ [row] \<and> w_links u = w_links w \<and>
    t_id row \<notin> t_id ` set (w_transactions w)"
  using assms
  by (auto simp: transactions_create_def base_create_def dbExec_def list_ex_iff split: if_splits)

lemma createTransactionRecord_recorded:
  assumes "createTransactionRecord env h ids w = (Inr (), w')"
  shows "recorded w w' h ids"
proof -
  define row :: "int \<Rightarrow> Transaction" where
    "row lat = \<lparr>createdAt = clock env (Suc (w_tick w)), updatedAt = clock env (Suc (w_tick w)),
       createdBy = Some ''system'', updatedBy = None, deletedAt = None, t_id = h, t_status = T_UNVERIFIED,
       t_timeout = clock env (Suc (w_tick w)) + TRANSACTION_EXPIRATION_OFFSET env * STELLAR_LEDGER_CLOSE_TIME_MS,
       t_ledgerSequence = intToString lat\<rparr>" for lat
  obtain lat x u where t: "transactions_create env (row lat) (advance w) = (Inr x, u)"
    and rest: "forM ids (\<lambda>bundleId. andThen (dateNow env) (\<lambda>t. andThen (links_create env
        \<lparr>createdAt = t, updatedAt = t, createdBy = Some ''system'', updatedBy = None,
         deletedAt = None, bt_bundleId = bundleId, bt_transactionId = h\<rparr>) (\<lambda>_. ret ()))) u = (Inr (), w')"
    using assms unfolding createTransactionRecord_def row_def
    by (auto simp: external_apply elim!: andThen_InrE)
  from transactions_create_Inr [OF t] forM_links_run [OF rest linkOne_run]
  show ?thesis by (auto simp: recorded_def row_def)
qed


text \<open>The network-facing tables: what an execution leaves behind.\<close>

definition ledgerKept :: "world \<Rightarrow> world \<Rightarrow> bool" where
  "ledgerKept w w' \<longleftrightarrow> w_transactions w' = w_transactions w \<and> w_links w' = w_links w \<and>
    w_submitted w' = w_submitted w"

lemma frame_ledgerKept: "admissionFrame w w' \<Longrightarrow> ledgerKept w w'"
  by (simp add: admissionFrame_def ledgerKept_def)

lemma ledgerKept_trans: "ledgerKept w u \<Longrightarrow> ledgerKept u v \<Longrightarrow> ledgerKept w v"
  by (simp add: ledgerKept_def)

interpretation ledger: cache_guarantee ledgerKept
  by unfold_locales (simp_all add: ledgerKept_def)

lemma ledger_emitForBundles: "guar ledgerKept (emitForBundles env ids p)"
proof -
  have "guar ledgerKept (busEmit e)" for e by (simp add: busEmit_def guar_def ledgerKept_def)
  then show ?thesis
    unfolding emitForBundles_def emitTo_def by (intro ledger.world_rules ledger.guar_reads)
qed

lemma submitTransactionToNetwork_Inr:
  assumes "submitTransactionToNetwork env tx ex ch pk w = (Inr h, w')"
  shows "w_transactions w' = w_transactions w \<and> w_links w' = w_links w \<and>
    (\<exists>sub. w_submitted w' = w_submitted w @ [sub] \<and> sub_tx sub = tx \<and> sub_result sub = Inr h)"
proof -
  obtain cx u where u: "resolveChannelContext env ch pk w = (Inr cx, u)"
    and rest: "tryCatch (invokeRaw env (cx_source cx) tx) (\<lambda>error. throw (ExecutionError error)) (advance u) =
      (Inr h, w')"
    using assms unfolding submitTransactionToNetwork_def
    by (auto simp: external_apply elim!: andThen_InrE)
  have "ledgerKept w u" using u by (rule guarD [OF ledger.guar_resolveChannelContext])
  with rest show ?thesis
    by (auto simp: tryCatch_apply invokeRaw_def ledgerKept_def Let_def split: sum.splits)
qed

lemma executeSlot_Inr:
  assumes "executeSlot env s w = (Inr (), w')"
  shows "\<exists>sub h. w_submitted w' = w_submitted w @ [sub] \<and> sub_result sub = Inr h \<and>
    recorded w w' h (map sb_bundleId (sl_bundles s))"
proof -
  let ?ch = "firstChannel s" and ?pk = "firstPp s"
  obtain cx u1 br u2 ex u3 pr u4 h u5 u6 where
    1: "resolveChannelContext env ?ch ?pk w = (Inr cx, u1)" and
    2: "buildTransactionFromSlot env s cx u1 = (Inr br, u2)" and
    3: "getTransactionExpiration env u2 = (Inr ex, u3)" and
    4: "runPreflightOpexFeeCheck env (br_tx br) ?pk u3 = (Inr pr, u4)" and
    5: "submitTransactionToNetwork env (br_tx br) ex ?ch ?pk u4 = (Inr h, u5)" and
    6: "createTransactionRecord env h (br_bundleIds br) u5 = (Inr (), u6)" and
    7: "emitForBundles env (br_bundleIds br) (ExecutorTransactionSubmitted h (br_bundleIds br) ?ch) u6 = (Inr (), w')"
    using assms unfolding executeSlot_def Let_def
    by (auto simp: assertM_Inr elim!: andThen_InrE)
  have "ledgerKept w u1" using 1 by (rule guarD [OF ledger.guar_resolveChannelContext])
  moreover have "ledgerKept u1 u2" using 2 by (rule guarD [OF ledger.guar_buildTransactionFromSlot])
  moreover have "ledgerKept u2 u3" using 3 by (rule guarD [OF ledger.guar_getTransactionExpiration])
  moreover have "ledgerKept u3 u4" using 4 by (rule guarD [OF ledger.guar_preflight])
  ultimately have w4: "ledgerKept w u4" by (metis ledgerKept_trans)
  have w7: "ledgerKept u6 w'" using 7 by (rule guarD [OF ledger_emitForBundles])
  obtain sub where sub: "w_submitted u5 = w_submitted w @ [sub]" "sub_result sub = Inr h"
    "w_transactions u5 = w_transactions w" "w_links u5 = w_links w"
    using submitTransactionToNetwork_Inr [OF 5] w4 by (auto simp: ledgerKept_def)
  have rec: "recorded u5 u6 h (map sb_bundleId (sl_bundles s))"
    using createTransactionRecord_recorded [OF 6] buildTransactionFromSlot_Inr(2) [OF 2] by simp
  have "w_submitted u6 = w_submitted u5"
    using guarD [OF submitted_kept.guar_createTransactionRecord 6] by (simp add: submittedKept_def)
  with sub rec w7 have "w_submitted w' = w_submitted w @ [sub]" "recorded w w' h (map sb_bundleId (sl_bundles s))"
    by (simp_all add: ledgerKept_def recorded_def)
  with sub(2) show ?thesis by blast
qed

section \<open>Properties\<close>

lemmas executor_defs = executeNext_def finallyM_def removeFirstSlot_def processSlot_def
  expireSlotBundlesPastTtl_def executeSlot_def firstChannel_def firstPp_def resolveChannelContext_def
  findByPublicKey_def getActiveForPp_def getChannelClient_def cacheStep_def findChannel_def orElse_def
  orEmpty_def buildTransactionFromSlot_def addOperation_def OPEX_REQUIRED_def getTransactionExpiration_def
  runPreflightOpexFeeCheck_def fetchFeePayerAccountState_def feePayerSequence_def
  simulateBundleResourceFee_def computePreflightResult_def submitTransactionToNetwork_def invokeRaw_def
  createTransactionRecord_def transactions_create_def links_create_def base_create_def dbExec_def
  emitForBundles_def resolveScopeForPp_def emitTo_def busEmit_def Slot_isEmpty_def Slot_getBundles_def
  classifiedToOperations_def isBundleExpired_def distinctFirst_def

lemma numeral_opexFuel: "(3::nat) = Suc (Suc (Suc 0))"
  by simp

definition queued0 :: world where
  "queued0 = world0\<lparr>w_slots := [slot0 [bundle0 ''b1'' 1 5 9000, bundle0 ''b2'' 1 5 900]],
     w_bundles := [row0 ''b1'' B_PROCESSING, row0 ''b2'' B_PROCESSING]\<rparr>"

text \<open>C2: one execution submits at most one transaction.  It is made of the first slot of the mempool
  without the bundles past their TTL at that moment: a creation of the sum of their fees, then all their
  operations, in slot order.  It is signed and paid by the active provider of the first of them.\<close>

theorem execution_submits_live_slot:
  assumes "executeNext env w = (r, w')"
    and "\<forall>s\<in>set (w_slots w). distinct (map sb_bundleId (sl_bundles s))"
  shows "w_submitted w' = w_submitted w \<or>
    (\<exists>s ss sub. w_slots w = s # ss \<and> w_submitted w' = w_submitted w @ [sub] \<and>
      slotSubmission env (w_pps w)
        (filter (\<lambda>b. \<not> isBundleExpired (clock env (w_tick w)) b) (sl_bundles s)) sub)"
  using assms by (rule executeNext_submission)

lemma queued0_submits:
  "map sub_source (w_submitted (snd (executeNext env0 queued0))) = [''P1'']"
  by (simp add: queued0_def executor_defs run_simps Let_def fixture_defs numeral_opexFuel MAX_CACHE_SIZE_def
      updateStatusIfActive_def updateIfStatusIn_def emitForPp_def expiredPayload_def Slot_removeBundle_def)

theorem execution_submits_live_slot_witness:
  "\<exists>sub. w_submitted (snd (executeNext env0 queued0)) = [sub] \<and>
    slotSubmission env0 (w_pps queued0) [bundle0 ''b1'' 1 5 9000] sub"
proof -
  have "\<forall>s\<in>set (w_slots queued0). distinct (map sb_bundleId (sl_bundles s))" by (simp add: queued0_def)
  from execution_submits_live_slot [OF prod.collapse [symmetric, of "executeNext env0 queued0"] this]
  show ?thesis using queued0_submits by (auto simp: queued0_def isBundleExpired_def)
qed

text \<open>executions exclude each other.  While one runs another does nothing, and whatever an execution
  meets, success, failure or an empty mempool, the flag is afterwards what it was before.\<close>

theorem execution_is_exclusive:
  "executeNext env (w\<lparr>w_isProcessing := True\<rparr>) = (Inr (), w\<lparr>w_isProcessing := True\<rparr>) \<and>
   w_isProcessing (snd (executeNext env w)) = w_isProcessing w"
  using executeNext_busy [of "w\<lparr>w_isProcessing := True\<rparr>" env] executeNext_busy [of w env]
    executeNext_flag [of w env]
  by (cases "w_isProcessing w") simp_all

text \<open>C28: the preflight check lets a transaction through exactly when the fee payer's balance, less its
  reserve, covers the inclusion fee and the simulated resource fee.  Otherwise it fails with the three
  amounts in decimal text, and the shortfall it reports is the positive difference.\<close>

theorem preflight_is_exact:
  assumes "rpcLedgerEntries env (w_tick w) pk = Inr es" and "readAccountEntry es = Some (balance, subEntries)"
    and "rpcLedgerEntries env (Suc (w_tick w)) pk = Inr (AccountLedgerEntry a # es')"
    and "rpcSimulate env (Suc (Suc (w_tick w))) tx = Inr (SimulationSuccess (Some fee))"
  shows "if NETWORK_FEE env + fee \<le> balance - (2 + subEntries) * BASE_RESERVE_STROOPS env
    then \<exists>pr. fst (runPreflightOpexFeeCheck env tx pk w) = Inr pr
    else \<exists>d. fst (runPreflightOpexFeeCheck env tx pk w) = Inl (InsufficientFees d) \<and>
      ifd_feePayerPubkey d = pk \<and>
      parseInteger (ifd_availableXlm d) = Some (balance - (2 + subEntries) * BASE_RESERVE_STROOPS env) \<and>
      parseInteger (ifd_requiredXlm d) = Some (NETWORK_FEE env + fee) \<and>
      (\<exists>n>0. parseInteger (ifd_shortfallXlm d) = Some n \<and>
         balance - (2 + subEntries) * BASE_RESERVE_STROOPS env + n = NETWORK_FEE env + fee)"
  unfolding runPreflight_run [OF assms] by (simp add: Let_def parseInteger_intToString)

definition tx0 :: MoonlightTx where
  "tx0 = \<lparr>tx_channel = \<lparr>pc_channelId = ''C1'', pc_authId = ''auth'', pc_assetId = ''asset''\<rparr>,
     tx_operations = []\<rparr>"

theorem preflight_is_exact_witness:
  "\<exists>d. fst (runPreflightOpexFeeCheck (env0\<lparr>NETWORK_FEE := 200000\<rparr>) tx0 ''P1'' world0) =
      Inl (InsufficientFees d) \<and>
    parseInteger (ifd_shortfallXlm d) = Some 100065"
  using preflight_is_exact [of "env0\<lparr>NETWORK_FEE := 200000\<rparr>" world0 "''P1''"
      "[AccountLedgerEntry \<lparr>ae_balance = 100000, ae_numSubEntries = 1, ae_seqNum = 7\<rparr>]" 100000 1
      "\<lparr>ae_balance = 100000, ae_numSubEntries = 1, ae_seqNum = 7\<rparr>" "[]" tx0 50]
  by auto

text \<open>an execution that succeeds has submitted one transaction, stored it under the hash the network
  gave, unverified and with a fresh key, and linked it to every bundle of the slot and to no other.\<close>

theorem execution_is_recorded:
  assumes "executeSlot env s w = (Inr (), w')"
  shows "\<exists>sub h t ls. w_submitted w' = w_submitted w @ [sub] \<and> sub_result sub = Inr h \<and>
    w_transactions w' = w_transactions w @ [t] \<and> t_id t = h \<and> t_status t = T_UNVERIFIED \<and>
    h \<notin> t_id ` set (w_transactions w) \<and>
    w_links w' = w_links w @ ls \<and> map bt_bundleId ls = map sb_bundleId (sl_bundles s) \<and>
    (\<forall>l\<in>set ls. bt_transactionId l = h \<and> deletedAt l = None)"
  using executeSlot_Inr [OF assms] unfolding recorded_def by metis

lemma executeSlot0: "fst (executeSlot env0 (slot0 [bundle0 ''b1'' 1 5 9000]) world0) = Inr ()"
  by (simp add: executor_defs run_simps Let_def fixture_defs numeral_opexFuel MAX_CACHE_SIZE_def)

theorem execution_is_recorded_witness:
  "\<exists>h. map t_id (w_transactions (snd (executeSlot env0 (slot0 [bundle0 ''b1'' 1 5 9000]) world0))) = [h] \<and>
    map bt_bundleId (w_links (snd (executeSlot env0 (slot0 [bundle0 ''b1'' 1 5 9000]) world0))) = [''b1'']"
proof -
  let ?s = "slot0 [bundle0 ''b1'' 1 5 9000]"
  have "executeSlot env0 ?s world0 = (Inr (), snd (executeSlot env0 ?s world0))"
    using executeSlot0 by (metis prod.collapse)
  from execution_is_recorded [OF this] show ?thesis by auto
qed

text \<open>C16: the retry policy, on a database that answers.  A bundle that is still active becomes failed
  when the error is deterministic or its attempts are used up, and goes back to pending otherwise; its
  retry count and its last reason are recorded in both cases.  A bundle in a terminal state and a bundle
  that was not in the slot keep their rows.  The identifiers returned are those of the bundles to retry.\<close>

theorem retry_policy:
  assumes "noFaults env" and "distinct (map ob_id (w_bundles w))" and "distinct ids"
  shows "\<exists>ms w'. handleExecutionFailure env ids reason det fd w = (Inr ms, w') \<and> w_slots w' = w_slots w \<and>
    (\<forall>j. j \<notin> set ids \<longrightarrow> bundleRow w' j = bundleRow w j) \<and>
    (\<forall>j\<in>set ids. sameButTime (bundleRow w' j)
      (map_option (\<lambda>r. if activeRow r then nextRow env reason det fd r else r) (bundleRow w j))) \<and>
    map ef_bundleId ms = filter (\<lambda>i. \<exists>r. bundleRow w i = Some r \<and> retryable env det r) ids"
  using assms by (rule handleExecutionFailure_run)

definition fd0 :: StructuredFailureDetail where
  "fd0 = \<lparr>sfd_code = ''c'', sfd_source = ''provider'', sfd_message = ''m'', sfd_name = None\<rparr>"

theorem retry_policy_witness:
  "\<exists>ms w'. handleExecutionFailure env0 [''b1'', ''b2''] ''r'' False fd0
      (world0\<lparr>w_bundles := [row0 ''b1'' B_PROCESSING, row0 ''b2'' B_COMPLETED]\<rparr>) = (Inr ms, w') \<and>
    map ef_bundleId ms = [''b1''] \<and> statusOf w' ''b1'' = Some B_PENDING \<and> statusOf w' ''b2'' = Some B_COMPLETED"
proof -
  let ?w = "world0\<lparr>w_bundles := [row0 ''b1'' B_PROCESSING, row0 ''b2'' B_COMPLETED]\<rparr>"
  have rows: "bundleRow ?w ''b1'' = Some (row0 ''b1'' B_PROCESSING)"
    "bundleRow ?w ''b2'' = Some (row0 ''b2'' B_COMPLETED)" by (simp_all add: bundleRow_def)
  have same: "map_option ob_status a = map_option ob_status b" if "sameButTime a b" for a b
    using that by (cases a; cases b) (auto simp: sameButTime_def dest: arg_cong [of _ _ ob_status])
  obtain ms w' where run: "handleExecutionFailure env0 [''b1'', ''b2''] ''r'' False fd0 ?w = (Inr ms, w')"
    "\<forall>j\<in>set [''b1'', ''b2'']. sameButTime (bundleRow w' j)
      (map_option (\<lambda>r. if activeRow r then nextRow env0 ''r'' False fd0 r else r) (bundleRow ?w j))"
    "map ef_bundleId ms = filter (\<lambda>i. \<exists>r. bundleRow ?w i = Some r \<and> retryable env0 False r) [''b1'', ''b2'']"
    using retry_policy [of env0 ?w "[''b1'', ''b2'']" "''r''" False fd0] by auto
  from run(2) have "sameButTime (bundleRow w' ''b1'') (Some (nextRow env0 ''r'' False fd0 (row0 ''b1'' B_PROCESSING)))"
    "sameButTime (bundleRow w' ''b2'') (Some (row0 ''b2'' B_COMPLETED))"
    using rows by (simp_all add: activeRow_def)
  from this [THEN same] run(1,3) rows show ?thesis
    by (simp add: statusOf_def nextRow_def retryable_def activeRow_def)
qed



definition faulty12 :: env where
  "faulty12 = env0\<lparr>dbFault := (\<lambda>n. n = 12)\<rparr>"

definition unrecorded0 :: world where
  "unrecorded0 = world0\<lparr>w_slots := [slot0 [bundle0 ''b1'' 1 5 9000]], w_bundles := [row0 ''b1'' B_PROCESSING]\<rparr>"

text \<open>when the statement that records an accepted transaction fails, the bundles go back to the
  mempool and the next execution submits the same operations again: one bundle, two accepted
  transactions, of which only the second is recorded.\<close>

theorem unrecorded_submission_repeats:
  "case snd (executeNext faulty12 (snd (executeNext faulty12 unrecorded0))) of w \<Rightarrow>
     map (\<lambda>sub. tl (tx_operations (sub_tx sub))) (w_submitted w) =
       [slotOperations [bundle0 ''b1'' 1 5 9000], slotOperations [bundle0 ''b1'' 1 5 9000]] \<and>
     list_all (\<lambda>sub. case sub_result sub of Inr _ \<Rightarrow> True | Inl _ \<Rightarrow> False) (w_submitted w) \<and>
     length (w_transactions w) = 1"
  by code_simp

definition secondProvider0 :: SlotBundle where
  "secondProvider0 = (bundle0 ''b2'' 2 5 9000)\<lparr>sb_ppPublicKey := ''P2''\<rparr>"

definition twoProviders0 :: world where
  "twoProviders0 = world0\<lparr>w_bundles := [row0 ''b1'' B_PENDING,
     (row0 ''b2'' B_PENDING)\<lparr>ob_ppPublicKey := Some ''P2''\<rparr>]\<rparr>"

text \<open>the mempool separates channels, not providers.  Two bundles of one channel that were sent to
  different providers share a slot, and the execution of that slot submits both in one transaction that
  the provider of the first bundle signs and pays for.\<close>

theorem providers_share_a_slot:
  "map (\<lambda>sub. (sub_source sub, tl (tx_operations (sub_tx sub))))
     (w_submitted (snd (andThen (addBundle env0 (bundle0 ''b1'' 3 5 9000)) (\<lambda>_.
        andThen (addBundle env0 secondProvider0) (\<lambda>_. executeNext env0)) twoProviders0))) =
   [(''P1'', slotOperations [bundle0 ''b1'' 3 5 9000, secondProvider0])]"
  by code_simp

end
