(* ===== verification/Verifier.thy ===== *)
theory Verifier
  imports Executor
begin

text \<open>
  The verifier, \<^verbatim>\<open>core/service/verifier\<close>: the classification of an on-chain answer
  (\<^verbatim>\<open>verifier.service.ts\<close>), the handling of a failed verification (\<^verbatim>\<open>verifier-failure.helpers.ts\<close>), of a
  successful one with its deposit and withdraw events, and the verification cycle
  (\<^verbatim>\<open>verifier.process.ts\<close>).
\<close>

section \<open>The on-chain answer\<close>

datatype VerificationResult = VERIFIED "string option" | FAILED string | PENDING

definition classifyResponse :: "TxResponse option \<Rightarrow> VerificationResult" where
  "classifyResponse txResponse =
    (case txResponse of
       None \<Rightarrow> PENDING
     | Some r \<Rightarrow>
        (case tr_status r of
           TX_SUCCESS \<Rightarrow> VERIFIED (map_option intToString (tr_ledger r))
         | TX_FAILED \<Rightarrow>
            (let resultCode = (if orEmpty (tr_resultXdr r) = [] then ''unknown'' else orEmpty (tr_resultXdr r))
             in FAILED (''Transaction failed with result code: '' @ resultCode))
         | TX_NOT_FOUND \<Rightarrow> PENDING))"

definition verifyTransactionOnNetwork :: "env \<Rightarrow> string \<Rightarrow> VerificationResult action" where
  "verifyTransactionOnNetwork env txHash =
    tryCatch
      (andThen (external (\<lambda>n. rpcGetTransaction env n txHash)) (\<lambda>txResponse.
       ret (classifyResponse txResponse)))
      (\<lambda>_. ret PENDING)"

section \<open>Statuses\<close>

fun findFirstBundleChannel :: "env \<Rightarrow> string list \<Rightarrow> string option action" where
  "findFirstBundleChannel env [] = ret None"
| "findFirstBundleChannel env (bundleId # bundleIds) =
    andThen (bundles_findById env bundleId) (\<lambda>bundle.
    let channel = orEmpty (Option.bind bundle ob_channelContractId) in
    if channel \<noteq> [] then ret (Some channel) else findFirstBundleChannel env bundleIds)"

definition updateTransactionStatus :: "env \<Rightarrow> string \<Rightarrow> TransactionStatus \<Rightarrow> unit action" where
  "updateTransactionStatus env txId status =
    andThen (transactions_update env txId (\<lambda>r. r\<lparr>t_status := status\<rparr>)) (\<lambda>_. ret ())"

definition verifyFailOne ::
    "env \<Rightarrow> string \<Rightarrow> string \<Rightarrow> bool \<Rightarrow> StructuredFailureDetail option \<Rightarrow> string \<Rightarrow> string option action" where
  "verifyFailOne env txId reason terminalFlag failureDetail bundleId =
    tryCatch
     (andThen (bundles_findById env bundleId) (\<lambda>row.
      case row of
        None \<Rightarrow> ret None
      | Some bundle \<Rightarrow>
         (let nextRetryCount = ob_retryCount bundle + 1;
              hasReachedMaxAttempts = nextRetryCount \<ge> MEMPOOL_MAX_RETRY_ATTEMPTS env;
              isTerminal = terminalFlag \<or> hasReachedMaxAttempts in
          andThen (dateNow env) (\<lambda>now.
          let lastFailureReason =
                orElse (stringifyFailure env (VerificationPayload now reason txId bundleId)) reason in
          andThen (bundles_update env bundleId (\<lambda>r. r\<lparr>
              ob_status := (if isTerminal then B_FAILED else B_PENDING),
              ob_retryCount := nextRetryCount, ob_lastFailureReason := Some lastFailureReason,
              ob_failureDetail := (case failureDetail of
                 Some d \<Rightarrow> if isTerminal then Some (StructuredDetail d) else ob_failureDetail r
               | None \<Rightarrow> ob_failureDetail r)\<rparr>)) (\<lambda>_.
          ret (if isTerminal then None else Some bundleId))))))
     (\<lambda>_. ret None)"

definition rehydrate :: "env \<Rightarrow> string \<Rightarrow> SlotBundle option action" where
  "rehydrate env bundleId =
    tryCatch
     (andThen (bundles_findById env bundleId) (\<lambda>updated.
      case updated of
        None \<Rightarrow> ret None
      | Some u \<Rightarrow> andThen (createSlotBundleFromEntity env u) (\<lambda>b. ret (Some b))))
     (\<lambda>_. ret None)"

definition handleVerificationFailure ::
    "env \<Rightarrow> string \<Rightarrow> string \<Rightarrow> string list \<Rightarrow> bool \<Rightarrow> StructuredFailureDetail option \<Rightarrow> unit action" where
  "handleVerificationFailure env txId reason bundleIds terminalFlag failureDetail =
    andThen (updateTransactionStatus env txId T_FAILED) (\<lambda>_.
    andThen (mapM (verifyFailOne env txId reason terminalFlag failureDetail) bundleIds) (\<lambda>rs.
    let retryableBundleIds = [i. Some i \<leftarrow> rs] in
    if length retryableBundleIds = 0 then ret ()
    else andThen (mapM (rehydrate env) retryableBundleIds) (\<lambda>bs.
      let slotBundles = [b. Some b \<leftarrow> bs] in
      unlessM (length slotBundles = 0) (reAddBundles env slotBundles))))"

section \<open>Success\<close>

definition operationEvent ::
    "string \<Rightarrow> string \<Rightarrow> string \<Rightarrow> MoonlightOperation \<Rightarrow> EventPayload option" where
  "operationEvent bundleId txId channelContractId op =
    (case op of
       Deposit d \<Rightarrow> Some (BundleDepositCompleted bundleId txId channelContractId (dep_publicKey d)
                         (intToString (dep_amount d)))
     | Withdraw d \<Rightarrow> Some (BundleWithdrawCompleted bundleId txId channelContractId (wd_publicKey d)
                          (intToString (wd_amount d)))
     | _ \<Rightarrow> None)"

definition emitDepositAndWithdrawEvents ::
    "env \<Rightarrow> string \<Rightarrow> string list \<Rightarrow> string \<Rightarrow> unit action" where
  "emitDepositAndWithdrawEvents env txId bundleIds channelContractId =
    forM bundleIds (\<lambda>bundleId.
      andThen (bundles_findById env bundleId) (\<lambda>bundle.
      case bundle of
        None \<Rightarrow> ret ()
      | Some b \<Rightarrow> forM (ob_operationsMLXDR b) (\<lambda>mlxdr.
         case fromMLXDR env mlxdr of
           Inl _ \<Rightarrow> ret ()
         | Inr op \<Rightarrow>
            (case operationEvent bundleId txId channelContractId op of
               None \<Rightarrow> ret ()
             | Some payload \<Rightarrow> emitForBundles env [bundleId] payload))))"

definition completeBundles :: "env \<Rightarrow> string list \<Rightarrow> unit action" where
  "completeBundles env bundleIds =
    forM bundleIds (\<lambda>bundleId.
      tryCatch (andThen (bundles_update env bundleId (\<lambda>r. r\<lparr>ob_status := B_COMPLETED\<rparr>)) (\<lambda>_. ret ()))
        (\<lambda>_. ret ()))"

definition handleVerificationSuccess :: "env \<Rightarrow> string \<Rightarrow> string list \<Rightarrow> unit action" where
  "handleVerificationSuccess env txId bundleIds =
    andThen (findFirstBundleChannel env bundleIds) (\<lambda>channelContractId.
    andThen (updateTransactionStatus env txId T_VERIFIED) (\<lambda>_.
    andThen (completeBundles env bundleIds) (\<lambda>_.
    case channelContractId of
      None \<Rightarrow> ret ()
    | Some ch \<Rightarrow>
       andThen (emitForBundles env bundleIds (VerifierBundleCompleted txId bundleIds ch)) (\<lambda>_.
       emitDepositAndWithdrawEvents env txId bundleIds ch))))"

section \<open>The cycle\<close>

definition onchainFailed :: StructuredFailureDetail where
  "onchainFailed = \<lparr>sfd_code = ''ONCHAIN_TX_FAILED'', sfd_source = ''onchain'',
     sfd_message = ''The transaction failed on-chain.'', sfd_name = None\<rparr>"

definition txTimeout :: StructuredFailureDetail where
  "txTimeout = \<lparr>sfd_code = ''PROVIDER_TX_TIMEOUT'', sfd_source = ''provider'',
     sfd_message = ''The transaction was not confirmed in time.'', sfd_name = None\<rparr>"

definition timeoutReason :: "env \<Rightarrow> Transaction \<Rightarrow> string" where
  "timeoutReason env transaction =
    ''Confirmation timeout: not observed on-network by '' @ toISOString (t_timeout transaction)"

definition applyResult ::
    "env \<Rightarrow> Transaction \<Rightarrow> string list \<Rightarrow> VerificationResult \<Rightarrow> unit action" where
  "applyResult env transaction bundleIds result =
    (let txId = t_id transaction in
     case result of
       VERIFIED _ \<Rightarrow> handleVerificationSuccess env txId bundleIds
     | FAILED reason \<Rightarrow>
        andThen (findFirstBundleChannel env bundleIds) (\<lambda>channelContractId.
        andThen (handleVerificationFailure env txId reason bundleIds True (Some onchainFailed)) (\<lambda>_.
        case channelContractId of
          None \<Rightarrow> ret ()
        | Some ch \<Rightarrow> emitForBundles env bundleIds (VerifierBundleFailed txId bundleIds ch reason)))
     | PENDING \<Rightarrow>
        andThen (dateNow env) (\<lambda>now.
        if now > t_timeout transaction
        then handleVerificationFailure env txId (timeoutReason env transaction) bundleIds True
               (Some txTimeout)
        else ret ()))"

definition verifyTransaction :: "env \<Rightarrow> Transaction \<Rightarrow> unit action" where
  "verifyTransaction env transaction =
    tryCatch
     (andThen (findByTransactionId env (t_id transaction)) (\<lambda>bundleTransactions.
      let bundleIds = map bt_bundleId bundleTransactions in
      if length bundleIds = 0 then ret ()
      else andThen (verifyTransactionOnNetwork env (t_id transaction)) (\<lambda>result.
        applyResult env transaction bundleIds result)))
     (\<lambda>_. ret ())"

definition verifyTransactions :: "env \<Rightarrow> unit action" where
  "verifyTransactions env =
    tryCatch
     (andThen (transactions_findByStatus env T_UNVERIFIED) (\<lambda>unverifiedTransactions.
      forM unverifiedTransactions (verifyTransaction env)))
     (\<lambda>_. ret ())"

section \<open>Guarantees\<close>

context world_guarantee
begin

lemma guar_findFirstBundleChannel: "guar R (findFirstBundleChannel env ids)"
proof (induction ids)
  case Nil
  show ?case unfolding findFirstBundleChannel.simps by (rule guar_ret)
next
  case (Cons i ids)
  then show ?case unfolding findFirstBundleChannel.simps by (intro world_rules guar_reads)
qed

lemma guar_verifyTransactionOnNetwork: "guar R (verifyTransactionOnNetwork env h)"
  unfolding verifyTransactionOnNetwork_def by (intro world_rules)

end

text \<open>The verifier marks failures terminal, so it writes two kinds of status to the bundles and never
  reaches the mempool.\<close>

locale verifier_client = side_tables R for R :: "world \<Rightarrow> world \<Rightarrow> bool" +
  assumes R_verdict: "\<And>f. (\<And>r. ob_id (f r) = ob_id r \<and> ob_fee (f r) = ob_fee r \<and>
      ob_status (f r) \<in> {B_COMPLETED, B_FAILED}) \<Longrightarrow> guar R (bundles_update env i f)"
begin

lemma guar_updateTransactionStatus: "guar R (updateTransactionStatus env t st)"
  unfolding updateTransactionStatus_def by (intro world_rules repo_rules)

lemma guar_verifyFailOne: "guar R (verifyFailOne env t reason True fd i)"
  unfolding verifyFailOne_def simp_thms if_True
  by (intro world_rules repo_rules R_verdict) simp

lemma verifyFailOne_terminal: "verifyFailOne env t reason True fd i w = (Inr x, w') \<Longrightarrow> x = None"
  by (auto simp: verifyFailOne_def tryCatch_apply andThen_apply Let_def split: prod.splits sum.splits option.splits)

lemma mapM_verifyFailOne_terminal:
  "mapM (verifyFailOne env t reason True fd) ids w = (Inr rs, w') \<Longrightarrow> [i. Some i \<leftarrow> rs] = []"
proof (induction ids arbitrary: w rs)
  case Nil
  then show ?case by simp
next
  case (Cons i ids)
  then show ?case by (auto elim!: andThen_InrE dest!: verifyFailOne_terminal)
qed

lemma guar_handleVerificationFailure: "guar R (handleVerificationFailure env t reason ids True fd)"
proof -
  have "guar R (andThen (mapM (verifyFailOne env t reason True fd) ids) (\<lambda>rs.
    let retryableBundleIds = [i. Some i \<leftarrow> rs] in
    if length retryableBundleIds = 0 then ret ()
    else andThen (mapM (rehydrate env) retryableBundleIds) (\<lambda>bs.
      let slotBundles = [b. Some b \<leftarrow> bs] in
      unlessM (length slotBundles = 0) (reAddBundles env slotBundles))))" (is "guar R ?m")
  proof (rule guarI)
    fix w :: world
    obtain r v where m: "mapM (verifyFailOne env t reason True fd) ids w = (r, v)"
      by (cases "mapM (verifyFailOne env t reason True fd) ids w")
    have "R w v" using m by (rule guarD [rotated]) (intro world_rules guar_verifyFailOne)
    moreover have "snd (?m w) = v"
      using m mapM_verifyFailOne_terminal [of env t reason fd ids w _ v]
      by (cases r) (simp_all add: andThen_apply)
    ultimately show "R w (snd (?m w))" by simp
  qed
  then show ?thesis
    unfolding handleVerificationFailure_def by (rule guar_andThen [OF guar_updateTransactionStatus])
qed

lemma guar_completeBundles: "guar R (completeBundles env ids)"
  unfolding completeBundles_def by (intro world_rules R_verdict) simp

lemma guar_emitDepositAndWithdrawEvents: "guar R (emitDepositAndWithdrawEvents env t ids ch)"
  unfolding emitDepositAndWithdrawEvents_def by (intro world_rules repo_rules emit_rules)

lemma guar_handleVerificationSuccess: "guar R (handleVerificationSuccess env t ids)"
  unfolding handleVerificationSuccess_def
  by (intro world_rules emit_rules guar_findFirstBundleChannel guar_updateTransactionStatus
      guar_completeBundles guar_emitDepositAndWithdrawEvents)

lemma guar_applyResult: "guar R (applyResult env t ids res)"
  unfolding applyResult_def
  by (cases res) (simp_all add: guar_handleVerificationSuccess,
    (intro world_rules emit_rules guar_findFirstBundleChannel guar_handleVerificationFailure)+)

lemma guar_verifyTransactions: "guar R (verifyTransactions env)"
  unfolding verifyTransactions_def verifyTransaction_def
  by (intro world_rules repo_rules guar_verifyTransactionOnNetwork guar_applyResult)

end

interpretation slots_verifier: verifier_client slotsKept
  by unfold_locales (rule guar_slots_bundles)

interpretation submitted_verifier: verifier_client submittedKept
  by unfold_locales (rule guar_submitted_bundles)

lemma guar_tk_verdict:
  assumes "\<And>r. ob_id (f r) = ob_id r \<and> ob_fee (f r) = ob_fee r \<and> ob_status (f r) \<in> {B_COMPLETED, B_FAILED}"
  shows "guar terminalKept (bundles_update env i f)"
proof (rule guar_tk_bundles_update)
  have "ob_id (f r) = ob_id r \<and> terminal (ob_status (f r))" for r using assms [of r] by auto
  then show "keepsTerminal f" by (simp add: keepsTerminal_def)
qed

interpretation terminal_verifier: verifier_client terminalKept
  by unfold_locales (rule guar_tk_verdict)

section \<open>What a verdict does\<close>

definition txStatusOf :: "world \<Rightarrow> string \<Rightarrow> TransactionStatus option" where
  "txStatusOf w i = map_option t_status (find (\<lambda>t. t_id t = i) (w_transactions w))"

text \<open>The verdict writes touch neither the transactions nor, but for the bundles concerned, the rows.\<close>

definition txKept :: "world \<Rightarrow> world \<Rightarrow> bool" where
  "txKept w w' \<longleftrightarrow> w_transactions w' = w_transactions w"

interpretation tx_kept: world_guarantee txKept
  by unfold_locales (simp_all add: txKept_def)

lemma guar_txKept_emit: "guar txKept (emitForBundles env ids p)"
  unfolding emitForBundles_def emitTo_def busEmit_def
  by (intro tx_kept.world_rules tx_kept.guar_reads guar_modify) (simp add: txKept_def)

lemma guar_txKept_bundles_update: "guar txKept (bundles_update env i f)"
  unfolding bundles_update_def base_update_def
  by (intro tx_kept.guar_dbExec guarI) (simp add: txKept_def)

lemma updateTransactionStatus_run:
  assumes "noFaults env"
  shows "\<exists>w'. updateTransactionStatus env i st w = (Inr (), w') \<and> w_bundles w' = w_bundles w \<and>
    w_slots w' = w_slots w \<and>
    txStatusOf w' i = map_option (\<lambda>_. st) (txStatusOf w i)"
proof -
  let ?g = "\<lambda>r. if t_id r = i then r\<lparr>t_status := st, updatedAt := clock env (w_tick w)\<rparr> else r"
  have "find (\<lambda>t. t_id t = i) (map ?g (w_transactions w)) =
      map_option ?g (find (\<lambda>t. t_id t = i) (w_transactions w))"
    by (rule find_map_key) simp
  moreover have "t_id t = i" if "find (\<lambda>t. t_id t = i) (w_transactions w) = Some t" for t
    using that by (auto simp: find_Some_iff)
  ultimately have "map_option t_status (find (\<lambda>t. t_id t = i) (map ?g (w_transactions w))) =
      map_option (\<lambda>_. st) (map_option t_status (find (\<lambda>t. t_id t = i) (w_transactions w)))"
    by (cases "find (\<lambda>t. t_id t = i) (w_transactions w)") simp_all
  with assms show ?thesis
    by (simp add: updateTransactionStatus_def transactions_update_def base_update_def dbExec_def
        andThen_apply txStatusOf_def)
qed

lemma findFirstBundleChannel_run:
  fixes w :: world
  assumes "noFaults env"
  shows "\<exists>c w'. findFirstBundleChannel env ids w = (Inr c, w') \<and> w_bundles w' = w_bundles w \<and>
    w_transactions w' = w_transactions w"
proof (induction ids arbitrary: w)
  case Nil
  then show ?case by simp
next
  case (Cons i ids)
  from Cons [of "advance w"] assms show ?case
    by (auto simp: bundles_findById_def base_findById_def dbQuery_apply andThen_apply Let_def)
qed

lemma completeBundles_run:
  fixes w :: world
  assumes "noFaults env"
  shows "\<exists>w'. completeBundles env ids w = (Inr (), w') \<and> w_transactions w' = w_transactions w \<and>
    (\<forall>j. statusOf w' j = (if j \<in> set ids then map_option (\<lambda>_. B_COMPLETED) (statusOf w j) else statusOf w j))"
proof (induction ids arbitrary: w)
  case Nil
  then show ?case by (simp add: completeBundles_def)
next
  case (Cons i ids)
  obtain rs u where u: "bundles_update env i (\<lambda>r. r\<lparr>ob_status := B_COMPLETED\<rparr>) w = (Inr rs, u)"
    "\<forall>j. bundleRow u j = map_option (\<lambda>r. if ob_id r = i
       then (r\<lparr>ob_status := B_COMPLETED\<rparr>)\<lparr>updatedAt := clock env (w_tick w)\<rparr> else r) (bundleRow w j)"
    using bundles_update_run [OF assms, of "\<lambda>r. r\<lparr>ob_status := B_COMPLETED\<rparr>" i w] by auto
  have stu: "statusOf u j = (if j = i then map_option (\<lambda>_. B_COMPLETED) (statusOf w j) else statusOf w j)" for j
    using u(2) bundleRow_id [of w j] by (cases "bundleRow w j") (auto simp: statusOf_def)
  have txu: "w_transactions u = w_transactions w"
    using guarD [OF guar_txKept_bundles_update u(1)] by (simp add: txKept_def)
  obtain w' where w': "completeBundles env ids u = (Inr (), w')" "w_transactions w' = w_transactions u"
    "\<forall>j. statusOf w' j = (if j \<in> set ids then map_option (\<lambda>_. B_COMPLETED) (statusOf u j) else statusOf u j)"
    using Cons [of u] by blast
  have "completeBundles env (i # ids) w = (Inr (), w')"
    using u(1) w'(1) by (simp add: completeBundles_def andThen_apply tryCatch_apply)
  moreover have "statusOf w' j = (if j \<in> set (i # ids) then map_option (\<lambda>_. B_COMPLETED) (statusOf w j)
      else statusOf w j)" for j
    using w'(3) stu by (simp add: option.map_comp comp_def)
  ultimately show ?case using w'(2) txu by auto
qed

lemma statusOf_bundles: "w_bundles w' = w_bundles w \<Longrightarrow> statusOf w' j = statusOf w j"
  by (simp add: statusOf_def bundleRow_def)

lemma txStatusOf_transactions: "w_transactions w' = w_transactions w \<Longrightarrow> txStatusOf w' j = txStatusOf w j"
  by (simp add: txStatusOf_def)

lemma guar_tx_events: "guar txKept (emitDepositAndWithdrawEvents env t ids ch)"
  unfolding emitDepositAndWithdrawEvents_def
  by (intro tx_kept.world_rules tx_kept.guar_reads guar_txKept_emit)

lemma guar_bk_events: "guar bundlesKept (emitDepositAndWithdrawEvents env t ids ch)"
  unfolding emitDepositAndWithdrawEvents_def
  by (intro bundles_kept.world_rules bundles_kept.repo_rules bundles_kept.emit_rules)

text \<open>Every continuation after the statements leaves them in place, whether or not it throws.\<close>

lemma handleVerificationSuccess_run:
  fixes w :: world
  assumes "noFaults env" and "handleVerificationSuccess env t ids w = (r, w')"
  shows "txStatusOf w' t = map_option (\<lambda>_. T_VERIFIED) (txStatusOf w t)"
    and "statusOf w' j = (if j \<in> set ids then map_option (\<lambda>_. B_COMPLETED) (statusOf w j) else statusOf w j)"
proof -
  obtain c w1 where w1: "findFirstBundleChannel env ids w = (Inr c, w1)" "w_bundles w1 = w_bundles w"
    "w_transactions w1 = w_transactions w"
    using findFirstBundleChannel_run [OF assms(1)] by blast
  obtain w2 where w2: "updateTransactionStatus env t T_VERIFIED w1 = (Inr (), w2)"
    "w_bundles w2 = w_bundles w1" "txStatusOf w2 t = map_option (\<lambda>_. T_VERIFIED) (txStatusOf w1 t)"
    using updateTransactionStatus_run [OF assms(1)] by blast
  obtain w3 where w3: "completeBundles env ids w2 = (Inr (), w3)" "w_transactions w3 = w_transactions w2"
    "\<forall>j. statusOf w3 j = (if j \<in> set ids then map_option (\<lambda>_. B_COMPLETED) (statusOf w2 j) else statusOf w2 j)"
    using completeBundles_run [OF assms(1)] by blast
  let ?rest = "case c of None \<Rightarrow> ret () | Some ch \<Rightarrow>
    andThen (emitForBundles env ids (VerifierBundleCompleted t ids ch)) (\<lambda>_.
      emitDepositAndWithdrawEvents env t ids ch)"
  have rest: "?rest w3 = (r, w')"
    using assms(2) w1(1) w2(1) w3(1) by (simp add: handleVerificationSuccess_def andThen_apply)
  have "guar txKept ?rest"
    by (intro tx_kept.world_rules guar_txKept_emit guar_tx_events)
  from guarD [OF this rest] have tx: "w_transactions w' = w_transactions w3" by (simp add: txKept_def)
  have "guar bundlesKept ?rest"
    by (intro bundles_kept.world_rules bundles_kept.emit_rules guar_bk_events)
  from guarD [OF this rest] have bk: "w_bundles w' = w_bundles w3" by (simp add: bundlesKept_def)
  show "txStatusOf w' t = map_option (\<lambda>_. T_VERIFIED) (txStatusOf w t)"
    using txStatusOf_transactions [OF tx, of t] txStatusOf_transactions [OF w3(2), of t] w2(3)
      txStatusOf_transactions [OF w1(3), of t] by simp
  have "statusOf w2 j = statusOf w j" by (rule statusOf_bundles) (simp add: w1(2) w2(2))
  then show "statusOf w' j = (if j \<in> set ids then map_option (\<lambda>_. B_COMPLETED) (statusOf w j) else statusOf w j)"
    using w3(3) statusOf_bundles [OF bk, of j] by simp
qed





text \<open>One transaction, by the answer of the network.  \<open>networkVerdict\<close> is the answer the call would get,
  \<open>linkedIds\<close> the bundles of the transaction.\<close>

definition networkVerdict :: "env \<Rightarrow> nat \<Rightarrow> string \<Rightarrow> VerificationResult" where
  "networkVerdict env n h = (case rpcGetTransaction env n h of Inl _ \<Rightarrow> PENDING | Inr x \<Rightarrow> classifyResponse x)"

definition linkedIds :: "world \<Rightarrow> string \<Rightarrow> string list" where
  "linkedIds w t = map bt_bundleId (filter (\<lambda>r. bt_transactionId r = t \<and> deletedAt r = None) (w_links w))"

lemma verifyTransaction_apply:
  assumes "noFaults env" and "linkedIds w (t_id t) \<noteq> []"
  shows "verifyTransaction env t w =
    tryCatch (applyResult env t (linkedIds w (t_id t)) (networkVerdict env (Suc (w_tick w)) (t_id t)))
      (\<lambda>_. ret ()) (advance (advance w))"
proof -
  have "findByTransactionId env (t_id t) w =
      (Inr (filter (\<lambda>r. bt_transactionId r = t_id t \<and> deletedAt r = None) (w_links w)), advance w)"
    using assms(1) by (simp add: findByTransactionId_def dbQuery_apply)
  moreover have "verifyTransactionOnNetwork env (t_id t) (advance w) =
      (Inr (networkVerdict env (Suc (w_tick w)) (t_id t)), advance (advance w))"
    by (simp add: verifyTransactionOnNetwork_def networkVerdict_def tryCatch_apply andThen_apply
        external_apply split: sum.split)
  ultimately show ?thesis
    using assms(2) by (simp add: verifyTransaction_def tryCatch_apply andThen_apply linkedIds_def Let_def)
qed

lemma advance2_same: "bundleRow (advance (advance w)) j = bundleRow w j"
  "txStatusOf (advance (advance w)) i = txStatusOf w i" "statusOf (advance (advance w)) j = statusOf w j"
  by (simp_all add: bundleRow_def txStatusOf_def statusOf_def)

lemma verifyTransaction_verified:
  fixes w :: world
  assumes "noFaults env" and "linkedIds w (t_id t) \<noteq> []"
    and "networkVerdict env (Suc (w_tick w)) (t_id t) = VERIFIED l"
    and "verifyTransaction env t w = (r, w')"
  shows "txStatusOf w' (t_id t) = map_option (\<lambda>_. T_VERIFIED) (txStatusOf w (t_id t))"
    and "statusOf w' j = (if j \<in> set (linkedIds w (t_id t)) then map_option (\<lambda>_. B_COMPLETED) (statusOf w j)
      else statusOf w j)"
proof -
  obtain r1 v where v: "handleVerificationSuccess env (t_id t) (linkedIds w (t_id t)) (advance (advance w)) = (r1, v)"
    by (cases "handleVerificationSuccess env (t_id t) (linkedIds w (t_id t)) (advance (advance w))")
  have "w' = v"
    using assms(4) v
    by (cases r1) (auto simp: verifyTransaction_apply [OF assms(1,2)] assms(3) applyResult_def tryCatch_apply)
  with handleVerificationSuccess_run [OF assms(1) v]
  show "txStatusOf w' (t_id t) = map_option (\<lambda>_. T_VERIFIED) (txStatusOf w (t_id t))"
    "statusOf w' j = (if j \<in> set (linkedIds w (t_id t)) then map_option (\<lambda>_. B_COMPLETED) (statusOf w j)
      else statusOf w j)"
    by (simp_all add: advance2_same)
qed

lemma verifyTransaction_pending:
  fixes w :: world
  assumes "noFaults env" and "linkedIds w (t_id t) \<noteq> []"
    and "networkVerdict env (Suc (w_tick w)) (t_id t) = PENDING"
    and "clock env (Suc (Suc (w_tick w))) \<le> t_timeout t"
  shows "verifyTransaction env t w = (Inr (), advance (advance w))"
  using assms(4)
  by (simp add: verifyTransaction_apply [OF assms(1,2)] assms(3) applyResult_def tryCatch_apply andThen_apply)



section \<open>Properties\<close>

definition submitted0 :: "BundleStatus \<Rightarrow> world" where
  "submitted0 st = world0\<lparr>w_bundles := [row0 ''b1'' st, row0 ''b2'' B_PROCESSING],
     w_transactions := [BaseColumns.extend base0 \<lparr>t_id = ''h1'', t_status = T_UNVERIFIED, t_timeout = 2000,
       t_ledgerSequence = ''20''\<rparr>],
     w_links := [BaseColumns.extend base0 \<lparr>bt_bundleId = ''b1'', bt_transactionId = ''h1''\<rparr>]\<rparr>"

definition transaction0 :: Transaction where
  "transaction0 = BaseColumns.extend base0 \<lparr>t_id = ''h1'', t_status = T_UNVERIFIED, t_timeout = 2000,
     t_ledgerSequence = ''20''\<rparr>"

definition answering :: "TxStatus \<Rightarrow> env" where
  "answering st = env0\<lparr>rpcGetTransaction := (\<lambda>_ _. Inr (Some \<lparr>tr_status = st, tr_ledger = Some 21, tr_resultXdr = None\<rparr>))\<rparr>"

lemma submitted0_facts [simp]:
  "t_id transaction0 = ''h1''" "t_timeout transaction0 = 2000" "linkedIds (submitted0 st) ''h1'' = [''b1'']"
  "w_tick (submitted0 st) = 0" "txStatusOf (submitted0 st) ''h1'' = Some T_UNVERIFIED"
  "statusOf (submitted0 st) ''b1'' = Some st" "statusOf (submitted0 st) ''b2'' = Some B_PROCESSING"
  "bundleRow (submitted0 st) ''b1'' = Some (row0 ''b1'' st)"
  "map ob_id (w_bundles (submitted0 st)) = [''b1'', ''b2'']" "noFaults (answering ts)"
  "clock (answering ts) = (\<lambda>_. 1000)"
  by (simp_all add: transaction0_def submitted0_def linkedIds_def txStatusOf_def statusOf_def bundleRow_def
      fixture_defs answering_def noFaults_def)

lemma answering_verdict [simp]:
  "networkVerdict (answering st) n h = classifyResponse (Some \<lparr>tr_status = st, tr_ledger = Some 21, tr_resultXdr = None\<rparr>)"
  by (simp add: networkVerdict_def answering_def)

text \<open>C5: when the network reports success, the transaction becomes verified and its bundles, and no
  others, completed, whatever the events sent afterwards meet.\<close>

theorem verified_transaction_completes:
  fixes w :: world
  assumes "noFaults env" and "linkedIds w (t_id t) \<noteq> []"
    and "networkVerdict env (Suc (w_tick w)) (t_id t) = VERIFIED l"
    and "verifyTransaction env t w = (r, w')"
  shows "txStatusOf w' (t_id t) = map_option (\<lambda>_. T_VERIFIED) (txStatusOf w (t_id t)) \<and>
    statusOf w' j = (if j \<in> set (linkedIds w (t_id t)) then map_option (\<lambda>_. B_COMPLETED) (statusOf w j)
      else statusOf w j)"
  using verifyTransaction_verified [OF assms] by blast

theorem verified_transaction_completes_witness:
  "txStatusOf (snd (verifyTransaction (answering TX_SUCCESS) transaction0 (submitted0 B_PROCESSING))) ''h1'' =
     Some T_VERIFIED \<and>
   statusOf (snd (verifyTransaction (answering TX_SUCCESS) transaction0 (submitted0 B_PROCESSING))) ''b1'' =
     Some B_COMPLETED"
  using verified_transaction_completes [of "answering TX_SUCCESS" "submitted0 B_PROCESSING" transaction0
      "Some (intToString 21)" _ _ "''b1''", OF _ _ _ prod.collapse [symmetric]]
  by (simp add: classifyResponse_def)

text \<open>an answer that says nothing, not found or an RPC error, changes nothing before the deadline of
  the transaction: the same transaction is checked again in the next cycle.\<close>

theorem pending_transaction_waits:
  assumes "noFaults env" and "linkedIds w (t_id t) \<noteq> []"
    and "networkVerdict env (Suc (w_tick w)) (t_id t) = PENDING"
    and "clock env (Suc (Suc (w_tick w))) \<le> t_timeout t"
  shows "verifyTransaction env t w = (Inr (), w\<lparr>w_tick := w_tick w + 2\<rparr>)"
  using verifyTransaction_pending [OF assms] by (simp add: advance_def)

theorem pending_transaction_waits_witness:
  "verifyTransaction (answering TX_NOT_FOUND) transaction0 (submitted0 B_PROCESSING) =
    (Inr (), (submitted0 B_PROCESSING)\<lparr>w_tick := 2\<rparr>)"
  using pending_transaction_waits [of "answering TX_NOT_FOUND" "submitted0 B_PROCESSING" transaction0]
  by (simp add: classifyResponse_def numeral_2_eq_2)



text \<open>the verifier leaves the mempool alone and submits nothing, whatever the network answers.\<close>

theorem verifier_is_passive:
  "w_slots (snd (verifyTransactions env w)) = w_slots w \<and>
   w_submitted (snd (verifyTransactions env w)) = w_submitted w"
  using guarD [OF slots_verifier.guar_verifyTransactions prod.collapse [symmetric, of "verifyTransactions env w"]]
    guarD [OF submitted_verifier.guar_verifyTransactions prod.collapse [symmetric, of "verifyTransactions env w"]]
  by (simp add: slotsKept_def submittedKept_def)

text \<open>the verdicts are not gated on the status.  A bundle that is already completed, linked to a
  second transaction that fails, becomes failed.\<close>

theorem completed_bundle_can_fail:
  "statusOf (submitted0 B_COMPLETED) ''b1'' = Some B_COMPLETED \<and>
   statusOf (snd (verifyTransactions (answering TX_FAILED) (submitted0 B_COMPLETED))) ''b1'' = Some B_FAILED"
  by code_simp

end
