(* ===== verification/Lifecycle.thy ===== *)
theory Lifecycle
  imports Verifier Endpoints
begin

text \<open>
  The whole system as a labelled step relation: a request to the bundle endpoint, the TTL sweep, the executor,
  the verifier, a poll of the event watcher, its start and its stop, the requests of operators,
  wallets, entities and the pay services, the waiting list, the metrics collector, a restart (\<^verbatim>\<open>core/mempool/index.ts\<close>: a new mempool hydrated from the database) and the
  passing of time.  A step is a complete run of a handler; handlers do not overlap, but the answers of
  the clock, the database and the network may change between any two calls of one.
\<close>

section \<open>Steps\<close>

datatype label = Admit EndpointApi "string option" "exn + json" "string option" | Sweep | Execute | Verify | Poll | StartWatcher | StopWatcher |
  RegisterPp CouncilApi "exn + json" string | DeletePp "string option" "string option" |
  JoinCouncil CouncilApi "exn + json" "string option" "string option" |
  SyncMembership "string option" "string option" |
  GetAuth EndpointApi AuthApi json string | PostAuth EndpointApi AuthApi "exn + json" |
  OperatorChallenge AuthApi "exn + json" | OperatorVerify AuthApi "exn + json" |
  EntityChallenge AuthApi "exn + json" | PostEntity AuthApi "string option" "exn + json" |
  Waitlist EndpointApi "exn + json" | Collect string |
  CustodialRegister PayApi "exn + json" | CustodialLogin PayApi "exn + json" |
  CustodialSend PayApi "exn + json" PaySession | SelfSend PayApi "exn + json" PaySession |
  SelfBalance PayApi "exn + json" PaySession | PostKyc PayApi "exn + json" PaySession | ClaimEscrow PayApi string |
  Restart | Idle

text \<open>\<^verbatim>\<open>initializeMempool\<close>: the process starts with an empty mempool and an idle executor.\<close>

definition freshProcess :: "world \<Rightarrow> world" where
  "freshProcess w = w\<lparr>w_slots := [], w_isProcessing := False, w_channelCache := [],
     w_registry := None, w_watcher := None, w_registeredProviders := [], w_dashboardChallenges := [],
     w_entityChallenges := [], w_sessionManager := []\<rparr>"

definition initializeMempool :: "env \<Rightarrow> unit action" where
  "initializeMempool env = andThen (modify freshProcess) (\<lambda>_. mempool_initialize env)"

fun handler :: "env \<Rightarrow> label \<Rightarrow> world \<Rightarrow> world" where
  "handler env (Admit api authorization request p) w = snd (postBundleRoute env api authorization request p w)"
| "handler env Sweep w = snd (expireBundles env w)"
| "handler env Execute w = snd (executeNext env w)"
| "handler env Verify w = snd (verifyTransactions env w)"
| "handler env Poll w = snd (scheduleNext env w)"
| "handler env StartWatcher w = snd (startEventWatcher env w)"
| "handler env StopWatcher w = snd (stopEventWatcher w)"
| "handler env (RegisterPp api request sub) w = snd (handleRegisterPp env api request sub w)"
| "handler env (DeletePp p sub) w = snd (deleteRoute env p sub w)"
| "handler env (JoinCouncil api request p sub) w = snd (joinRoute env api request p sub w)"
| "handler env (SyncMembership p sub) w = snd (syncRoute env p sub w)"
| "handler env (GetAuth api auth query requestId) w = snd (handleGetAuth env api auth query requestId w)"
| "handler env (PostAuth api auth request) w = snd (handlePostAuth env api auth request w)"
| "handler env (OperatorChallenge auth request) w = snd (handlePostChallenge env auth request w)"
| "handler env (OperatorVerify auth request) w = snd (handlePostVerify env auth request w)"
| "handler env (EntityChallenge auth request) w = snd (handlePostEntityChallenge env auth request w)"
| "handler env (Waitlist api request) w = snd (postWaitlist env api request w)"
| "handler env (Collect platformVersion) w = snd (collect env platformVersion w)"
| "handler env (PostEntity api p request) w = snd (handlePostEntity env api p request w)"
| "handler env (CustodialRegister api request) w = snd (handlePostCustodialRegister env api request w)"
| "handler env (CustodialLogin api request) w = snd (handlePostCustodialLogin env api request w)"
| "handler env (CustodialSend api request session) w = snd (handlePostCustodialSend env api request session w)"
| "handler env (SelfSend api request session) w = snd (handlePostSelfSend env api request session w)"
| "handler env (SelfBalance api request session) w = snd (handlePostSelfBalance env api request session w)"
| "handler env (PostKyc api request session) w = snd (handlePostKyc env api request session w)"
| "handler env (ClaimEscrow api address) w = snd (claimEscrowForAddress env api address w)"
| "handler env Restart w = snd (initializeMempool env w)"
| "handler env Idle w = advance w"

inductive sysStep :: "env \<Rightarrow> label \<Rightarrow> world \<Rightarrow> world \<Rightarrow> bool" for env where
  step: "w' = handler env l w \<Longrightarrow> sysStep env l w w'"

inductive reachable :: "env \<Rightarrow> world \<Rightarrow> world \<Rightarrow> bool" for env w0 where
  start: "reachable env w0 w0"
| next_step: "reachable env w0 w \<Longrightarrow> sysStep env l w w' \<Longrightarrow> reachable env w0 w'"

inductive_cases sysStepE: "sysStep env l w w'"

text \<open>A run along a list of labels, for the evaluation of scenarios.\<close>

fun runLabels :: "env \<Rightarrow> label list \<Rightarrow> world \<Rightarrow> world" where
  "runLabels env [] w = w"
| "runLabels env (l # ls) w = runLabels env ls (handler env l w)"

lemma reachable_trans: "reachable env w1 w2 \<Longrightarrow> reachable env w0 w1 \<Longrightarrow> reachable env w0 w2"
proof (induction rule: reachable.induct)
  case (next_step w l w')
  then show ?case by (blast intro: reachable.next_step)
qed simp

lemma reachable_runLabels: "reachable env w (runLabels env ls w)"
proof (induction ls arbitrary: w)
  case Nil
  show ?case by (simp add: reachable.start)
next
  case (Cons l ls)
  have "reachable env w (handler env l w)"
    by (rule reachable.next_step [OF reachable.start sysStep.step]) (rule refl)
  with Cons [of "handler env l w"] show ?case by (auto intro: reachable_trans)
qed

section \<open>Relations every handler keeps\<close>

lemma guar_snd: "guar R m \<Longrightarrow> R w (snd (m w))"
  by (simp add: guar_def)

locale platform_client = provider_client R + endpoint_client R + pay_guarantee R for R :: "world \<Rightarrow> world \<Rightarrow> bool"
begin

lemmas platform_rules = guar_scheduleNext guar_startEventWatcher guar_stopEventWatcher guar_registerPp guar_deleteRoute
  guar_joinRoute guar_syncRoute endpoint_rules guar_handlePostEntity
  guar_custodial guar_custodialSend guar_selfSend guar_payViews guar_kyc guar_claim

end

locale system_invariant =
  resubmission_client R + executor_client R + verifier_client R + platform_client R
  for R :: "world \<Rightarrow> world \<Rightarrow> bool" +
  assumes R_fresh: "R w (freshProcess w)"
begin

lemma guar_initializeMempool: "guar R (initializeMempool env)"
  unfolding initializeMempool_def
  by (intro guar_andThen guar_modify R_fresh guar_mempool_initialize)

lemma handler_keeps: "R w (handler env l w)"
  by (cases l) (simp_all add: guar_snd guar_postBundleRoute [OF guar_P_AddOperationsBundle] guar_expireBundles guar_executeNext
      guar_verifyTransactions guar_initializeMempool platform_rules R_advance)

lemma reachable_keeps: "reachable env w0 w \<Longrightarrow> R w0 w"
proof (induction rule: reachable.induct)
  case start
  show ?case by (rule R_refl)
next
  case (next_step w l w')
  then show ?case by (auto elim!: sysStepE intro: R_trans handler_keeps)
qed

end

subsection \<open>Well-formed mempool\<close>

lemma guar_mk_verdict: "guar mempoolKept (bundles_update env i f)"
  by (rule guar_mk_bundles)

interpretation mempool_verifier: verifier_client mempoolKept
  by unfold_locales (rule guar_mk_bundles)

interpretation mempool_pay: pay_tables mempoolKept
  by unfold_locales (simp_all add: mempoolKept_def mempoolInv_def)

interpretation mempool_system: system_invariant mempoolKept
  by unfold_locales (simp_all add: mempoolKept_def mempoolInv_def freshProcess_def)

subsection \<open>Positive fees\<close>

definition rowsFeeOk :: "world \<Rightarrow> bool" where
  "rowsFeeOk w \<longleftrightarrow> (\<forall>r\<in>set (w_bundles w). 1 \<le> ob_fee r)"

definition feesKept :: "world \<Rightarrow> world \<Rightarrow> bool" where
  "feesKept w w' \<longleftrightarrow> (rowsFeeOk w \<longrightarrow> rowsFeeOk w')"

lemma feesKept_same: "w_bundles w' = w_bundles w \<Longrightarrow> feesKept w w'"
  by (simp add: feesKept_def rowsFeeOk_def)

lemma feesKept_map:
  "w_bundles w' = map g (w_bundles w) \<Longrightarrow> (\<And>r. 1 \<le> ob_fee r \<Longrightarrow> 1 \<le> ob_fee (g r)) \<Longrightarrow> feesKept w w'"
  by (simp add: feesKept_def rowsFeeOk_def)

interpretation fees_kept: side_tables feesKept
proof unfold_locales
  show "feesKept s t \<Longrightarrow> feesKept t u \<Longrightarrow> feesKept s u" for s t u by (simp add: feesKept_def)
qed (simp_all add: feesKept_same)

lemma guar_fk_bundles_update:
  assumes "\<And>r. 1 \<le> ob_fee r \<Longrightarrow> 1 \<le> ob_fee (f r)"
  shows "guar feesKept (bundles_update env i f)"
  unfolding bundles_update_def base_update_def
proof (intro fees_kept.guar_dbExec guarI, unfold snd_conv)
  fix t w
  let ?g = "\<lambda>r. if ob_id r = i then (f r)\<lparr>updatedAt := t\<rparr> else r"
  show "feesKept w (w_bundles_update (map ?g) w)"
    by (rule feesKept_map [where g = ?g]) (simp_all add: assms)
qed

lemma guar_fk_updateIfStatusIn:
  assumes "\<And>r. 1 \<le> ob_fee r \<Longrightarrow> 1 \<le> ob_fee (f r)"
  shows "guar feesKept (updateIfStatusIn env i f a)"
  unfolding updateIfStatusIn_def Let_def
proof (intro fees_kept.guar_dbExec guarI, unfold snd_conv)
  fix t w
  let ?g = "\<lambda>r. if ob_id r = i \<and> deletedAt r = None \<and> ob_status r \<in> set a then (f r)\<lparr>updatedAt := t\<rparr> else r"
  show "feesKept w (w\<lparr>w_bundles := map ?g (w_bundles w)\<rparr>)"
    by (rule feesKept_map [where g = ?g]) (simp_all add: assms)
qed

lemma guar_fk_updateStatusIfActive: "guar feesKept (updateStatusIfActive env i st a)"
  unfolding updateStatusIfActive_def Let_def
proof (intro fees_kept.guar_dbExec guarI, unfold snd_conv)
  fix t w
  let ?g = "\<lambda>r. if ob_id r = i \<and> deletedAt r = None \<and> ob_status r \<in> set a
    then r\<lparr>ob_status := st, updatedAt := t\<rparr> else r"
  show "feesKept w (w\<lparr>w_bundles := map ?g (w_bundles w)\<rparr>)"
    by (rule feesKept_map [where g = ?g]) simp_all
qed

lemma guar_fk_expireOlderThan: "guar feesKept (expireOlderThan env c sts lmt)"
  unfolding expireOlderThan_def Let_def
  by (intro fees_kept.guar_dbExec guarI) (auto simp: feesKept_def rowsFeeOk_def)

lemma guar_fk_bundles_create: "1 \<le> ob_fee r \<Longrightarrow> guar feesKept (bundles_create env r)"
  unfolding bundles_create_def base_create_def
  by (intro fees_kept.guar_dbExec guarI) (auto simp: feesKept_def rowsFeeOk_def)

lemma guar_fk_placeBundle: "guar feesKept (placeBundle env b)"
  unfolding placeBundle_def
  by (intro fees_kept.world_rules fees_kept.emit_rules guar_modify) (simp_all add: feesKept_same)

lemma guar_fk_invokeRaw: "guar feesKept (invokeRaw env src tx)"
  by (rule guarI) (simp add: invokeRaw_def Let_def feesKept_same)

interpretation fees_pay: pay_tables feesKept
  by unfold_locales (simp_all add: feesKept_same)

interpretation fees_system: system_invariant feesKept
proof unfold_locales
  show "guar feesKept (updateIfStatusIn env i f [B_PENDING, B_PROCESSING])"
    if "\<And>r. ob_id (f r) = ob_id r \<and> ob_fee (f r) = ob_fee r" for env i f
    by (rule guar_fk_updateIfStatusIn) (simp add: that)
  show "guar feesKept (bundles_update env i f)"
    if "\<And>r. ob_id (f r) = ob_id r \<and> 1 \<le> ob_fee (f r)" for env i f
    by (rule guar_fk_bundles_update) (simp add: that)
  show "guar feesKept (bundles_update env i f)"
    if "\<And>r. ob_id (f r) = ob_id r \<and> ob_fee (f r) = ob_fee r \<and> ob_status (f r) \<in> {B_COMPLETED, B_FAILED}"
    for env i f
    by (rule guar_fk_bundles_update) (simp add: that)
qed (simp_all add: guar_fk_placeBundle guar_fk_updateStatusIfActive guar_fk_bundles_update
    guar_fk_expireOlderThan guar_fk_bundles_create guar_fk_invokeRaw feesKept_same freshProcess_def)

subsection \<open>No negative balance\<close>

lemma guar_pk_bundles: "guar payKept (bundles_update env i f)" "guar payKept (updateIfStatusIn env i f a)"
  "guar payKept (updateStatusIfActive env i st a)" "guar payKept (expireOlderThan env c sts lmt)"
  "guar payKept (bundles_create env r)"
  unfolding bundles_update_def base_update_def updateIfStatusIn_def updateStatusIfActive_def expireOlderThan_def
    bundles_create_def base_create_def Let_def
  by (rule pay_kept.guar_dbExec, rule guarI, simp add: payKept_same)+

lemma guar_pk_invokeRaw: "guar payKept (invokeRaw env src tx)"
  by (rule guarI) (simp add: invokeRaw_def Let_def payKept_same)

interpretation pay_side: side_tables payKept
  by unfold_locales (simp_all add: payKept_same)

lemma guar_pk_placeBundle: "guar payKept (placeBundle env b)"
  unfolding placeBundle_def
  by (intro pay_kept.world_rules pay_side.emit_rules guar_modify) (simp_all add: payKept_same)

interpretation pay_system: system_invariant payKept
  by unfold_locales (simp_all add: guar_pk_bundles guar_pk_placeBundle guar_pk_invokeRaw payKept_same freshProcess_def)

subsection \<open>Terminal statuses and submissions\<close>

interpretation terminal_pay: pay_tables terminalKept
  by unfold_locales (simp_all add: terminalKept_same)

interpretation submitted_pay: pay_tables submittedKept
  by unfold_locales (simp_all add: submittedKept_def)

interpretation terminal_platform: platform_client terminalKept
  by unfold_locales (simp_all add: terminalKept_same)

interpretation submitted_platform: platform_client submittedKept
  by unfold_locales (simp_all add: submittedKept_def)

lemma handler_terminalKept:
  assumes "\<And>api a r p. l \<noteq> Admit api a r p"
  shows "terminalKept w (handler env l w)"
proof (cases l)
  case (Admit api a r p)
  with assms [of api a r p] show ?thesis by simp
next
  case Restart
  have "guar terminalKept (initializeMempool env)"
    unfolding initializeMempool_def
    by (intro terminal_kept.guar_andThen guar_modify terminal_mempool.guar_mempool_initialize)
      (simp add: terminalKept_same freshProcess_def)
  then show ?thesis using Restart by (simp add: guar_snd)
qed (simp_all add: guar_snd terminal_mempool.guar_expireBundles terminal_executor.guar_executeNext
    terminal_verifier.guar_verifyTransactions terminal_platform.platform_rules terminalKept_same)

lemma handler_submittedKept:
  assumes "l \<noteq> Execute"
  shows "submittedKept w (handler env l w)"
proof (cases l)
  case Restart
  have "guar submittedKept (initializeMempool env)"
    unfolding initializeMempool_def
    by (intro submitted_kept.guar_andThen guar_modify submitted_mempool.guar_mempool_initialize)
      (simp add: submittedKept_def freshProcess_def)
  then show ?thesis using Restart by (simp add: guar_snd)
qed (use assms in \<open>simp_all add: guar_snd submitted_kept.guar_postBundleRoute [OF submitted_admission.guar_P_AddOperationsBundle] submitted_mempool.guar_expireBundles
    submitted_verifier.guar_verifyTransactions submitted_platform.platform_rules submitted_kept.R_advance\<close>)

end
