(* ===== verification/Server.thy ===== *)
theory Server
  imports Config EventStream Lifecycle
begin

text \<open>
  The server: the middleware every request passes (\<^verbatim>\<open>http/middleware/cors.ts\<close>, \<^verbatim>\<open>append-request-id.ts\<close>,
  \<^verbatim>\<open>append-response-headers.ts\<close>), the health endpoint and the start-up sequence of \<^verbatim>\<open>main.ts\<close>.  A middleware
  turns the rest of the stack, which it calls \<open>next\<close>, into an action on the response and the world.  The tracing
  middleware only opens a span around the rest and is not modelled.
\<close>

section \<open>Responses\<close>

record HttpRequest =
  rq_method :: string
  rq_origin :: "string option"

record HttpExchange =
  hx_status :: nat
  hx_headers :: "string \<Rightarrow> string option"
  hx_requestId :: "string option"
  hx_world :: world

type_synonym serverAction = "(HttpExchange, exn, unit) act"

definition setHeader :: "string \<Rightarrow> string \<Rightarrow> HttpExchange \<Rightarrow> HttpExchange" where
  "setHeader name value x = x\<lparr>hx_headers := (hx_headers x)(name := Some value)\<rparr>"

section \<open>CORS\<close>

definition allowedOrigins :: "string option \<Rightarrow> string list" where
  "allowedOrigins envOrigins =
    (if orEmpty envOrigins = [] then [] else filter (\<lambda>entry. entry \<noteq> []) (map trim (splitComma (orEmpty envOrigins))))"

text \<open>\<^verbatim>\<open>/^https?:\/\/localhost(:\d+)?$/\<close>\<close>

definition localhostOrigin :: "string \<Rightarrow> bool" where
  "localhostOrigin origin =
    (let port = (\<lambda>r. r = [] \<or> (hd r = CHR '':'' \<and> allDigits (tl r)));
         http = ''http://localhost''; https = ''https://localhost'' in
     startsWith origin http \<and> port (drop (length http) origin) \<or>
     startsWith origin https \<and> port (drop (length https) origin))"

definition isAllowed :: "PlatformConfig \<Rightarrow> string option \<Rightarrow> string \<Rightarrow> bool" where
  "isAllowed cfg envOrigins origin \<longleftrightarrow>
    origin \<in> set (allowedOrigins envOrigins) \<or> PLATFORM_MODE cfg = ''development'' \<and> localhostOrigin origin"

definition setCorsHeaders :: "PlatformConfig \<Rightarrow> string \<Rightarrow> HttpExchange \<Rightarrow> HttpExchange" where
  "setCorsHeaders cfg origin =
    setHeader ''Access-Control-Max-Age'' ''86400'' \<circ>
    setHeader ''Access-Control-Allow-Headers''
      (if PLATFORM_MODE cfg = ''development'' then ''*''
       else ''Content-Type, Authorization, Traceparent, Tracestate, X-Client-Name, X-Client-Version'') \<circ>
    setHeader ''Access-Control-Allow-Methods'' ''GET, POST, OPTIONS'' \<circ>
    setHeader ''Access-Control-Allow-Origin'' origin"

definition originAllowed :: "PlatformConfig \<Rightarrow> string option \<Rightarrow> HttpRequest \<Rightarrow> bool" where
  "originAllowed cfg envOrigins rq \<longleftrightarrow>
    orEmpty (rq_origin rq) \<noteq> [] \<and> isAllowed cfg envOrigins (orEmpty (rq_origin rq))"

definition corsMiddleware :: "PlatformConfig \<Rightarrow> string option \<Rightarrow> HttpRequest \<Rightarrow> serverAction \<Rightarrow> serverAction" where
  "corsMiddleware cfg envOrigins rq next =
    (let allowed = originAllowed cfg envOrigins rq; headers = setCorsHeaders cfg (orEmpty (rq_origin rq)) in
     if rq_method rq = ''OPTIONS'' \<and> allowed
     then modify (\<lambda>x. (headers x)\<lparr>hx_status := 204\<rparr>)
     else (\<lambda>x. case next x of (r, y) \<Rightarrow> (r, if allowed then headers y else y)))"

section \<open>The stack\<close>

definition appendRequestIdMiddleware :: "string \<Rightarrow> serverAction \<Rightarrow> serverAction" where
  "appendRequestIdMiddleware requestId next = andThen (modify (hx_requestId_update (\<lambda>_. Some requestId))) (\<lambda>_. next)"

definition appendResponseHeadersMiddleware :: "PlatformConfig \<Rightarrow> HttpRequest \<Rightarrow> serverAction \<Rightarrow> serverAction" where
  "appendResponseHeadersMiddleware cfg rq next =
    andThen (modify
      (setHeader ''Access-Control-Allow-Headers''
         (if PLATFORM_MODE cfg = ''development'' then ''*'' else ''Content-Type, Authorization, Traceparent, Tracestate'') \<circ>
       setHeader ''Access-Control-Allow-Methods'' ''GET, POST, PUT, DELETE, OPTIONS'' \<circ>
       setHeader ''Access-Control-Allow-Origin'' ''*'')) (\<lambda>_.
    if rq_method rq = ''OPTIONS'' then modify (hx_status_update (\<lambda>_. 200)) else next)"

definition serverStack ::
    "PlatformConfig \<Rightarrow> string option \<Rightarrow> string \<Rightarrow> HttpRequest \<Rightarrow> serverAction \<Rightarrow> serverAction" where
  "serverStack cfg envOrigins requestId rq routes =
    corsMiddleware cfg envOrigins rq
     (appendRequestIdMiddleware requestId (appendResponseHeadersMiddleware cfg rq routes))"



section \<open>Health\<close>

text \<open>How the race of the probe against the timer ends.\<close>

datatype ProbeOutcome = Resolved | Rejected exn | TimedOut

definition checkDbHealth :: "ProbeOutcome \<Rightarrow> string" where
  "checkDbHealth race = (case race of Resolved \<Rightarrow> ''ok'' | Rejected _ \<Rightarrow> ''error'' | TimedOut \<Rightarrow> ''error'')"

record HealthBody =
  hb_status :: string
  hb_service :: string
  hb_version :: string
  hb_sdk :: string
  hb_db :: string
  hb_watcher :: "(bool \<times> int option \<times> (int \<times> string) option \<times> bool) option"

definition getHealth :: "EventWatcher \<Rightarrow> bool \<times> int option \<times> (int \<times> string) option \<times> bool" where
  "getHealth x = (ew_isRunning x, ew_lastPollOkAt x, ew_lastPollError x, healthy x)"

text \<open>\<open>None\<close> is the text \<^verbatim>\<open>idle\<close> of a platform without a watcher.\<close>

definition getHealthRoute :: "string \<Rightarrow> string \<Rightarrow> ProbeOutcome \<Rightarrow> world \<Rightarrow> nat \<times> HealthBody" where
  "getHealthRoute version sdkVersion race w =
    (let db = checkDbHealth race; ok = (db = ''ok'') in
     (if ok then 200 else 503,
      \<lparr>hb_status = (if ok then ''ok'' else ''error''), hb_service = ''provider-platform'', hb_version = version,
       hb_sdk = sdkVersion, hb_db = db, hb_watcher = map_option getHealth (w_watcher w)\<rparr>))"

section \<open>Start-up\<close>

text \<open>\<^verbatim>\<open>bootstrap\<close>: the listener, the transport, the mempool with what was stored, the watcher.  A failure
  stops what runs and ends the process; the result says whether the server serves.\<close>

definition bootstrap :: "env \<Rightarrow> exn option \<Rightarrow> bool action" where
  "bootstrap env listenFailure =
    tryCatch
     (andThen (case listenFailure of Some e \<Rightarrow> throw e | None \<Rightarrow> ret ()) (\<lambda>_.
      andThen (initializeMempool env) (\<lambda>_.
      andThen (startEventWatcher env) (\<lambda>_. ret True))))
     (\<lambda>_. andThen stopEventWatcher (\<lambda>_. ret False))"

text \<open>The machine of a server that serves has its transport wired.\<close>

definition bootMachine :: "exn option \<Rightarrow> Machine \<Rightarrow> Machine" where
  "bootMachine listenFailure m = (case listenFailure of Some _ \<Rightarrow> m | None \<Rightarrow> bus_setNotifier m)"

section \<open>What the stack answers\<close>

text \<open>A preflight request never reaches the routes.\<close>

lemma preflight_touches_nothing:
  assumes "rq_method rq = ''OPTIONS''"
  shows "hx_world (snd (serverStack cfg envOrigins requestId rq routes x)) = hx_world x"
  using assms
  by (simp add: serverStack_def corsMiddleware_def appendRequestIdMiddleware_def appendResponseHeadersMiddleware_def
      setCorsHeaders_def setHeader_def andThen_apply Let_def modify_def)




section \<open>Start-up is a run of the system\<close>

lemma reachable_handler: "reachable env w0 w \<Longrightarrow> handler env l w = w' \<Longrightarrow> reachable env w0 w'"
  by (auto intro: reachable.next_step sysStep.step)

text \<open>The world a start leaves, whether the server serves or not, is reachable: what holds in every reachable world
  holds after a start.\<close>

theorem boot_is_reachable: "reachable env w (snd (bootstrap env listenFailure w))"
proof -
  let ?u = "snd (initializeMempool env w)" let ?v = "snd (startEventWatcher env ?u)"
  have u: "reachable env w ?u" by (rule reachable_handler [OF reachable.start, where l = Restart]) simp
  have v: "reachable env w ?v" by (rule reachable_handler [OF u, where l = StartWatcher]) simp
  have stop: "reachable env w (snd (stopEventWatcher t))" if "reachable env w t" for t
    by (rule reachable_handler [OF that, where l = StopWatcher]) simp
  have apply_stop: "andThen stopEventWatcher (\<lambda>_. ret False) t = (Inr False, snd (stopEventWatcher t))" for t
    by (simp add: stopEventWatcher_def andThen_apply modify_def)
  show ?thesis
    using stop [OF reachable.start] stop [OF u] stop [OF v] v
    by (auto simp: bootstrap_def tryCatch_apply andThen_apply apply_stop throw_def split: option.split sum.split prod.split)
qed

end
