(* ===== verification/Spec2Isabelle.thy ===== *)
theory Spec2Isabelle
  imports Server
begin

text \<open>
  The back end of a privacy provider: it takes bundles of operations from wallets, queues them in a mempool,
  executes them on a Stellar privacy channel, verifies the transactions, and keeps the providers, their council
  memberships, the entities they approved and the payment accounts of their users.  All paths below are under
  \<^verbatim>\<open>src/src\<close>.

  \<^bold>\<open>The parts and how they interact.\<close>  A wallet signs in over a challenge (\<^verbatim>\<open>core/service/auth\<close>) and submits a bundle
  to \<^verbatim>\<open>http/v1/bundle\<close>.  \<^verbatim>\<open>P_AddOperationsBundle\<close> checks it, stores it with its UTXOs and puts it into the mempool
  (\<^verbatim>\<open>core/service/mempool\<close>), a list of slots with a bounded weight.  Timers drive the TTL sweep, the executor
  (\<^verbatim>\<open>core/service/executor\<close>), which takes the first slot, builds one transaction, submits it and links it to its
  bundles, and the verifier (\<^verbatim>\<open>core/service/verifier\<close>), which gives the bundles their final status.  The event watcher
  (\<^verbatim>\<open>core/service/event-watcher\<close>) follows the council contracts and keeps the channel registry, which admission
  consults.  Operators register providers and join councils (\<^verbatim>\<open>http/v1/dashboard\<close>), read dashboards, and receive
  events over a websocket (\<^verbatim>\<open>core/service/events\<close>, \<^verbatim>\<open>http/v1/events\<close>).  Pay (\<^verbatim>\<open>http/v1/pay\<close>) holds custodial
  accounts and escrows.

  \<^bold>\<open>Theories and sources.\<close>
  \<^item> Prelude: actions \<open>world \<Rightarrow> (exn + 'a) \<times> world\<close> with their combinators, generic lemmas, and the locale
    \<open>guarantee\<close>: a reflexive and transitive relation that the combinators keep.
  \<^item> Crypto (\<^verbatim>\<open>core/crypto/encrypt-sk.ts\<close>, \<^verbatim>\<open>utils/crypto\<close>, \<^verbatim>\<open>http/v1/pay/custodial/crypto.ts\<close>): UTF-8, base64 and hex,
    encryption of provider keys, password hashes; Errors (\<^verbatim>\<open>error\<close> and every \<^verbatim>\<open>error.ts\<close>): one definition per error
    class; Dates: ISO texts of times; JsValues: JSON values and JavaScript's truthiness, numbers and strings, with
    Decimals, the lemmas on texts of digits.
  \<^item> Bundle, Slots, Registry: the pure parts of \<^verbatim>\<open>bundle.service.ts\<close>, of \<^verbatim>\<open>Slot\<close> and \<^verbatim>\<open>mempool.service.ts\<close>, and of
    \<^verbatim>\<open>channel-registry.ts\<close>.
  \<^item> World: the rows of \<^verbatim>\<open>persistence/drizzle/entity\<close>, the record \<open>world\<close> of all tables and of the state of the
    process, and \<open>env\<close>, the constants and the parameters; Repositories: the statements of
    \<^verbatim>\<open>persistence/drizzle/repository\<close>; Fixtures: one concrete environment and world.
  \<^item> Mempool, Channels (\<^verbatim>\<open>channel-resolver.ts\<close>, \<^verbatim>\<open>channel-client\<close>), Admission (\<^verbatim>\<open>add-bundle.process.ts\<close>), Executor,
    Verifier, Watcher, and Http, Providers, Auth, Entities, Pay with PayLedger: the service or handlers of that name.
  \<^item> Queries, Metrics: the views of wallets and operators and the metrics collector; Endpoints
    (\<^verbatim>\<open>http/pipelines\<close>, \<^verbatim>\<open>http/processes\<close>, \<^verbatim>\<open>http/middleware/auth\<close>): requests and responses around the services;
    EventStream: bus, notification listener and websocket.
  \<^item> Lifecycle: the handlers as a labelled step relation on \<open>world\<close>, reachability, and the invariants of all
    handlers together.
  \<^item> Config (\<^verbatim>\<open>config\<close>, \<^verbatim>\<open>utils/env\<close>, \<^verbatim>\<open>core/service/auth/service\<close>): loading of the constants and what they satisfy;
    Server (\<^verbatim>\<open>main.ts\<close>, \<^verbatim>\<open>http/middleware\<close>, \<^verbatim>\<open>http/v1/health\<close>): the middleware of every request, health and start-up.

  \<^bold>\<open>State and operations.\<close>  A method of the source is a definition of the same name; a long one is split where its
  text has a block of its own.  A row is a record with the columns of its table, a table a list in insertion order, an
  in-memory map an association list.  A thrown error is an \<open>Inl\<close>, a response a status with its data.  Every call of
  the database, the network or the clock's side advances the counter \<open>w_tick\<close>, and \<open>env\<close> answers it depending on
  that counter: \<open>dbFault\<close> may fail any statement, \<open>rpcTimeout\<close> any deadline, and the functions \<open>rpc\<dots>\<close> give the answers
  of the network.  So a property without a hypothesis on \<open>env\<close> holds for any failures at any point.

  \<^bold>\<open>What the lemmas show.\<close>  Each component has the effect of its operations on every branch; the relation locales
  (\<open>guarantee\<close>, \<open>world_guarantee\<close>, \<open>side_tables\<close>, \<open>mempool_client\<close>, \<open>executor_client\<close>, \<open>pay_guarantee\<close>, \<dots>) state once
  what a relation must allow for every operation of a component to keep it, and are interpreted on the relations of
  the model: \<open>mempoolKept\<close>, \<open>feesKept\<close>, \<open>payKept\<close>, \<open>terminalKept\<close>, \<open>submittedKept\<close> and the frames of the components.
  The results are the gates of admission and of the approvals, the conservation of bundles and of money, the final
  statuses, the isolation of providers, one-time challenges, the progress of the watcher, and the round trips of the
  texts.  Theorems without hypotheses on concrete states record where the code does something else than it means to.

  \<^bold>\<open>Bounds and fuel.\<close>  \<open>opexFuel\<close> bounds the search for free UTXOs of the fee payer, a loop over calls of the SDK that
  the source does not bound; running out is an error of the build, and no theorem concludes success from it.  The
  start-up expiry recurses on the number of stale rows and is proved to end.  Integers of the source are JavaScript
  numbers below \<open>2\<^sup>5\<^sup>3\<close> or \<^verbatim>\<open>bigint\<close>, so \<open>int\<close>; a column of type \<^verbatim>\<open>bigint\<close> refuses what does not fit 64 bits.
  Fractions (scores, percentages, averages) are rational numbers: rounding of doubles is left out.  Strings are byte
  strings in UTF-8.

  \<^bold>\<open>Parameters and hypotheses.\<close>  The Soroban RPC, the SDK (decoding of operations, clients, key derivation), council
  servers, Web Crypto, tokens, key formats and random values are fields of \<open>env\<close>, \<open>CouncilApi\<close>, \<open>AuthApi\<close>,
  \<open>PayApi\<close>, \<open>DashboardApi\<close> and \<open>EndpointApi\<close>.  Named hypotheses are \<open>noFaults\<close> and \<open>rpcReliable\<close> (no failure in
  this run), \<open>never404\<close> and \<open>neverRejects\<close> (what a council server answers), \<open>subtleLaws\<close> (lengths, and that
  decryption inverts encryption), \<open>issuesTokens\<close>, and \<open>keepsClass\<close> (an error that passed through the pipeline library
  is still an instance of its class).

  \<^bold>\<open>Not modelled.\<close>  Logging and tracing, which nothing depends on; the matching of paths to routes and the rate
  limits of the HTTP framework; the connections below the database, the notifications and the sockets; the end of
  the process on a signal.  \<open>env\<close> and the records of parameters hold the constants as integers: that they are the
  loaded ones is not stated, because some load as NaN (\<open>capacity_is_unchecked\<close>).  A handler runs to its end before the next one starts: the interleaving of two handlers at an
  \<^verbatim>\<open>await\<close> is not modelled, only the order of whole handlers and the failures inside one.
\<close>

section \<open>The system as a whole\<close>

text \<open>A submission over the session of the fixtures.\<close>

definition admit0 :: label where
  "admit0 = Admit endpointApi0 (Some ''Bearer tok'') (Inr bundleBody0) (Some ''P1'')"

lemma start0: "mempoolInv world0" "rowsFeeOk world0" "payOk world0"
  by (simp_all add: mempoolInv_def rowsFeeOk_def payOk_def)

text \<open>C3: in every state the services can reach from a well-formed one, by admissions, sweeps,
  executions, verifications and restarts in any order and with any failures, every slot of the mempool is
  sorted by priority, non-empty, accounts for the weight of its bundles and holds bundles of its own
  channel only.\<close>

theorem mempool_is_always_well_formed:
  assumes "reachable env w0 w" and "mempoolInv w0"
  shows "\<forall>s\<in>set (w_slots w). slotInv s \<and> slotChannelOk s \<and> sl_bundles s \<noteq> []"
  using mempool_system.reachable_keeps [OF assms(1)] assms(2)
  unfolding mempoolKept_def mempoolInv_def slotOk_def by blast

theorem mempool_is_always_well_formed_witness:
  "list_all (\<lambda>s. slotInv s \<and> slotChannelOk s \<and> sl_bundles s \<noteq> [])
    (w_slots (runLabels env0 [admit0, Restart, Execute, Verify] world0))"
  unfolding list_all_iff by (rule mempool_is_always_well_formed [OF reachable_runLabels start0(1)])

text \<open>C19: no bundle without a positive fee is ever stored.\<close>

theorem stored_fees_are_positive:
  assumes "reachable env w0 w" and "\<forall>r\<in>set (w_bundles w0). 1 \<le> ob_fee r"
  shows "\<forall>r\<in>set (w_bundles w). 1 \<le> ob_fee r"
  using fees_system.reachable_keeps [OF assms(1)] assms(2) by (simp add: feesKept_def rowsFeeOk_def)

theorem stored_fees_are_positive_witness:
  "list_all (\<lambda>r. 1 \<le> ob_fee r)
    (w_bundles (runLabels env0 [admit0, Execute] world0))"
  unfolding list_all_iff
  by (rule stored_fees_are_positive [OF reachable_runLabels start0(2) [unfolded rowsFeeOk_def]])

text \<open>C18: a bundle in a terminal status, expired, completed or failed, stays in one under every step but
  an admission, and its row never disappears.\<close>

theorem terminal_status_is_left_only_by_admission:
  assumes "sysStep env l w w'" and "\<forall>api a r p. l \<noteq> Admit api a r p"
    and "statusOf w i = Some st" and "terminal st"
  shows "\<exists>st'. statusOf w' i = Some st' \<and> terminal st'"
proof -
  have "w' = handler env l w" using assms(1) by (rule sysStepE)
  with handler_terminalKept [of l w env] assms(2-4) show ?thesis unfolding terminalKept_def by blast
qed

theorem terminal_status_is_left_only_by_admission_witness:
  "\<exists>st'. statusOf (handler env0 Verify (submitted0 B_EXPIRED)) ''b1'' = Some st' \<and> terminal st'"
  by (rule terminal_status_is_left_only_by_admission [OF sysStep.step, of _ env0 Verify "submitted0 B_EXPIRED" _ B_EXPIRED])
    simp_all

text \<open>C10: in every state the services can reach, no custodial account is overdrawn and every escrow holds a
  positive amount, whatever requests arrive in whatever order.\<close>

theorem balances_never_negative:
  assumes "reachable env w0 w" and "payOk w0"
  shows "(\<forall>a\<in>set (w_payAccounts w). 0 \<le> pca_balance a) \<and> (\<forall>e\<in>set (w_payEscrows w). 0 < esc_amount e)"
  using pay_system.reachable_keeps [OF assms(1)] assms(2) unfolding payKept_def payOk_def by (rule mp)

theorem balances_never_negative_witness:
  "list_all (\<lambda>a. 0 \<le> pca_balance a) (w_payAccounts (runLabels env0 [ClaimEscrow payApi0 ''addr'', admit0] world0))"
  unfolding list_all_iff by (rule balances_never_negative [OF reachable_runLabels start0(3), THEN conjunct1])

text \<open>C17: only an execution reaches the network, and it sends one transaction at most.\<close>

theorem only_executions_submit:
  assumes "sysStep env l w w'" and "\<forall>s\<in>set (w_slots w). distinct (map sb_bundleId (sl_bundles s))"
  shows "w_submitted w' = w_submitted w \<or> l = Execute \<and> (\<exists>sub. w_submitted w' = w_submitted w @ [sub])"
proof (cases l)
  case Execute
  then have "executeNext env w = (fst (executeNext env w), w')" using assms(1) by (auto elim: sysStepE)
  from executeNext_submission [OF this assms(2)] Execute show ?thesis by blast
qed (use assms(1) handler_submittedKept [of l w env] in \<open>auto elim!: sysStepE simp: submittedKept_def\<close>)

theorem only_executions_submit_witness:
  "w_submitted (handler env0 Sweep queued0) = w_submitted queued0"
  using only_executions_submit [OF sysStep.step, of _ env0 Sweep queued0] by (simp add: queued0_def)

end
